(* ===== verification/Prelude.thy ===== *)
theory Prelude
  imports Main "HOL-Library.Word" "HOL-Library.Signed_Division" "HOL-Library.AList"
    "HOL-Library.Multiset" "HOL-Library.Monad_Syntax"
begin

text \<open>
  What the components share of the Go language: fixed-width integers, maps, the order of a
  \<^verbatim>\<open>range\<close> loop over a map, decimal printing, panics, error values and the sequencing of calls
  that have effects. Nothing here is specific to the operator.

  \<^item> A pure Go function that may panic returns an \<^typ>\<open>'a option\<close>; \<^const>\<open>None\<close> is the panic, and
    the \<open>do\<close> notation of \<open>Option.bind\<close> sequences such functions.
  \<^item> A Go function with effects is a function from a state to an outcome and the state it leaves.
    A panic keeps the effects that came before it.
  \<^item> A Go \<^verbatim>\<open>map[string]string\<close> is an association list; \<^const>\<open>map_of\<close> reads it and
    \<^const>\<open>AList.update\<close> writes it.
\<close>

named_theorems go_simps "the equations of the effect monad"
named_theorems model_defs "record builders that proofs unfold"

subsection \<open>Fixed-width integers\<close>

type_synonym int32 = "32 word"
type_synonym int64 = "64 word"

text \<open>The Go conversions and the division of \<^verbatim>\<open>int64\<close>, which truncates towards zero and wraps.\<close>

definition div64 :: "int64 \<Rightarrow> int64 \<Rightarrow> int64" where
  "div64 a b = word_of_int (sint a sdiv sint b)"

lemma sint_int64_of_int:
  "- (2 ^ 63) \<le> i \<Longrightarrow> i < 2 ^ 63 \<Longrightarrow> sint (word_of_int i :: int64) = i"
  by (simp add: signed_of_int signed_take_bit_int_eq_self)

lemma div64_nonneg:
  assumes "0 \<le> sint a" and "0 < sint b"
  shows "sint (div64 a b) = sint a div sint b"
proof -
  have "sint a sdiv sint b = sint a div sint b"
    using assms by (auto simp: signed_divide_int_def sgn_if)
  moreover have "sint a div sint b \<le> sint a" "0 \<le> sint a div sint b"
    using assms zdiv_mono2 [of "sint a" 1 "sint b"] by (simp_all add: pos_imp_zdiv_nonneg_iff)
  moreover have "sint a < 2 ^ 63"
    using sint_lt [of a] by simp
  ultimately show ?thesis
    by (simp add: div64_def sint_int64_of_int)
qed

lemma sum_list_word_of_int: "sum_list xs = (word_of_int (sum_list (map sint xs)) :: int64)"
  by (induction xs) simp_all

subsection \<open>Maps and their iteration order\<close>

type_synonym smap = "(string \<times> string) list"

text \<open>
  The order in which \<^verbatim>\<open>range\<close> visits a map is unspecified. \<open>go_range c m\<close> visits the entries of
  \<open>m\<close> in the order that the choices \<open>c\<close> make: with \<open>n\<close> entries left, the next one is entry number
  \<open>c n\<close> modulo \<open>n\<close>. Every choice gives a permutation of the entries and every permutation is the
  result of some choice, so a theorem that holds for all \<open>c\<close> holds for every order.
\<close>

function go_range :: "(nat \<Rightarrow> nat) \<Rightarrow> 'a list \<Rightarrow> 'a list" where
  "go_range c [] = []"
| "go_range c (x # xs) =
     (let i = c (length (x # xs)) mod length (x # xs)
      in (x # xs) ! i # go_range c (take i (x # xs) @ drop (Suc i) (x # xs)))"
  by pat_completeness auto
termination
  by (relation "measure (\<lambda>(c, xs). length xs)") (auto simp: Let_def min_def)

declare go_range.simps(2) [simp del]

lemma mset_pick:
  "i < length xs \<Longrightarrow> add_mset (xs ! i) (mset (take i xs @ drop (Suc i) xs)) = mset xs"
  by (metis id_take_nth_drop mset_append mset.simps(2) union_mset_add_mset_right)

lemma mset_go_range [simp]: "mset (go_range c xs) = mset xs"
proof (induction c xs rule: go_range.induct)
  case (2 c x xs)
  let ?i = "c (length (x # xs)) mod length (x # xs)"
  have i: "?i < length (x # xs)"
    by (rule mod_less_divisor) simp
  have "mset (go_range c (x # xs)) =
      add_mset ((x # xs) ! ?i) (mset (take ?i (x # xs) @ drop (Suc ?i) (x # xs)))"
    using 2 [OF refl] by (simp only: go_range.simps(2) Let_def mset.simps(2))
  also have "\<dots> = mset (x # xs)"
    by (rule mset_pick [OF i])
  finally show ?case .
qed simp

lemma set_go_range [simp]: "set (go_range c xs) = set xs"
  by (metis mset_eq_setD mset_go_range)

lemma length_go_range [simp]: "length (go_range c xs) = length xs"
  by (metis mset_eq_length mset_go_range)

lemma distinct_map_go_range: "distinct (map f (go_range c xs)) = distinct (map f xs)"
  by (metis mset_eq_imp_distinct_iff mset_go_range mset_map)

text \<open>No order is left out: any rearrangement of the entries is the result of some choice.\<close>

lemma go_range_cong:
  "(\<And>n. n \<le> length xs \<Longrightarrow> c n = d n) \<Longrightarrow> go_range c xs = go_range d xs"
proof (induction c xs rule: go_range.induct)
  case (2 c x xs)
  let ?n = "length (x # xs)" and ?i = "c (length (x # xs)) mod length (x # xs)"
  have c: "c ?n = d ?n"
    by (rule "2.prems") simp
  have "length (take ?i (x # xs) @ drop (Suc ?i) (x # xs)) \<le> ?n"
    by simp
  then have "go_range c (take ?i (x # xs) @ drop (Suc ?i) (x # xs)) =
      go_range d (take ?i (x # xs) @ drop (Suc ?i) (x # xs))"
    using 2 by (meson order_trans)
  with c show ?case
    by (simp only: go_range.simps(2) Let_def)
qed simp

lemma go_range_any_order:
  "mset ys = mset xs \<Longrightarrow> \<exists>c. go_range c xs = ys"
proof (induction ys arbitrary: xs)
  case Nil
  then show ?case by simp
next
  case (Cons y ys)
  then have "y \<in> set xs"
    by (metis list.set_intros(1) mset_eq_setD)
  then obtain i where i: "i < length xs" "xs ! i = y"
    by (auto simp: in_set_conv_nth)
  let ?rest = "take i xs @ drop (Suc i) xs"
  have "add_mset y (mset ?rest) = add_mset y (mset ys)"
    using mset_pick [OF i(1)] i(2) Cons.prems by simp
  then obtain c where c: "go_range c ?rest = ys"
    using Cons.IH [of ?rest] by auto
  let ?d = "c(length xs := i)"
  have short: "length ?rest < length xs"
    using i(1) by simp
  then have "go_range ?d ?rest = ys"
    using c go_range_cong [of ?rest ?d c] by (metis fun_upd_other leD)
  moreover obtain x xs' where "xs = x # xs'"
    using i(1) by (cases xs) auto
  ultimately have "go_range ?d xs = y # ys"
    using i by (simp add: go_range.simps(2) Let_def)
  then show ?case by blast
qed

text \<open>A loop that copies a map, entry by entry, in any order.\<close>

definition put_all :: "(string \<times> 'v) list \<Rightarrow> (string \<times> 'v) list \<Rightarrow> (string \<times> 'v) list" where
  "put_all es m = fold (\<lambda>(k, v). AList.update k v) es m"

lemma map_of_put_all:
  "distinct (map fst es) \<Longrightarrow> map_of (put_all es m) = map_of m ++ map_of es"
proof (induction es arbitrary: m)
  case (Cons e es)
  obtain k v where e: "e = (k, v)" by force
  with Cons have "map_of (put_all (e # es) m) = (map_of m)(k \<mapsto> v) ++ map_of es"
    by (simp add: put_all_def update_conv')
  moreover have "map_of es k = None"
    using Cons.prems e by (simp add: map_of_eq_None_iff)
  ultimately show ?case
    using e by (auto simp: fun_eq_iff map_add_def split: option.splits)
qed (simp add: put_all_def)

lemma map_of_go_range:
  "distinct (map fst m) \<Longrightarrow> map_of (go_range c m) = map_of m"
  by (metis distinct_map_go_range map_of_eqI map_of_inject_set set_go_range)

lemma distinct_put_all [simp]:
  "distinct (map fst m) \<Longrightarrow> distinct (map fst (put_all es m))"
  by (induction es arbitrary: m) (auto simp: put_all_def distinct_update split: prod.splits)

lemma put_all_append:
  "distinct (map fst (m @ es)) \<Longrightarrow> put_all es m = m @ es"
proof (induction es arbitrary: m)
  case (Cons e es)
  have "AList.update (fst e) (snd e) m = m @ [e]"
    using Cons.prems by (induction m) (auto split: prod.splits)
  then show ?case
    using Cons.IH [of "m @ [e]"] Cons.prems by (simp add: put_all_def split_beta)
qed (simp add: put_all_def)

subsection \<open>Decimal printing\<close>

text \<open>The verb \<^verbatim>\<open>%d\<close> of \<^verbatim>\<open>fmt.Sprintf\<close>.\<close>

definition digit :: "nat \<Rightarrow> char" where
  "digit d = ''0123456789'' ! d"

fun show_nat :: "nat \<Rightarrow> string" where
  "show_nat n = (if n < 10 then [digit n] else show_nat (n div 10) @ [digit (n mod 10)])"

declare show_nat.simps [simp del]

definition show_int :: "int \<Rightarrow> string" where
  "show_int i = (if i < 0 then CHR ''-'' # show_nat (nat (- i)) else show_nat (nat i))"

definition read_nat :: "string \<Rightarrow> nat" where
  "read_nat cs = foldl (\<lambda>a c. 10 * a + (of_char c - 48)) 0 cs"

lemma of_char_digit: "d < 10 \<Longrightarrow> (of_char (digit d) :: nat) = 48 + d"
  by (auto simp: digit_def less_Suc_eq numeral_eq_Suc)

lemma read_show_nat: "read_nat (show_nat n) = n"
proof (induction n rule: show_nat.induct)
  case (1 n)
  show ?case
  proof (cases "n < 10")
    case True
    then show ?thesis
      by (simp add: show_nat.simps [of n] read_nat_def of_char_digit)
  next
    case False
    with 1 have "read_nat (show_nat (n div 10)) = n div 10" by simp
    with False show ?thesis
      by (simp add: show_nat.simps [of n] read_nat_def of_char_digit)
  qed
qed

lemma show_nat_inject: "show_nat m = show_nat n \<longleftrightarrow> m = n"
  by (metis read_show_nat)

lemma show_nat_digits: "c \<in> set (show_nat n) \<Longrightarrow> \<exists>d < 10. c = digit d"
proof (induction n rule: show_nat.induct)
  case (1 n)
  have "\<exists>d < 10. digit (n mod 10) = digit d"
    by (rule exI [of _ "n mod 10"]) simp
  with 1 show ?case
    by (auto simp: show_nat.simps [of n] split: if_splits)
qed

lemma show_nat_nonempty [simp]: "show_nat n \<noteq> []"
  by (subst show_nat.simps) simp

lemma digit_eq_iff: "d < 10 \<Longrightarrow> digit d = c \<longleftrightarrow> of_char c = 48 + d"
  by (metis of_char_digit of_char_eq_iff)

lemma show_nat_no_minus: "CHR ''-'' \<notin> set (show_nat n)"
proof
  assume "CHR ''-'' \<in> set (show_nat n)"
  then obtain d where "d < 10" "CHR ''-'' = digit d"
    by (auto dest: show_nat_digits)
  then have "of_char CHR ''-'' = 48 + d"
    using digit_eq_iff by metis
  then show False by simp
qed

lemma show_int_inject: "show_int i = show_int j \<longleftrightarrow> i = j"
proof -
  have neg: "CHR ''-'' # s \<noteq> show_nat n" for s n
    by (metis list.set_intros(1) show_nat_no_minus)
  show ?thesis
    using neg neg [symmetric] by (auto simp: show_int_def show_nat_inject)
qed

lemma show_int_chars:
  "c \<in> set (show_int i) \<Longrightarrow> c = CHR ''-'' \<or> (\<exists>d < 10. c = digit d)"
  by (auto simp: show_int_def dest: show_nat_digits split: if_splits)

lemma show_int_no_char:
  assumes "c \<noteq> CHR ''-''" and "\<not> (of_char c \<ge> (48::nat) \<and> of_char c < (58::nat))"
  shows "c \<notin> set (show_int i)"
  using assms by (auto dest!: show_int_chars simp: of_char_digit)

subsection \<open>Error values\<close>

text \<open>
  Go's \<^verbatim>\<open>error\<close>: \<^verbatim>\<open>nil\<close> is \<^const>\<open>None\<close> of \<open>go_error option\<close>. \<open>OperatorError\<close> is the operator's own
  error type, \<open>StatusError\<close> an error of the Kubernetes API with its reason and its message.
\<close>

datatype status_reason = NotFound | AlreadyExists | OtherReason string

datatype go_error = OperatorError (errormsg: string) | StatusError status_reason string

fun err_Error :: "go_error \<Rightarrow> string" where
  "err_Error (OperatorError m) = m"
| "err_Error (StatusError r m) = m"

fun isNotFound :: "go_error option \<Rightarrow> bool" where
  "isNotFound (Some (StatusError NotFound m)) = True"
| "isNotFound _ = False"

fun isAlreadyExists :: "go_error option \<Rightarrow> bool" where
  "isAlreadyExists (Some (StatusError AlreadyExists m)) = True"
| "isAlreadyExists _ = False"

subsection \<open>Effects\<close>

type_synonym ('s, 'a) go = "'s \<Rightarrow> 'a option \<times> 's"

definition go_ret :: "'a \<Rightarrow> ('s, 'a) go" where
  "go_ret x = (\<lambda>s. (Some x, s))"

definition go_lift :: "'a option \<Rightarrow> ('s, 'a) go" where
  "go_lift r = (\<lambda>s. (r, s))"

definition go_bind :: "('s, 'a) go \<Rightarrow> ('a \<Rightarrow> ('s, 'b) go) \<Rightarrow> ('s, 'b) go" where
  "go_bind m f = (\<lambda>s. case m s of (None, t) \<Rightarrow> (None, t) | (Some x, t) \<Rightarrow> f x t)"

lemma go_ret_bind [simp]: "go_bind (go_ret x) f = f x"
  by (simp add: go_bind_def go_ret_def)

lemma go_bind_ret [simp]: "go_bind m go_ret = m"
  by (rule ext) (simp add: go_bind_def go_ret_def split: prod.splits option.splits)

lemma go_bind_assoc: "go_bind (go_bind m f) g = go_bind m (\<lambda>x. go_bind (f x) g)"
  by (rule ext) (simp add: go_bind_def split: prod.splits option.splits)

lemma go_lift_Some [simp]: "go_lift (Some x) = go_ret x"
  by (simp add: go_lift_def go_ret_def)

lemma go_bind_Some: "m s = (Some x, t) \<Longrightarrow> go_bind m f s = f x t"
  by (simp add: go_bind_def)

lemma go_bind_None: "m s = (None, t) \<Longrightarrow> go_bind m f s = (None, t)"
  by (simp add: go_bind_def)

text \<open>\<open>go_wp m Q s\<close>: running \<open>m\<close> from \<open>s\<close> ends, with a value or a panic, as \<open>Q\<close> says.\<close>

definition go_wp :: "('s, 'a) go \<Rightarrow> ('a option \<Rightarrow> 's \<Rightarrow> bool) \<Rightarrow> 's \<Rightarrow> bool" where
  "go_wp m Q s \<longleftrightarrow> Q (fst (m s)) (snd (m s))"

lemma go_wp_ret [go_simps]: "go_wp (go_ret x) Q s = Q (Some x) s"
  by (simp add: go_wp_def go_ret_def)

lemma go_wp_lift [go_simps]: "go_wp (go_lift r) Q s = Q r s"
  by (simp add: go_wp_def go_lift_def)

lemma go_wp_bind [go_simps]:
  "go_wp (go_bind m f) Q s =
     go_wp m (\<lambda>r t. case r of None \<Rightarrow> Q None t | Some x \<Rightarrow> go_wp (f x) Q t) s"
  by (simp add: go_wp_def go_bind_def split: prod.splits option.splits)

lemma go_wp_if [go_simps]:
  "go_wp (if b then m else n) Q s = (if b then go_wp m Q s else go_wp n Q s)"
  by simp

lemma go_wp_mono: "go_wp m P s \<Longrightarrow> (\<And>r t. P r t \<Longrightarrow> Q r t) \<Longrightarrow> go_wp m Q s"
  by (simp add: go_wp_def)

lemma go_wp_conj: "go_wp m P s \<Longrightarrow> go_wp m Q s \<Longrightarrow> go_wp m (\<lambda>r t. P r t \<and> Q r t) s"
  by (simp add: go_wp_def)

lemma go_wpI: "(\<And>r t. m s = (r, t) \<Longrightarrow> Q r t) \<Longrightarrow> go_wp m Q s"
  by (simp add: go_wp_def)

lemma go_wpD: "go_wp m Q s \<Longrightarrow> m s = (r, t) \<Longrightarrow> Q r t"
  by (simp add: go_wp_def)

end
