(* ===== verification/Kube_Types.thy ===== *)
theory Kube_Types
  imports Prelude
begin

text \<open>
  The Kubernetes API structs the operator fills in or reads, with the fields it uses. A pointer
  field is an option. Types the operator only passes on (a volume source of the user, a session
  affinity configuration) are opaque strings. A \<^verbatim>\<open>resource.Quantity\<close> is what the operator observes
  of it: its \<^verbatim>\<open>Value()\<close>, its \<^verbatim>\<open>MilliValue()\<close> and an opaque representation.
\<close>

record quantity =
  q_repr :: string
  q_Value :: int64
  q_MilliValue :: int64

type_synonym resource_list = "(string \<times> quantity) list"

record owner_reference =
  or_APIVersion :: string
  or_Kind :: string
  or_Name :: string
  or_UID :: string
  or_Controller :: "bool option"

record object_meta =
  om_Name :: string
  om_GenerateName :: string
  om_Namespace :: string
  om_UID :: string
  om_ResourceVersion :: string
  om_Generation :: int64
  om_Labels :: smap
  om_OwnerReferences :: "owner_reference list"

text \<open>The zero value of \<^verbatim>\<open>metav1.ObjectMeta\<close>, which composite literals start from.\<close>

definition zero_meta :: object_meta where
  "zero_meta = \<lparr>om_Name = [], om_GenerateName = [], om_Namespace = [], om_UID = [],
     om_ResourceVersion = [], om_Generation = 0, om_Labels = [], om_OwnerReferences = []\<rparr>"

subsection \<open>Services and config maps\<close>

record service_port =
  sp_Name :: string
  sp_Port :: int32
  sp_NodePort :: int32
  sp_TargetPort :: int32

record service_spec =
  ss_Selector :: smap
  ss_ClusterIP :: string
  ss_Type :: string
  ss_ExternalIPs :: "string list"
  ss_SessionAffinity :: string
  ss_LoadBalancerIP :: string
  ss_LoadBalancerSourceRanges :: "string list"
  ss_ExternalName :: string
  ss_ExternalTrafficPolicy :: string
  ss_HealthCheckNodePort :: int32
  ss_PublishNotReadyAddresses :: bool
  ss_SessionAffinityConfig :: "string option"
  ss_IPFamily :: "string option"
  ss_Ports :: "service_port list"

definition zero_service_spec :: service_spec where
  "zero_service_spec = \<lparr>ss_Selector = [], ss_ClusterIP = [], ss_Type = [], ss_ExternalIPs = [],
     ss_SessionAffinity = [], ss_LoadBalancerIP = [], ss_LoadBalancerSourceRanges = [],
     ss_ExternalName = [], ss_ExternalTrafficPolicy = [], ss_HealthCheckNodePort = 0,
     ss_PublishNotReadyAddresses = False, ss_SessionAffinityConfig = None, ss_IPFamily = None,
     ss_Ports = []\<rparr>"

record service =
  svc_meta :: object_meta
  svc_spec :: service_spec

record configmap =
  cm_meta :: object_meta
  cm_Data :: smap

subsection \<open>Pods and replica sets\<close>

datatype volume_projection =
    ConfigMapProjection string
  | SecretProjection string "(string \<times> string) list"

record volume_source =
  vs_Projected :: "volume_projection list option"
  vs_Secret :: "string option"
  vs_Other :: string

record volume =
  vol_Name :: string
  vol_Source :: volume_source

record volume_mount =
  vm_Name :: string
  vm_ReadOnly :: bool
  vm_MountPath :: string
  vm_SubPath :: string
  vm_MountPropagation :: "string option"
  vm_SubPathExpr :: string

record lifecycle =
  lc_PostStart :: "string list option"
  lc_PreStop :: "string list option"

record container =
  ct_Name :: string
  ct_Image :: string
  ct_Limits :: resource_list
  ct_Requests :: resource_list
  ct_Lifecycle :: "lifecycle option"
  ct_VolumeMounts :: "volume_mount list"

record pod_spec =
  ps_TerminationGracePeriodSeconds :: "int64 option"
  ps_Containers :: "container list"
  ps_Hostname :: string
  ps_Subdomain :: string
  ps_Volumes :: "volume list"

record replicaset =
  rs_APIVersion :: string
  rs_Kind :: string
  rs_meta :: object_meta
  rs_Replicas :: "int32 option"
  rs_MatchLabels :: smap
  rs_TemplateMeta :: object_meta
  rs_TemplateSpec :: pod_spec
  rs_AvailableReplicas :: int32

record pod =
  pod_meta :: object_meta
  pod_Phase :: string

subsection \<open>Autoscalers and metrics\<close>

record hpa =
  hpa_meta :: object_meta
  hpa_TargetAPIVersion :: string
  hpa_TargetKind :: string
  hpa_TargetName :: string
  hpa_MinReplicas :: "int32 option"
  hpa_MaxReplicas :: int32
  hpa_TargetCPU :: "int32 option"

record container_metrics =
  mx_Name :: string
  mx_Usage :: resource_list

record pod_metrics =
  mx_Containers :: "container_metrics list"

subsection \<open>Label selectors\<close>

text \<open>
  An equality-based selector, as \<^verbatim>\<open>labels.SelectorFromSet\<close> makes it and as the \<^verbatim>\<open>Selector\<close> of a
  service or the \<^verbatim>\<open>MatchLabels\<close> of a replica set states it: every pair must be a label.
\<close>

definition selects :: "smap \<Rightarrow> smap \<Rightarrow> bool" where
  "selects sel ls \<longleftrightarrow> list_all (\<lambda>(k, v). map_of ls k = Some v) sel"

lemma selects_iff: "selects sel ls \<longleftrightarrow> (\<forall>(k, v) \<in> set sel. map_of ls k = Some v)"
  by (simp add: selects_def list_all_iff)

lemma selects_Nil [simp]: "selects [] ls"
  by (simp add: selects_def)

lemma selects_Cons [simp]:
  "selects ((k, v) # sel) ls \<longleftrightarrow> map_of ls k = Some v \<and> selects sel ls"
  by (simp add: selects_def)

lemma selects_map_le:
  "distinct (map fst sel) \<Longrightarrow> selects sel ls \<longleftrightarrow> map_of sel \<subseteq>\<^sub>m map_of ls"
  by (auto simp: selects_iff map_le_def dom_def)

lemma selects_refl: "distinct (map fst ls) \<Longrightarrow> selects ls ls"
  by (simp add: selects_map_le)

lemma selects_trans:
  "selects a b \<Longrightarrow> selects b c \<Longrightarrow> selects a c"
  by (fastforce simp: selects_iff dest: map_of_SomeD)

text \<open>The resource names and pod phases of \<^verbatim>\<open>corev1\<close> that the operator compares with.\<close>

abbreviation ResourceCPU :: string where "ResourceCPU \<equiv> ''cpu''"
abbreviation ResourceMemory :: string where "ResourceMemory \<equiv> ''memory''"
abbreviation PodPending :: string where "PodPending \<equiv> ''Pending''"
abbreviation PodRunning :: string where "PodRunning \<equiv> ''Running''"
abbreviation PodFailed :: string where "PodFailed \<equiv> ''Failed''"
abbreviation PodUnknown :: string where "PodUnknown \<equiv> ''Unknown''"
abbreviation ServiceTypeExternalName :: string where "ServiceTypeExternalName \<equiv> ''ExternalName''"
abbreviation EventTypeNormal :: string where "EventTypeNormal \<equiv> ''Normal''"
abbreviation EventTypeWarning :: string where "EventTypeWarning \<equiv> ''Warning''"

end
