(* ===== verification/Presto_Types.thy ===== *)
theory Presto_Types
  imports Kube_Types
begin

text \<open>
  The Presto custom resource: the structs of \<^verbatim>\<open>pkg/apis/falarica/v1alpha1/presto_types.go\<close>, field by
  field. A pointer field is an option, a map is an association list, an \<^verbatim>\<open>int32\<close> is a 32-bit word.
\<close>

record CoordinatorSpec =
  co_MemoryLimit :: string
  co_AdditionalJVMConfig :: string
  co_AdditionalProps :: smap
  co_CpuLimit :: string
  co_CpuRequest :: string
  co_HttpsEnabled :: bool
  co_HttpsKeyPairSecretName :: string
  co_HttpsKeyPairSecretKey :: string
  co_HttpsKeyPairPassword :: string

record AutoscalingSpec =
  as_Enabled :: "bool option"
  as_MinReplicas :: "int32 option"
  as_MaxReplicas :: "int32 option"
  as_TargetCPUUtilizationPercentage :: "int32 option"

record WorkerSpec =
  wo_MemoryLimit :: string
  wo_AdditionalJVMConfig :: string
  wo_AdditionalProps :: smap
  wo_CpuLimit :: string
  wo_CpuRequest :: string
  wo_TerminationGracePeriodSeconds :: "int64 option"
  wo_Count :: "int32 option"
  wo_Autoscaling :: AutoscalingSpec

record CatalogSpec =
  cs_Name :: string
  cs_Content :: smap

record CatalogSecret =
  cx_SecretName :: string
  cx_SecretKey :: string

record CatalogList =
  cl_CatalogSecrets :: "CatalogSecret list"
  cl_CatalogSpec :: "CatalogSpec list"

record ServiceSpec =
  se_NodePort :: "int32 option"
  se_Port :: "int32 option"
  se_ClusterIP :: string
  se_Type :: string
  se_ExternalIPs :: "string list"
  se_SessionAffinity :: string
  se_LoadBalancerIP :: string
  se_LoadBalancerSourceRanges :: "string list"
  se_ExternalName :: string
  se_ExternalTrafficPolicy :: string
  se_HealthCheckNodePort :: int32
  se_PublishNotReadyAddresses :: bool
  se_SessionAffinityConfig :: "string option"
  se_IPFamily :: "string option"

record ImageSpec =
  im_Name :: string
  im_PrestoPath :: string

record PrestoVolumeSpec =
  pv_Name :: string
  pv_VolumeSource :: volume_source
  pv_ReadOnly :: bool
  pv_MountPath :: string
  pv_SubPath :: string
  pv_MountPropagation :: "string option"
  pv_SubPathExpr :: string

record PrestoSpec =
  sp_Coordinator :: CoordinatorSpec
  sp_Worker :: WorkerSpec
  sp_Catalogs :: CatalogList
  sp_Service :: ServiceSpec
  sp_ImageDetails :: ImageSpec
  sp_AdditionalPrestoPropFiles :: smap
  sp_Volumes :: "PrestoVolumeSpec list"

text \<open>\<^verbatim>\<open>ClusterState\<close> is a string type with four constants; the zero value is the empty string.\<close>

type_synonym ClusterState = string

definition ClusterFailedState :: ClusterState where "ClusterFailedState = ''Failed''"
definition ClusterReadyState :: ClusterState where "ClusterReadyState = ''Ready''"
definition ClusterPending :: ClusterState where "ClusterPending = ''Pending''"
definition ClusterUnknown :: ClusterState where "ClusterUnknown = ''Unknown''"

lemmas cluster_states =
  ClusterFailedState_def ClusterReadyState_def ClusterPending_def ClusterUnknown_def

record PrestoStatus =
  st_Uuid :: string
  st_DesiredWorkers :: int32
  st_CurrentWorkers :: int32
  st_HeadlessService :: string
  st_Service :: string
  st_CoordinatorAddress :: string
  st_CatalogConfig :: string
  st_CoordinatorConfig :: string
  st_WorkerConfig :: string
  st_WorkerReplicaset :: string
  st_CoordinatorReplicaset :: string
  st_HpaName :: string
  st_ClusterState :: ClusterState
  st_ErrorReason :: string
  st_ModificationTime :: int
  st_CoordinatorCPU :: string
  st_WorkerCPU :: string

record Presto =
  pr_APIVersion :: string
  pr_Kind :: string
  pr_meta :: object_meta
  pr_Spec :: PrestoSpec
  pr_Status :: PrestoStatus

abbreviation pr_Name :: "Presto \<Rightarrow> string" where "pr_Name p \<equiv> om_Name (pr_meta p)"
abbreviation pr_Namespace :: "Presto \<Rightarrow> string" where "pr_Namespace p \<equiv> om_Namespace (pr_meta p)"
abbreviation pr_UID :: "Presto \<Rightarrow> string" where "pr_UID p \<equiv> om_UID (pr_meta p)"
abbreviation pr_Labels :: "Presto \<Rightarrow> smap" where "pr_Labels p \<equiv> om_Labels (pr_meta p)"
abbreviation pr_Uuid :: "Presto \<Rightarrow> string" where "pr_Uuid p \<equiv> st_Uuid (pr_Status p)"
abbreviation pr_Coordinator :: "Presto \<Rightarrow> CoordinatorSpec" where
  "pr_Coordinator p \<equiv> sp_Coordinator (pr_Spec p)"
abbreviation pr_Worker :: "Presto \<Rightarrow> WorkerSpec" where "pr_Worker p \<equiv> sp_Worker (pr_Spec p)"
abbreviation pr_Autoscaling :: "Presto \<Rightarrow> AutoscalingSpec" where
  "pr_Autoscaling p \<equiv> wo_Autoscaling (pr_Worker p)"
abbreviation pr_Catalogs :: "Presto \<Rightarrow> CatalogList" where "pr_Catalogs p \<equiv> sp_Catalogs (pr_Spec p)"
abbreviation pr_Service :: "Presto \<Rightarrow> ServiceSpec" where "pr_Service p \<equiv> sp_Service (pr_Spec p)"

end
