(* ===== verification/Naming.thy ===== *)
theory Naming
  imports Presto_Types
begin

text \<open>
  Names, labels and constants: \<^verbatim>\<open>constants.go\<close> and the pure functions of \<^verbatim>\<open>common_util.go\<close>.

  Every object name is a fixed prefix and the first eight bytes of the cluster UUID. The slice
  \<^verbatim>\<open>clusterUUID[:8]\<close> panics on a shorter string, so a name is an option. The locale
  \<open>cluster_name\<close> states that contract once; each naming function is an interpretation of it. The
  locale \<open>role_labels\<close> does the same for the two functions that add a role label to the base labels.
\<close>

subsection \<open>Constants\<close>

abbreviation newline :: string where "newline \<equiv> [CHR 0x0A]"

definition nodePropertiesKey :: string where "nodePropertiesKey = ''node.properties''"
definition configPropertiesKey :: string where "configPropertiesKey = ''config.properties''"
definition jvmConfigKey :: string where "jvmConfigKey = ''jvm.config''"
definition prestoPort :: int where "prestoPort = 8080"
definition mountPath :: string where "mountPath = ''/etc/presto''"
definition httpsVolPath :: string where "httpsVolPath = ''/etc/httpssecret''"
definition prestoShutdownScript :: string where "prestoShutdownScript = ''presto_shutdown.sh''"
definition DefaultTerminationGracePeriodSeconds :: int where
  "DefaultTerminationGracePeriodSeconds = 7200"
definition catalogFileSuffix :: string where "catalogFileSuffix = ''.properties''"
definition catalogMountPath :: string where "catalogMountPath = ''/catalog/''"

lemmas file_keys = nodePropertiesKey_def configPropertiesKey_def jvmConfigKey_def
  prestoShutdownScript_def

subsection \<open>The loops over maps\<close>

text \<open>One site per \<^verbatim>\<open>range\<close> loop over a map; each takes its own order.\<close>

datatype range_site =
    CoordinatorLabelsLoop | WorkerLabelsLoop
  | CoordinatorSystemPropsLoop | CoordinatorAdditionalPropsLoop
  | WorkerSystemPropsLoop | WorkerAdditionalPropsLoop
  | PropFilesLoop
  | CatalogContentLoop nat | DefaultCatalogsLoop | PrunedCatalogsLoop
  | UsageLoop nat nat

type_synonym range_choice = "range_site \<Rightarrow> nat \<Rightarrow> nat"

subsection \<open>Names\<close>

definition slice8 :: "string \<Rightarrow> string option" where
  "slice8 u = (if length u < 8 then None else Some (take 8 u))"

definition getPodDiscoveryServiceName :: "string \<Rightarrow> string option" where
  "getPodDiscoveryServiceName u = do { h \<leftarrow> slice8 u; Some (''pod-discovery-'' @ h) }"

definition getPodDiscoveryServiceLabel :: "string \<Rightarrow> string \<times> string" where
  "getPodDiscoveryServiceLabel u = (''pod-discovery'', u)"

definition getExternalServiceName :: "string \<Rightarrow> string option" where
  "getExternalServiceName u = do { h \<leftarrow> slice8 u; Some (''external-presto-svc-'' @ h) }"

definition getExternalServiceLabel :: "string \<Rightarrow> string \<times> string" where
  "getExternalServiceLabel u = (''external-presto-svc'', u)"

definition getCoordinatorPodName :: "string \<Rightarrow> string option" where
  "getCoordinatorPodName u = do { h \<leftarrow> slice8 u; Some (''coordinatorpod-'' @ h) }"

definition getCoordinatorReplicaset :: "string \<Rightarrow> string option" where
  "getCoordinatorReplicaset u = do { h \<leftarrow> slice8 u; Some (''coordinatorreplicaset-'' @ h) }"

definition getWorkerReplicaSet :: "string \<Rightarrow> string option" where
  "getWorkerReplicaSet u = do { h \<leftarrow> slice8 u; Some (''workerreplicaset-'' @ h) }"

definition getCatalogConfigMapName :: "string \<Rightarrow> string option" where
  "getCatalogConfigMapName u = do { h \<leftarrow> slice8 u; Some (''catalogconfig-'' @ h) }"

definition getCatalogVolName :: "string \<Rightarrow> string option" where
  "getCatalogVolName u = do { h \<leftarrow> slice8 u; Some (''catalogvol-'' @ h) }"

definition getHTTPSSecretVolName :: "string \<Rightarrow> string option" where
  "getHTTPSSecretVolName u = do { h \<leftarrow> slice8 u; Some (''httpssecret-'' @ h) }"

definition getHPAName :: "string \<Rightarrow> string option" where
  "getHPAName u = do { h \<leftarrow> slice8 u; Some (''hpa-'' @ h) }"

definition getCoordinatorContainerName :: "string \<Rightarrow> string option" where
  "getCoordinatorContainerName u = do { h \<leftarrow> slice8 u; Some (''coordinatorcontainer-'' @ h) }"

definition getCoordinatorConfigMapName :: "string \<Rightarrow> string option" where
  "getCoordinatorConfigMapName u = do { h \<leftarrow> slice8 u; Some (''coordinatorconfig-'' @ h) }"

definition getCoordinatorConfigVolumeName :: "string \<Rightarrow> string option" where
  "getCoordinatorConfigVolumeName u = do { h \<leftarrow> slice8 u; Some (''coordinatorconfvol-'' @ h) }"

definition getWorkerContainerPrefix :: "string \<Rightarrow> string option" where
  "getWorkerContainerPrefix u = do { h \<leftarrow> slice8 u; Some (''workerrcontainer-'' @ h) }"

definition getWorkerConfigMapName :: "string \<Rightarrow> string option" where
  "getWorkerConfigMapName u = do { h \<leftarrow> slice8 u; Some (''workerconfig-'' @ h) }"

definition getWorkerConfigVolumeName :: "string \<Rightarrow> string option" where
  "getWorkerConfigVolumeName u = do { h \<leftarrow> slice8 u; Some (''workerconfvol-'' @ h) }"

definition getCoordinatorInternalName :: "string \<Rightarrow> string option" where
  "getCoordinatorInternalName u = do {
     c \<leftarrow> getCoordinatorContainerName u;
     d \<leftarrow> getPodDiscoveryServiceName u;
     Some (c @ ''.'' @ d) }"

lemmas name_defs =
  getPodDiscoveryServiceName_def getExternalServiceName_def getCoordinatorPodName_def
  getCoordinatorReplicaset_def getWorkerReplicaSet_def getCatalogConfigMapName_def
  getCatalogVolName_def getHTTPSSecretVolName_def getHPAName_def getCoordinatorContainerName_def
  getCoordinatorConfigMapName_def getCoordinatorConfigVolumeName_def getWorkerContainerPrefix_def
  getWorkerConfigMapName_def getWorkerConfigVolumeName_def

lemma slice8_Some [simp]: "8 \<le> length u \<Longrightarrow> slice8 u = Some (take 8 u)"
  by (simp add: slice8_def)

lemma slice8_None [simp]: "length u < 8 \<Longrightarrow> slice8 u = None"
  by (simp add: slice8_def)

subsection \<open>The contract of a naming function\<close>

locale cluster_name =
  fixes nm :: "string \<Rightarrow> string option" and pre :: string
  assumes nm_slice: "nm u = do { h \<leftarrow> slice8 u; Some (pre @ h) }"
begin

lemma nm_Some [simp]: "8 \<le> length u \<Longrightarrow> nm u = Some (pre @ take 8 u)"
  by (simp add: nm_slice)

lemma nm_None [simp]: "length u < 8 \<Longrightarrow> nm u = None"
  by (simp add: nm_slice)

lemma nm_panics_iff: "nm u = None \<longleftrightarrow> length u < 8"
  by (metis linorder_not_less nm_None nm_Some option.discI)

lemma nm_collision:
  "8 \<le> length u \<Longrightarrow> 8 \<le> length v \<Longrightarrow> nm u = nm v \<longleftrightarrow> take 8 u = take 8 v"
  by simp

lemma nm_length: "nm u = Some n \<Longrightarrow> length n = length pre + 8"
  by (cases "length u < 8") auto

end

interpretation pod_discovery_name:
  cluster_name getPodDiscoveryServiceName "''pod-discovery-''"
  by unfold_locales (rule getPodDiscoveryServiceName_def)
interpretation external_service_name:
  cluster_name getExternalServiceName "''external-presto-svc-''"
  by unfold_locales (rule getExternalServiceName_def)
interpretation coordinator_pod_name:
  cluster_name getCoordinatorPodName "''coordinatorpod-''"
  by unfold_locales (rule getCoordinatorPodName_def)
interpretation coordinator_rs_name:
  cluster_name getCoordinatorReplicaset "''coordinatorreplicaset-''"
  by unfold_locales (rule getCoordinatorReplicaset_def)
interpretation worker_rs_name:
  cluster_name getWorkerReplicaSet "''workerreplicaset-''"
  by unfold_locales (rule getWorkerReplicaSet_def)
interpretation catalog_cm_name:
  cluster_name getCatalogConfigMapName "''catalogconfig-''"
  by unfold_locales (rule getCatalogConfigMapName_def)
interpretation catalog_vol_name:
  cluster_name getCatalogVolName "''catalogvol-''"
  by unfold_locales (rule getCatalogVolName_def)
interpretation https_vol_name:
  cluster_name getHTTPSSecretVolName "''httpssecret-''"
  by unfold_locales (rule getHTTPSSecretVolName_def)
interpretation hpa_name:
  cluster_name getHPAName "''hpa-''"
  by unfold_locales (rule getHPAName_def)
interpretation coordinator_container_name:
  cluster_name getCoordinatorContainerName "''coordinatorcontainer-''"
  by unfold_locales (rule getCoordinatorContainerName_def)
interpretation coordinator_cm_name:
  cluster_name getCoordinatorConfigMapName "''coordinatorconfig-''"
  by unfold_locales (rule getCoordinatorConfigMapName_def)
interpretation coordinator_vol_name:
  cluster_name getCoordinatorConfigVolumeName "''coordinatorconfvol-''"
  by unfold_locales (rule getCoordinatorConfigVolumeName_def)
interpretation worker_container_name:
  cluster_name getWorkerContainerPrefix "''workerrcontainer-''"
  by unfold_locales (rule getWorkerContainerPrefix_def)
interpretation worker_cm_name:
  cluster_name getWorkerConfigMapName "''workerconfig-''"
  by unfold_locales (rule getWorkerConfigMapName_def)
interpretation worker_vol_name:
  cluster_name getWorkerConfigVolumeName "''workerconfvol-''"
  by unfold_locales (rule getWorkerConfigVolumeName_def)

lemma getCoordinatorInternalName_Some:
  "8 \<le> length u \<Longrightarrow> getCoordinatorInternalName u =
     Some (''coordinatorcontainer-'' @ take 8 u @ ''.'' @ ''pod-discovery-'' @ take 8 u)"
  by (simp add: getCoordinatorInternalName_def)

subsection \<open>Labels\<close>

definition getCoordinatorPodLabel :: "string \<Rightarrow> string \<times> string" where
  "getCoordinatorPodLabel u = (''coordinator'', u)"

definition getWorkerPodLabel :: "string \<Rightarrow> string \<times> string" where
  "getWorkerPodLabel u = (''worker'', u)"

definition getCoordinatorPodLabels :: "range_choice \<Rightarrow> smap \<Rightarrow> string \<Rightarrow> smap" where
  "getCoordinatorPodLabels rc baseLabels u =
     (let lbls = put_all (go_range (rc CoordinatorLabelsLoop) baseLabels) [];
          (k, v) = getCoordinatorPodLabel u
      in AList.update k v lbls)"

definition getWorkerPodLabels :: "range_choice \<Rightarrow> smap \<Rightarrow> string \<Rightarrow> smap" where
  "getWorkerPodLabels rc baseLabels u =
     (let lbls = put_all (go_range (rc WorkerLabelsLoop) baseLabels) [];
          (k, v) = getWorkerPodLabel u
      in AList.update k v lbls)"

lemma map_of_copy_labels:
  "distinct (map fst b) \<Longrightarrow> map_of (put_all (go_range c b) []) = map_of b"
  by (simp add: map_of_put_all distinct_map_go_range map_of_go_range)

text \<open>A function that copies the base labels and adds the role \<open>key\<close> with the cluster UUID.\<close>

locale role_labels =
  fixes labels_of :: "range_choice \<Rightarrow> smap \<Rightarrow> string \<Rightarrow> smap" and key :: string
  assumes map_of_labels:
    "distinct (map fst b) \<Longrightarrow> map_of (labels_of rc b u) = (map_of b)(key \<mapsto> u)"
  and distinct_labels: "distinct (map fst (labels_of rc b u))"
begin

lemma role_selects [simp]: "distinct (map fst b) \<Longrightarrow> selects [(key, u)] (labels_of rc b u)"
  by (simp add: map_of_labels)

lemma labels_select_themselves: "selects (labels_of rc b u) (labels_of rc b u)"
  by (rule selects_refl [OF distinct_labels])

text \<open>A selector that is a part of the base labels and does not name the role still selects.\<close>

lemma base_selects:
  assumes "distinct (map fst b)" and "selects sel b" and "key \<notin> fst ` set sel"
  shows "selects sel (labels_of rc b u)"
  using assms by (force simp: selects_iff map_of_labels)

lemma order_irrelevant:
  "distinct (map fst b) \<Longrightarrow> map_of (labels_of rc b u) = map_of (labels_of rc' b u)"
  by (simp add: map_of_labels)

end

interpretation coordinator_labels: role_labels getCoordinatorPodLabels "''coordinator''"
  by unfold_locales
    (simp_all add: getCoordinatorPodLabels_def getCoordinatorPodLabel_def Let_def update_conv'
      map_of_copy_labels distinct_update)

interpretation worker_labels: role_labels getWorkerPodLabels "''worker''"
  by unfold_locales
    (simp_all add: getWorkerPodLabels_def getWorkerPodLabel_def Let_def update_conv'
      map_of_copy_labels distinct_update)

subsection \<open>Owner references and paths\<close>

definition getOwnerReference :: "Presto \<Rightarrow> owner_reference" where
  "getOwnerReference app = \<lparr>or_APIVersion = pr_APIVersion app, or_Kind = pr_Kind app,
     or_Name = pr_Name app, or_UID = pr_UID app, or_Controller = Some True\<rparr>"

definition getPrestoPath :: "Presto \<Rightarrow> string" where
  "getPrestoPath presto =
     (let prestoPath = im_PrestoPath (sp_ImageDetails (pr_Spec presto))
      in if length prestoPath = 0 then mountPath else prestoPath)"

subsection \<open>All names together\<close>

definition name_functions :: "(string \<Rightarrow> string option) list" where
  "name_functions = [getPodDiscoveryServiceName, getExternalServiceName, getCoordinatorPodName,
     getCoordinatorReplicaset, getWorkerReplicaSet, getCatalogConfigMapName, getCatalogVolName,
     getHTTPSSecretVolName, getHPAName, getCoordinatorContainerName, getCoordinatorConfigMapName,
     getCoordinatorConfigVolumeName, getWorkerContainerPrefix, getWorkerConfigMapName,
     getWorkerConfigVolumeName]"

definition name_prefixes :: "string list" where
  "name_prefixes = [''pod-discovery-'', ''external-presto-svc-'', ''coordinatorpod-'',
     ''coordinatorreplicaset-'', ''workerreplicaset-'', ''catalogconfig-'', ''catalogvol-'',
     ''httpssecret-'', ''hpa-'', ''coordinatorcontainer-'', ''coordinatorconfig-'',
     ''coordinatorconfvol-'', ''workerrcontainer-'', ''workerconfig-'', ''workerconfvol-'']"

lemma name_functions_prefix:
  "i < length name_functions \<Longrightarrow> cluster_name (name_functions ! i) (name_prefixes ! i)"
proof -
  have "list_all2 cluster_name name_functions name_prefixes"
    unfolding name_functions_def name_prefixes_def
    by (simp add: pod_discovery_name.cluster_name_axioms external_service_name.cluster_name_axioms
        coordinator_pod_name.cluster_name_axioms coordinator_rs_name.cluster_name_axioms
        worker_rs_name.cluster_name_axioms catalog_cm_name.cluster_name_axioms
        catalog_vol_name.cluster_name_axioms https_vol_name.cluster_name_axioms
        hpa_name.cluster_name_axioms coordinator_container_name.cluster_name_axioms
        coordinator_cm_name.cluster_name_axioms coordinator_vol_name.cluster_name_axioms
        worker_container_name.cluster_name_axioms worker_cm_name.cluster_name_axioms
        worker_vol_name.cluster_name_axioms)
  then show "i < length name_functions \<Longrightarrow> cluster_name (name_functions ! i) (name_prefixes ! i)"
    by (rule list_all2_nthD)
qed

lemma name_prefixes_distinct: "distinct name_prefixes" "length name_prefixes = length name_functions"
  "\<forall>pre \<in> set name_prefixes. length pre \<le> 50"
  by (simp_all add: name_prefixes_def name_functions_def)

lemma name_Some:
  assumes "i < length name_functions" and "(name_functions ! i) u = Some n"
  shows "n = name_prefixes ! i @ take 8 u" and "length n = length (name_prefixes ! i) + 8"
proof -
  note cn = name_functions_prefix [OF assms(1)]
  have "\<not> length u < 8" using assms(2) cluster_name.nm_None [OF cn] by auto
  then show "n = name_prefixes ! i @ take 8 u" using assms(2) cluster_name.nm_Some [OF cn] by simp
  show "length n = length (name_prefixes ! i) + 8" by (rule cluster_name.nm_length [OF cn assms(2)])
qed

text \<open>
  C39. The names of the objects, volumes and containers. Two clusters share a name only if it is the name
  of the same thing and their UUIDs agree in the first eight bytes; so different things never clash.
  Every name leaves room for the five characters the server appends to a generated name within the
  limit of 63. A name function panics exactly on a UUID of fewer than eight bytes.
\<close>

theorem names_do_not_clash:
  assumes "i < length name_functions" and "j < length name_functions"
    and "(name_functions ! i) u = Some n" and "(name_functions ! j) v = Some n"
  shows "i = j \<and> take 8 u = take 8 v \<and> length n \<le> 58 \<and>
    ((name_functions ! i) w = None \<longleftrightarrow> length w < 8)"
proof -
  note n = name_Some [OF assms(1,3)] name_Some [OF assms(2,4)]
  have pre: "name_prefixes ! i = name_prefixes ! j" "take 8 u = take 8 v"
    using n by (simp_all add: append_eq_append_conv)
  then have "i = j"
    using name_prefixes_distinct assms(1,2) by (simp add: nth_eq_iff_index_eq)
  moreover have "length (name_prefixes ! i) \<le> 50"
    using name_prefixes_distinct(3) nth_mem [of i name_prefixes] assms(1)
    unfolding name_prefixes_distinct(2) by blast
  then have "length n \<le> 58" using n(2) by simp
  ultimately show ?thesis
    using pre(2) cluster_name.nm_panics_iff [OF name_functions_prefix [OF assms(1)]] by simp
qed

theorem names_do_not_clash_witness:
  "getHPAName ''03f118d2-d399'' = Some ''hpa-03f118d2'' \<and> length ''hpa-03f118d2'' \<le> 58 \<and>
   getHPAName ''03f'' = None"
proof -
  have "(name_functions ! 8) = getHPAName" "8 < length name_functions"
    by (simp_all add: name_functions_def)
  moreover have "getHPAName ''03f118d2-d399'' = Some ''hpa-03f118d2''" by simp
  ultimately show ?thesis
    using names_do_not_clash [of 8 8 "''03f118d2-d399''" "''hpa-03f118d2''" "''03f118d2-d399''" "''03f''"] by simp
qed

end
