(* ===== verification/Example_Cluster.thy ===== *)
theory Example_Cluster
  imports Naming
begin

text \<open>
  A concrete Presto resource, the one that \<^verbatim>\<open>docs/prestoresource.md\<close> and \<^verbatim>\<open>docs/status.md\<close> show, with
  instances of the external parameters. The witnesses evaluate the model on it.
\<close>

definition example_uuid :: string where
  "example_uuid = ''03f118d2-d399-4e66-8417-b5caa96988ec''"

definition example_spec :: PrestoSpec where
  "example_spec = \<lparr>
     sp_Coordinator = \<lparr>co_MemoryLimit = ''1Gi'', co_AdditionalJVMConfig = [],
       co_AdditionalProps = [], co_CpuLimit = ''0.5'', co_CpuRequest = [],
       co_HttpsEnabled = False, co_HttpsKeyPairSecretName = ''prestokeystore'',
       co_HttpsKeyPairSecretKey = ''prestoserverkeystore.jks'', co_HttpsKeyPairPassword = ''hemant''\<rparr>,
     sp_Worker = \<lparr>wo_MemoryLimit = ''1Gi'', wo_AdditionalJVMConfig = [],
       wo_AdditionalProps = [(''shutdown.grace-period'', ''10s'')], wo_CpuLimit = ''0.5'',
       wo_CpuRequest = [], wo_TerminationGracePeriodSeconds = None, wo_Count = Some 1,
       wo_Autoscaling = \<lparr>as_Enabled = Some False, as_MinReplicas = Some 2, as_MaxReplicas = Some 3,
         as_TargetCPUUtilizationPercentage = Some 20\<rparr>\<rparr>,
     sp_Catalogs = \<lparr>cl_CatalogSecrets = [],
       cl_CatalogSpec = [
         \<lparr>cs_Name = ''newtpch'', cs_Content = [(''connector.name'', ''tpch'')]\<rparr>,
         \<lparr>cs_Name = ''newtpcds'', cs_Content = [(''connector.name'', ''tpcds'')]\<rparr>]\<rparr>,
     sp_Service = \<lparr>se_NodePort = Some 30002, se_Port = Some 8100, se_ClusterIP = [],
       se_Type = ''NodePort'', se_ExternalIPs = [], se_SessionAffinity = [], se_LoadBalancerIP = [],
       se_LoadBalancerSourceRanges = [], se_ExternalName = [], se_ExternalTrafficPolicy = [],
       se_HealthCheckNodePort = 0, se_PublishNotReadyAddresses = False,
       se_SessionAffinityConfig = None, se_IPFamily = None\<rparr>,
     sp_ImageDetails = \<lparr>im_Name = [], im_PrestoPath = []\<rparr>,
     sp_AdditionalPrestoPropFiles = [(''access-control.properties'', ''access-control.name=read-only'')],
     sp_Volumes = []\<rparr>"

definition zero_status :: PrestoStatus where
  "zero_status = \<lparr>st_Uuid = [], st_DesiredWorkers = 0, st_CurrentWorkers = 0,
     st_HeadlessService = [], st_Service = [], st_CoordinatorAddress = [], st_CatalogConfig = [],
     st_CoordinatorConfig = [], st_WorkerConfig = [], st_WorkerReplicaset = [],
     st_CoordinatorReplicaset = [], st_HpaName = [], st_ClusterState = [], st_ErrorReason = [],
     st_ModificationTime = 0, st_CoordinatorCPU = [], st_WorkerCPU = []\<rparr>"

text \<open>The resource as the user creates it, and with the UUID that the first reconcile assigns.\<close>

definition new_presto :: Presto where
  "new_presto = \<lparr>pr_APIVersion = ''falarica.io/v1alpha1'', pr_Kind = ''Presto'',
     pr_meta = zero_meta\<lparr>om_Name := ''mycluster'', om_Namespace := ''default'',
       om_UID := ''ea4e17e6-afb8-11ea-af85-42010a80010e'', om_Generation := 1\<rparr>,
     pr_Spec = example_spec, pr_Status = zero_status\<rparr>"

definition example_presto :: Presto where
  "example_presto = new_presto\<lparr>pr_Status := zero_status\<lparr>st_Uuid := example_uuid\<rparr>\<rparr>"

lemma example_uuid_simps [simp]:
  "pr_Uuid example_presto = example_uuid" "8 \<le> length example_uuid"
  by (simp_all add: example_presto_def example_uuid_def)

text \<open>A quantity parser that knows the quantities of the example.\<close>

definition example_pq :: "string \<Rightarrow> string + quantity" where
  "example_pq s =
     (if s = ''1Gi'' then Inr \<lparr>q_repr = s, q_Value = 1073741824, q_MilliValue = 1073741824000\<rparr>
      else if s = ''0.5'' then Inr \<lparr>q_repr = s, q_Value = 1, q_MilliValue = 500\<rparr>
      else Inl ''quantities must match the regular expression'')"

text \<open>Loops that visit a map in the order it is written in.\<close>

definition in_order :: range_choice where
  "in_order site n = 0"

lemma go_range_in_order [simp]: "go_range (in_order site) xs = xs"
  by (induction xs) (simp_all add: go_range.simps(2) in_order_def)

lemmas example_defs = example_presto_def new_presto_def example_spec_def zero_status_def
  zero_meta_def example_uuid_def

end
