(* ===== verification/Properties.thy ===== *)
theory Properties
  imports Example_Cluster
begin

text \<open>
  The configuration files: the pure functions of \<^verbatim>\<open>presto_properties.go\<close>. Each file is a string that
  the code builds line by line; the two \<^verbatim>\<open>config.properties\<close> files come from a map of system
  properties and the user's additional properties, which may not name a system property.

  \<^verbatim>\<open>resource.ParseQuantity\<close> is a parameter \<open>pq\<close>: it gives a quantity or the text of its error. A
  function that may fail returns \<open>go_error + 'a\<close>, inside an option for the panic of a name.

  The locale \<open>props_file\<close> is the contract of the two \<^verbatim>\<open>config.properties\<close> builders, \<open>jvm_file\<close> that of
  the two \<^verbatim>\<open>jvm.config\<close> builders; \<open>read_props\<close> reads a rendered file back.
\<close>

subsection \<open>The shutdown script\<close>

definition shutdownScriptContent :: string where
  \<open>shutdownScriptContent = concat (map (\<lambda>l. l @ newline) [
     [],
     ''#!/bin/bash'',
     ''# This works for worker only. Coordinator doesn't support graceful shutdown.'',
     ''# This script will block until the server has actually shutdown.'',
     ''set -x'',
     ''http_port="$(cat {MOUNT_PATH}/config.properties | grep 'http-server.http.port' | sed 's/^.*='' @ [CHR 0x5C] @ ''(.*'' @ [CHR 0x5C] @ '')$/'' @ [CHR 0x5C] @ ''1/')"'',
     ''https_port="$(cat {MOUNT_PATH}/config.properties | grep 'http-server.https.port' | sed 's/^.*='' @ [CHR 0x5C] @ ''(.*'' @ [CHR 0x5C] @ '')$/'' @ [CHR 0x5C] @ ''1/')"'',
     [],
     ''if [ -n "$http_port" ] ; then'',
     ''    res=$(curl -s -o /dev/null -w "%{http_code}"  -XPUT --data '"SHUTTING_DOWN"' -H "Content-type: application/json" http://localhost:${http_port}/v1/info/state)'',
     ''fi'',
     [],
     ''if [ -z "$res" -o "$res" != "200" ] && [ -n "$https_port" ]; then'',
     ''    res=$(curl -k -s -o /dev/null -w "%{http_code}"  -XPUT --data '"SHUTTING_DOWN"' -H "Content-type: application/json" https://localhost:${https_port}/v1/info/state)'',
     ''fi'',
     [],
     ''if [ -z "$res" -o "$res" != "200" ] ; then'',
     ''  # Failed to send the shutdown request.'',
     ''  exit -1'',
     ''else'',
     ''  # Server is shutting down. Block until the server is actually down.'',
     ''  while curl http://localhost:${http_port}/v1/info/state; do'',
     ''    sleep 3'',
     ''  done'',
     ''fi''])\<close>

text \<open>\<^verbatim>\<open>strings.ReplaceAll\<close> for a non-empty \<open>old\<close>: leftmost occurrences that do not overlap.\<close>

function replaceAll :: "string \<Rightarrow> string \<Rightarrow> string \<Rightarrow> string" where
  "replaceAll old new [] = []"
| "replaceAll old new (c # cs) =
     (if old \<noteq> [] \<and> take (length old) (c # cs) = old
      then new @ replaceAll old new (drop (length old) (c # cs))
      else c # replaceAll old new cs)"
  by pat_completeness auto
termination
  by (relation "measure (\<lambda>(old, new, s). length s)") (auto simp: length_greater_0_conv)

subsection \<open>Node properties and JVM options\<close>

definition coordinatorNodePropsMap :: string where
  "coordinatorNodePropsMap =
     ''node.environment=prestoproduction'' @ newline @ ''node.data-dir=/data/presto'' @ newline"

definition workerNodePropsMap :: string where
  "workerNodePropsMap =
     ''node.environment=prestoproduction'' @ newline @ ''node.data-dir=/data/presto'' @ newline"

definition addDefaultJVMProps :: "string \<Rightarrow> string" where
  "addDefaultJVMProps sb = sb @ concat (map (\<lambda>l. l @ newline) [
     ''-server'', ''-XX:-UseBiasedLocking'', ''-XX:+UseG1GC'', ''-XX:G1HeapRegionSize=32M'',
     ''-XX:+ExplicitGCInvokesConcurrent'', ''-XX:+ExitOnOutOfMemoryError'',
     ''-XX:+UseGCOverheadLimit'', ''-XX:+HeapDumpOnOutOfMemoryError'',
     ''-XX:ReservedCodeCacheSize=512M'', ''-Djdk.attach.allowAttachSelf=true'',
     ''-Djdk.nio.maxCachedBufferSize=2000000''])"

text \<open>The operator's error for a quantity that does not parse: \<^verbatim>\<open>cannot parse F: 'V': ERR\<close>.\<close>

definition parseError :: "string \<Rightarrow> string \<Rightarrow> string \<Rightarrow> go_error" where
  "parseError field val err = OperatorError
     (''cannot parse '' @ field @ '': '' @ [CHR 0x27] @ val @ [CHR 0x27] @ '': '' @ err)"

definition coordinatorJVMConfigMap ::
  "(string \<Rightarrow> string + quantity) \<Rightarrow> Presto \<Rightarrow> go_error + string" where
  "coordinatorJVMConfigMap pq presto =
     (let sb = addDefaultJVMProps [];
          lim = co_MemoryLimit (pr_Coordinator presto);
          jvm = co_AdditionalJVMConfig (pr_Coordinator presto)
      in case pq lim of
           Inl err \<Rightarrow> Inl (parseError ''presto.Spec.Coordinator.MemoryLimit'' lim err)
         | Inr memlimit \<Rightarrow>
             let memoryMb = div64 (div64 (q_Value memlimit) 1024) 1024;
                 sb = sb @ ''-Xmx'' @ show_int (sint memoryMb) @ ''m'' @ newline
             in Inr (if length jvm > 0 then sb @ jvm @ newline else sb))"

definition workerJVMConfigMap ::
  "(string \<Rightarrow> string + quantity) \<Rightarrow> Presto \<Rightarrow> go_error + string" where
  "workerJVMConfigMap pq presto =
     (let sb = addDefaultJVMProps [];
          lim = wo_MemoryLimit (pr_Worker presto);
          jvm = wo_AdditionalJVMConfig (pr_Worker presto)
      in case pq lim of
           Inl err \<Rightarrow> Inl (parseError ''presto.Spec.Worker.MemoryLimit'' lim err)
         | Inr memlimit \<Rightarrow>
             let memoryMb = div64 (div64 (q_Value memlimit) 1024) 1024;
                 sb = sb @ ''-Xmx'' @ show_int (sint memoryMb) @ ''m'' @ newline
             in Inr (if length jvm > 0 then sb @ jvm @ newline else sb))"

subsection \<open>Ports and system properties\<close>

definition getHTTPPort :: "Presto \<Rightarrow> int32 \<times> int32" where
  "getHTTPPort presto =
     (let port = (case se_Port (pr_Service presto) of None \<Rightarrow> word_of_int prestoPort | Some p \<Rightarrow> p)
      in if co_HttpsEnabled (pr_Coordinator presto)
         then (if port = word_of_int prestoPort
               then (word_of_int (prestoPort + 1), port)
               else (word_of_int prestoPort, port))
         else (port, -1))"

definition getSystemProps :: "Presto \<Rightarrow> string \<Rightarrow> go_error + smap" where
  "getSystemProps presto coordinatorInternalName =
     (let (httpPort, httpsPort) = getHTTPPort presto; co = pr_Coordinator presto
      in if co_HttpsEnabled co
         then
           if length (co_HttpsKeyPairPassword co) = 0
           then Inl (OperatorError ''HttpsKeyPairPassword has to be specified when HTTPS is enabled'')
           else if length (co_HttpsKeyPairSecretKey co) = 0
           then Inl (OperatorError ''HttpsKeyPairSecretKey has to be specified when HTTPS is enabled'')
           else if length (co_HttpsKeyPairSecretName co) = 0
           then Inl (OperatorError ''HttpsKeyPairSecretName has to be specified when HTTPS is enabled'')
           else Inr [
             (''coordinator'', ''true''),
             (''node.internal-address'', coordinatorInternalName),
             (''discovery.uri'', ''http://'' @ coordinatorInternalName @ '':'' @
                show_int (sint httpPort) @ newline),
             (''node-scheduler.include-coordinator'', ''false''),
             (''discovery-server.enabled'', ''true''),
             (''http-server.http.enabled'', ''true''),
             (''http-server.https.enabled'', ''true''),
             (''http-server.https.port'', show_int (sint httpsPort)),
             (''http-server.http.port'', show_int (sint httpPort)),
             (''http-server.https.keystore.path'',
                httpsVolPath @ ''/'' @ co_HttpsKeyPairSecretKey co),
             (''http-server.https.keystore.key'', co_HttpsKeyPairPassword co)]
         else Inr [
             (''coordinator'', ''true''),
             (''http-server.http.port'', show_int (sint httpPort)),
             (''node.internal-address'', coordinatorInternalName),
             (''discovery.uri'', ''http://'' @ coordinatorInternalName @ '':'' @
                show_int (sint httpPort) @ newline),
             (''node-scheduler.include-coordinator'', ''false''),
             (''discovery-server.enabled'', ''true''),
             (''http-server.https.enabled'', ''false'')])"

subsection \<open>The two config.properties files\<close>

definition prop_line :: "string \<times> string \<Rightarrow> string" where
  "prop_line kv = fst kv @ ''='' @ snd kv @ newline"

text \<open>The error is a literal: the code does not format its \<^verbatim>\<open>%s\<close>.\<close>

definition systemPropertyError :: go_error where
  "systemPropertyError =
     OperatorError ''%s is a system property. Cannot be specified as additional property''"

text \<open>The loop over the additional properties, with its early return.\<close>

fun appendAdditionalProps :: "smap \<Rightarrow> string \<Rightarrow> smap \<Rightarrow> go_error + string" where
  "appendAdditionalProps systemProps sb [] = Inr sb"
| "appendAdditionalProps systemProps sb ((key, val) # rest) =
     (if map_of systemProps key \<noteq> None then Inl systemPropertyError
      else appendAdditionalProps systemProps (sb @ prop_line (key, val)) rest)"

definition coordinatorConfigPropsMap :: "range_choice \<Rightarrow> Presto \<Rightarrow> (go_error + string) option" where
  "coordinatorConfigPropsMap rc presto = do {
     coordinatorInternalName \<leftarrow> getCoordinatorInternalName (pr_Uuid presto);
     Some (case getSystemProps presto coordinatorInternalName of
         Inl err \<Rightarrow> Inl err
       | Inr systemProps \<Rightarrow>
           appendAdditionalProps systemProps
             (concat (map prop_line (go_range (rc CoordinatorSystemPropsLoop) systemProps)))
             (go_range (rc CoordinatorAdditionalPropsLoop)
               (co_AdditionalProps (pr_Coordinator presto)))) }"

definition workerSystemProps :: "Presto \<Rightarrow> smap option" where
  "workerSystemProps presto = do {
     coordinatorInternalName \<leftarrow> getCoordinatorInternalName (pr_Uuid presto);
     Some [
       (''coordinator'', ''false''),
       (''http-server.http.port'', show_int prestoPort),
       (''discovery.uri'', ''http://'' @ coordinatorInternalName @ '':'' @
          show_int (sint (fst (getHTTPPort presto))))] }"

definition workerConfigPropsMap :: "range_choice \<Rightarrow> Presto \<Rightarrow> (go_error + string) option" where
  "workerConfigPropsMap rc presto = do {
     systemProps \<leftarrow> workerSystemProps presto;
     Some (appendAdditionalProps systemProps
       (concat (map prop_line (go_range (rc WorkerSystemPropsLoop) systemProps)))
       (go_range (rc WorkerAdditionalPropsLoop) (wo_AdditionalProps (pr_Worker presto)))) }"

subsection \<open>The config map of a node\<close>

definition buildConfigMap ::
  "(string \<Rightarrow> string + quantity) \<Rightarrow> range_choice \<Rightarrow> Presto \<Rightarrow> bool \<Rightarrow> string \<Rightarrow> smap \<Rightarrow>
     (go_error + configmap) option" where
  "buildConfigMap pq rc presto isCoordinator configMapName lbls = do {
     let nodeProperties = (if isCoordinator then coordinatorNodePropsMap else workerNodePropsMap);
     configProperties \<leftarrow> (if isCoordinator then coordinatorConfigPropsMap rc presto
                          else workerConfigPropsMap rc presto);
     Some (case configProperties of
         Inl err \<Rightarrow> Inl err
       | Inr configProperties \<Rightarrow>
           (case (if isCoordinator then coordinatorJVMConfigMap pq presto
                  else workerJVMConfigMap pq presto) of
              Inl err \<Rightarrow> Inl err
            | Inr jvmConfig \<Rightarrow>
                let propertiesFiles = [
                      (nodePropertiesKey, nodeProperties),
                      (configPropertiesKey, configProperties),
                      (jvmConfigKey, jvmConfig),
                      (prestoShutdownScript,
                         replaceAll ''{MOUNT_PATH}'' (getPrestoPath presto) shutdownScriptContent)];
                    propertiesFiles = put_all
                      (go_range (rc PropFilesLoop) (sp_AdditionalPrestoPropFiles (pr_Spec presto)))
                      propertiesFiles
                in Inr \<lparr>cm_meta = zero_meta\<lparr>om_Name := configMapName,
                          om_Namespace := pr_Namespace presto, om_Labels := lbls,
                          om_OwnerReferences := [getOwnerReference presto]\<rparr>,
                        cm_Data = propertiesFiles\<rparr>)) }"

subsection \<open>Mounting the config map\<close>

definition getPropsVolumeMount ::
  "Presto \<Rightarrow> pod_spec \<Rightarrow> bool \<Rightarrow> (pod_spec \<times> volume_mount) option" where
  "getPropsVolumeMount presto podSpec isCoordinator = do {
     configMap \<leftarrow> (if isCoordinator then getCoordinatorConfigMapName (pr_Uuid presto)
                   else getWorkerConfigMapName (pr_Uuid presto));
     configMapVol \<leftarrow> (if isCoordinator then getCoordinatorConfigVolumeName (pr_Uuid presto)
                      else getWorkerConfigVolumeName (pr_Uuid presto));
     let propsVolume = \<lparr>vol_Name = configMapVol,
           vol_Source = \<lparr>vs_Projected = Some [ConfigMapProjection configMap],
                         vs_Secret = None, vs_Other = []\<rparr>\<rparr>;
     Some (podSpec\<lparr>ps_Volumes := ps_Volumes podSpec @ [propsVolume]\<rparr>,
       \<lparr>vm_Name = configMapVol, vm_ReadOnly = True, vm_MountPath = getPrestoPath presto,
        vm_SubPath = [], vm_MountPropagation = None, vm_SubPathExpr = []\<rparr>) }"

subsection \<open>The contract of a config.properties builder\<close>

definition names_system_prop :: "smap \<Rightarrow> smap \<Rightarrow> bool" where
  "names_system_prop sys es \<longleftrightarrow> list_ex (\<lambda>(k, v). map_of sys k \<noteq> None) es"

lemma names_system_prop_go_range [simp]:
  "names_system_prop sys (go_range c es) = names_system_prop sys es"
  by (simp add: names_system_prop_def list_ex_iff)

lemma appendAdditionalProps_eq:
  "appendAdditionalProps sys sb es =
     (if names_system_prop sys es then Inl systemPropertyError
      else Inr (sb @ concat (map prop_line es)))"
  by (induction sys sb es rule: appendAdditionalProps.induct) (auto simp: names_system_prop_def)

locale props_file =
  fixes render :: "range_choice \<Rightarrow> Presto \<Rightarrow> (go_error + string) option"
    and system :: "Presto \<Rightarrow> (go_error + smap) option"
    and extra :: "Presto \<Rightarrow> smap"
    and system_loop extra_loop :: range_site
  assumes render_append:
    "render rc p = (case system p of
        None \<Rightarrow> None
      | Some (Inl err) \<Rightarrow> Some (Inl err)
      | Some (Inr sys) \<Rightarrow> Some (appendAdditionalProps sys
          (concat (map prop_line (go_range (rc system_loop) sys)))
          (go_range (rc extra_loop) (extra p))))"
begin

lemma render_panics_iff: "render rc p = None \<longleftrightarrow> system p = None"
  by (simp add: render_append split: option.splits sum.splits)

lemma render_fails_iff:
  "render rc p = Some (Inl err) \<longleftrightarrow> system p = Some (Inl err) \<or>
     (err = systemPropertyError \<and>
      (\<exists>sys. system p = Some (Inr sys) \<and> names_system_prop sys (extra p)))"
  by (auto simp: render_append appendAdditionalProps_eq split: option.splits sum.splits)

lemma render_entries:
  assumes "system p = Some (Inr sys)" and "\<not> names_system_prop sys (extra p)"
  shows "render rc p = Some (Inr (concat (map prop_line
           (go_range (rc system_loop) sys @ go_range (rc extra_loop) (extra p)))))"
  using assms by (simp add: render_append appendAdditionalProps_eq)

end

definition coordinatorSystem :: "Presto \<Rightarrow> (go_error + smap) option" where
  "coordinatorSystem p = map_option (getSystemProps p) (getCoordinatorInternalName (pr_Uuid p))"

definition workerSystem :: "Presto \<Rightarrow> (go_error + smap) option" where
  "workerSystem p = map_option Inr (workerSystemProps p)"

interpretation coordinator_props:
  props_file coordinatorConfigPropsMap coordinatorSystem
    "\<lambda>p. co_AdditionalProps (pr_Coordinator p)"
    CoordinatorSystemPropsLoop CoordinatorAdditionalPropsLoop
  by unfold_locales
    (simp add: coordinatorConfigPropsMap_def coordinatorSystem_def
      split: option.split sum.split bind_split)

interpretation worker_props:
  props_file workerConfigPropsMap workerSystem
    "\<lambda>p. wo_AdditionalProps (pr_Worker p)" WorkerSystemPropsLoop WorkerAdditionalPropsLoop
  by unfold_locales
    (simp add: workerConfigPropsMap_def workerSystem_def split: bind_split)

subsection \<open>Reading a properties file back\<close>

text \<open>
  A reference reader: the lines between newlines, blank lines ignored, key and value separated by
  the first \<^verbatim>\<open>=\<close>.
\<close>

fun lines_of :: "string \<Rightarrow> string list" where
  "lines_of [] = []"
| "lines_of (c # cs) =
     (if c = CHR 0x0A then [] # lines_of cs
      else case lines_of cs of [] \<Rightarrow> [[c]] | l # ls \<Rightarrow> (c # l) # ls)"

definition read_line :: "string \<Rightarrow> string \<times> string" where
  "read_line l = (takeWhile (\<lambda>c. c \<noteq> CHR ''='') l, tl (dropWhile (\<lambda>c. c \<noteq> CHR ''='') l))"

definition read_props :: "string \<Rightarrow> smap" where
  "read_props s = map read_line (filter (\<lambda>l. l \<noteq> []) (lines_of s))"

definition chomp :: "string \<Rightarrow> string" where
  "chomp v = takeWhile (\<lambda>c. c \<noteq> CHR 0x0A) v"

text \<open>An entry that a line can carry: newlines only at the end of the value, none in the key.\<close>

definition clean_entry :: "string \<times> string \<Rightarrow> bool" where
  "clean_entry kv \<longleftrightarrow> CHR ''='' \<notin> set (fst kv) \<and> CHR 0x0A \<notin> set (fst kv) \<and>
     set (dropWhile (\<lambda>c. c \<noteq> CHR 0x0A) (snd kv)) \<subseteq> {CHR 0x0A}"

lemma lines_of_line:
  "CHR 0x0A \<notin> set l \<Longrightarrow> lines_of (l @ CHR 0x0A # s) = l # lines_of s"
  by (induction l) auto

lemma lines_of_blank: "lines_of (replicate n (CHR 0x0A) @ s) = replicate n [] @ lines_of s"
  by (induction n) auto

lemma chomp_split:
  assumes "clean_entry (k, v)"
  shows "\<exists>n. v = chomp v @ replicate n (CHR 0x0A)"
proof -
  define d where "d = dropWhile (\<lambda>c. c \<noteq> CHR 0x0A) v"
  have "set d \<subseteq> {CHR 0x0A}"
    using assms by (simp add: clean_entry_def d_def)
  then have "\<forall>c \<in> set d. c = CHR 0x0A"
    by blast
  then have "d = replicate (length d) (CHR 0x0A)"
    by (rule replicate_length_same [symmetric])
  then have "chomp v @ d = chomp v @ replicate (length d) (CHR 0x0A)"
    by (rule arg_cong)
  moreover have "v = chomp v @ d"
    by (simp add: chomp_def d_def)
  ultimately have "v = chomp v @ replicate (length d) (CHR 0x0A)"
    by (rule trans [rotated])
  then show ?thesis ..
qed

lemma newline_notin_chomp [simp]: "CHR 0x0A \<notin> set (chomp v)"
  by (auto simp: chomp_def dest: set_takeWhileD)

lemma chomp_id [simp]: "CHR 0x0A \<notin> set v \<Longrightarrow> chomp v = v"
  by (auto simp: chomp_def takeWhile_eq_all_conv)

lemma read_line_entry:
  "CHR ''='' \<notin> set k \<Longrightarrow> read_line (k @ CHR ''='' # v) = (k, v)"
  by (auto simp: read_line_def takeWhile_append dropWhile_append)

lemma lines_of_prop_line:
  assumes "clean_entry (k, v)"
  shows "\<exists>n. lines_of (prop_line (k, v) @ s) =
           (k @ CHR ''='' # chomp v) # replicate n [] @ lines_of s"
proof -
  obtain n where v: "v = chomp v @ replicate n (CHR 0x0A)"
    using chomp_split [OF assms] by blast
  let ?l = "k @ CHR ''='' # chomp v"
  have line: "prop_line (k, v) @ s = ?l @ CHR 0x0A # (replicate n (CHR 0x0A) @ s)"
    by (subst v) (simp add: prop_line_def replicate_app_Cons_same)
  have "CHR 0x0A \<notin> set ?l"
    using assms by (simp add: clean_entry_def)
  then have "lines_of (prop_line (k, v) @ s) = ?l # lines_of (replicate n (CHR 0x0A) @ s)"
    unfolding line by (rule lines_of_line)
  then show ?thesis
    by (auto simp: lines_of_blank)
qed

lemma read_props_lines:
  "\<forall>e \<in> set es. clean_entry e \<Longrightarrow>
     read_props (concat (map prop_line es)) = map (\<lambda>(k, v). (k, chomp v)) es"
proof (induction es)
  case Nil
  then show ?case by (simp add: read_props_def)
next
  case (Cons e es)
  obtain k v where e: "e = (k, v)" by force
  with Cons.prems have clean: "clean_entry (k, v)" by simp
  then obtain n where "lines_of (prop_line (k, v) @ concat (map prop_line es)) =
      (k @ CHR ''='' # chomp v) # replicate n [] @ lines_of (concat (map prop_line es))"
    using lines_of_prop_line by blast
  moreover have "read_line (k @ CHR ''='' # chomp v) = (k, chomp v)"
    using clean by (simp add: read_line_entry clean_entry_def)
  moreover have "read_props (concat (map prop_line es)) = map (\<lambda>(k, v). (k, chomp v)) es"
    using Cons by simp
  ultimately show ?case
    by (simp add: read_props_def e)
qed

context props_file
begin

text \<open>
  Reading a rendered file back gives the system properties and, for other keys, the additional
  ones, whatever order the two loops took.
\<close>

lemma read_back:
  assumes sys: "system p = Some (Inr sys)" and out: "render rc p = Some (Inr s)"
    and maps: "distinct (map fst sys)" "distinct (map fst (extra p))"
    and clean: "\<forall>e \<in> set sys. clean_entry e" "\<forall>e \<in> set (extra p). clean_entry e"
  shows "map_of (read_props s) k =
    map_option chomp (case map_of sys k of Some v \<Rightarrow> Some v | None \<Rightarrow> map_of (extra p) k)"
proof -
  let ?es = "go_range (rc system_loop) sys @ go_range (rc extra_loop) (extra p)"
  have "\<not> names_system_prop sys (extra p)"
    using sys out render_fails_iff [of rc p systemPropertyError] by auto
  then have "s = concat (map prop_line ?es)"
    using render_entries [OF sys] out by (simp del: map_append)
  moreover have "\<forall>e \<in> set ?es. clean_entry e"
    using clean by auto
  ultimately have "read_props s = map (\<lambda>(k, v). (k, chomp v)) ?es"
    by (simp only: read_props_lines)
  then have "map_of (read_props s) k = map_option chomp (map_of ?es k)"
    by (simp only: map_of_map comp_apply)
  then show ?thesis
    by (simp add: map_add_def map_of_go_range maps split: option.split)
qed

end

subsection \<open>System properties\<close>

definition https_ready :: "Presto \<Rightarrow> bool" where
  "https_ready p \<longleftrightarrow> co_HttpsKeyPairPassword (pr_Coordinator p) \<noteq> [] \<and>
     co_HttpsKeyPairSecretKey (pr_Coordinator p) \<noteq> [] \<and>
     co_HttpsKeyPairSecretName (pr_Coordinator p) \<noteq> []"

lemma getSystemProps_fails_iff:
  "(\<exists>err. getSystemProps p n = Inl err) \<longleftrightarrow>
     co_HttpsEnabled (pr_Coordinator p) \<and> \<not> https_ready p"
  by (simp add: getSystemProps_def https_ready_def Let_def split: prod.split)

lemma getSystemProps_distinct: "getSystemProps p n = Inr sys \<Longrightarrow> distinct (map fst sys)"
  by (auto simp: getSystemProps_def Let_def split: prod.splits if_splits)

lemma getSystemProps_lookup:
  assumes "getSystemProps p n = Inr sys"
  shows "map_of sys ''coordinator'' = Some ''true''"
    and "map_of sys ''node.internal-address'' = Some n"
    and "map_of sys ''discovery.uri'' =
      Some (''http://'' @ n @ '':'' @ show_int (sint (fst (getHTTPPort p))) @ newline)"
    and "map_of sys ''http-server.http.port'' = Some (show_int (sint (fst (getHTTPPort p))))"
    and "map_of sys ''http-server.https.port'' =
      (if co_HttpsEnabled (pr_Coordinator p)
       then Some (show_int (sint (snd (getHTTPPort p)))) else None)"
  using assms by (auto simp: getSystemProps_def Let_def split: prod.splits if_splits)

lemma newline_notin_show_int [simp]: "CHR 0x0A \<notin> set (show_int i)"
  by (rule show_int_no_char) simp_all

lemma skip_absent:
  "x \<notin> set v \<Longrightarrow> dropWhile (\<lambda>c. c \<noteq> x) (v @ w) = dropWhile (\<lambda>c. c \<noteq> x) w"
  "x \<notin> set v \<Longrightarrow> takeWhile (\<lambda>c. c \<noteq> x) (v @ w) = v @ takeWhile (\<lambda>c. c \<noteq> x) w"
  by (induction v) auto

lemma clean_entry_plain:
  "CHR 0x0A \<notin> set v \<Longrightarrow>
     clean_entry (k, v) \<longleftrightarrow> CHR ''='' \<notin> set k \<and> CHR 0x0A \<notin> set k"
proof -
  assume "CHR 0x0A \<notin> set v"
  then have "dropWhile (\<lambda>c. c \<noteq> CHR 0x0A) v = []"
    by (auto simp: dropWhile_eq_Nil_conv)
  then show ?thesis
    by (simp only: clean_entry_def fst_conv snd_conv list.set empty_subsetI simp_thms)
qed

lemma clean_entry_newline:
  "CHR 0x0A \<notin> set v \<Longrightarrow>
     clean_entry (k, v @ newline) \<longleftrightarrow> CHR ''='' \<notin> set k \<and> CHR 0x0A \<notin> set k"
  using skip_absent(1) [of "CHR 0x0A" v newline] by (simp add: clean_entry_def)

lemma chomp_newline [simp]: "CHR 0x0A \<notin> set v \<Longrightarrow> chomp (v @ newline) = v"
  using skip_absent(2) [of "CHR 0x0A" v newline] by (simp add: chomp_def)

lemma clean_entry_uri:
  "CHR 0x0A \<notin> set n \<Longrightarrow>
     clean_entry (''discovery.uri'', ''http://'' @ n @ '':'' @ show_int i @ newline)"
  using clean_entry_newline [of "''http://'' @ n @ '':'' @ show_int i" "''discovery.uri''"] by simp

lemma getSystemProps_clean:
  assumes sys: "getSystemProps p n = Inr sys" and n: "CHR 0x0A \<notin> set n"
    and sec: "CHR 0x0A \<notin> set (co_HttpsKeyPairSecretKey (pr_Coordinator p))"
      "CHR 0x0A \<notin> set (co_HttpsKeyPairPassword (pr_Coordinator p))"
  shows "\<forall>e \<in> set sys. clean_entry e"
  using sys clean_entry_uri [OF n]
  by (auto simp: getSystemProps_def clean_entry_plain httpsVolPath_def Let_def n sec
      split: prod.splits if_splits)


lemma workerSystemProps_lookup:
  assumes "8 \<le> length (pr_Uuid p)"
  shows "\<exists>n sys. getCoordinatorInternalName (pr_Uuid p) = Some n \<and> workerSystem p = Some (Inr sys) \<and>
    distinct (map fst sys) \<and>
    map_of sys = [''coordinator'' \<mapsto> ''false'', ''http-server.http.port'' \<mapsto> ''8080'',
      ''discovery.uri'' \<mapsto> ''http://'' @ n @ '':'' @ show_int (sint (fst (getHTTPPort p)))] \<and>
    (CHR 0x0A \<notin> set n \<longrightarrow> (\<forall>e \<in> set sys. clean_entry e))"
proof -
  have "show_int prestoPort = ''8080''"
    by (simp add: prestoPort_def show_int_def show_nat.simps digit_def)
  then show ?thesis
    using assms
    by (auto simp: getCoordinatorInternalName_Some workerSystem_def workerSystemProps_def
        clean_entry_plain fun_eq_iff)
qed

text \<open>
  C9. The workers find the coordinator: read back from the two rendered files, whatever order the map
  loops took, the workers' discovery URI is the coordinator's, it names the coordinator's internal
  address and the HTTP port the coordinator listens on, and the coordinator and the workers know
  their roles.
\<close>

theorem workers_find_coordinator:
  assumes "8 \<le> length (pr_Uuid p)" and "CHR 0x0A \<notin> set (pr_Uuid p)"
    and "CHR 0x0A \<notin> set (co_HttpsKeyPairSecretKey (pr_Coordinator p))"
    and "CHR 0x0A \<notin> set (co_HttpsKeyPairPassword (pr_Coordinator p))"
    and maps: "distinct (map fst (co_AdditionalProps (pr_Coordinator p)))"
      "distinct (map fst (wo_AdditionalProps (pr_Worker p)))"
    and clean: "\<forall>e \<in> set (co_AdditionalProps (pr_Coordinator p)). clean_entry e"
      "\<forall>e \<in> set (wo_AdditionalProps (pr_Worker p)). clean_entry e"
    and c: "coordinatorConfigPropsMap rc p = Some (Inr cfile)"
    and w: "workerConfigPropsMap rc' p = Some (Inr wfile)"
  shows "\<exists>addr port. let cprops = map_of (read_props cfile); wprops = map_of (read_props wfile) in
    cprops ''node.internal-address'' = Some addr \<and>
    cprops ''http-server.http.port'' = Some port \<and>
    cprops ''discovery.uri'' = Some (''http://'' @ addr @ '':'' @ port) \<and>
    wprops ''discovery.uri'' = Some (''http://'' @ addr @ '':'' @ port) \<and>
    cprops ''coordinator'' = Some ''true'' \<and> wprops ''coordinator'' = Some ''false''"
proof -
  obtain n wsys where n: "getCoordinatorInternalName (pr_Uuid p) = Some n"
      and ws: "workerSystem p = Some (Inr wsys)" "distinct (map fst wsys)"
      and wl: "map_of wsys = [''coordinator'' \<mapsto> ''false'', ''http-server.http.port'' \<mapsto> ''8080'',
        ''discovery.uri'' \<mapsto> ''http://'' @ n @ '':'' @ show_int (sint (fst (getHTTPPort p)))]"
      and wc: "CHR 0x0A \<notin> set n \<longrightarrow> (\<forall>e \<in> set wsys. clean_entry e)"
    using workerSystemProps_lookup [OF assms(1)] by blast
  have nn: "CHR 0x0A \<notin> set n"
    using n assms(1,2) by (auto simp: getCoordinatorInternalName_Some dest: in_set_takeD)
  obtain csys where cs: "coordinatorSystem p = Some (Inr csys)" "getSystemProps p n = Inr csys"
    using c n by (auto simp: coordinatorConfigPropsMap_def coordinatorSystem_def split: sum.splits)
  let ?uri = "''http://'' @ n @ '':'' @ show_int (sint (fst (getHTTPPort p)))"
  have "map_of (read_props cfile) k = map_option chomp (case map_of csys k of Some v \<Rightarrow> Some v
      | None \<Rightarrow> map_of (co_AdditionalProps (pr_Coordinator p)) k)" for k
    by (rule coordinator_props.read_back [OF cs(1) c getSystemProps_distinct [OF cs(2)] maps(1)
          getSystemProps_clean [OF cs(2) nn assms(3,4)] clean(1)])
  moreover have "map_of (read_props wfile) k = map_option chomp (case map_of wsys k of
      Some v \<Rightarrow> Some v | None \<Rightarrow> map_of (wo_AdditionalProps (pr_Worker p)) k)" for k
    by (rule worker_props.read_back [OF ws(1) w ws(2) maps(2) mp [OF wc nn] clean(2)])
  moreover have "chomp (?uri @ newline) = ?uri" "chomp ?uri = ?uri"
    using nn by (auto simp del: append_assoc append.simps intro!: chomp_newline chomp_id)
  ultimately show ?thesis
    by (intro exI [of _ n] exI [of _ "show_int (sint (fst (getHTTPPort p)))"])
      (simp add: wl getSystemProps_lookup [OF cs(2)] Let_def nn)
qed

theorem workers_find_coordinator_witness:
  "\<exists>cfile wfile addr port.
     coordinatorConfigPropsMap in_order example_presto = Some (Inr cfile) \<and>
     workerConfigPropsMap in_order example_presto = Some (Inr wfile) \<and>
     map_of (read_props cfile) ''node.internal-address'' = Some addr \<and>
     map_of (read_props cfile) ''http-server.http.port'' = Some port \<and>
     map_of (read_props wfile) ''discovery.uri'' = Some (''http://'' @ addr @ '':'' @ port)"
proof -
  obtain cfile wfile where
    c: "coordinatorConfigPropsMap in_order example_presto = Some (Inr cfile)" and
    w: "workerConfigPropsMap in_order example_presto = Some (Inr wfile)"
    by (simp add: coordinatorConfigPropsMap_def workerConfigPropsMap_def workerSystemProps_def
        getCoordinatorInternalName_Some getSystemProps_def getHTTPPort_def example_defs)
  show ?thesis
    using c w workers_find_coordinator [OF _ _ _ _ _ _ _ _ c w]
    by (simp add: example_defs clean_entry_def Let_def) blast
qed

lemma names_system_prop_iff:
  "names_system_prop sys es \<longleftrightarrow> fst ` set es \<inter> fst ` set sys \<noteq> {}"
proof -
  have dom: "map_of sys k \<noteq> None \<longleftrightarrow> k \<in> fst ` set sys" for k
    by (simp add: map_of_eq_None_iff)
  show ?thesis
    unfolding names_system_prop_def list_ex_iff case_prod_beta dom by blast
qed

definition coordinator_keys :: "bool \<Rightarrow> string list" where
  "coordinator_keys https =
     (if https then
        [''coordinator'', ''node.internal-address'', ''discovery.uri'',
         ''node-scheduler.include-coordinator'', ''discovery-server.enabled'',
         ''http-server.http.enabled'', ''http-server.https.enabled'', ''http-server.https.port'',
         ''http-server.http.port'', ''http-server.https.keystore.path'',
         ''http-server.https.keystore.key'']
      else
        [''coordinator'', ''http-server.http.port'', ''node.internal-address'', ''discovery.uri'',
         ''node-scheduler.include-coordinator'', ''discovery-server.enabled'',
         ''http-server.https.enabled''])"

lemma getSystemProps_keys:
  "getSystemProps p n = Inr sys \<Longrightarrow>
     map fst sys = coordinator_keys (co_HttpsEnabled (pr_Coordinator p))"
  by (auto simp: getSystemProps_def coordinator_keys_def Let_def split: prod.splits if_splits)

lemma coordinator_render_fails_iff:
  assumes "8 \<le> length (pr_Uuid p)"
  shows "(\<exists>err. coordinatorConfigPropsMap rc p = Some (Inl err)) \<longleftrightarrow>
      (co_HttpsEnabled (pr_Coordinator p) \<and> \<not> https_ready p) \<or>
      fst ` set (co_AdditionalProps (pr_Coordinator p)) \<inter>
        set (coordinator_keys (co_HttpsEnabled (pr_Coordinator p))) \<noteq> {}"
proof -
  obtain n where n: "coordinatorSystem p = Some (getSystemProps p n)"
    using assms by (simp add: coordinatorSystem_def getCoordinatorInternalName_Some)
  show ?thesis
  proof (cases "getSystemProps p n")
    case (Inl err)
    then show ?thesis
      using n getSystemProps_fails_iff [of p n] by (simp add: coordinator_props.render_fails_iff)
  next
    case (Inr sys)
    then show ?thesis
      using n getSystemProps_fails_iff [of p n]
      by (auto simp: coordinator_props.render_fails_iff names_system_prop_iff
          simp flip: getSystemProps_keys [OF Inr])
  qed
qed

lemma worker_render_fails_iff:
  assumes "8 \<le> length (pr_Uuid p)"
  shows "(\<exists>err. workerConfigPropsMap rc p = Some (Inl err)) \<longleftrightarrow>
      fst ` set (wo_AdditionalProps (pr_Worker p)) \<inter>
        {''coordinator'', ''http-server.http.port'', ''discovery.uri''} \<noteq> {}"
proof -
  obtain sys where "workerSystem p = Some (Inr sys)" and
    "fst ` set sys = {''coordinator'', ''http-server.http.port'', ''discovery.uri''}"
    using assms
    by (simp add: workerSystem_def workerSystemProps_def getCoordinatorInternalName_Some)
  then show ?thesis
    by (simp add: worker_props.render_fails_iff names_system_prop_iff)
qed

lemma render_total:
  assumes "8 \<le> length (pr_Uuid p)"
  shows "coordinatorConfigPropsMap rc p \<noteq> None" and "workerConfigPropsMap rc p \<noteq> None"
  using assms
  by (simp_all add: coordinator_props.render_panics_iff worker_props.render_panics_iff
      coordinatorSystem_def workerSystem_def workerSystemProps_def getCoordinatorInternalName_Some)

text \<open>
  C22. An additional property never overrides a system property. Rendering the coordinator's file fails
  exactly when HTTPS is enabled with incomplete settings or an additional property names one of the
  coordinator's system properties; the workers' file exactly when one names a system property of the
  workers.
\<close>

theorem system_props_not_overridden:
  assumes "8 \<le> length (pr_Uuid p)"
  shows "((\<exists>err. coordinatorConfigPropsMap rc p = Some (Inl err)) \<longleftrightarrow>
      (co_HttpsEnabled (pr_Coordinator p) \<and> \<not> https_ready p) \<or>
      fst ` set (co_AdditionalProps (pr_Coordinator p)) \<inter>
        set (coordinator_keys (co_HttpsEnabled (pr_Coordinator p))) \<noteq> {}) \<and>
    ((\<exists>err. workerConfigPropsMap rc p = Some (Inl err)) \<longleftrightarrow>
      fst ` set (wo_AdditionalProps (pr_Worker p)) \<inter>
        {''coordinator'', ''http-server.http.port'', ''discovery.uri''} \<noteq> {})"
  by (rule conjI [OF coordinator_render_fails_iff [OF assms] worker_render_fails_iff [OF assms]])

theorem system_props_not_overridden_witness:
  "\<exists>err. workerConfigPropsMap in_order (example_presto\<lparr>pr_Spec := example_spec\<lparr>sp_Worker :=
       (sp_Worker example_spec)\<lparr>wo_AdditionalProps := [(''coordinator'', ''true'')]\<rparr>\<rparr>\<rparr>) = Some (Inl err)"
  by (rule system_props_not_overridden [THEN conjunct2, THEN iffD2])
    (simp_all add: example_defs)

text \<open>
  C38. The ports. With HTTPS the service port is the HTTPS port and the internal HTTP port is a
  different one, 8080 or, when that is taken, 8081; without HTTPS the service port is the HTTP port.
\<close>

theorem http_and_https_ports_differ:
  "let (httpport, httpsport) = getHTTPPort p;
       port = (case se_Port (pr_Service p) of None \<Rightarrow> 8080 | Some q \<Rightarrow> q)
   in if co_HttpsEnabled (pr_Coordinator p)
      then httpsport = port \<and> httpport \<noteq> httpsport \<and> httpport \<in> {8080, 8081}
      else httpport = port \<and> httpsport = -1"
  by (auto simp: getHTTPPort_def prestoPort_def Let_def split: option.splits)

subsection \<open>The contract of a jvm.config builder\<close>

locale jvm_file =
  fixes jvm :: "(string \<Rightarrow> string + quantity) \<Rightarrow> Presto \<Rightarrow> go_error + string"
    and limit extra :: "Presto \<Rightarrow> string" and field :: string
  assumes jvm_cases: "jvm pq p = (case pq (limit p) of
      Inl err \<Rightarrow> Inl (parseError field (limit p) err)
    | Inr q \<Rightarrow> Inr (addDefaultJVMProps [] @ ''-Xmx'' @
        show_int (sint (div64 (div64 (q_Value q) 1024) 1024)) @ ''m'' @ newline @
        (if extra p = [] then [] else extra p @ newline)))"
begin

lemma heap_in_megabytes:
  assumes "pq (limit p) = Inr q" and "0 \<le> sint (q_Value q)"
  shows "jvm pq p = Inr (addDefaultJVMProps [] @ ''-Xmx'' @
     show_int (sint (q_Value q) div 1048576) @ ''m'' @ newline @
     (if extra p = [] then [] else extra p @ newline))"
proof -
  have "sint (div64 (div64 (q_Value q) 1024) 1024) = sint (q_Value q) div 1024 div 1024"
    using assms(2) by (simp add: div64_nonneg pos_imp_zdiv_nonneg_iff)
  then show ?thesis
    using assms(1) by (simp add: jvm_cases flip: zdiv_zmult2_eq)
qed

lemma jvm_fails_iff:
  "jvm pq p = Inl err \<longleftrightarrow>
     (\<exists>msg. pq (limit p) = Inl msg \<and> err = parseError field (limit p) msg)"
  by (auto simp: jvm_cases split: sum.splits)

end

interpretation coordinator_jvm:
  jvm_file coordinatorJVMConfigMap "\<lambda>p. co_MemoryLimit (pr_Coordinator p)"
    "\<lambda>p. co_AdditionalJVMConfig (pr_Coordinator p)" "''presto.Spec.Coordinator.MemoryLimit''"
  by unfold_locales (simp add: coordinatorJVMConfigMap_def Let_def split: sum.split)

interpretation worker_jvm:
  jvm_file workerJVMConfigMap "\<lambda>p. wo_MemoryLimit (pr_Worker p)"
    "\<lambda>p. wo_AdditionalJVMConfig (pr_Worker p)" "''presto.Spec.Worker.MemoryLimit''"
  by unfold_locales (simp add: workerJVMConfigMap_def Let_def split: sum.split)


text \<open>
  C25. The JVM heap is the memory limit in whole megabytes, for the coordinator and for the workers,
  and the user's JVM options come after it, where the JVM takes the last one.
\<close>

theorem jvm_heap_is_memory_limit:
  assumes "pq (co_MemoryLimit (pr_Coordinator p)) = Inr qc" and "0 \<le> sint (q_Value qc)"
    and "pq (wo_MemoryLimit (pr_Worker p)) = Inr qw" and "0 \<le> sint (q_Value qw)"
  shows "coordinatorJVMConfigMap pq p = Inr (addDefaultJVMProps [] @ ''-Xmx'' @
      show_int (sint (q_Value qc) div 1048576) @ ''m'' @ newline @
      (let jvm = co_AdditionalJVMConfig (pr_Coordinator p) in if jvm = [] then [] else jvm @ newline)) \<and>
    workerJVMConfigMap pq p = Inr (addDefaultJVMProps [] @ ''-Xmx'' @
      show_int (sint (q_Value qw) div 1048576) @ ''m'' @ newline @
      (let jvm = wo_AdditionalJVMConfig (pr_Worker p) in if jvm = [] then [] else jvm @ newline))"
  using coordinator_jvm.heap_in_megabytes [of pq p qc] worker_jvm.heap_in_megabytes [of pq p qw] assms
  by (simp add: Let_def)

theorem jvm_heap_is_memory_limit_witness:
  "coordinatorJVMConfigMap example_pq example_presto =
     Inr (addDefaultJVMProps [] @ ''-Xmx1024m'' @ newline)"
proof -
  let ?q = "\<lparr>q_repr = ''1Gi'', q_Value = 1073741824, q_MilliValue = 1073741824000\<rparr>"
  have "show_int 1024 = ''1024''"
    by (simp add: show_int_def show_nat.simps digit_def)
  then show ?thesis
    using jvm_heap_is_memory_limit [of example_pq example_presto ?q ?q]
    by (simp add: example_pq_def example_defs)
qed

subsection \<open>The files of a config map\<close>

lemma buildConfigMap_files:
  assumes cm: "buildConfigMap pq rc p isCoordinator cmName lbls = Some (Inr cm)"
    and maps: "distinct (map fst (sp_AdditionalPrestoPropFiles (pr_Spec p)))"
  shows "\<exists>config jvm.
    (if isCoordinator then coordinatorConfigPropsMap rc p else workerConfigPropsMap rc p) =
       Some (Inr config) \<and>
    (if isCoordinator then coordinatorJVMConfigMap pq p else workerJVMConfigMap pq p) = Inr jvm \<and>
    map_of (cm_Data cm) =
      [nodePropertiesKey \<mapsto> coordinatorNodePropsMap, configPropertiesKey \<mapsto> config,
       jvmConfigKey \<mapsto> jvm, prestoShutdownScript \<mapsto>
         replaceAll ''{MOUNT_PATH}'' (getPrestoPath p) shutdownScriptContent]
      ++ map_of (sp_AdditionalPrestoPropFiles (pr_Spec p)) \<and>
    om_Name (cm_meta cm) = cmName \<and> om_Namespace (cm_meta cm) = pr_Namespace p \<and>
    om_Labels (cm_meta cm) = lbls \<and> om_OwnerReferences (cm_meta cm) = [getOwnerReference p]"
proof -
  have same: "workerNodePropsMap = coordinatorNodePropsMap"
    by (simp add: workerNodePropsMap_def coordinatorNodePropsMap_def)
  have "map_of [(nodePropertiesKey, a), (configPropertiesKey, b), (jvmConfigKey, c),
      (prestoShutdownScript, d)] =
    [nodePropertiesKey \<mapsto> a, configPropertiesKey \<mapsto> b, jvmConfigKey \<mapsto> c, prestoShutdownScript \<mapsto> d]"
    for a b c d :: string
    by (auto simp: file_keys fun_eq_iff)
  then show ?thesis
    using cm maps
    by (auto simp: buildConfigMap_def map_of_put_all distinct_map_go_range map_of_go_range same
        Let_def split: if_splits sum.splits bind_splits)
qed

text \<open>
  C23. The config map of a node holds the four files the operator generates, and the user's additional
  files; an additional file with the name of a generated one replaces it. The object is named,
  labelled and owned as its caller says.
\<close>

theorem config_map_files:
  assumes "buildConfigMap pq rc p isCoordinator cmName lbls = Some (Inr cm)"
    and "distinct (map fst (sp_AdditionalPrestoPropFiles (pr_Spec p)))"
  shows "\<exists>config jvm.
    (if isCoordinator then coordinatorConfigPropsMap rc p else workerConfigPropsMap rc p) =
       Some (Inr config) \<and>
    (if isCoordinator then coordinatorJVMConfigMap pq p else workerJVMConfigMap pq p) = Inr jvm \<and>
    map_of (cm_Data cm) =
      [nodePropertiesKey \<mapsto> coordinatorNodePropsMap, configPropertiesKey \<mapsto> config,
       jvmConfigKey \<mapsto> jvm, prestoShutdownScript \<mapsto>
         replaceAll ''{MOUNT_PATH}'' (getPrestoPath p) shutdownScriptContent]
      ++ map_of (sp_AdditionalPrestoPropFiles (pr_Spec p)) \<and>
    om_Name (cm_meta cm) = cmName \<and> om_Namespace (cm_meta cm) = pr_Namespace p \<and>
    om_Labels (cm_meta cm) = lbls \<and> om_OwnerReferences (cm_meta cm) = [getOwnerReference p]"
  by (rule buildConfigMap_files [OF assms])

theorem config_map_files_witness:
  "\<exists>cm. buildConfigMap example_pq in_order example_presto False ''workerconfig-03f118d2'' [] =
       Some (Inr cm) \<and>
     map_of (cm_Data cm) ''access-control.properties'' = Some ''access-control.name=read-only'' \<and>
     map_of (cm_Data cm) ''node.properties'' = Some coordinatorNodePropsMap"
proof -
  obtain cm where
    cm: "buildConfigMap example_pq in_order example_presto False ''workerconfig-03f118d2'' [] =
      Some (Inr cm)"
    by (simp add: buildConfigMap_def workerConfigPropsMap_def workerSystemProps_def
        getCoordinatorInternalName_Some workerJVMConfigMap_def example_pq_def example_defs Let_def)
  then show ?thesis
    using config_map_files [OF cm] by (auto simp: example_defs file_keys)
qed

end
