(* ===== verification/Catalog.thy ===== *)
theory Catalog
  imports Properties
begin

text \<open>
  Catalogs: the pure functions of \<^verbatim>\<open>catalog.go\<close>. The catalog config map holds one file per catalog of
  the spec and the default catalogs that neither the spec nor a secret names; the pods mount it in
  one projected volume together with the catalog secrets. The function that creates the config map is
  in \<open>Config_Maps\<close>.
\<close>

definition getCatalogVolumeMount ::
  "Presto \<Rightarrow> pod_spec \<Rightarrow> (pod_spec \<times> volume_mount) option" where
  "getCatalogVolumeMount presto podSpec = do {
     configMap \<leftarrow> getCatalogConfigMapName (pr_Uuid presto);
     let volumeProjectionsCatalogs = ConfigMapProjection configMap #
           map (\<lambda>catalogSecret. SecretProjection (cx_SecretName catalogSecret)
                  [(cx_SecretKey catalogSecret, cx_SecretKey catalogSecret @ catalogFileSuffix)])
             (cl_CatalogSecrets (pr_Catalogs presto));
     volName \<leftarrow> getCatalogVolName (pr_Uuid presto);
     let catalogVolume = \<lparr>vol_Name = volName,
           vol_Source = \<lparr>vs_Projected = Some volumeProjectionsCatalogs, vs_Secret = None,
                         vs_Other = []\<rparr>\<rparr>;
     Some (podSpec\<lparr>ps_Volumes := ps_Volumes podSpec @ [catalogVolume]\<rparr>,
       \<lparr>vm_Name = volName, vm_ReadOnly = True,
        vm_MountPath = getPrestoPath presto @ catalogMountPath,
        vm_SubPath = [], vm_MountPropagation = None, vm_SubPathExpr = []\<rparr>) }"

definition defaultCatalogs :: smap where
  "defaultCatalogs = [
     (''jmx'', ''connector.name=jmx'' @ newline),
     (''tpch'', ''connector.name=tpch'' @ newline),
     (''tpcds'', ''connector.name=tpcds'' @ newline)]"

definition catalogPresentInSpec :: "Presto \<Rightarrow> string \<Rightarrow> bool" where
  "catalogPresentInSpec presto catalogName \<longleftrightarrow>
     list_ex (\<lambda>specCatalog. cs_Name specCatalog = catalogName)
       (cl_CatalogSpec (pr_Catalogs presto)) \<or>
     list_ex (\<lambda>specCatalogSecret. cx_SecretKey specCatalogSecret = catalogName)
       (cl_CatalogSecrets (pr_Catalogs presto))"

definition getDefaultCatalogs :: "range_choice \<Rightarrow> Presto \<Rightarrow> smap" where
  "getDefaultCatalogs rc presto =
     fold (\<lambda>(catalogName, content) prunedDefaultCatalog.
         if \<not> catalogPresentInSpec presto catalogName
         then AList.update catalogName content prunedDefaultCatalog
         else prunedDefaultCatalog)
       (go_range (rc DefaultCatalogsLoop) defaultCatalogs) []"

definition catalogContent :: "range_choice \<Rightarrow> nat \<Rightarrow> CatalogSpec \<Rightarrow> string" where
  "catalogContent rc i catalog =
     concat (map prop_line (go_range (rc (CatalogContentLoop i)) (cs_Content catalog)))"

definition buildCatalogConfigMap ::
  "range_choice \<Rightarrow> Presto \<Rightarrow> string \<Rightarrow> smap \<Rightarrow> go_error + configmap" where
  "buildCatalogConfigMap rc presto catalogConfigName lbls =
     (let catalogData = fold (\<lambda>(i, catalog) catalogData.
            AList.update (cs_Name catalog @ catalogFileSuffix) (catalogContent rc i catalog) catalogData)
            (enumerate 0 (cl_CatalogSpec (pr_Catalogs presto))) [];
          catalogData = fold (\<lambda>(k, v) catalogData. AList.update (k @ catalogFileSuffix) v catalogData)
            (go_range (rc PrunedCatalogsLoop) (getDefaultCatalogs rc presto)) catalogData
      in Inr \<lparr>cm_meta = zero_meta\<lparr>om_Name := catalogConfigName,
                om_Namespace := pr_Namespace presto, om_Labels := lbls,
                om_OwnerReferences := [getOwnerReference presto]\<rparr>,
              cm_Data = catalogData\<rparr>)"

subsection \<open>What the catalog files are\<close>

lemma distinct_defaultCatalogs: "distinct (map fst defaultCatalogs)"
  by (simp add: defaultCatalogs_def)

lemma fold_filter_update:
  "fold (\<lambda>(k, v) m. if P k then AList.update k v m else m) es m =
     put_all (filter (\<lambda>(k, v). P k) es) m"
  by (induction es arbitrary: m) (auto simp: put_all_def)

lemma map_of_filter_key:
  "distinct (map fst es) \<Longrightarrow>
     map_of (filter (\<lambda>(k, v). P k) es) k = (if P k then map_of es k else None)"
  by (induction es) (auto simp: map_of_eq_None_iff image_iff)

lemma getDefaultCatalogs_lookup:
  "map_of (getDefaultCatalogs rc p) k =
     (if catalogPresentInSpec p k then None else map_of defaultCatalogs k)"
proof -
  let ?es = "go_range (rc DefaultCatalogsLoop) defaultCatalogs"
  have d: "distinct (map fst ?es)"
    by (simp add: distinct_map_go_range distinct_defaultCatalogs)
  then have "distinct (map fst (filter (\<lambda>(k, v). \<not> catalogPresentInSpec p k) ?es))"
    by (rule distinct_map_filter)
  then have "map_of (getDefaultCatalogs rc p) =
      map_of (filter (\<lambda>(k, v). \<not> catalogPresentInSpec p k) ?es)"
    unfolding getDefaultCatalogs_def fold_filter_update by (simp add: map_of_put_all)
  then show ?thesis
    by (simp add: map_of_filter_key [OF d] map_of_go_range distinct_defaultCatalogs)
qed

lemma distinct_getDefaultCatalogs: "distinct (map fst (getDefaultCatalogs rc p))"
  unfolding getDefaultCatalogs_def fold_filter_update by simp

text \<open>Files named by a key and a suffix: the suffix keeps keys apart and other names out.\<close>

lemma map_of_suffixed:
  "map_of (fold (\<lambda>(k, v). AList.update (k @ suf) v) es m) =
     map_of m ++ map_of (map (\<lambda>(k, v). (k @ suf, v)) (rev es))"
proof (induction es arbitrary: m)
  case (Cons e es)
  then show ?case
    by (cases e) (auto simp: update_conv' fun_eq_iff map_add_def split: option.splits)
qed simp

lemma map_of_suffix_key:
  "map_of (map (\<lambda>(k, v). (k @ suf, v)) es) (n @ suf) = map_of es n"
  by (induction es) auto

lemma map_of_suffix_other:
  "map_of (map (\<lambda>(k, v). (k @ suf, v)) es) f \<noteq> None \<Longrightarrow> \<exists>n. f = n @ suf"
  by (induction es) (auto split: if_splits)

definition spec_catalogs :: "range_choice \<Rightarrow> Presto \<Rightarrow> smap" where
  "spec_catalogs rc p = map (\<lambda>(i, catalog). (cs_Name catalog, catalogContent rc i catalog))
     (enumerate 0 (cl_CatalogSpec (pr_Catalogs p)))"

lemma fold_spec_catalogs:
  "fold (\<lambda>(i, catalog). AList.update (cs_Name catalog @ catalogFileSuffix) (catalogContent rc i catalog))
     (enumerate 0 (cl_CatalogSpec (pr_Catalogs p))) [] =
   fold (\<lambda>(k, v). AList.update (k @ catalogFileSuffix) v) (spec_catalogs rc p) []"
  by (simp add: spec_catalogs_def fold_map o_def case_prod_unfold)

lemma spec_catalogs_names:
  "map fst (spec_catalogs rc p) = map cs_Name (cl_CatalogSpec (pr_Catalogs p))"
proof -
  have "map fst (spec_catalogs rc p) =
      map cs_Name (map snd (enumerate 0 (cl_CatalogSpec (pr_Catalogs p))))"
    by (simp add: spec_catalogs_def case_prod_unfold del: map_snd_enumerate)
  then show ?thesis by simp
qed

lemma spec_catalogs_None:
  "map_of (rev (spec_catalogs rc p)) n = None \<longleftrightarrow>
     \<not> list_ex (\<lambda>c. cs_Name c = n) (cl_CatalogSpec (pr_Catalogs p))"
proof -
  have "map_of (rev (spec_catalogs rc p)) n = None \<longleftrightarrow> n \<notin> set (map fst (spec_catalogs rc p))"
    by (simp add: map_of_eq_None_iff)
  also have "\<dots> \<longleftrightarrow> \<not> list_ex (\<lambda>c. cs_Name c = n) (cl_CatalogSpec (pr_Catalogs p))"
    unfolding spec_catalogs_names by (auto simp: list_ex_iff)
  finally show ?thesis .
qed

lemma catalog_data:
  assumes "buildCatalogConfigMap rc p nm lbls = Inr cm"
  shows "map_of (cm_Data cm) =
    map_of (map (\<lambda>(k, v). (k @ catalogFileSuffix, v)) (rev (spec_catalogs rc p))) ++
    map_of (map (\<lambda>(k, v). (k @ catalogFileSuffix, v))
      (rev (go_range (rc PrunedCatalogsLoop) (getDefaultCatalogs rc p))))"
  using assms
  unfolding buildCatalogConfigMap_def fold_spec_catalogs
  by (auto simp: map_of_suffixed Let_def)

lemma map_of_rev_distinct:
  "distinct (map fst es) \<Longrightarrow> map_of (rev es) = map_of es"
  by (metis distinct_rev map_of_inject_set rev_map set_rev)

lemma defaultCatalogs_lookup:
  "map_of defaultCatalogs n =
     (if n \<in> {''jmx'', ''tpch'', ''tpcds''} then Some (''connector.name='' @ n @ newline) else None)"
  by (simp add: defaultCatalogs_def)

lemma spec_over_default:
  "(map_of (rev (spec_catalogs rc p)) ++ map_of (getDefaultCatalogs rc p)) n =
     (case map_of (rev (spec_catalogs rc p)) n of
        Some content \<Rightarrow> Some content
      | None \<Rightarrow> if n \<in> {''jmx'', ''tpch'', ''tpcds''} \<and>
                   n \<notin> cx_SecretKey ` set (cl_CatalogSecrets (pr_Catalogs p))
                then Some (''connector.name='' @ n @ newline) else None)"
proof (cases "map_of (rev (spec_catalogs rc p)) n")
  case None
  then have "\<not> list_ex (\<lambda>c. cs_Name c = n) (cl_CatalogSpec (pr_Catalogs p))"
    by (rule spec_catalogs_None [THEN iffD1])
  then have "catalogPresentInSpec p n \<longleftrightarrow> n \<in> cx_SecretKey ` set (cl_CatalogSecrets (pr_Catalogs p))"
    by (auto simp: catalogPresentInSpec_def list_ex_iff)
  with None show ?thesis
    by (simp add: map_add_def getDefaultCatalogs_lookup defaultCatalogs_lookup)
next
  case (Some content)
  then have "catalogPresentInSpec p n"
    using spec_catalogs_None [of rc p n] by (simp add: catalogPresentInSpec_def)
  with Some show ?thesis
    by (simp add: map_add_def getDefaultCatalogs_lookup)
qed

text \<open>
  C24. The files of the catalog config map are exactly these: for each catalog of the spec, the rendered
  content of the last entry with that name; for each default catalog (jmx, tpch, tpcds) that neither
  the spec nor a catalog secret names, its connector; and no other file.
\<close>

theorem catalog_files:
  assumes "buildCatalogConfigMap rc p nm lbls = Inr cm"
  shows "(\<forall>n. map_of (cm_Data cm) (n @ ''.properties'') =
      (case map_of (rev (spec_catalogs rc p)) n of
         Some content \<Rightarrow> Some content
       | None \<Rightarrow> if n \<in> {''jmx'', ''tpch'', ''tpcds''} \<and>
                    n \<notin> cx_SecretKey ` set (cl_CatalogSecrets (pr_Catalogs p))
                 then Some (''connector.name='' @ n @ newline) else None)) \<and>
    (\<forall>f \<in> dom (map_of (cm_Data cm)). \<exists>n. f = n @ ''.properties'')"
proof (intro conjI allI ballI)
  note data = catalog_data [OF assms]
  let ?defs = "rev (go_range (rc PrunedCatalogsLoop) (getDefaultCatalogs rc p))"
  have defs: "map_of ?defs = map_of (getDefaultCatalogs rc p)"
    by (simp add: map_of_rev_distinct distinct_map_go_range map_of_go_range
        distinct_getDefaultCatalogs)
  fix n
  have "map_of (cm_Data cm) (n @ catalogFileSuffix) =
      (map_of (rev (spec_catalogs rc p)) ++ map_of (getDefaultCatalogs rc p)) n"
    unfolding data map_add_def map_of_suffix_key defs by (rule refl)
  then show "map_of (cm_Data cm) (n @ ''.properties'') =
      (case map_of (rev (spec_catalogs rc p)) n of
         Some content \<Rightarrow> Some content
       | None \<Rightarrow> if n \<in> {''jmx'', ''tpch'', ''tpcds''} \<and>
                    n \<notin> cx_SecretKey ` set (cl_CatalogSecrets (pr_Catalogs p))
                 then Some (''connector.name='' @ n @ newline) else None)"
    unfolding catalogFileSuffix_def by (simp only: spec_over_default)
next
  fix f
  assume "f \<in> dom (map_of (cm_Data cm))"
  then show "\<exists>n. f = n @ ''.properties''"
    unfolding catalog_data [OF assms] dom_map_add catalogFileSuffix_def Un_iff domIff
    by (elim disjE) (erule map_of_suffix_other)+
qed

theorem catalog_files_witness:
  "\<exists>cm. buildCatalogConfigMap in_order example_presto ''catalogconfig-03f118d2'' [] = Inr cm \<and>
     map_of (cm_Data cm) ''newtpch.properties'' = Some (''connector.name=tpch'' @ newline) \<and>
     map_of (cm_Data cm) ''jmx.properties'' = Some (''connector.name=jmx'' @ newline) \<and>
     map_of (cm_Data cm) ''hive.properties'' = None"
proof -
  obtain cm where
    cm: "buildCatalogConfigMap in_order example_presto ''catalogconfig-03f118d2'' [] = Inr cm"
    by (simp add: buildCatalogConfigMap_def Let_def)
  have look: "map_of (rev (spec_catalogs in_order example_presto)) =
      [''newtpch'' \<mapsto> ''connector.name=tpch'' @ newline, ''newtpcds'' \<mapsto> ''connector.name=tpcds'' @ newline]"
    by (auto simp: spec_catalogs_def catalogContent_def prop_line_def example_defs fun_eq_iff)
  have "map_of (cm_Data cm) (''newtpch'' @ ''.properties'') = Some (''connector.name=tpch'' @ newline)"
    "map_of (cm_Data cm) (''jmx'' @ ''.properties'') = Some (''connector.name=jmx'' @ newline)"
    "map_of (cm_Data cm) (''hive'' @ ''.properties'') = None"
    unfolding catalog_files [OF cm, THEN conjunct1, THEN spec] look
    by (simp_all add: example_defs)
  with cm show ?thesis by auto
qed

end
