(* ===== verification/Client.thy ===== *)
theory Client
  imports Presto_Types Naming
begin

text \<open>
  The code outside the repository that the operator calls, as the parameter \<open>lib\<close>: the Kubernetes
  client (reads and writes), the metrics client, the UUID generator, the clock, the quantity parser
  and the constructor of a not-found error. Every call acts on a world \<open>'w\<close> that nothing else is
  known of, and returns a new one, so a fact proved here holds for every behaviour of the API server,
  failures and changes by others included. The order of the \<^verbatim>\<open>range\<close> loops is a field too.

  The state of the operator is the world, the requests it has sent so far with the verdict of the
  server, the events it has recorded and the \<^verbatim>\<open>registeredPrestos\<close> map. \<open>emits m Q\<close> says how a
  function adds to the requests; its rules follow the structure of the code.
\<close>

type_synonym nsname = "string \<times> string"

record 'w lib =
  l_Get :: "nsname \<Rightarrow> 'w \<Rightarrow> (go_error + Presto) \<times> 'w"
  l_ListPresto :: "string \<Rightarrow> smap \<Rightarrow> 'w \<Rightarrow> (go_error + Presto list) \<times> 'w"
  l_ListService :: "string \<Rightarrow> smap \<Rightarrow> 'w \<Rightarrow> (go_error + service list) \<times> 'w"
  l_ListConfigMap :: "string \<Rightarrow> smap \<Rightarrow> 'w \<Rightarrow> (go_error + configmap list) \<times> 'w"
  l_ListReplicaSet :: "string \<Rightarrow> smap \<Rightarrow> 'w \<Rightarrow> (go_error + replicaset list) \<times> 'w"
  l_ListHPA :: "string \<Rightarrow> smap \<Rightarrow> 'w \<Rightarrow> (go_error + hpa list) \<times> 'w"
  l_ListPod :: "string \<Rightarrow> smap \<Rightarrow> 'w \<Rightarrow> (go_error + pod list) \<times> 'w"
  l_ListPodMetrics :: "string \<Rightarrow> smap \<Rightarrow> 'w \<Rightarrow> (go_error + pod_metrics list) \<times> 'w"
  l_CreateService :: "service \<Rightarrow> 'w \<Rightarrow> (go_error + service) \<times> 'w"
  l_CreateConfigMap :: "configmap \<Rightarrow> 'w \<Rightarrow> (go_error + configmap) \<times> 'w"
  l_CreateReplicaSet :: "replicaset \<Rightarrow> 'w \<Rightarrow> (go_error + replicaset) \<times> 'w"
  l_UpdateReplicaSet :: "replicaset \<Rightarrow> 'w \<Rightarrow> (go_error + replicaset) \<times> 'w"
  l_CreateHPA :: "hpa \<Rightarrow> 'w \<Rightarrow> (go_error + hpa) \<times> 'w"
  l_UpdateHPA :: "hpa \<Rightarrow> 'w \<Rightarrow> (go_error + hpa) \<times> 'w"
  l_DeleteHPA :: "hpa \<Rightarrow> 'w \<Rightarrow> (go_error + unit) \<times> 'w"
  l_UpdateStatus :: "Presto \<Rightarrow> 'w \<Rightarrow> (go_error + Presto) \<times> 'w"
  l_NewUUID :: "'w \<Rightarrow> string option \<times> 'w"
  l_Now :: "'w \<Rightarrow> int \<times> 'w"
  l_ParseQuantity :: "string \<Rightarrow> string + quantity"
  l_NewNotFound :: "string \<Rightarrow> string \<Rightarrow> go_error"
  l_range :: range_choice

datatype request =
    CreateService service
  | CreateConfigMap configmap
  | CreateReplicaSet replicaset
  | UpdateReplicaSet replicaset
  | CreateHPA hpa
  | UpdateHPA hpa
  | DeleteHPA hpa
  | UpdateStatus Presto

text \<open>A request that writes an object other than the status of a Presto resource.\<close>

fun object_write :: "request \<Rightarrow> bool" where
  "object_write (UpdateStatus p) = False"
| "object_write _ = True"

type_synonym log = "(request \<times> bool) list"

definition object_writes :: "log \<Rightarrow> log" where
  "object_writes ws = filter (\<lambda>(r, ok). object_write r) ws"

lemma object_writes_simps [simp]:
  "object_writes [] = []"
  "object_writes ((r, ok) # ws) =
     (if object_write r then (r, ok) # object_writes ws else object_writes ws)"
  "object_writes (ws @ vs) = object_writes ws @ object_writes vs"
  by (simp_all add: object_writes_def)

record op_event =
  ev_Type :: string
  ev_Reason :: string
  ev_Message :: string

record 'w op_state =
  os_world :: 'w
  os_reqs :: log
  os_events :: "op_event list"
  os_registered :: "(nsname \<times> Presto) list"

subsection \<open>Calls\<close>

definition accepted :: "go_error + 'a \<Rightarrow> bool" where
  "accepted r \<longleftrightarrow> (case r of Inl e \<Rightarrow> False | Inr x \<Rightarrow> True)"

lemma accepted_simps [simp]: "accepted (Inr x)" "\<not> accepted (Inl e)"
  by (simp_all add: accepted_def)

definition call :: "('w \<Rightarrow> 'a \<times> 'w) \<Rightarrow> ('w op_state, 'a) go" where
  "call f = (\<lambda>s. case f (os_world s) of (r, w) \<Rightarrow> (Some r, s\<lparr>os_world := w\<rparr>))"

definition send :: "request \<Rightarrow> ('w \<Rightarrow> (go_error + 'a) \<times> 'w) \<Rightarrow> ('w op_state, go_error + 'a) go" where
  "send req f = (\<lambda>s. case f (os_world s) of
     (r, w) \<Rightarrow> (Some r, s\<lparr>os_world := w, os_reqs := os_reqs s @ [(req, accepted r)]\<rparr>))"

text \<open>\<^verbatim>\<open>eventRecorder.Eventf\<close>, after formatting.\<close>

definition eventf :: "string \<Rightarrow> string \<Rightarrow> string \<Rightarrow> ('w op_state, unit) go" where
  "eventf typ reason msg = (\<lambda>s. (Some (), s\<lparr>os_events := os_events s @
     [\<lparr>ev_Type = typ, ev_Reason = reason, ev_Message = msg\<rparr>]\<rparr>))"

subsection \<open>What a function sends\<close>

definition emits :: "('w op_state, 'a) go \<Rightarrow> ('a option \<Rightarrow> log \<Rightarrow> bool) \<Rightarrow> bool" where
  "emits m Q \<longleftrightarrow> (\<forall>s. \<exists>ws. os_reqs (snd (m s)) = os_reqs s @ ws \<and> Q (fst (m s)) ws)"

lemma emitsD:
  "emits m Q \<Longrightarrow> m s = (r, t) \<Longrightarrow> \<exists>ws. os_reqs t = os_reqs s @ ws \<and> Q r ws"
  by (metis emits_def fst_conv snd_conv)

lemma emits_mono: "emits m P \<Longrightarrow> (\<And>r ws. P r ws \<Longrightarrow> Q r ws) \<Longrightarrow> emits m Q"
  by (meson emits_def)

lemma emits_ret: "Q (Some x) [] \<Longrightarrow> emits (go_ret x) Q"
  by (simp add: emits_def go_ret_def)

lemma emits_lift: "Q r [] \<Longrightarrow> emits (go_lift r) Q"
  by (simp add: emits_def go_lift_def)

lemma emits_call: "(\<And>r. Q (Some r) []) \<Longrightarrow> emits (call f) Q"
  by (simp add: emits_def call_def split: prod.splits)

lemma emits_send: "(\<And>r. Q (Some r) [(req, accepted r)]) \<Longrightarrow> emits (send req f) Q"
  by (simp add: emits_def send_def split: prod.splits)

lemma emits_eventf: "Q (Some ()) [] \<Longrightarrow> emits (eventf t r m) Q"
  by (simp add: emits_def eventf_def)

lemma emits_bind:
  assumes "emits m (\<lambda>r ws. case r of None \<Rightarrow> Q None ws
      | Some x \<Rightarrow> emits (f x) (\<lambda>r' ws'. Q r' (ws @ ws')))"
  shows "emits (go_bind m f) Q"
  unfolding emits_def
proof
  fix s
  obtain r t where m: "m s = (r, t)" by force
  then obtain ws where ws: "os_reqs t = os_reqs s @ ws"
    "case r of None \<Rightarrow> Q None ws | Some x \<Rightarrow> emits (f x) (\<lambda>r' ws'. Q r' (ws @ ws'))"
    using emitsD [OF assms] by blast
  show "\<exists>ws. os_reqs (snd (go_bind m f s)) = os_reqs s @ ws \<and> Q (fst (go_bind m f s)) ws"
  proof (cases r)
    case None
    with m ws show ?thesis by (simp add: go_bind_def)
  next
    case (Some x)
    obtain r' t' where f: "f x t = (r', t')" by force
    with Some ws(2) obtain ws' where "os_reqs t' = os_reqs t @ ws'" "Q r' (ws @ ws')"
      using emitsD [of "f x"] by force
    with m f Some ws(1) show ?thesis by (simp add: go_bind_def)
  qed
qed

lemma emits_bind_call:
  "(\<And>r. emits (f r) Q) \<Longrightarrow> emits (go_bind (call g) f) Q"
  by (rule emits_bind) (simp add: emits_call)

lemma emits_bind_lift:
  "(r = None \<Longrightarrow> Q None []) \<Longrightarrow> (\<And>x. r = Some x \<Longrightarrow> emits (f x) Q) \<Longrightarrow>
     emits (go_bind (go_lift r) f) Q"
  by (rule emits_bind, rule emits_lift) (simp split: option.split)

lemma emits_bind_send:
  "(\<And>r. emits (f r) (\<lambda>x ws. Q x ((req, accepted r) # ws))) \<Longrightarrow>
     emits (go_bind (send req g) f) Q"
  by (rule emits_bind) (simp add: emits_send)

lemma emits_bind_eventf:
  "emits (f ()) Q \<Longrightarrow> emits (go_bind (eventf t r m) f) Q"
  by (rule emits_bind) (simp add: emits_eventf)

lemma emits_if:
  "(b \<Longrightarrow> emits m Q) \<Longrightarrow> (\<not> b \<Longrightarrow> emits n Q) \<Longrightarrow> emits (if b then m else n) Q"
  by simp

lemma emits_case_sum:
  "(\<And>e. x = Inl e \<Longrightarrow> emits (f e) Q) \<Longrightarrow> (\<And>y. x = Inr y \<Longrightarrow> emits (g y) Q) \<Longrightarrow>
     emits (case x of Inl e \<Rightarrow> f e | Inr y \<Rightarrow> g y) Q"
  by (cases x) simp_all

lemma emits_case_option:
  "(x = None \<Longrightarrow> emits m Q) \<Longrightarrow> (\<And>y. x = Some y \<Longrightarrow> emits (g y) Q) \<Longrightarrow>
     emits (case x of None \<Rightarrow> m | Some y \<Rightarrow> g y) Q"
  by (cases x) simp_all

lemma emits_case_prod:
  "(\<And>a b. x = (a, b) \<Longrightarrow> emits (f a b) Q) \<Longrightarrow> emits (case x of (a, b) \<Rightarrow> f a b) Q"
  by (cases x) simp

lemmas emits_rules = emits_ret emits_lift emits_call emits_send emits_eventf
  emits_bind_call emits_bind_lift emits_bind_send emits_bind_eventf
  emits_if emits_case_sum emits_case_option emits_case_prod

lemma emits_bind_if:
  "(b \<Longrightarrow> emits (go_bind m f) Q) \<Longrightarrow> (\<not> b \<Longrightarrow> emits (go_bind n f) Q) \<Longrightarrow>
     emits (go_bind (if b then m else n) f) Q"
  by simp

lemma emits_bind_assoc:
  "emits (go_bind m (\<lambda>x. go_bind (g x) f)) Q \<Longrightarrow> emits (go_bind (go_bind m g) f) Q"
  by (simp add: go_bind_assoc)

lemma emits_bind_ret: "emits (f x) Q \<Longrightarrow> emits (go_bind (go_ret x) f) Q"
  by simp

lemma emits_bind_case_prod:
  "(\<And>a b. x = (a, b) \<Longrightarrow> emits (go_bind (g a b) f) Q) \<Longrightarrow>
     emits (go_bind (case x of (a, b) \<Rightarrow> g a b) f) Q"
  by (cases x) simp

lemma emits_bind_via:
  assumes "emits m P"
    and "\<And>ws. P None ws \<Longrightarrow> Q None ws"
    and "\<And>x ws. P (Some x) ws \<Longrightarrow> emits (f x) (\<lambda>r ws'. Q r (ws @ ws'))"
  shows "emits (go_bind m f) Q"
  by (rule emits_bind, rule emits_mono [OF assms(1)]) (auto split: option.split intro: assms)

lemma emits_send_answer:
  "(\<And>r w w'. f w = (r, w') \<Longrightarrow> Q (Some r) [(req, accepted r)]) \<Longrightarrow> emits (send req f) Q"
  by (simp add: emits_def send_def split: prod.split)

lemma emits_bind_send_answer:
  "(\<And>r w w'. g w = (r, w') \<Longrightarrow> emits (f r) (\<lambda>x ws. Q x ((req, accepted r) # ws))) \<Longrightarrow>
     emits (go_bind (send req g) f) Q"
  by (rule emits_bind, rule emits_send_answer) simp

lemma emits_call_answer:
  "(\<And>r w w'. f w = (r, w') \<Longrightarrow> Q (Some r) []) \<Longrightarrow> emits (call f) Q"
  by (simp add: emits_def call_def split: prod.split)

lemma emits_bind_call_answer:
  "(\<And>r w w'. g w = (r, w') \<Longrightarrow> emits (f r) Q) \<Longrightarrow> emits (go_bind (call g) f) Q"
  by (rule emits_bind, rule emits_call_answer) simp

lemma emits_bind_quiet:
  assumes "emits m (\<lambda>r ws. ws = [] \<and> A r)" and "A None \<Longrightarrow> Q None []"
    and "\<And>x. A (Some x) \<Longrightarrow> emits (f x) Q"
  shows "emits (go_bind m f) Q"
  using assms(2,3) by (intro emits_bind_via [OF assms(1)]) auto

end
