(* ===== verification/Config_Maps.thy ===== *)
theory Config_Maps
  imports Catalog Client
begin

text \<open>
  Creating the config maps: \<^verbatim>\<open>createConfigMap\<close> of \<^verbatim>\<open>common_util.go\<close>, \<^verbatim>\<open>createCoordinatorConfig\<close> and
  \<^verbatim>\<open>createWorkerConfig\<close> of \<^verbatim>\<open>presto_properties.go\<close> and \<^verbatim>\<open>createCatalogConfig\<close> of \<^verbatim>\<open>catalog.go\<close>. A config map
  that is listed under its name is left alone, whatever it contains.

  \<open>write_outcome\<close> is the contract that every function which ensures an object shares. The locale
  \<open>config_map_creator\<close> is the interface of the three functions; they are its interpretations.
\<close>

text \<open>
  The outcome of a function that ensures one object: it sends no write and reports no change, or it
  sends one write \<open>req\<close> with \<open>\<phi> req\<close> and reports either a change or an error, a change whenever the
  server accepted the write. A panic comes before any write.
\<close>

definition write_outcome ::
  "(request \<Rightarrow> bool) \<Rightarrow> (bool \<times> go_error option) option \<Rightarrow> log \<Rightarrow> bool" where
  "write_outcome \<phi> r ws \<longleftrightarrow> (case r of
      None \<Rightarrow> ws = []
    | Some (changed, err) \<Rightarrow>
        (ws = [] \<and> \<not> changed) \<or>
        (\<exists>req ok. ws = [(req, ok)] \<and> \<phi> req \<and> changed = (err = None) \<and> (ok \<longrightarrow> changed)))"

lemma write_outcome_simps [simp]:
  "write_outcome \<phi> None [] = True"
  "write_outcome \<phi> (Some (changed, err)) [] = (\<not> changed)"
  "write_outcome \<phi> (Some (changed, err)) [(req, ok)] \<longleftrightarrow>
     \<phi> req \<and> changed = (err = None) \<and> (ok \<longrightarrow> changed)"
  by (auto simp: write_outcome_def)

lemma write_outcome_mono:
  "write_outcome \<phi> r ws \<Longrightarrow> (\<And>req. \<phi> req \<Longrightarrow> \<psi> req) \<Longrightarrow> write_outcome \<psi> r ws"
  by (auto simp: write_outcome_def split: option.splits)

definition createConfigMap ::
  "'w lib \<Rightarrow> string \<Rightarrow> Presto \<Rightarrow> configmap \<Rightarrow> smap \<Rightarrow> ('w op_state, bool \<times> go_error option) go" where
  "createConfigMap L configMapName presto configMap lbls =
     go_bind (call (l_ListConfigMap L (pr_Namespace presto) lbls)) (\<lambda>oldConfigMaps.
       case oldConfigMaps of
         Inl err \<Rightarrow> go_ret (False, Some err)
       | Inr items \<Rightarrow>
           if list_ex (\<lambda>cm. om_Name (cm_meta cm) = configMapName) items
           then go_ret (False, None)
           else go_bind (send (CreateConfigMap configMap) (l_CreateConfigMap L configMap)) (\<lambda>created.
             case created of
               Inl createErr \<Rightarrow> go_ret (False, Some createErr)
             | Inr _ \<Rightarrow> go_ret (True, None)))"

definition createCoordinatorConfig ::
  "'w lib \<Rightarrow> Presto \<Rightarrow> smap \<Rightarrow> ('w op_state, bool \<times> go_error option) go" where
  "createCoordinatorConfig L presto lbls =
     go_bind (go_lift (getCoordinatorConfigMapName (pr_Uuid presto))) (\<lambda>configMapName.
     go_bind (go_lift (buildConfigMap (l_ParseQuantity L) (l_range L) presto True configMapName lbls))
       (\<lambda>configMap. case configMap of
         Inl err \<Rightarrow> go_ret (False, Some err)
       | Inr configMap \<Rightarrow> createConfigMap L configMapName presto configMap lbls))"

definition createWorkerConfig ::
  "'w lib \<Rightarrow> Presto \<Rightarrow> smap \<Rightarrow> ('w op_state, bool \<times> go_error option) go" where
  "createWorkerConfig L presto lbls =
     go_bind (go_lift (getWorkerConfigMapName (pr_Uuid presto))) (\<lambda>configMapName.
     go_bind (go_lift (buildConfigMap (l_ParseQuantity L) (l_range L) presto False configMapName lbls))
       (\<lambda>configMap. case configMap of
         Inl err \<Rightarrow> go_ret (False, Some err)
       | Inr configMap \<Rightarrow> createConfigMap L configMapName presto configMap lbls))"

definition createCatalogConfig ::
  "'w lib \<Rightarrow> Presto \<Rightarrow> smap \<Rightarrow> ('w op_state, bool \<times> go_error option) go" where
  "createCatalogConfig L presto lbls =
     go_bind (go_lift (getCatalogConfigMapName (pr_Uuid presto))) (\<lambda>catalogConfigName.
       case buildCatalogConfigMap (l_range L) presto catalogConfigName lbls of
         Inl err \<Rightarrow> go_ret (False, Some err)
       | Inr configMap \<Rightarrow> createConfigMap L catalogConfigName presto configMap lbls)"

subsection \<open>The interface of the three functions\<close>

text \<open>The meta data every config map of the operator has.\<close>

definition owned_meta :: "Presto \<Rightarrow> string \<Rightarrow> smap \<Rightarrow> object_meta \<Rightarrow> bool" where
  "owned_meta p nm lbls m \<longleftrightarrow> om_Name m = nm \<and> om_Namespace m = pr_Namespace p \<and>
     om_Labels m = lbls \<and> om_OwnerReferences m = [getOwnerReference p]"

lemma buildConfigMap_owned:
  "buildConfigMap pq rc p b nm lbls = Some (Inr cm) \<Longrightarrow> owned_meta p nm lbls (cm_meta cm)"
  by (auto simp: buildConfigMap_def owned_meta_def Let_def
      split: bind_splits sum.splits if_splits)

lemma buildCatalogConfigMap_owned:
  "buildCatalogConfigMap rc p nm lbls = Inr cm \<Longrightarrow> owned_meta p nm lbls (cm_meta cm)"
  by (auto simp: buildCatalogConfigMap_def owned_meta_def Let_def)

lemma createConfigMap_emits:
  "emits (createConfigMap L nm p cm lbls) (write_outcome (\<lambda>req. req = CreateConfigMap cm))"
  unfolding createConfigMap_def by (intro emits_rules) simp_all

locale config_map_creator =
  fixes create :: "'w lib \<Rightarrow> Presto \<Rightarrow> smap \<Rightarrow> ('w op_state, bool \<times> go_error option) go"
    and nm :: "string \<Rightarrow> string option"
    and build :: "'w lib \<Rightarrow> Presto \<Rightarrow> string \<Rightarrow> smap \<Rightarrow> (go_error + configmap) option"
  assumes create_steps: "create L p lbls =
      go_bind (go_lift (nm (pr_Uuid p))) (\<lambda>n.
      go_bind (go_lift (build L p n lbls)) (\<lambda>r. case r of
          Inl err \<Rightarrow> go_ret (False, Some err)
        | Inr cm \<Rightarrow> createConfigMap L n p cm lbls))"
    and build_owned: "build L p n lbls = Some (Inr cm) \<Longrightarrow> owned_meta p n lbls (cm_meta cm)"
begin

lemma create_emits:
  "emits (create L p lbls) (write_outcome (\<lambda>req. \<exists>n cm. req = CreateConfigMap cm \<and>
     nm (pr_Uuid p) = Some n \<and> build L p n lbls = Some (Inr cm) \<and> owned_meta p n lbls (cm_meta cm)))"
  unfolding create_steps
  by (intro emits_rules emits_mono [OF createConfigMap_emits])
    (auto elim!: write_outcome_mono intro: build_owned)

text \<open>A listed config map of that name is left alone, even when the spec has changed.\<close>

lemma create_exists:
  assumes "nm (pr_Uuid p) = Some n" and "build L p n lbls = Some (Inr cm)"
    and "l_ListConfigMap L (pr_Namespace p) lbls (os_world s) = (Inr items, w)"
    and "\<exists>old \<in> set items. om_Name (cm_meta old) = n"
  shows "create L p lbls s = (Some (False, None), s\<lparr>os_world := w\<rparr>)"
  using assms
  by (auto simp: create_steps createConfigMap_def call_def go_ret_def go_bind_def list_ex_iff)

text \<open>Otherwise it is created.\<close>

lemma create_missing:
  assumes "nm (pr_Uuid p) = Some n" and "build L p n lbls = Some (Inr cm)"
    and "l_ListConfigMap L (pr_Namespace p) lbls (os_world s) = (Inr items, w)"
    and "\<forall>old \<in> set items. om_Name (cm_meta old) \<noteq> n"
    and "l_CreateConfigMap L cm w = (Inr cm', w')"
  shows "create L p lbls s =
    (Some (True, None), s\<lparr>os_world := w', os_reqs := os_reqs s @ [(CreateConfigMap cm, True)]\<rparr>)"
  using assms
  by (auto simp: create_steps createConfigMap_def call_def send_def go_ret_def go_bind_def list_ex_iff)

end

interpretation coordinator_cm: config_map_creator createCoordinatorConfig getCoordinatorConfigMapName
    "\<lambda>L p n lbls. buildConfigMap (l_ParseQuantity L) (l_range L) p True n lbls"
  by unfold_locales (simp_all add: createCoordinatorConfig_def buildConfigMap_owned)

interpretation worker_cm: config_map_creator createWorkerConfig getWorkerConfigMapName
    "\<lambda>L p n lbls. buildConfigMap (l_ParseQuantity L) (l_range L) p False n lbls"
  by unfold_locales (simp_all add: createWorkerConfig_def buildConfigMap_owned)

interpretation catalog_cm: config_map_creator createCatalogConfig getCatalogConfigMapName
    "\<lambda>L p n lbls. Some (buildCatalogConfigMap (l_range L) p n lbls)"
  by unfold_locales (simp_all add: createCatalogConfig_def buildCatalogConfigMap_owned)

end
