(* ===== verification/Services.thy ===== *)
theory Services
  imports Config_Maps
begin

text \<open>
  \<^verbatim>\<open>services.go\<close>: the headless service that gives the coordinator pod its DNS name, and the service that
  exposes the coordinator.

  Both functions add a label to the map the caller passes, which the caller goes on using, so they
  return the map as it is afterwards.
\<close>

text \<open>The object that \<^verbatim>\<open>createHeadLessPodDiscoverySvc\<close> may create.\<close>

definition headlessServiceObject :: "Presto \<Rightarrow> string \<Rightarrow> smap \<Rightarrow> service" where
  "headlessServiceObject presto svcName lbls =
     \<lparr>svc_meta = zero_meta\<lparr>om_Name := svcName, om_Namespace := pr_Namespace presto,
        om_Labels := lbls, om_OwnerReferences := [getOwnerReference presto]\<rparr>,
      svc_spec = zero_service_spec\<lparr>ss_Selector := lbls, ss_ClusterIP := ''None''\<rparr>\<rparr>"

definition createHeadLessPodDiscoverySvc ::
  "'w lib \<Rightarrow> Presto \<Rightarrow> smap \<Rightarrow> ('w op_state, go_error option \<times> bool \<times> smap) go" where
  "createHeadLessPodDiscoverySvc L presto lbls =
     (let (svcKey, svcLabelVal) = getPodDiscoveryServiceLabel (pr_Uuid presto);
          lbls = AList.update svcKey svcLabelVal lbls
      in go_bind (go_lift (getPodDiscoveryServiceName (pr_Uuid presto))) (\<lambda>svcName.
         let service = headlessServiceObject presto svcName lbls
         in go_bind (call (l_ListService L (pr_Namespace presto) [(svcKey, svcLabelVal)])) (\<lambda>oldService.
           case oldService of
             Inl err \<Rightarrow> go_ret (Some err, False, lbls)
           | Inr items \<Rightarrow>
               if length items = 0
               then go_bind (send (CreateService service) (l_CreateService L service)) (\<lambda>created.
                 case created of
                   Inl createErr \<Rightarrow> go_ret (Some createErr, False, lbls)
                 | Inr _ \<Rightarrow> go_ret (None, True, lbls))
               else go_ret (None, False, lbls))))"

definition getService ::
  "'w lib \<Rightarrow> Presto \<Rightarrow> smap \<Rightarrow> ('w op_state, go_error + service option) go" where
  "getService L presto lbls =
     go_bind (call (l_ListService L (pr_Namespace presto) lbls)) (\<lambda>services.
       case services of
         Inl err \<Rightarrow> go_ret (Inl err)
       | Inr items \<Rightarrow> (case items of [] \<Rightarrow> go_ret (Inr None) | s # _ \<Rightarrow> go_ret (Inr (Some s))))"

definition getServicePort :: "Presto \<Rightarrow> service_port list" where
  "getServicePort presto =
     (let port = (case se_Port (pr_Service presto) of None \<Rightarrow> word_of_int prestoPort | Some p \<Rightarrow> p)
      in case se_NodePort (pr_Service presto) of
           Some np \<Rightarrow>
             if se_Type (pr_Service presto) \<noteq> ''ClusterIP''
             then [\<lparr>sp_Name = ''presto-coordinator-port'', sp_Port = port, sp_NodePort = np,
                    sp_TargetPort = port\<rparr>]
             else [\<lparr>sp_Name = ''presto-coordinator-port'', sp_Port = port, sp_NodePort = 0,
                    sp_TargetPort = port\<rparr>]
         | None \<Rightarrow> [\<lparr>sp_Name = ''presto-coordinator-port'', sp_Port = port, sp_NodePort = 0,
                    sp_TargetPort = port\<rparr>])"

definition unsupportedServiceError :: go_error where
  "unsupportedServiceError =
     OperatorError (''Service of the following type not supported: '' @ ServiceTypeExternalName)"

text \<open>The object that \<^verbatim>\<open>createOrGetService\<close> may create.\<close>

definition externalServiceObject ::
  "Presto \<Rightarrow> string \<Rightarrow> smap \<Rightarrow> string \<Rightarrow> string \<Rightarrow> service_port list \<Rightarrow> service" where
  "externalServiceObject presto svcName lbls wk wv servicePort =
     (let svc = pr_Service presto
      in \<lparr>svc_meta = zero_meta\<lparr>om_Name := svcName, om_Namespace := pr_Namespace presto,
            om_Labels := lbls, om_OwnerReferences := [getOwnerReference presto]\<rparr>,
          svc_spec = \<lparr>
            ss_Selector = [(wk, wv)],
            ss_ClusterIP = se_ClusterIP svc,
            ss_Type = se_Type svc,
            ss_ExternalIPs = se_ExternalIPs svc,
            ss_SessionAffinity = se_SessionAffinity svc,
            ss_LoadBalancerIP = se_LoadBalancerIP svc,
            ss_LoadBalancerSourceRanges = se_LoadBalancerSourceRanges svc,
            ss_ExternalName = se_ExternalName svc,
            ss_ExternalTrafficPolicy = se_ExternalTrafficPolicy svc,
            ss_HealthCheckNodePort = se_HealthCheckNodePort svc,
            ss_PublishNotReadyAddresses = se_PublishNotReadyAddresses svc,
            ss_SessionAffinityConfig = se_SessionAffinityConfig svc,
            ss_IPFamily = se_IPFamily svc,
            ss_Ports = servicePort\<rparr>\<rparr>)"

definition createOrGetService ::
  "'w lib \<Rightarrow> Presto \<Rightarrow> smap \<Rightarrow>
     ('w op_state, go_error option \<times> service option \<times> bool \<times> smap) go" where
  "createOrGetService L presto lbls =
     (let (svcKey, svcLabelVal) = getExternalServiceLabel (pr_Uuid presto);
          lbls = AList.update svcKey svcLabelVal lbls;
          (wk, wv) = getCoordinatorPodLabel (pr_Uuid presto)
      in if se_Type (pr_Service presto) = ServiceTypeExternalName
         then go_ret (Some unsupportedServiceError, None, False, lbls)
         else
           let servicePort = getServicePort presto
           in go_bind (go_lift (getExternalServiceName (pr_Uuid presto))) (\<lambda>svcName.
           let service = externalServiceObject presto svcName lbls wk wv servicePort
           in go_bind (getService L presto [(svcKey, svcLabelVal)]) (\<lambda>r. case r of
                Inl err \<Rightarrow> go_ret (Some err, None, False, lbls)
              | Inr (Some retService) \<Rightarrow> go_ret (None, Some retService, False, lbls)
              | Inr None \<Rightarrow>
                  go_bind (send (CreateService service) (l_CreateService L service)) (\<lambda>created.
                    case created of
                      Inl createErr \<Rightarrow> go_ret (Some createErr, None, False, lbls)
                    | Inr _ \<Rightarrow>
                        go_bind (getService L presto lbls) (\<lambda>r. case r of
                          Inl err \<Rightarrow> go_ret (Some err, None, True, lbls)
                        | Inr retService \<Rightarrow> go_ret (None, retService, True, lbls))))))"

subsection \<open>What is created\<close>

definition headless_service :: "Presto \<Rightarrow> smap \<Rightarrow> service \<Rightarrow> bool" where
  "headless_service p lbls s \<longleftrightarrow>
     getPodDiscoveryServiceName (pr_Uuid p) = Some (om_Name (svc_meta s)) \<and>
     owned_meta p (om_Name (svc_meta s)) lbls (svc_meta s) \<and>
     svc_spec s = zero_service_spec\<lparr>ss_Selector := lbls, ss_ClusterIP := ''None''\<rparr>"

definition external_service :: "Presto \<Rightarrow> smap \<Rightarrow> service \<Rightarrow> bool" where
  "external_service p lbls s \<longleftrightarrow>
     getExternalServiceName (pr_Uuid p) = Some (om_Name (svc_meta s)) \<and>
     owned_meta p (om_Name (svc_meta s)) lbls (svc_meta s) \<and>
     se_Type (pr_Service p) \<noteq> ServiceTypeExternalName \<and>
     ss_Type (svc_spec s) = se_Type (pr_Service p) \<and>
     ss_ClusterIP (svc_spec s) = se_ClusterIP (pr_Service p) \<and>
     ss_Selector (svc_spec s) = [(''coordinator'', pr_Uuid p)] \<and>
     ss_Ports (svc_spec s) = getServicePort p"

text \<open>The labels that the caller's map has after each function.\<close>

abbreviation headless_labels :: "Presto \<Rightarrow> smap \<Rightarrow> smap" where
  "headless_labels p b \<equiv> AList.update ''pod-discovery'' (pr_Uuid p) b"

abbreviation external_labels :: "Presto \<Rightarrow> smap \<Rightarrow> smap" where
  "external_labels p b \<equiv> AList.update ''external-presto-svc'' (pr_Uuid p) b"

lemma headless_emits:
  "emits (createHeadLessPodDiscoverySvc L p b) (\<lambda>r ws.
     case r of
       None \<Rightarrow> ws = []
     | Some (err, created, b') \<Rightarrow> b' = headless_labels p b \<and>
         write_outcome (\<lambda>req. \<exists>s. req = CreateService s \<and> headless_service p b' s)
           (Some (created, err)) ws)"
  unfolding createHeadLessPodDiscoverySvc_def getPodDiscoveryServiceLabel_def Let_def prod.case
  by (intro emits_rules) (simp_all add: headless_service_def headlessServiceObject_def owned_meta_def)

lemma getService_emits: "emits (getService L p sel) (\<lambda>r ws. r \<noteq> None \<and> ws = [])"
  unfolding getService_def by (intro emits_rules) (auto split: list.split intro!: emits_rules)

lemma emits_bind_getService:
  "(\<And>r. emits (f r) Q) \<Longrightarrow> emits (go_bind (getService L p sel) f) Q"
  by (rule emits_bind, rule emits_mono [OF getService_emits]) auto

lemma external_emits:
  "emits (createOrGetService L p b) (\<lambda>r ws.
     case r of
       None \<Rightarrow> ws = []
     | Some (err, svc, created, b') \<Rightarrow> b' = external_labels p b \<and>
         ((ws = [] \<and> \<not> created) \<or>
          (\<exists>s ok. ws = [(CreateService s, ok)] \<and> external_service p b' s \<and>
             created = ok \<and> (\<not> ok \<longrightarrow> err \<noteq> None))))"
  unfolding createOrGetService_def getExternalServiceLabel_def getCoordinatorPodLabel_def
    Let_def prod.case
  by (intro emits_rules emits_bind_getService)
    (simp_all add: external_service_def externalServiceObject_def owned_meta_def Let_def)

lemma service_selectors:
  "ss_Selector (svc_spec (headlessServiceObject p nm b)) = b"
  "ss_Selector (svc_spec (externalServiceObject p nm b k v ports)) = [(k, v)]"
  by (simp_all add: headlessServiceObject_def externalServiceObject_def Let_def)


end
