(* ===== verification/Pods.thy ===== *)
theory Pods
  imports Config_Maps
begin

text \<open>
  \<^verbatim>\<open>presto_pods.go\<close>: the pod template of the coordinator and of the workers, and the two replica sets.

  The returned replica set of a successful create or update is the server's answer, which the client
  decodes into the object. A nil \<^verbatim>\<open>Worker.Count\<close> or \<^verbatim>\<open>Spec.Replicas\<close> is dereferenced where the code
  does so, which is a panic.
\<close>

subsection \<open>The pod template\<close>

definition appendAdditionalVolumes :: "Presto \<Rightarrow> volume list \<Rightarrow> volume list" where
  "appendAdditionalVolumes presto vols =
     vols @ map (\<lambda>volSpec. \<lparr>vol_Name = pv_Name volSpec, vol_Source = pv_VolumeSource volSpec\<rparr>)
       (sp_Volumes (pr_Spec presto))"

definition appendAdditionalVolumeMounts :: "Presto \<Rightarrow> volume_mount list \<Rightarrow> volume_mount list" where
  "appendAdditionalVolumeMounts presto volMounts =
     volMounts @ map (\<lambda>volSpec. \<lparr>vm_Name = pv_Name volSpec, vm_ReadOnly = pv_ReadOnly volSpec,
         vm_MountPath = pv_MountPath volSpec, vm_SubPath = pv_SubPath volSpec,
         vm_MountPropagation = pv_MountPropagation volSpec, vm_SubPathExpr = pv_SubPathExpr volSpec\<rparr>)
       (sp_Volumes (pr_Spec presto))"

definition getHTTPSVolumeMount ::
  "Presto \<Rightarrow> pod_spec \<Rightarrow> (pod_spec \<times> volume_mount) option" where
  "getHTTPSVolumeMount presto podSpec = do {
     volName \<leftarrow> getHTTPSSecretVolName (pr_Uuid presto);
     let httpsSecretVolume = \<lparr>vol_Name = volName,
           vol_Source = \<lparr>vs_Projected = None,
             vs_Secret = Some (co_HttpsKeyPairSecretName (pr_Coordinator presto)), vs_Other = []\<rparr>\<rparr>;
     Some (podSpec\<lparr>ps_Volumes := ps_Volumes podSpec @ [httpsSecretVolume]\<rparr>,
       \<lparr>vm_Name = volName, vm_ReadOnly = True, vm_MountPath = httpsVolPath,
        vm_SubPath = [], vm_MountPropagation = None, vm_SubPathExpr = []\<rparr>) }"

text \<open>\<^verbatim>\<open>podSpec.Containers[0].VolumeMounts = f(podSpec.Containers[0].VolumeMounts)\<close>.\<close>

definition update_mounts ::
  "(volume_mount list \<Rightarrow> volume_mount list) \<Rightarrow> pod_spec \<Rightarrow> pod_spec option" where
  "update_mounts f podSpec = (case ps_Containers podSpec of
       [] \<Rightarrow> None
     | c # cs \<Rightarrow> Some (podSpec\<lparr>ps_Containers :=
         c\<lparr>ct_VolumeMounts := f (ct_VolumeMounts c)\<rparr> # cs\<rparr>))"

definition createPrestoPodSpec ::
  "Presto \<Rightarrow> bool \<Rightarrow> resource_list \<Rightarrow> resource_list \<Rightarrow> pod_spec option" where
  "createPrestoPodSpec presto isCoordinator limitResource requestResource = do {
     let imageName = im_Name (sp_ImageDetails (pr_Spec presto));
     let imageName = (if length imageName = 0 then ''prestosql/presto:333'' else imageName);
     (containerPrefix, lc, terminationGraceSeconds) \<leftarrow>
       (if isCoordinator
        then do {
          containerPrefix \<leftarrow> getCoordinatorContainerName (pr_Uuid presto);
          Some (containerPrefix, None, None) }
        else do {
          containerPrefix \<leftarrow> getWorkerContainerPrefix (pr_Uuid presto);
          Some (containerPrefix,
            Some \<lparr>lc_PostStart = None,
              lc_PreStop = Some [''/bin/sh'', getPrestoPath presto @ ''/'' @ prestoShutdownScript]\<rparr>,
            case wo_TerminationGracePeriodSeconds (pr_Worker presto) of
              None \<Rightarrow> Some (word_of_int DefaultTerminationGracePeriodSeconds)
            | Some g \<Rightarrow> Some g) });
     let podSpec = \<lparr>ps_TerminationGracePeriodSeconds = terminationGraceSeconds,
           ps_Containers = [\<lparr>ct_Name = containerPrefix, ct_Image = imageName,
             ct_Limits = limitResource, ct_Requests = requestResource, ct_Lifecycle = lc,
             ct_VolumeMounts = []\<rparr>],
           ps_Hostname = [], ps_Subdomain = [], ps_Volumes = []\<rparr>;
     podSpec \<leftarrow>
       (if isCoordinator
        then do {
          hostname \<leftarrow> getCoordinatorContainerName (pr_Uuid presto);
          subdomain \<leftarrow> getPodDiscoveryServiceName (pr_Uuid presto);
          Some (podSpec\<lparr>ps_Hostname := hostname, ps_Subdomain := subdomain\<rparr>) }
        else Some podSpec);
     (podSpec, catalogMount) \<leftarrow> getCatalogVolumeMount presto podSpec;
     (podSpec, propsMount) \<leftarrow> getPropsVolumeMount presto podSpec isCoordinator;
     let podSpec = podSpec\<lparr>ps_Volumes := appendAdditionalVolumes presto (ps_Volumes podSpec)\<rparr>;
     podSpec \<leftarrow> update_mounts (\<lambda>ms. ms @ [propsMount]) podSpec;
     podSpec \<leftarrow> update_mounts (\<lambda>ms. ms @ [catalogMount]) podSpec;
     podSpec \<leftarrow>
       (if isCoordinator \<and> co_HttpsEnabled (pr_Coordinator presto)
        then do {
          (podSpec, httpsMount) \<leftarrow> getHTTPSVolumeMount presto podSpec;
          update_mounts (\<lambda>ms. ms @ [httpsMount]) podSpec }
        else Some podSpec);
     update_mounts (appendAdditionalVolumeMounts presto) podSpec }"

text \<open>\<^verbatim>\<open>Sprintf("cannot parse presto.Spec.<field>: '%v': %v", value, err)\<close>.\<close>

definition podParseError :: "string \<Rightarrow> string \<Rightarrow> string \<Rightarrow> go_error" where
  "podParseError field val e = OperatorError (''cannot parse presto.Spec.'' @ field @ '': '' @
     [CHR 0x27] @ val @ [CHR 0x27] @ '': '' @ e)"

definition getPrestoWorkerPod ::
  "(string \<Rightarrow> string + quantity) \<Rightarrow> Presto \<Rightarrow> (go_error + pod_spec) option" where
  "getPrestoWorkerPod ParseQuantity presto =
     (let wo = pr_Worker presto in
      case ParseQuantity (wo_CpuLimit wo) of
        Inl err \<Rightarrow> Some (Inl (podParseError ''Worker.CpuLimit'' (wo_CpuLimit wo) err))
      | Inr cpuLimit \<Rightarrow>
     (case ParseQuantity (wo_MemoryLimit wo) of
        Inl err \<Rightarrow> Some (Inl (podParseError ''Worker.MemoryLimit'' (wo_MemoryLimit wo) err))
      | Inr memoryLimit \<Rightarrow>
     (let requested =
            (if length (wo_CpuRequest wo) = 0
             then (case ParseQuantity (wo_CpuLimit wo) of
                     Inl err \<Rightarrow> Inl (podParseError ''Worker.CpuLimit'' (wo_CpuLimit wo) err)
                   | Inr q \<Rightarrow> Inr q)
             else (case ParseQuantity (wo_CpuRequest wo) of
                     Inl err \<Rightarrow> Inl (podParseError ''Worker.CpuRequest'' (wo_CpuRequest wo) err)
                   | Inr q \<Rightarrow> Inr q))
      in case requested of
        Inl err \<Rightarrow> Some (Inl err)
      | Inr cpuRequest \<Rightarrow> do {
          podSpec \<leftarrow> createPrestoPodSpec presto False
            [(ResourceCPU, cpuLimit), (ResourceMemory, memoryLimit)] [(ResourceCPU, cpuRequest)];
          Some (Inr podSpec) })))"

text \<open>The memory limit of the coordinator pod is the one of the workers, as in the source.\<close>

definition getPrestoCoordinatorPodSpec ::
  "(string \<Rightarrow> string + quantity) \<Rightarrow> Presto \<Rightarrow> (go_error + pod_spec) option" where
  "getPrestoCoordinatorPodSpec ParseQuantity presto =
     (let co = pr_Coordinator presto; wo = pr_Worker presto in
      case ParseQuantity (co_CpuLimit co) of
        Inl err \<Rightarrow> Some (Inl (podParseError ''Coordinator.CpuLimit'' (co_CpuLimit co) err))
      | Inr cpuLimit \<Rightarrow>
     (case ParseQuantity (wo_MemoryLimit wo) of
        Inl err \<Rightarrow> Some (Inl (podParseError ''Worker.MemoryLimit'' (wo_MemoryLimit wo) err))
      | Inr memoryLimit \<Rightarrow>
     (let requested =
            (if length (co_CpuRequest co) = 0
             then (case ParseQuantity (co_CpuLimit co) of
                     Inl err \<Rightarrow> Inl (podParseError ''Coordinator.CpuLimit'' (co_CpuLimit co) err)
                   | Inr q \<Rightarrow> Inr q)
             else (case ParseQuantity (co_CpuRequest co) of
                     Inl err \<Rightarrow> Inl (podParseError ''Coordinator.CpuRequest'' (co_CpuRequest co) err)
                   | Inr q \<Rightarrow> Inr q))
      in case requested of
        Inl err \<Rightarrow> Some (Inl err)
      | Inr cpuRequest \<Rightarrow> do {
          podSpec \<leftarrow> createPrestoPodSpec presto True
            [(ResourceCPU, cpuLimit), (ResourceMemory, memoryLimit)] [(ResourceCPU, cpuRequest)];
          Some (Inr podSpec) })))"

subsection \<open>The replica sets\<close>

definition createReplicaSetForWorker ::
  "(string \<Rightarrow> string + quantity) \<Rightarrow> Presto \<Rightarrow> smap \<Rightarrow> int32 \<Rightarrow> (go_error + replicaset) option" where
  "createReplicaSetForWorker ParseQuantity presto lbls workerCount = do {
     pod \<leftarrow> getPrestoWorkerPod ParseQuantity presto;
     case pod of
       Inl err \<Rightarrow> Some (Inl err)
     | Inr podSpec \<Rightarrow> do {
         generateName \<leftarrow> getWorkerReplicaSet (pr_Uuid presto);
         Some (Inr \<lparr>rs_APIVersion = [], rs_Kind = [],
           rs_meta = zero_meta\<lparr>om_GenerateName := generateName, om_Namespace := pr_Namespace presto,
             om_OwnerReferences := [getOwnerReference presto], om_Labels := lbls\<rparr>,
           rs_Replicas = Some workerCount,
           rs_MatchLabels = lbls,
           rs_TemplateMeta = zero_meta\<lparr>om_OwnerReferences := [getOwnerReference presto],
             om_Namespace := pr_Namespace presto, om_Labels := lbls\<rparr>,
           rs_TemplateSpec = podSpec,
           rs_AvailableReplicas = 0\<rparr>) } }"

definition createReplicaSetForCoordinator ::
  "(string \<Rightarrow> string + quantity) \<Rightarrow> Presto \<Rightarrow> smap \<Rightarrow> (go_error + replicaset) option" where
  "createReplicaSetForCoordinator ParseQuantity presto lbls = do {
     pod \<leftarrow> getPrestoCoordinatorPodSpec ParseQuantity presto;
     case pod of
       Inl err \<Rightarrow> Some (Inl err)
     | Inr podSpec \<Rightarrow> do {
         generateName \<leftarrow> getCoordinatorReplicaset (pr_Uuid presto);
         Some (Inr \<lparr>rs_APIVersion = [], rs_Kind = [],
           rs_meta = zero_meta\<lparr>om_GenerateName := generateName, om_Namespace := pr_Namespace presto,
             om_OwnerReferences := [getOwnerReference presto], om_Labels := lbls\<rparr>,
           rs_Replicas = Some 1,
           rs_MatchLabels = lbls,
           rs_TemplateMeta = zero_meta\<lparr>om_Namespace := pr_Namespace presto,
             om_OwnerReferences := [getOwnerReference presto], om_Labels := lbls\<rparr>,
           rs_TemplateSpec = podSpec,
           rs_AvailableReplicas = 0\<rparr>) } }"

definition getReplicaSet ::
  "'w lib \<Rightarrow> Presto \<Rightarrow> (string \<Rightarrow> string \<times> string) \<Rightarrow> ('w op_state, go_error + replicaset) go" where
  "getReplicaSet L presto getLabel =
     (let (wk, wv) = getLabel (pr_Uuid presto)
      in go_bind (call (l_ListReplicaSet L (pr_Namespace presto) [(wk, wv)])) (\<lambda>existing.
        case existing of
          Inl err \<Rightarrow>
            if isNotFound (Some err) then go_ret (Inl (l_NewNotFound L ''replicasets'' []))
            else go_ret (Inl err)
        | Inr items \<Rightarrow>
            (case items of
               [] \<Rightarrow> go_ret (Inl (l_NewNotFound L ''replicasets'' []))
             | rs # _ \<Rightarrow> go_ret (Inr rs))))"

text \<open>The results are the replica set (nil on an error), created, updated and the error.\<close>

definition createUpdateReplicaSetForWorker ::
  "'w lib \<Rightarrow> Presto \<Rightarrow> smap \<Rightarrow>
     ('w op_state, replicaset option \<times> bool \<times> bool \<times> go_error option) go" where
  "createUpdateReplicaSetForWorker L presto lbls =
     go_bind (getReplicaSet L presto getWorkerPodLabel) (\<lambda>found. case found of
       Inl err \<Rightarrow>
         if isNotFound (Some err)
         then go_bind (go_lift (wo_Count (pr_Worker presto))) (\<lambda>workerCount.
           go_bind (go_lift (createReplicaSetForWorker (l_ParseQuantity L) presto lbls workerCount))
             (\<lambda>spec. case spec of
               Inl err \<Rightarrow> go_ret (None, False, False, Some err)
             | Inr replicaSet \<Rightarrow>
                 go_bind (send (CreateReplicaSet replicaSet) (l_CreateReplicaSet L replicaSet)) (\<lambda>res.
                   case res of
                     Inl err \<Rightarrow> go_ret (None, False, False, Some err)
                   | Inr replicaSet \<Rightarrow> go_ret (Some replicaSet, True, False, None))))
         else go_ret (None, False, False, Some err)
     | Inr replicaSet \<Rightarrow>
         if as_Enabled (pr_Autoscaling presto) = None \<or> as_Enabled (pr_Autoscaling presto) = Some False
         then (case wo_Count (pr_Worker presto) of
             None \<Rightarrow> go_ret (Some replicaSet, False, False, None)
           | Some workerCount \<Rightarrow>
               go_bind (go_lift (rs_Replicas replicaSet)) (\<lambda>replicas.
                 if workerCount \<noteq> replicas
                 then let replicaSetCopy = replicaSet\<lparr>rs_Replicas := Some workerCount\<rparr>
                   in go_bind (send (UpdateReplicaSet replicaSetCopy) (l_UpdateReplicaSet L replicaSetCopy))
                     (\<lambda>res. case res of
                        Inl err \<Rightarrow> go_ret (None, False, False, Some err)
                      | Inr replicaSet \<Rightarrow> go_ret (Some replicaSet, False, True, None))
                 else go_ret (Some replicaSet, False, False, None)))
         else go_ret (Some replicaSet, False, False, None))"

definition createUpdateReplicaSetForCoordinator ::
  "'w lib \<Rightarrow> Presto \<Rightarrow> smap \<Rightarrow> ('w op_state, replicaset option \<times> bool \<times> go_error option) go" where
  "createUpdateReplicaSetForCoordinator L presto lbls =
     go_bind (getReplicaSet L presto getCoordinatorPodLabel) (\<lambda>found. case found of
       Inl err \<Rightarrow>
         if isNotFound (Some err)
         then go_bind (go_lift (createReplicaSetForCoordinator (l_ParseQuantity L) presto lbls)) (\<lambda>spec.
           case spec of
             Inl err \<Rightarrow> go_ret (None, False, Some err)
           | Inr replicaSet \<Rightarrow>
               go_bind (send (CreateReplicaSet replicaSet) (l_CreateReplicaSet L replicaSet)) (\<lambda>res.
                 case res of
                   Inl err \<Rightarrow> go_ret (None, False, Some err)
                 | Inr replicaSet \<Rightarrow> go_ret (Some replicaSet, True, None)))
         else go_ret (None, False, Some err)
     | Inr replicaSet \<Rightarrow> go_ret (Some replicaSet, False, None))"

subsection \<open>What the pod template is\<close>

lemma length8_cases:
  assumes "createPrestoPodSpec p isC lim req = Some ps"
  shows "8 \<le> length (pr_Uuid p)"
  using assms by (cases "length (pr_Uuid p) < 8"; cases isC) (auto simp: createPrestoPodSpec_def Let_def)

definition props_volume :: "Presto \<Rightarrow> bool \<Rightarrow> volume" where
  "props_volume p isC = \<lparr>
     vol_Name = (if isC then ''coordinatorconfvol-'' else ''workerconfvol-'') @ take 8 (pr_Uuid p),
     vol_Source = \<lparr>vs_Projected = Some [ConfigMapProjection
         ((if isC then ''coordinatorconfig-'' else ''workerconfig-'') @ take 8 (pr_Uuid p))],
       vs_Secret = None, vs_Other = []\<rparr>\<rparr>"

text \<open>The volumes of the template and the mounts of its only container.\<close>

lemma createPrestoPodSpec_volumes:
  assumes "createPrestoPodSpec p isC lim req = Some ps"
  shows "\<exists>c catalog https.
    ps_Containers ps = [c] \<and>
    ps_Volumes ps = [catalog, props_volume p isC] @ appendAdditionalVolumes p [] @ https \<and>
    map vm_Name (ct_VolumeMounts c) =
      [vol_Name (props_volume p isC), vol_Name catalog] @ map vol_Name https @
      map pv_Name (sp_Volumes (pr_Spec p)) \<and>
    map vm_MountPath (ct_VolumeMounts c) =
      [getPrestoPath p, getPrestoPath p @ catalogMountPath] @ map (\<lambda>_. httpsVolPath) https @
      map pv_MountPath (sp_Volumes (pr_Spec p)) \<and>
    vol_Name catalog = ''catalogvol-'' @ take 8 (pr_Uuid p) \<and>
    map vol_Name https = (if isC \<and> co_HttpsEnabled (pr_Coordinator p)
      then [''httpssecret-'' @ take 8 (pr_Uuid p)] else [])"
  using assms length8_cases [OF assms]
  by (auto simp: createPrestoPodSpec_def getCatalogVolumeMount_def getPropsVolumeMount_def
      getHTTPSVolumeMount_def update_mounts_def appendAdditionalVolumes_def
      appendAdditionalVolumeMounts_def props_volume_def Let_def o_def split: if_splits)

lemma createPrestoPodSpec_container:
  assumes "createPrestoPodSpec p isC lim req = Some ps"
  shows "\<exists>c. ps_Containers ps = [c] \<and> ct_Limits c = lim \<and> ct_Requests c = req \<and>
    ct_Name c = (if isC then ''coordinatorcontainer-'' else ''workerrcontainer-'') @ take 8 (pr_Uuid p) \<and>
    (\<not> isC \<longrightarrow> ps_TerminationGracePeriodSeconds ps =
      Some (case wo_TerminationGracePeriodSeconds (pr_Worker p) of None \<Rightarrow> 7200 | Some g \<Rightarrow> g)) \<and>
    ps_Hostname ps = (if isC then ''coordinatorcontainer-'' @ take 8 (pr_Uuid p) else []) \<and>
    ps_Subdomain ps = (if isC then ''pod-discovery-'' @ take 8 (pr_Uuid p) else []) \<and>
    ct_Lifecycle c = (if isC then None else Some \<lparr>lc_PostStart = None,
      lc_PreStop = Some [''/bin/sh'', getPrestoPath p @ ''/'' @ prestoShutdownScript]\<rparr>)"
  using assms length8_cases [OF assms]
  by (auto simp: createPrestoPodSpec_def getCatalogVolumeMount_def getPropsVolumeMount_def
      getHTTPSVolumeMount_def update_mounts_def DefaultTerminationGracePeriodSeconds_def Let_def
      split: if_splits option.split)

lemma createPrestoPodSpec_total:
  "8 \<le> length (pr_Uuid p) \<Longrightarrow> \<exists>ps. createPrestoPodSpec p isC lim req = Some ps"
  by (simp add: createPrestoPodSpec_def getCatalogVolumeMount_def getPropsVolumeMount_def
      getHTTPSVolumeMount_def update_mounts_def Let_def)

subsection \<open>The contract of a replica set builder\<close>

text \<open>
  Both builders parse three quantities, build the pod template and wrap it in a replica set whose
  selector is the label map of its own template.
\<close>

definition role_replicaset ::
  "Presto \<Rightarrow> bool \<Rightarrow> string \<Rightarrow> smap \<Rightarrow> int32 \<Rightarrow> replicaset \<Rightarrow> bool" where
  "role_replicaset p isC gen lbls n rs \<longleftrightarrow>
     om_GenerateName (rs_meta rs) = gen \<and> owned_meta p [] lbls (rs_meta rs) \<and>
     rs_MatchLabels rs = lbls \<and> om_Labels (rs_TemplateMeta rs) = lbls \<and>
     om_Namespace (rs_TemplateMeta rs) = pr_Namespace p \<and> rs_Replicas rs = Some n \<and>
     (\<exists>lim req. createPrestoPodSpec p isC lim req = Some (rs_TemplateSpec rs))"

definition parses :: "(string \<Rightarrow> string + quantity) \<Rightarrow> string \<Rightarrow> bool" where
  "parses pq s \<longleftrightarrow> (case pq s of Inl e \<Rightarrow> False | Inr q \<Rightarrow> True)"

locale replica_set_builder =
  fixes build :: "(string \<Rightarrow> string + quantity) \<Rightarrow> Presto \<Rightarrow> smap \<Rightarrow> (go_error + replicaset) option"
    and n :: int32 and isC :: bool and pre :: string
    and quantities :: "Presto \<Rightarrow> string list"
  assumes build_role: "build pq p lbls = Some (Inr rs) \<Longrightarrow>
      role_replicaset p isC (pre @ take 8 (pr_Uuid p)) lbls n rs"
    and build_succeeds: "8 \<le> length (pr_Uuid p) \<Longrightarrow> list_all (parses pq) (quantities p) \<Longrightarrow>
      \<exists>rs. build pq p lbls = Some (Inr rs)"
    and build_fails: "\<not> list_all (parses pq) (quantities p) \<Longrightarrow>
      \<exists>e. build pq p lbls = Some (Inl e)"
begin

text \<open>The replica set selects the pods of its template, and only pods with every label of the map.\<close>

lemma selects_template:
  "build pq p lbls = Some (Inr rs) \<Longrightarrow> distinct (map fst lbls) \<Longrightarrow>
     selects (rs_MatchLabels rs) (om_Labels (rs_TemplateMeta rs))"
  by (drule build_role) (simp add: role_replicaset_def selects_refl)

lemma build_fails_iff:
  "8 \<le> length (pr_Uuid p) \<Longrightarrow>
     (\<exists>e. build pq p lbls = Some (Inl e)) \<longleftrightarrow> \<not> list_all (parses pq) (quantities p)"
  by (metis build_succeeds build_fails old.sum.distinct(1) option.inject)

end

lemma podspec_8: "createPrestoPodSpec p isC lim req = None \<Longrightarrow> \<not> 8 \<le> length (pr_Uuid p)"
  by (metis createPrestoPodSpec_total option.distinct(1))

definition worker_quantities :: "Presto \<Rightarrow> string list" where
  "worker_quantities p = [wo_CpuLimit (pr_Worker p), wo_MemoryLimit (pr_Worker p)] @
     (if wo_CpuRequest (pr_Worker p) = [] then [] else [wo_CpuRequest (pr_Worker p)])"

definition coordinator_quantities :: "Presto \<Rightarrow> string list" where
  "coordinator_quantities p = [co_CpuLimit (pr_Coordinator p), wo_MemoryLimit (pr_Worker p)] @
     (if co_CpuRequest (pr_Coordinator p) = [] then [] else [co_CpuRequest (pr_Coordinator p)])"

lemma worker_pod:
  "getPrestoWorkerPod pq p = Some (Inr ps) \<Longrightarrow> \<exists>lim req. createPrestoPodSpec p False lim req = Some ps"
  by (auto simp: getPrestoWorkerPod_def Let_def split: sum.splits if_splits bind_splits)

lemma coordinator_pod:
  "getPrestoCoordinatorPodSpec pq p = Some (Inr ps) \<Longrightarrow> \<exists>lim req. createPrestoPodSpec p True lim req = Some ps"
  by (auto simp: getPrestoCoordinatorPodSpec_def Let_def split: sum.splits if_splits bind_splits)

lemma worker_pod_ok:
  "8 \<le> length (pr_Uuid p) \<Longrightarrow> list_all (parses pq) (worker_quantities p) \<Longrightarrow>
     \<exists>ps. getPrestoWorkerPod pq p = Some (Inr ps)"
  by (auto simp: getPrestoWorkerPod_def worker_quantities_def parses_def Let_def
      split: sum.splits if_splits bind_splits dest: podspec_8 intro: createPrestoPodSpec_total)

lemma coordinator_pod_ok:
  "8 \<le> length (pr_Uuid p) \<Longrightarrow> list_all (parses pq) (coordinator_quantities p) \<Longrightarrow>
     \<exists>ps. getPrestoCoordinatorPodSpec pq p = Some (Inr ps)"
  by (auto simp: getPrestoCoordinatorPodSpec_def coordinator_quantities_def parses_def Let_def
      split: sum.splits if_splits bind_splits dest: podspec_8 intro: createPrestoPodSpec_total)

lemma worker_pod_fails:
  "\<not> list_all (parses pq) (worker_quantities p) \<Longrightarrow> \<exists>e. getPrestoWorkerPod pq p = Some (Inl e)"
  by (auto simp: getPrestoWorkerPod_def worker_quantities_def parses_def Let_def
      split: sum.splits if_splits)

lemma coordinator_pod_fails:
  "\<not> list_all (parses pq) (coordinator_quantities p) \<Longrightarrow>
     \<exists>e. getPrestoCoordinatorPodSpec pq p = Some (Inl e)"
  by (auto simp: getPrestoCoordinatorPodSpec_def coordinator_quantities_def parses_def Let_def
      split: sum.splits if_splits)

lemma worker_rs_role:
  assumes "createReplicaSetForWorker pq p lbls n = Some (Inr rs)"
  shows "role_replicaset p False (''workerreplicaset-'' @ take 8 (pr_Uuid p)) lbls n rs"
proof -
  from assms obtain ps where ps: "getPrestoWorkerPod pq p = Some (Inr ps)"
    by (auto simp: createReplicaSetForWorker_def split: bind_splits sum.splits)
  then have pod: "\<exists>lim req. createPrestoPodSpec p False lim req = Some ps"
    by (rule worker_pod)
  then have "8 \<le> length (pr_Uuid p)"
    using length8_cases by blast
  with assms ps have "rs_TemplateSpec rs = ps"
    and "role_replicaset p False (''workerreplicaset-'' @ take 8 (pr_Uuid p)) lbls n rs \<longleftrightarrow>
      (\<exists>lim req. createPrestoPodSpec p False lim req = Some (rs_TemplateSpec rs))"
    by (auto simp: createReplicaSetForWorker_def role_replicaset_def owned_meta_def zero_meta_def)
  with pod show ?thesis by simp
qed

lemma worker_rs_ok:
  "8 \<le> length (pr_Uuid p) \<Longrightarrow> list_all (parses pq) (worker_quantities p) \<Longrightarrow>
     \<exists>rs. createReplicaSetForWorker pq p lbls n = Some (Inr rs)"
  using worker_pod_ok [of p pq] by (auto simp: createReplicaSetForWorker_def)

lemma worker_rs_fails:
  "\<not> list_all (parses pq) (worker_quantities p) \<Longrightarrow>
     \<exists>e. createReplicaSetForWorker pq p lbls n = Some (Inl e)"
  by (drule worker_pod_fails) (auto simp: createReplicaSetForWorker_def)

lemma coordinator_rs_role:
  assumes "createReplicaSetForCoordinator pq p lbls = Some (Inr rs)"
  shows "role_replicaset p True (''coordinatorreplicaset-'' @ take 8 (pr_Uuid p)) lbls 1 rs"
proof -
  from assms obtain ps where ps: "getPrestoCoordinatorPodSpec pq p = Some (Inr ps)"
    by (auto simp: createReplicaSetForCoordinator_def split: bind_splits sum.splits)
  then have pod: "\<exists>lim req. createPrestoPodSpec p True lim req = Some ps"
    by (rule coordinator_pod)
  then have "8 \<le> length (pr_Uuid p)"
    using length8_cases by blast
  with assms ps have "rs_TemplateSpec rs = ps"
    and "role_replicaset p True (''coordinatorreplicaset-'' @ take 8 (pr_Uuid p)) lbls 1 rs \<longleftrightarrow>
      (\<exists>lim req. createPrestoPodSpec p True lim req = Some (rs_TemplateSpec rs))"
    by (auto simp: createReplicaSetForCoordinator_def role_replicaset_def owned_meta_def zero_meta_def)
  with pod show ?thesis by simp
qed

lemma coordinator_rs_ok:
  "8 \<le> length (pr_Uuid p) \<Longrightarrow> list_all (parses pq) (coordinator_quantities p) \<Longrightarrow>
     \<exists>rs. createReplicaSetForCoordinator pq p lbls = Some (Inr rs)"
  using coordinator_pod_ok [of p pq] by (auto simp: createReplicaSetForCoordinator_def)

lemma coordinator_rs_fails:
  "\<not> list_all (parses pq) (coordinator_quantities p) \<Longrightarrow>
     \<exists>e. createReplicaSetForCoordinator pq p lbls = Some (Inl e)"
  by (drule coordinator_pod_fails) (auto simp: createReplicaSetForCoordinator_def)

interpretation worker_rs: replica_set_builder
    "\<lambda>pq p lbls. createReplicaSetForWorker pq p lbls n" n False
    "''workerreplicaset-''" worker_quantities for n
  by unfold_locales (fact worker_rs_role worker_rs_ok worker_rs_fails)+

interpretation coordinator_rs: replica_set_builder
    createReplicaSetForCoordinator 1 True "''coordinatorreplicaset-''" coordinator_quantities
  by unfold_locales (fact coordinator_rs_role coordinator_rs_ok coordinator_rs_fails)+

subsection \<open>What is sent\<close>

lemma getReplicaSet_emits: "emits (getReplicaSet L p f) (\<lambda>r ws. r \<noteq> None \<and> ws = [])"
  unfolding getReplicaSet_def Let_def
  by (intro emits_rules) (auto split: list.split intro!: emits_rules)

lemma emits_bind_getReplicaSet:
  "(\<And>r. emits (f r) Q) \<Longrightarrow> emits (go_bind (getReplicaSet L p g) f) Q"
  by (rule emits_bind, rule emits_mono [OF getReplicaSet_emits]) auto

text \<open>
  The only write to a replica set that exists is of its replica count, to the count of the spec, and
  only while autoscaling is not enabled.
\<close>

definition worker_write :: "'w lib \<Rightarrow> Presto \<Rightarrow> smap \<Rightarrow> request \<Rightarrow> bool" where
  "worker_write L p lbls req \<longleftrightarrow>
     (\<exists>n rs. req = CreateReplicaSet rs \<and> wo_Count (pr_Worker p) = Some n \<and>
        createReplicaSetForWorker (l_ParseQuantity L) p lbls n = Some (Inr rs)) \<or>
     (\<exists>old n m. req = UpdateReplicaSet (old\<lparr>rs_Replicas := Some n\<rparr>) \<and>
        as_Enabled (pr_Autoscaling p) \<noteq> Some True \<and>
        wo_Count (pr_Worker p) = Some n \<and> rs_Replicas old = Some m \<and> n \<noteq> m)"

lemma worker_write_object: "worker_write L p lbls req \<Longrightarrow> object_write req"
  by (auto simp: worker_write_def)

lemma worker_rs_emits:
  "emits (createUpdateReplicaSetForWorker L p lbls) (\<lambda>r ws. case r of
     None \<Rightarrow> ws = []
   | Some (rs, created, updated, err) \<Rightarrow> (rs = None) = (err \<noteq> None) \<and>
       write_outcome (worker_write L p lbls) (Some (created \<or> updated, err)) ws)"
  unfolding createUpdateReplicaSetForWorker_def Let_def
  by (intro emits_rules emits_bind_getReplicaSet) (auto simp: worker_write_def)

lemma coordinator_rs_emits:
  "emits (createUpdateReplicaSetForCoordinator L p lbls) (\<lambda>r ws. case r of
     None \<Rightarrow> ws = []
   | Some (rs, created, err) \<Rightarrow>
       write_outcome (\<lambda>req. \<exists>rs'. req = CreateReplicaSet rs' \<and>
           createReplicaSetForCoordinator (l_ParseQuantity L) p lbls = Some (Inr rs'))
         (Some (created, err)) ws)"
  unfolding createUpdateReplicaSetForCoordinator_def
  by (intro emits_rules emits_bind_getReplicaSet) auto

subsection \<open>Properties\<close>

lemma example_quantities [simp]:
  "list_all (parses example_pq) (coordinator_quantities example_presto)"
  "list_all (parses example_pq) (worker_quantities example_presto)"
  by (simp_all add: parses_def worker_quantities_def coordinator_quantities_def example_pq_def example_defs)

text \<open>
  C13. The coordinator pod is known to the cluster DNS by the name under which the configuration files
  look for it: its host name and its subdomain, which is the name of the headless service. A worker pod
  claims neither.
\<close>

theorem coordinator_pod_answers_to_its_name:
  assumes "createPrestoPodSpec p True lim req = Some ps"
  shows "getCoordinatorInternalName (pr_Uuid p) = Some (ps_Hostname ps @ ''.'' @ ps_Subdomain ps) \<and>
    getPodDiscoveryServiceName (pr_Uuid p) = Some (ps_Subdomain ps) \<and>
    (\<forall>ps'. createPrestoPodSpec p False lim' req' = Some ps' \<longrightarrow> ps_Hostname ps' = [] \<and> ps_Subdomain ps' = [])"
proof -
  have "8 \<le> length (pr_Uuid p)" by (rule length8_cases [OF assms])
  then show ?thesis
    using createPrestoPodSpec_container [OF assms] createPrestoPodSpec_container [of p False lim' req']
    by (auto simp: getCoordinatorInternalName_Some)
qed

theorem coordinator_pod_answers_to_its_name_witness:
  "\<exists>ps. createPrestoPodSpec example_presto True [] [] = Some ps \<and>
     ps_Hostname ps @ ''.'' @ ps_Subdomain ps = ''coordinatorcontainer-03f118d2.pod-discovery-03f118d2''"
proof -
  have "8 \<le> length (pr_Uuid example_presto)" by (simp add: example_presto_def example_uuid_def)
  then obtain ps where ps: "createPrestoPodSpec example_presto True [] [] = Some ps"
    using createPrestoPodSpec_total by blast
  have "getCoordinatorInternalName (pr_Uuid example_presto) =
      Some ''coordinatorcontainer-03f118d2.pod-discovery-03f118d2''"
    by (simp add: getCoordinatorInternalName_Some example_presto_def example_uuid_def)
  then show ?thesis
    using coordinator_pod_answers_to_its_name [OF ps] ps by auto
qed

text \<open>
  C12. Every volume mount of the container names a volume of the pod and every volume is mounted; and the
  Presto path holds the config map that the operator creates for pods of that role.
\<close>

theorem every_mount_has_a_volume:
  assumes "createPrestoPodSpec p isC lim req = Some ps"
  shows "\<exists>c. ps_Containers ps = [c] \<and>
    vm_Name ` set (ct_VolumeMounts c) = vol_Name ` set (ps_Volumes ps) \<and>
    (\<exists>m \<in> set (ct_VolumeMounts c). \<exists>v \<in> set (ps_Volumes ps). vm_MountPath m = getPrestoPath p \<and>
       vm_Name m = vol_Name v \<and>
       (\<exists>cm. (if isC then getCoordinatorConfigMapName else getWorkerConfigMapName) (pr_Uuid p) = Some cm \<and>
          vs_Projected (vol_Source v) = Some [ConfigMapProjection cm]))"
proof -
  from createPrestoPodSpec_volumes [OF assms] obtain c catalog https where c: "ps_Containers ps = [c]"
      "ps_Volumes ps = [catalog, props_volume p isC] @ appendAdditionalVolumes p [] @ https"
      "map vm_Name (ct_VolumeMounts c) = [vol_Name (props_volume p isC), vol_Name catalog] @
        map vol_Name https @ map pv_Name (sp_Volumes (pr_Spec p))"
      "map vm_MountPath (ct_VolumeMounts c) = [getPrestoPath p, getPrestoPath p @ catalogMountPath] @
        map (\<lambda>_. httpsVolPath) https @ map pv_MountPath (sp_Volumes (pr_Spec p))"
    by blast
  have "vm_Name ` set (ct_VolumeMounts c) = set (map vm_Name (ct_VolumeMounts c))" by simp
  also have "\<dots> = vol_Name ` set (ps_Volumes ps)"
    unfolding c(2,3) by (simp add: appendAdditionalVolumes_def image_Un image_image insert_commute Un_commute)
  finally have names: "vm_Name ` set (ct_VolumeMounts c) = vol_Name ` set (ps_Volumes ps)" .
  obtain m ms where m: "ct_VolumeMounts c = m # ms" using c(3) by (cases "ct_VolumeMounts c") auto
  then have m0: "vm_Name m = vol_Name (props_volume p isC)" "vm_MountPath m = getPrestoPath p"
    using c(3,4) by simp_all
  have "8 \<le> length (pr_Uuid p)" by (rule length8_cases [OF assms])
  then have "(if isC then getCoordinatorConfigMapName else getWorkerConfigMapName) (pr_Uuid p) =
        Some ((if isC then ''coordinatorconfig-'' else ''workerconfig-'') @ take 8 (pr_Uuid p))"
      "vs_Projected (vol_Source (props_volume p isC)) =
        Some [ConfigMapProjection ((if isC then ''coordinatorconfig-'' else ''workerconfig-'') @ take 8 (pr_Uuid p))]"
    by (simp_all add: props_volume_def)
  moreover have "m \<in> set (ct_VolumeMounts c)" "props_volume p isC \<in> set (ps_Volumes ps)"
    using m c(2) by simp_all
  ultimately show ?thesis using c(1) names m0 by blast
qed

theorem every_mount_has_a_volume_witness:
  "\<exists>ps c. createPrestoPodSpec example_presto False [] [] = Some ps \<and> ps_Containers ps = [c] \<and>
     vm_Name ` set (ct_VolumeMounts c) = vol_Name ` set (ps_Volumes ps)"
proof -
  obtain ps where ps: "createPrestoPodSpec example_presto False [] [] = Some ps"
    using createPrestoPodSpec_total [of example_presto] by fastforce
  from every_mount_has_a_volume [OF this] ps show ?thesis by blast
qed



text \<open>
  C27. A replica set is refused with an error exactly when one of the quantities that its pods use does
  not parse; the builders never panic on a UUID of eight bytes or more. The memory limit of the
  coordinator pod is the one of the workers.
\<close>

theorem bad_quantities_are_reported:
  assumes "8 \<le> length (pr_Uuid p)"
  shows "((\<exists>e. createReplicaSetForCoordinator pq p lbls = Some (Inl e)) \<longleftrightarrow>
      \<not> list_all (parses pq) (coordinator_quantities p)) \<and>
    ((\<exists>e. createReplicaSetForWorker pq p lbls n = Some (Inl e)) \<longleftrightarrow>
      \<not> list_all (parses pq) (worker_quantities p)) \<and>
    createReplicaSetForCoordinator pq p lbls \<noteq> None \<and> createReplicaSetForWorker pq p lbls n \<noteq> None"
  using coordinator_rs.build_fails_iff [OF assms, of pq lbls] worker_rs.build_fails_iff [OF assms, of pq lbls n]
    coordinator_rs.build_succeeds [OF assms, of pq lbls] worker_rs.build_succeeds [OF assms, of pq lbls n]
  by auto

theorem bad_quantities_are_reported_witness:
  "\<exists>e. createReplicaSetForWorker (\<lambda>s. Inl ''invalid'') example_presto [] 1 = Some (Inl e)"
  using bad_quantities_are_reported [of example_presto "\<lambda>s. Inl ''invalid''" "[]" 1]
  by (simp add: worker_quantities_def parses_def)

end
