(* ===== verification/Autoscaler.thy ===== *)
theory Autoscaler
  imports Config_Maps
begin

text \<open>
  \<^verbatim>\<open>hpa_handler.go\<close>: the horizontal pod autoscaler of the workers is created, updated or deleted so that it
  agrees with the autoscaling part of the spec.

  \<^verbatim>\<open>autoscaleSpecChanged\<close> reads six pointers without a check, so it is an option; Go evaluates the
  disjunction from the left and stops at the first difference.
\<close>

definition checkAutoscalingEnabled :: "Presto \<Rightarrow> bool" where
  "checkAutoscalingEnabled presto =
     (case as_Enabled (pr_Autoscaling presto) of None \<Rightarrow> False | Some b \<Rightarrow> b)"

definition autoscaleSpecChanged :: "hpa \<Rightarrow> Presto \<Rightarrow> bool option" where
  "autoscaleSpecChanged h presto = do {
     maxReplicas \<leftarrow> as_MaxReplicas (pr_Autoscaling presto);
     if hpa_MaxReplicas h \<noteq> maxReplicas then Some True
     else do {
       hpaMin \<leftarrow> hpa_MinReplicas h;
       minReplicas \<leftarrow> as_MinReplicas (pr_Autoscaling presto);
       if hpaMin \<noteq> minReplicas then Some True
       else do {
         hpaTarget \<leftarrow> hpa_TargetCPU h;
         target \<leftarrow> as_TargetCPUUtilizationPercentage (pr_Autoscaling presto);
         Some (hpaTarget \<noteq> target) } } }"

definition getPrestoHPA ::
  "'w lib \<Rightarrow> Presto \<Rightarrow> smap \<Rightarrow> ('w op_state, go_error + hpa) go" where
  "getPrestoHPA L presto lbls =
     go_bind (call (l_ListHPA L (pr_Namespace presto) lbls)) (\<lambda>prestoHPA.
       case prestoHPA of
         Inl err \<Rightarrow>
           if isNotFound (Some err) then go_ret (Inl (l_NewNotFound L ''HPA'' []))
           else go_ret (Inl err)
       | Inr items \<Rightarrow>
           (case items of
              [] \<Rightarrow> go_ret (Inl (l_NewNotFound L ''HPA'' []))
            | h # _ \<Rightarrow> go_ret (Inr h)))"

definition isCreatedByHpaController :: "hpa \<Rightarrow> Presto \<Rightarrow> bool" where
  "isCreatedByHpaController h presto \<longleftrightarrow>
     list_ex (\<lambda>ref. or_Name ref = pr_Name presto \<and> or_Kind ref = pr_Kind presto)
       (om_OwnerReferences (hpa_meta h))"

definition createHPASpec ::
  "Presto \<Rightarrow> replicaset option \<Rightarrow> smap \<Rightarrow> string \<Rightarrow> (go_error + hpa) option" where
  "createHPASpec presto workerReplicaSet lbls resourceVersion =
     (case as_MinReplicas (pr_Autoscaling presto) of
        None \<Rightarrow> Some (Inl (OperatorError ''MinReplicas cannot be null''))
      | Some minReplicas \<Rightarrow>
     (case as_MaxReplicas (pr_Autoscaling presto) of
        None \<Rightarrow> Some (Inl (OperatorError ''MaxReplicas cannot be null''))
      | Some maxReplicas \<Rightarrow>
     (case as_TargetCPUUtilizationPercentage (pr_Autoscaling presto) of
        None \<Rightarrow> Some (Inl (OperatorError ''TargetCPUUtilizationPercentage cannot be null''))
      | Some targetCPUUtilization \<Rightarrow> do {
          hpaName \<leftarrow> getHPAName (pr_Uuid presto);
          workerReplicaSet \<leftarrow> workerReplicaSet;
          Some (Inr \<lparr>hpa_meta = zero_meta\<lparr>om_Name := hpaName, om_Namespace := pr_Namespace presto,
               om_Labels := lbls, om_ResourceVersion := resourceVersion,
               om_OwnerReferences := [getOwnerReference presto]\<rparr>,
             hpa_TargetAPIVersion = rs_APIVersion workerReplicaSet,
             hpa_TargetKind = rs_Kind workerReplicaSet,
             hpa_TargetName = om_Name (rs_meta workerReplicaSet),
             hpa_MinReplicas = Some minReplicas,
             hpa_MaxReplicas = maxReplicas,
             hpa_TargetCPU = Some targetCPUUtilization\<rparr>) })))"

text \<open>The results are created, updated, deleted and the error.\<close>

definition handleReplicaSet ::
  "'w lib \<Rightarrow> Presto \<Rightarrow> replicaset option \<Rightarrow> smap \<Rightarrow>
     ('w op_state, bool \<times> bool \<times> bool \<times> go_error option) go" where
  "handleReplicaSet L presto workerReplicaSet lbls =
     (let autoScalingEnabled = checkAutoscalingEnabled presto
      in go_bind (getPrestoHPA L presto lbls) (\<lambda>found. case found of
           Inr h \<Rightarrow>
             if autoScalingEnabled
             then go_bind (go_lift (autoscaleSpecChanged h presto)) (\<lambda>specChanged.
               if specChanged
               then go_bind (go_lift (createHPASpec presto workerReplicaSet lbls
                       (om_ResourceVersion (hpa_meta h)))) (\<lambda>spec. case spec of
                   Inl err \<Rightarrow> go_ret (False, False, False, Some err)
                 | Inr h' \<Rightarrow> go_bind (send (UpdateHPA h') (l_UpdateHPA L h')) (\<lambda>res. case res of
                     Inl err \<Rightarrow>
                       if \<not> isAlreadyExists (Some err)
                       then go_ret (False, False, False, Some err)
                       else go_ret (False, True, False, None)
                   | Inr _ \<Rightarrow> go_ret (False, True, False, None)))
               else go_ret (False, False, False, None))
             else go_bind (send (DeleteHPA h) (l_DeleteHPA L h)) (\<lambda>res. case res of
                 Inl err \<Rightarrow> go_ret (False, False, False, Some err)
               | Inr _ \<Rightarrow> go_ret (False, False, True, None))
         | Inl err \<Rightarrow>
             if \<not> isNotFound (Some err) then go_ret (False, False, False, Some err)
             else if autoScalingEnabled
             then go_bind (go_lift (createHPASpec presto workerReplicaSet lbls [])) (\<lambda>spec. case spec of
                 Inl err \<Rightarrow> go_ret (False, False, False, Some err)
               | Inr h' \<Rightarrow> go_bind (send (CreateHPA h') (l_CreateHPA L h')) (\<lambda>res. case res of
                   Inl err \<Rightarrow>
                     if \<not> isAlreadyExists (Some err)
                     then go_ret (False, False, False, Some err)
                     else go_ret (True, False, False, None)
                 | Inr _ \<Rightarrow> go_ret (True, False, False, None)))
             else go_ret (False, False, False, None)))"

subsection \<open>What is sent\<close>

text \<open>The autoscaler that the spec asks for.\<close>

definition wanted_hpa :: "Presto \<Rightarrow> replicaset \<Rightarrow> smap \<Rightarrow> hpa \<Rightarrow> bool" where
  "wanted_hpa p rs lbls h \<longleftrightarrow>
     getHPAName (pr_Uuid p) = Some (om_Name (hpa_meta h)) \<and>
     owned_meta p (om_Name (hpa_meta h)) lbls (hpa_meta h) \<and>
     hpa_TargetAPIVersion h = rs_APIVersion rs \<and> hpa_TargetKind h = rs_Kind rs \<and>
     hpa_TargetName h = om_Name (rs_meta rs) \<and>
     hpa_MinReplicas h \<noteq> None \<and> hpa_MinReplicas h = as_MinReplicas (pr_Autoscaling p) \<and>
     Some (hpa_MaxReplicas h) = as_MaxReplicas (pr_Autoscaling p) \<and>
     hpa_TargetCPU h \<noteq> None \<and> hpa_TargetCPU h = as_TargetCPUUtilizationPercentage (pr_Autoscaling p)"

lemma createHPASpec_wanted:
  "createHPASpec p wrs lbls v = Some (Inr h) \<Longrightarrow>
     \<exists>rs. wrs = Some rs \<and> wanted_hpa p rs lbls h \<and> om_ResourceVersion (hpa_meta h) = v"
  by (auto simp: createHPASpec_def wanted_hpa_def owned_meta_def
      split: option.splits bind_splits)

lemma wanted_hpa_unchanged:
  "wanted_hpa p rs lbls h \<Longrightarrow> autoscaleSpecChanged h p = Some False"
  by (cases "as_MaxReplicas (pr_Autoscaling p)"; cases "as_MinReplicas (pr_Autoscaling p)";
      cases "as_TargetCPUUtilizationPercentage (pr_Autoscaling p)")
    (auto simp: wanted_hpa_def autoscaleSpecChanged_def)

lemma getPrestoHPA_emits: "emits (getPrestoHPA L p sel) (\<lambda>r ws. r \<noteq> None \<and> ws = [])"
  unfolding getPrestoHPA_def by (intro emits_rules) (auto split: list.split intro!: emits_rules)

lemma emits_bind_getPrestoHPA:
  "(\<And>r. emits (f r) Q) \<Longrightarrow> emits (go_bind (getPrestoHPA L p sel) f) Q"
  by (rule emits_bind, rule emits_mono [OF getPrestoHPA_emits]) auto

text \<open>An autoscaler is written only when autoscaling is enabled and deleted only when it is not.\<close>

definition hpa_write :: "Presto \<Rightarrow> replicaset option \<Rightarrow> smap \<Rightarrow> request \<Rightarrow> bool" where
  "hpa_write p wrs b req \<longleftrightarrow>
     (\<exists>h rs. (req = CreateHPA h \<or> req = UpdateHPA h) \<and> checkAutoscalingEnabled p \<and>
        wrs = Some rs \<and> wanted_hpa p rs b h) \<or>
     (\<exists>h. req = DeleteHPA h \<and> \<not> checkAutoscalingEnabled p)"

lemma hpa_write_object: "hpa_write p wrs b req \<Longrightarrow> object_write req"
  by (auto simp: hpa_write_def)

lemma handleReplicaSet_emits:
  "emits (handleReplicaSet L p wrs b) (\<lambda>r ws. case r of
     None \<Rightarrow> ws = []
   | Some (created, updated, deleted, err) \<Rightarrow>
       write_outcome (hpa_write p wrs b) (Some (created \<or> updated \<or> deleted, err)) ws)"
  unfolding handleReplicaSet_def Let_def
  by (intro emits_rules emits_bind_getPrestoHPA) (auto simp: hpa_write_def dest!: createHPASpec_wanted)

subsection \<open>Properties\<close>

text \<open>
  C17. Whatever the API server answers, the autoscaler function sends at most one request. It creates or
  updates an autoscaler only while autoscaling is enabled, and then with the bounds and the CPU target of
  the spec and the worker replica set as its target; it deletes one only while autoscaling is not enabled.
\<close>

theorem autoscaler_requests:
  "emits (handleReplicaSet L p wrs b) (\<lambda>r ws. length ws \<le> 1 \<and> list_all (\<lambda>(req, ok).
     (\<exists>h rs. (req = CreateHPA h \<or> req = UpdateHPA h) \<and> checkAutoscalingEnabled p \<and>
        wrs = Some rs \<and> wanted_hpa p rs b h) \<or>
     (\<exists>h. req = DeleteHPA h \<and> \<not> checkAutoscalingEnabled p)) ws)"
  by (rule emits_mono [OF handleReplicaSet_emits])
    (auto simp: write_outcome_def hpa_write_def split: option.splits)

text \<open>
  C28. An autoscaler that the operator has written is not written again for the same spec; and building
  one fails, with an error and not a panic, exactly when a bound or the target is missing.
\<close>

theorem autoscaler_written_once:
  assumes "8 \<le> length (pr_Uuid p)"
  shows "(\<exists>e. createHPASpec p (Some rs) b v = Some (Inl e)) \<and>
      (as_MinReplicas (pr_Autoscaling p) = None \<or> as_MaxReplicas (pr_Autoscaling p) = None \<or>
       as_TargetCPUUtilizationPercentage (pr_Autoscaling p) = None) \<or>
    (\<exists>h. createHPASpec p (Some rs) b v = Some (Inr h) \<and> wanted_hpa p rs b h \<and>
       autoscaleSpecChanged h p = Some False)"
proof (cases "createHPASpec p (Some rs) b v")
  case None
  with assms show ?thesis by (simp add: createHPASpec_def split: option.splits)
next
  case (Some r)
  show ?thesis
  proof (cases r)
    case (Inl e)
    with Some assms show ?thesis by (simp add: createHPASpec_def split: option.splits)
  next
    case (Inr h)
    with Some have "createHPASpec p (Some rs) b v = Some (Inr h)" by simp
    with createHPASpec_wanted [OF this] wanted_hpa_unchanged show ?thesis by auto
  qed
qed

theorem autoscaler_written_once_witness:
  "let rs = \<lparr>rs_APIVersion = ''apps/v1'', rs_Kind = ''ReplicaSet'', rs_meta = zero_meta, rs_Replicas = Some 1,
       rs_MatchLabels = [], rs_TemplateMeta = zero_meta,
       rs_TemplateSpec = \<lparr>ps_TerminationGracePeriodSeconds = None, ps_Containers = [], ps_Hostname = [],
         ps_Subdomain = [], ps_Volumes = []\<rparr>, rs_AvailableReplicas = 1\<rparr>
   in \<exists>h. createHPASpec example_presto (Some rs) [] [] = Some (Inr h) \<and>
        autoscaleSpecChanged h example_presto = Some False"
proof -
  have "as_MinReplicas (pr_Autoscaling example_presto) = Some 2"
      "as_MaxReplicas (pr_Autoscaling example_presto) = Some 3"
      "as_TargetCPUUtilizationPercentage (pr_Autoscaling example_presto) = Some 20"
    by (simp_all add: example_presto_def new_presto_def example_spec_def)
  then have "\<exists>h. createHPASpec example_presto (Some rs) [] [] = Some (Inr h) \<and>
      autoscaleSpecChanged h example_presto = Some False" for rs
    using autoscaler_written_once [of example_presto rs "[]" "[]"] by auto
  then show ?thesis unfolding Let_def by blast
qed

end
