(* ===== verification/Status.thy ===== *)
theory Status
  imports Client Example_Cluster
begin

text \<open>
  The status of a Presto resource and what it is computed from: \<^verbatim>\<open>ClusterUpdateAction\<close>, \<^verbatim>\<open>updateStatus\<close>,
  \<^verbatim>\<open>getPresto\<close>, \<^verbatim>\<open>getCPUUsage\<close> and \<^verbatim>\<open>getCoordinatorPodPhase\<close> of \<^verbatim>\<open>presto_controller.go\<close>.

  \<^verbatim>\<open>updateStatus\<close> writes to a fresh copy of the resource, or, when the resource is not listed, to the
  object of the caller. So it returns that object too, as it is afterwards.
\<close>

record ClusterUpdateAction =
  ua_clusterUUID :: "string option"
  ua_service :: "service option"
  ua_headlessService :: "string option"
  ua_workerConfMap :: "string option"
  ua_coordinatorConfMap :: "string option"
  ua_catalogConfMap :: "string option"
  ua_coordinatorReplicaSetName :: "string option"
  ua_hpaName :: "string option"
  ua_workerReplicaSet :: "replicaset option"
  ua_clusterState :: ClusterState
  ua_errorReason :: "string option"
  ua_coordinatorCPUUsage :: "string option"
  ua_workerCPUUsage :: "string option"

definition no_action :: ClusterUpdateAction where
  "no_action = \<lparr>ua_clusterUUID = None, ua_service = None, ua_headlessService = None,
     ua_workerConfMap = None, ua_coordinatorConfMap = None, ua_catalogConfMap = None,
     ua_coordinatorReplicaSetName = None, ua_hpaName = None, ua_workerReplicaSet = None,
     ua_clusterState = [], ua_errorReason = None, ua_coordinatorCPUUsage = None,
     ua_workerCPUUsage = None\<rparr>"

definition getPresto ::
  "'w lib \<Rightarrow> Presto \<Rightarrow> ('w op_state, go_error + Presto option) go" where
  "getPresto L oldPrestoObj =
     go_bind (call (l_ListPresto L (pr_Namespace oldPrestoObj) (pr_Labels oldPrestoObj)))
       (\<lambda>prestoCluster. case prestoCluster of
          Inl err \<Rightarrow> go_ret (Inl err)
        | Inr items \<Rightarrow> go_ret (Inr (find (\<lambda>pc. pr_Name pc = pr_Name oldPrestoObj) items)))"

text \<open>One \<^verbatim>\<open>if p != nil\<close> block: assign the field and note that there is something to update.\<close>

definition set_if ::
  "'a option \<Rightarrow> ('a \<Rightarrow> PrestoStatus \<Rightarrow> PrestoStatus) \<Rightarrow> PrestoStatus \<times> bool \<Rightarrow> PrestoStatus \<times> bool" where
  "set_if x f = (\<lambda>(st, update). case x of None \<Rightarrow> (st, update) | Some v \<Rightarrow> (f v st, True))"

definition set_service :: "service option \<Rightarrow> PrestoStatus \<times> bool \<Rightarrow> (PrestoStatus \<times> bool) option" where
  "set_service x = (\<lambda>(st, update). case x of
       None \<Rightarrow> Some (st, update)
     | Some svc \<Rightarrow> (case ss_Ports (svc_spec svc) of
           [] \<Rightarrow> None
         | port # _ \<Rightarrow> Some (st\<lparr>
               st_Service := om_Name (svc_meta svc),
               st_CoordinatorAddress := ss_ClusterIP (svc_spec svc) @ '':'' @
                 show_int (sint (sp_Port port)) @ ''/'' @ show_int (sint (sp_NodePort port))\<rparr>, True)))"

definition set_workers :: "replicaset option \<Rightarrow> PrestoStatus \<times> bool \<Rightarrow> (PrestoStatus \<times> bool) option" where
  "set_workers x = (\<lambda>(st, update). case x of
       None \<Rightarrow> Some (st, update)
     | Some rs \<Rightarrow> (case rs_Replicas rs of
           None \<Rightarrow> None
         | Some n \<Rightarrow> Some (st\<lparr>
               st_WorkerReplicaset := om_Name (rs_meta rs),
               st_DesiredWorkers := n,
               st_CurrentWorkers := rs_AvailableReplicas rs\<rparr>, True)))"

definition apply_action :: "ClusterUpdateAction \<Rightarrow> PrestoStatus \<Rightarrow> (PrestoStatus \<times> bool) option" where
  "apply_action a st = do {
     su \<leftarrow> Some (st, False);
     let su = set_if (ua_clusterUUID a) (\<lambda>v st. st\<lparr>st_Uuid := v\<rparr>) su;
     su \<leftarrow> set_service (ua_service a) su;
     let su = set_if (ua_headlessService a) (\<lambda>v st. st\<lparr>st_HeadlessService := v\<rparr>) su;
     let su = set_if (ua_workerConfMap a) (\<lambda>v st. st\<lparr>st_WorkerConfig := v\<rparr>) su;
     let su = set_if (ua_coordinatorConfMap a) (\<lambda>v st. st\<lparr>st_CoordinatorConfig := v\<rparr>) su;
     let su = set_if (ua_catalogConfMap a) (\<lambda>v st. st\<lparr>st_CatalogConfig := v\<rparr>) su;
     let su = set_if (ua_coordinatorReplicaSetName a) (\<lambda>v st. st\<lparr>st_CoordinatorReplicaset := v\<rparr>) su;
     let su = set_if (ua_hpaName a) (\<lambda>v st. st\<lparr>st_HpaName := v\<rparr>) su;
     let su = (if length (ua_clusterState a) \<noteq> 0
               then ((fst su)\<lparr>st_ClusterState := ua_clusterState a\<rparr>, True) else su);
     let su = set_if (ua_errorReason a) (\<lambda>v st. st\<lparr>st_ErrorReason := v\<rparr>) su;
     let su = set_if (ua_workerCPUUsage a) (\<lambda>v st. st\<lparr>st_WorkerCPU := v\<rparr>) su;
     let su = set_if (ua_coordinatorCPUUsage a) (\<lambda>v st. st\<lparr>st_CoordinatorCPU := v\<rparr>) su;
     set_workers (ua_workerReplicaSet a) su }"

text \<open>
  The results are the two of the source and the object of the caller. When that object is the one
  written to, the client decodes the server's answer into it.
\<close>

definition updateStatus ::
  "'w lib \<Rightarrow> Presto \<Rightarrow> ClusterUpdateAction \<Rightarrow> ('w op_state, bool \<times> go_error option \<times> Presto) go" where
  "updateStatus L presto updateAction =
     go_bind (getPresto L presto) (\<lambda>found. case found of
       Inl err \<Rightarrow> go_ret (False, Some err, presto)
     | Inr listed \<Rightarrow>
         let aliased = (listed = None);
             prestoCopy = (case listed of None \<Rightarrow> presto | Some pc \<Rightarrow> pc)
         in go_bind (go_lift (apply_action updateAction (pr_Status prestoCopy))) (\<lambda>(st, update).
              if update
              then go_bind (call (l_Now L)) (\<lambda>now.
                let prestoCopy = prestoCopy\<lparr>pr_Status := st\<lparr>st_ModificationTime := now\<rparr>\<rparr>
                in go_bind (send (UpdateStatus prestoCopy) (l_UpdateStatus L prestoCopy)) (\<lambda>res.
                  case res of
                    Inl err \<Rightarrow> go_ret (False, Some err, if aliased then prestoCopy else presto)
                  | Inr answer \<Rightarrow> go_ret (True, None, if aliased then answer else presto)))
              else go_ret (False, None, presto)))"

subsection \<open>CPU usage\<close>

definition usage_step ::
  "string \<Rightarrow> int64 \<Rightarrow> container_metrics \<Rightarrow> string \<times> quantity \<Rightarrow> int64 \<times> int64 \<Rightarrow> int64 \<times> int64" where
  "usage_step containerPrefix allotted cm = (\<lambda>(k, used) (totalAllotted, totalUsed).
     if k = ResourceCPU \<and> mx_Name cm = containerPrefix
     then (totalAllotted + allotted, totalUsed + q_MilliValue used)
     else (totalAllotted, totalUsed))"

definition cpu_totals ::
  "range_choice \<Rightarrow> string \<Rightarrow> int64 \<Rightarrow> pod_metrics list \<Rightarrow> int64 \<times> int64" where
  "cpu_totals rc containerPrefix allotted items =
     fold (\<lambda>(i, pm). fold (\<lambda>(j, cm).
         fold (usage_step containerPrefix allotted cm) (go_range (rc (UsageLoop i j)) (mx_Usage cm)))
       (enumerate 0 (mx_Containers pm))) (enumerate 0 items) (0, 0)"

definition cpu_percent :: "int64 \<times> int64 \<Rightarrow> int64" where
  "cpu_percent = (\<lambda>(totalAllotted, totalUsed).
     if totalAllotted = 0 then 0 else div64 (totalUsed * 100) totalAllotted)"

text \<open>A quantity that does not parse is the zero quantity.\<close>

definition getCPUUsage :: "'w lib \<Rightarrow> Presto \<Rightarrow> bool \<Rightarrow> ('w op_state, int64) go" where
  "getCPUUsage L presto isCoordinator =
     (let (wk, wv) = (if isCoordinator then getCoordinatorPodLabel (pr_Uuid presto)
                      else getWorkerPodLabel (pr_Uuid presto));
          cpuLimit = (if isCoordinator then co_CpuLimit (pr_Coordinator presto)
                      else wo_CpuLimit (pr_Worker presto))
      in go_bind (go_lift (if isCoordinator then getCoordinatorContainerName (pr_Uuid presto)
                           else getWorkerContainerPrefix (pr_Uuid presto))) (\<lambda>containerPrefix.
         go_bind (call (l_ListPodMetrics L (pr_Namespace presto) [(wk, wv)])) (\<lambda>podsMetrics.
           case podsMetrics of
             Inl err \<Rightarrow> go_ret 0
           | Inr items \<Rightarrow>
               let allotted = (case l_ParseQuantity L cpuLimit of Inl _ \<Rightarrow> 0 | Inr q \<Rightarrow> q_MilliValue q)
               in go_ret (cpu_percent (cpu_totals (l_range L) containerPrefix allotted items)))))"

definition getCoordinatorPodPhase ::
  "'w lib \<Rightarrow> Presto \<Rightarrow> smap \<Rightarrow> ('w op_state, go_error option \<times> string) go" where
  "getCoordinatorPodPhase L presto baseLabels =
     go_bind (call (l_ListPod L (pr_Namespace presto)
         (getCoordinatorPodLabels (l_range L) baseLabels (pr_Uuid presto)))) (\<lambda>pods.
       case pods of
         Inl err \<Rightarrow> go_ret (Some err, PodUnknown)
       | Inr items \<Rightarrow> (case items of
             [] \<Rightarrow> go_ret (None, PodUnknown)
           | pod # _ \<Rightarrow> go_ret (None, pod_Phase pod)))"

subsection \<open>The effect of an action on the status\<close>

definition pick :: "'a option \<Rightarrow> 'a \<Rightarrow> 'a" where
  "pick x d = (case x of None \<Rightarrow> d | Some v \<Rightarrow> v)"

lemma pick_simps [simp]: "pick None d = d" "pick (Some v) d = v"
  by (simp_all add: pick_def)

lemma set_if_eqs:
  "set_if x (\<lambda>v st. st\<lparr>st_Uuid := v\<rparr>) (st, u) =
     (st\<lparr>st_Uuid := pick x (st_Uuid st)\<rparr>, u \<or> x \<noteq> None)"
  "set_if x (\<lambda>v st. st\<lparr>st_HeadlessService := v\<rparr>) (st, u) =
     (st\<lparr>st_HeadlessService := pick x (st_HeadlessService st)\<rparr>, u \<or> x \<noteq> None)"
  "set_if x (\<lambda>v st. st\<lparr>st_WorkerConfig := v\<rparr>) (st, u) =
     (st\<lparr>st_WorkerConfig := pick x (st_WorkerConfig st)\<rparr>, u \<or> x \<noteq> None)"
  "set_if x (\<lambda>v st. st\<lparr>st_CoordinatorConfig := v\<rparr>) (st, u) =
     (st\<lparr>st_CoordinatorConfig := pick x (st_CoordinatorConfig st)\<rparr>, u \<or> x \<noteq> None)"
  "set_if x (\<lambda>v st. st\<lparr>st_CatalogConfig := v\<rparr>) (st, u) =
     (st\<lparr>st_CatalogConfig := pick x (st_CatalogConfig st)\<rparr>, u \<or> x \<noteq> None)"
  "set_if x (\<lambda>v st. st\<lparr>st_CoordinatorReplicaset := v\<rparr>) (st, u) =
     (st\<lparr>st_CoordinatorReplicaset := pick x (st_CoordinatorReplicaset st)\<rparr>, u \<or> x \<noteq> None)"
  "set_if x (\<lambda>v st. st\<lparr>st_HpaName := v\<rparr>) (st, u) =
     (st\<lparr>st_HpaName := pick x (st_HpaName st)\<rparr>, u \<or> x \<noteq> None)"
  "set_if x (\<lambda>v st. st\<lparr>st_ErrorReason := v\<rparr>) (st, u) =
     (st\<lparr>st_ErrorReason := pick x (st_ErrorReason st)\<rparr>, u \<or> x \<noteq> None)"
  "set_if x (\<lambda>v st. st\<lparr>st_WorkerCPU := v\<rparr>) (st, u) =
     (st\<lparr>st_WorkerCPU := pick x (st_WorkerCPU st)\<rparr>, u \<or> x \<noteq> None)"
  "set_if x (\<lambda>v st. st\<lparr>st_CoordinatorCPU := v\<rparr>) (st, u) =
     (st\<lparr>st_CoordinatorCPU := pick x (st_CoordinatorCPU st)\<rparr>, u \<or> x \<noteq> None)"
  by (cases x; simp add: set_if_def)+

text \<open>The actions that crash the operator.\<close>

definition bad_action :: "ClusterUpdateAction \<Rightarrow> bool" where
  "bad_action a \<longleftrightarrow>
     (\<exists>svc. ua_service a = Some svc \<and> ss_Ports (svc_spec svc) = []) \<or>
     (\<exists>rs. ua_workerReplicaSet a = Some rs \<and> rs_Replicas rs = None)"

definition coordinator_address :: "service \<Rightarrow> string" where
  "coordinator_address s = ss_ClusterIP (svc_spec s) @ '':'' @
     show_int (sint (sp_Port (hd (ss_Ports (svc_spec s))))) @ ''/'' @
     show_int (sint (sp_NodePort (hd (ss_Ports (svc_spec s)))))"

lemma set_service_eq:
  "set_service x (st, u) =
     (if \<exists>svc. x = Some svc \<and> ss_Ports (svc_spec svc) = [] then None
      else Some (st\<lparr>
          st_Service := pick (map_option (\<lambda>s. om_Name (svc_meta s)) x) (st_Service st),
          st_CoordinatorAddress := pick (map_option coordinator_address x) (st_CoordinatorAddress st)\<rparr>,
          u \<or> x \<noteq> None))"
  by (cases x) (simp_all add: set_service_def coordinator_address_def split: list.split)

lemma set_workers_eq:
  "set_workers x (st, u) =
     (if \<exists>rs. x = Some rs \<and> rs_Replicas rs = None then None
      else Some (st\<lparr>
          st_WorkerReplicaset := pick (map_option (\<lambda>rs. om_Name (rs_meta rs)) x) (st_WorkerReplicaset st),
          st_DesiredWorkers := pick (map_option (\<lambda>rs. the (rs_Replicas rs)) x) (st_DesiredWorkers st),
          st_CurrentWorkers := pick (map_option rs_AvailableReplicas x) (st_CurrentWorkers st)\<rparr>,
          u \<or> x \<noteq> None))"
  by (cases x) (auto simp: set_workers_def split: option.split)

text \<open>The status after an action, all fields at once.\<close>

definition acted :: "ClusterUpdateAction \<Rightarrow> PrestoStatus \<Rightarrow> PrestoStatus" where
  "acted a st = \<lparr>
     st_Uuid = pick (ua_clusterUUID a) (st_Uuid st),
     st_DesiredWorkers = pick (map_option (\<lambda>rs. the (rs_Replicas rs)) (ua_workerReplicaSet a))
       (st_DesiredWorkers st),
     st_CurrentWorkers = pick (map_option rs_AvailableReplicas (ua_workerReplicaSet a))
       (st_CurrentWorkers st),
     st_HeadlessService = pick (ua_headlessService a) (st_HeadlessService st),
     st_Service = pick (map_option (\<lambda>s. om_Name (svc_meta s)) (ua_service a)) (st_Service st),
     st_CoordinatorAddress = pick (map_option coordinator_address (ua_service a))
       (st_CoordinatorAddress st),
     st_CatalogConfig = pick (ua_catalogConfMap a) (st_CatalogConfig st),
     st_CoordinatorConfig = pick (ua_coordinatorConfMap a) (st_CoordinatorConfig st),
     st_WorkerConfig = pick (ua_workerConfMap a) (st_WorkerConfig st),
     st_WorkerReplicaset = pick (map_option (\<lambda>rs. om_Name (rs_meta rs)) (ua_workerReplicaSet a))
       (st_WorkerReplicaset st),
     st_CoordinatorReplicaset = pick (ua_coordinatorReplicaSetName a) (st_CoordinatorReplicaset st),
     st_HpaName = pick (ua_hpaName a) (st_HpaName st),
     st_ClusterState = (if ua_clusterState a = [] then st_ClusterState st else ua_clusterState a),
     st_ErrorReason = pick (ua_errorReason a) (st_ErrorReason st),
     st_ModificationTime = st_ModificationTime st,
     st_CoordinatorCPU = pick (ua_coordinatorCPUUsage a) (st_CoordinatorCPU st),
     st_WorkerCPU = pick (ua_workerCPUUsage a) (st_WorkerCPU st)\<rparr>"

lemma some_action:
  "a \<noteq> no_action \<longleftrightarrow>
     ua_clusterUUID a \<noteq> None \<or> ua_service a \<noteq> None \<or> ua_headlessService a \<noteq> None \<or>
     ua_workerConfMap a \<noteq> None \<or> ua_coordinatorConfMap a \<noteq> None \<or> ua_catalogConfMap a \<noteq> None \<or>
     ua_coordinatorReplicaSetName a \<noteq> None \<or> ua_hpaName a \<noteq> None \<or> ua_clusterState a \<noteq> [] \<or>
     ua_errorReason a \<noteq> None \<or> ua_workerCPUUsage a \<noteq> None \<or> ua_coordinatorCPUUsage a \<noteq> None \<or>
     ua_workerReplicaSet a \<noteq> None"
  by (cases a) (auto simp: no_action_def)

lemma set_state_eq:
  "(if length s \<noteq> 0 then ((fst (st, u))\<lparr>st_ClusterState := s\<rparr>, True) else (st, u)) =
     (st\<lparr>st_ClusterState := (if s = [] then st_ClusterState st else s)\<rparr>, u \<or> s \<noteq> [])"
  by simp

lemma apply_action_eq:
  "apply_action a st = (if bad_action a then None else Some (acted a st, a \<noteq> no_action))"
  unfolding apply_action_def Let_def Option.bind.bind_lunit set_if_eqs set_state_eq
    set_service_eq set_workers_eq some_action bad_action_def acted_def
  by (cases st) (simp add: set_if_eqs set_workers_eq del: not_None_eq, blast)

subsection \<open>What updateStatus sends\<close>

lemma getPresto_emits: "emits (getPresto L p) (\<lambda>r ws. r \<noteq> None \<and> ws = [])"
  unfolding getPresto_def by (intro emits_rules) simp_all

lemma emits_bind_getPresto:
  "(\<And>r. emits (f r) Q) \<Longrightarrow> emits (go_bind (getPresto L p) f) Q"
  by (rule emits_bind, rule emits_mono [OF getPresto_emits]) auto

text \<open>
  One status write at most, of a status that differs from the one read only in what the action sets
  and in the modification time; the spec and the meta data are the ones read.
\<close>

lemma updateStatus_emits:
  "emits (updateStatus L p a) (\<lambda>r ws. case r of
     None \<Rightarrow> ws = [] \<and> bad_action a
   | Some (updated, err, p') \<Rightarrow>
       (ws = [] \<and> \<not> updated \<and> p' = p \<and> (a \<noteq> no_action \<longrightarrow> err \<noteq> None)) \<or>
       (\<exists>q now ok. ws = [(UpdateStatus (q\<lparr>pr_Status := (acted a (pr_Status q))\<lparr>st_ModificationTime := now\<rparr>\<rparr>), ok)] \<and>
          updated = ok \<and> (err = None) = ok))"
  unfolding updateStatus_def Let_def
  by (intro emits_rules emits_bind_getPresto) (auto simp: apply_action_eq split: if_splits)

lemma updateStatus_quiet:
  "emits (updateStatus L p a) (\<lambda>r ws. object_writes ws = [])"
  by (rule emits_mono [OF updateStatus_emits]) (auto split: option.splits)

lemma emits_bind_updateStatus:
  assumes "\<And>ws. object_writes ws = [] \<Longrightarrow> Q None ws"
    and "\<And>x ws. object_writes ws = [] \<Longrightarrow> emits (f x) (\<lambda>r ws'. Q r (ws @ ws'))"
  shows "emits (go_bind (updateStatus L p a) f) Q"
  by (rule emits_bind, rule emits_mono [OF updateStatus_quiet])
    (auto split: option.split intro: assms)

text \<open>
  The object of the caller stays the same cluster, whichever object was written to, provided that the
  server answers a status update with the object that was sent, up to its status fields other than
  the UUID: the status endpoint ignores everything but the status.
\<close>

definition same_cluster :: "Presto \<Rightarrow> Presto \<Rightarrow> bool" where
  "same_cluster p q \<longleftrightarrow> pr_APIVersion p = pr_APIVersion q \<and> pr_Kind p = pr_Kind q \<and>
     pr_Name p = pr_Name q \<and> pr_Namespace p = pr_Namespace q \<and> pr_UID p = pr_UID q \<and>
     pr_Spec p = pr_Spec q \<and> pr_Uuid p = pr_Uuid q"

definition answers_in_kind :: "'w lib \<Rightarrow> bool" where
  "answers_in_kind L \<longleftrightarrow>
     (\<forall>q w q' w'. l_UpdateStatus L q w = (Inr q', w') \<longrightarrow> same_cluster q q')"

lemma same_cluster_refl [simp]: "same_cluster p p"
  by (simp add: same_cluster_def)

lemma same_cluster_trans: "same_cluster p q \<Longrightarrow> same_cluster q r \<Longrightarrow> same_cluster p r"
  by (simp add: same_cluster_def)

lemma updateStatus_same_cluster:
  assumes "ua_clusterUUID a = None"
  shows "emits (updateStatus L p a) (\<lambda>r ws. object_writes ws = [] \<and>
    (\<forall>u e p'. r = Some (u, e, p') \<longrightarrow> answers_in_kind L \<longrightarrow> same_cluster p p'))"
proof -
  have acted: "same_cluster q (q\<lparr>pr_Status := (acted a (pr_Status q))\<lparr>st_ModificationTime := now\<rparr>\<rparr>)"
    for q now using assms by (simp add: same_cluster_def acted_def)
  have answer: "same_cluster p q'" if "answers_in_kind L" "same_cluster p q" "l_UpdateStatus L q w = (Inr q', w')"
    for q q' w w'
    using that unfolding answers_in_kind_def by (blast intro: same_cluster_trans)
  show ?thesis
  unfolding updateStatus_def Let_def
  by (intro emits_ret emits_bind_getPresto emits_case_sum emits_bind_lift emits_case_prod emits_if
      emits_bind_call emits_bind_send_answer)
   (auto simp: apply_action_eq acted split: if_splits option.splits
     intro: answer [OF _ acted])
qed

lemma emits_bind_updateStatus_same:
  assumes "ua_clusterUUID a = None"
    and "\<And>ws. object_writes ws = [] \<Longrightarrow> Q None ws"
    and "\<And>u e p' ws. object_writes ws = [] \<Longrightarrow> (answers_in_kind L \<longrightarrow> same_cluster p p') \<Longrightarrow>
      emits (f (u, e, p')) (\<lambda>r ws'. Q r (ws @ ws'))"
  shows "emits (go_bind (updateStatus L p a) f) Q"
  using assms(2,3) by (intro emits_bind_via [OF updateStatus_same_cluster [OF assms(1)]]) auto

subsection \<open>The CPU totals\<close>








subsection \<open>Properties\<close>

text \<open>
  C15. The sequence of tests and assignments of \<^verbatim>\<open>updateStatus\<close> does what the action says, field by field: a
  field is set exactly when the action has a value for it and keeps its value otherwise, and there is
  something to write exactly when the action is not empty. It panics exactly on a service without a port
  and on a replica set without a replica count.
\<close>

theorem status_action_fields:
  "apply_action a st = (if bad_action a then None else Some (acted a st, a \<noteq> no_action))"
  by (rule apply_action_eq)






end
