(* ===== verification/Reconciler.thy ===== *)
theory Reconciler
  imports Services Pods Autoscaler Status
begin

text \<open>
  The reconcile loop of \<^verbatim>\<open>presto_controller.go\<close>: the eight stages and \<^verbatim>\<open>Reconcile\<close>.

  A stage ensures one object. It returns the error and whether it changed something, and, because the
  source passes pointers, the Presto object and the base labels as they are afterwards.
  \<open>next_stage\<close> is the pattern with which \<^verbatim>\<open>Reconcile\<close> goes from one stage to the next.
\<close>

subsection \<open>The stages\<close>

definition headlessServiceConfig ::
  "'w lib \<Rightarrow> Presto \<Rightarrow> smap \<Rightarrow> ('w op_state, go_error option \<times> bool \<times> Presto \<times> smap) go" where
  "headlessServiceConfig L presto baseLabels =
     go_bind (createHeadLessPodDiscoverySvc L presto baseLabels) (\<lambda>(err, created, baseLabels).
       case err of
         Some e \<Rightarrow>
           go_bind (eventf EventTypeWarning ''Failed''
             (''Failed to create headless service for pods '' @ err_Error e)) (\<lambda>_.
           go_bind (updateStatus L presto (no_action\<lparr>
               ua_errorReason := Some (''Failed to create headless service for pods '' @ err_Error e),
               ua_clusterState := ClusterFailedState\<rparr>)) (\<lambda>(_, _, presto).
           go_ret (err, False, presto, baseLabels)))
       | None \<Rightarrow>
           if created
           then go_bind (go_lift (getPodDiscoveryServiceName (pr_Uuid presto))) (\<lambda>headlessSvc.
             go_bind (eventf EventTypeNormal ''Created'' (''Created Headless Service. '' @ headlessSvc)) (\<lambda>_.
             go_bind (updateStatus L presto (no_action\<lparr>ua_headlessService := Some headlessSvc,
                 ua_clusterState := ClusterPending\<rparr>)) (\<lambda>(_, _, presto).
             go_ret (None, True, presto, baseLabels))))
           else go_ret (None, False, presto, baseLabels))"

definition serviceConfig ::
  "'w lib \<Rightarrow> Presto \<Rightarrow> smap \<Rightarrow>
     ('w op_state, go_error option \<times> bool \<times> Presto \<times> smap \<times> service option) go" where
  "serviceConfig L presto baseLabels =
     go_bind (createOrGetService L presto baseLabels) (\<lambda>(err, service, created, baseLabels).
       case err of
         Some e \<Rightarrow>
           go_bind (eventf EventTypeWarning ''Failed''
             (''Failed to create service for pods '' @ err_Error e)) (\<lambda>_.
           go_bind (updateStatus L presto (no_action\<lparr>
               ua_errorReason := Some (''Failed to create service for pods '' @ err_Error e),
               ua_clusterState := ClusterFailedState\<rparr>)) (\<lambda>(_, _, presto).
           go_ret (err, False, presto, baseLabels, None)))
       | None \<Rightarrow>
           go_bind (if created
             then go_bind (go_lift (getExternalServiceName (pr_Uuid presto))) (\<lambda>svcName.
               eventf EventTypeNormal ''Created'' (''Created Service. '' @ svcName))
             else go_ret ()) (\<lambda>_.
           go_bind (if created \<or> length (st_CoordinatorAddress (pr_Status presto)) = 0
             then go_bind (updateStatus L presto (no_action\<lparr>ua_service := service,
                 ua_clusterState := ClusterPending\<rparr>)) (\<lambda>(_, _, presto). go_ret presto)
             else go_ret presto) (\<lambda>presto.
           go_ret (None, created, presto, baseLabels, service))))"

definition coordinatorConfig ::
  "'w lib \<Rightarrow> Presto \<Rightarrow> smap \<Rightarrow> ('w op_state, go_error option \<times> bool \<times> Presto) go" where
  "coordinatorConfig L presto baseLabels =
     go_bind (createCoordinatorConfig L presto baseLabels) (\<lambda>(created, err).
       case err of
         Some e \<Rightarrow>
           go_bind (updateStatus L presto (no_action\<lparr>
               ua_errorReason := Some (''Failed to create coordinator config map '' @ err_Error e),
               ua_clusterState := ClusterFailedState\<rparr>)) (\<lambda>(_, _, presto).
           go_bind (eventf EventTypeWarning ''Failed''
             (''failed to create coordinator config map '' @ err_Error e)) (\<lambda>_.
           go_ret (err, False, presto)))
       | None \<Rightarrow>
           if created
           then go_bind (go_lift (getCoordinatorConfigMapName (pr_Uuid presto))) (\<lambda>cm.
             go_bind (updateStatus L presto (no_action\<lparr>ua_coordinatorConfMap := Some cm,
                 ua_clusterState := ClusterPending\<rparr>)) (\<lambda>(_, _, presto).
             go_bind (eventf EventTypeNormal ''Created'' (''Created Coordinator Config. '' @ cm)) (\<lambda>_.
             go_ret (None, created, presto))))
           else go_ret (None, created, presto))"

definition workerConfig ::
  "'w lib \<Rightarrow> Presto \<Rightarrow> smap \<Rightarrow> ('w op_state, go_error option \<times> bool \<times> Presto) go" where
  "workerConfig L presto baseLabels =
     go_bind (createWorkerConfig L presto baseLabels) (\<lambda>(created, err).
       case err of
         Some e \<Rightarrow>
           go_bind (updateStatus L presto (no_action\<lparr>
               ua_errorReason := Some (''Failed to create worker config map '' @ err_Error e),
               ua_clusterState := ClusterFailedState\<rparr>)) (\<lambda>(_, _, presto).
           go_bind (eventf EventTypeWarning ''Failed''
             (''Failed to create worker config map '' @ err_Error e)) (\<lambda>_.
           go_ret (err, created, presto)))
       | None \<Rightarrow>
           if created
           then go_bind (go_lift (getWorkerConfigMapName (pr_Uuid presto))) (\<lambda>wm.
             go_bind (updateStatus L presto (no_action\<lparr>ua_workerConfMap := Some wm,
                 ua_clusterState := ClusterPending\<rparr>)) (\<lambda>(_, _, presto).
             go_bind (eventf EventTypeNormal ''Created'' (''Created Worker Config. '' @ wm)) (\<lambda>_.
             go_ret (None, created, presto))))
           else go_ret (None, created, presto))"

definition catalogConfig ::
  "'w lib \<Rightarrow> Presto \<Rightarrow> smap \<Rightarrow> ('w op_state, go_error option \<times> bool \<times> Presto) go" where
  "catalogConfig L presto baseLabels =
     go_bind (createCatalogConfig L presto baseLabels) (\<lambda>(created, err).
       case err of
         Some e \<Rightarrow>
           go_bind (updateStatus L presto (no_action\<lparr>
               ua_errorReason := Some (''Failed to create catalog config map '' @ err_Error e),
               ua_clusterState := ClusterFailedState\<rparr>)) (\<lambda>(_, _, presto).
           go_bind (eventf EventTypeWarning ''Failed''
             (''Failed to create catalog config map '' @ err_Error e)) (\<lambda>_.
           go_ret (err, created, presto)))
       | None \<Rightarrow>
           if created
           then go_bind (go_lift (getCatalogConfigMapName (pr_Uuid presto))) (\<lambda>cc.
             go_bind (updateStatus L presto (no_action\<lparr>ua_catalogConfMap := Some cc,
                 ua_clusterState := ClusterPending\<rparr>)) (\<lambda>(_, _, presto).
             go_bind (eventf EventTypeNormal ''Created'' (''Created Catalog Config. '' @ cc)) (\<lambda>_.
             go_ret (None, True, presto))))
           else go_ret (None, created, presto))"

definition coordinatorReplicaset ::
  "'w lib \<Rightarrow> Presto \<Rightarrow> smap \<Rightarrow> ('w op_state, go_error option \<times> bool \<times> Presto) go" where
  "coordinatorReplicaset L presto baseLabels =
     go_bind (createUpdateReplicaSetForCoordinator L presto
         (getCoordinatorPodLabels (l_range L) baseLabels (pr_Uuid presto))) (\<lambda>(_, created, err).
       case err of
         Some e \<Rightarrow>
           go_bind (updateStatus L presto (no_action\<lparr>
               ua_errorReason := Some (''Failed to create coordinator replicaset '' @ err_Error e),
               ua_clusterState := ClusterFailedState\<rparr>)) (\<lambda>(_, _, presto).
           go_bind (eventf EventTypeWarning ''Failed''
             (''Failed to create/update coordinator replicaset '' @ err_Error e)) (\<lambda>_.
           go_ret (err, created, presto)))
       | None \<Rightarrow>
           if created
           then go_bind (go_lift (getCoordinatorReplicaset (pr_Uuid presto))) (\<lambda>cr.
             go_bind (updateStatus L presto (no_action\<lparr>ua_coordinatorReplicaSetName := Some cr,
                 ua_clusterState := ClusterPending\<rparr>)) (\<lambda>(_, _, presto).
             go_bind (eventf EventTypeNormal ''Created'' (''Created Coordinator Replicaset. '' @ cr)) (\<lambda>_.
             go_ret (None, created, presto))))
           else go_ret (None, created, presto))"

definition workerReplicaset ::
  "'w lib \<Rightarrow> Presto \<Rightarrow> smap \<Rightarrow>
     ('w op_state, go_error option \<times> bool \<times> Presto \<times> replicaset option) go" where
  "workerReplicaset L presto baseLabels =
     go_bind (createUpdateReplicaSetForWorker L presto
         (getWorkerPodLabels (l_range L) baseLabels (pr_Uuid presto)))
       (\<lambda>(workerReplicaSet, created, updated, err).
       case err of
         Some e \<Rightarrow>
           go_bind (updateStatus L presto (no_action\<lparr>
               ua_errorReason := Some (''Failed to create worker replicaset '' @ err_Error e),
               ua_clusterState := ClusterFailedState\<rparr>)) (\<lambda>(_, _, presto).
           go_bind (eventf EventTypeWarning ''Failed''
             (''Failed to create worker replicaset '' @ err_Error e)) (\<lambda>_.
           go_ret (err, False, presto, workerReplicaSet)))
       | None \<Rightarrow>
           go_bind (if updated
             then go_bind (go_lift workerReplicaSet) (\<lambda>rs.
               go_bind (eventf EventTypeNormal ''Updated''
                 (''Updated Worker Replicaset. '' @ om_Name (rs_meta rs) @ '' '')) (\<lambda>_.
               go_bind (updateStatus L presto (no_action\<lparr>ua_workerReplicaSet := workerReplicaSet,
                   ua_clusterState := ClusterPending\<rparr>)) (\<lambda>(_, _, presto). go_ret presto)))
             else go_ret presto) (\<lambda>presto.
           go_bind (if created
             then go_bind (updateStatus L presto (no_action\<lparr>ua_workerReplicaSet := workerReplicaSet,
                   ua_clusterState := ClusterPending\<rparr>)) (\<lambda>(_, _, presto).
               go_bind (go_lift workerReplicaSet) (\<lambda>rs.
               go_bind (eventf EventTypeNormal ''Created''
                 (''Created Worker Replicaset. '' @ om_Name (rs_meta rs))) (\<lambda>_. go_ret presto)))
             else go_ret presto) (\<lambda>presto.
           go_ret (None, updated \<or> created, presto, workerReplicaSet))))"

definition hpaReplicaset ::
  "'w lib \<Rightarrow> Presto \<Rightarrow> smap \<Rightarrow> replicaset option \<Rightarrow>
     ('w op_state, go_error option \<times> bool \<times> Presto) go" where
  "hpaReplicaset L presto baseLabels workerReplicaSet =
     go_bind (handleReplicaSet L presto workerReplicaSet baseLabels) (\<lambda>(created, updated, deleted, err).
       case err of
         Some e \<Rightarrow>
           go_bind (updateStatus L presto (no_action\<lparr>
               ua_errorReason := Some (''Failed to create autoscale config '' @ err_Error e),
               ua_clusterState := ClusterFailedState\<rparr>)) (\<lambda>(_, _, presto).
           go_bind (eventf EventTypeWarning ''Failed''
             (''failed to create/update autoscale replicaset '' @ err_Error e)) (\<lambda>_.
           go_ret (err, False, presto)))
       | None \<Rightarrow>
           go_bind (if created
             then go_bind (go_lift (getHPAName (pr_Uuid presto))) (\<lambda>hpaName.
               go_bind (updateStatus L presto (no_action\<lparr>ua_hpaName := Some hpaName,
                   ua_clusterState := ClusterPending\<rparr>)) (\<lambda>(_, _, presto).
               go_bind (eventf EventTypeNormal ''Created'' (''Created HPA. '' @ hpaName)) (\<lambda>_.
               go_ret presto)))
             else go_ret presto) (\<lambda>presto.
           go_bind (if updated
             then go_bind (go_lift (getHPAName (pr_Uuid presto))) (\<lambda>hpaName.
               eventf EventTypeNormal ''Updated'' (''Updated HPA. '' @ hpaName))
             else go_ret ()) (\<lambda>_.
           go_bind (if deleted
             then go_bind (go_lift (getHPAName (pr_Uuid presto))) (\<lambda>hpaName.
               go_bind (eventf EventTypeNormal ''Deleted'' (''Deleted HPA. '' @ hpaName)) (\<lambda>_.
               go_bind (updateStatus L presto (no_action\<lparr>ua_hpaName := Some [],
                   ua_clusterState := ClusterPending\<rparr>)) (\<lambda>(_, _, presto). go_ret presto)))
             else go_ret presto) (\<lambda>presto.
           go_ret (None, created \<or> updated \<or> deleted, presto)))))"

subsection \<open>Reconcile\<close>

record reconcile_result =
  rr_Requeue :: bool
  rr_RequeueAfter :: int

definition empty_result :: reconcile_result where
  "empty_result = \<lparr>rr_Requeue = False, rr_RequeueAfter = 0\<rparr>"

type_synonym 'w reconcile = "('w op_state, reconcile_result \<times> go_error option) go"

definition next_stage ::
  "('w op_state, go_error option \<times> bool \<times> 'x) go \<Rightarrow> ('x \<Rightarrow> 'w reconcile) \<Rightarrow> 'w reconcile" where
  "next_stage stage rest = go_bind stage (\<lambda>(err, changesMade, x).
     if err \<noteq> None then go_ret (empty_result, err)
     else if changesMade then go_ret (empty_result, None)
     else rest x)"

text \<open>The last part: the cluster state from the phase of the coordinator pod.\<close>

definition reportClusterState ::
  "'w lib \<Rightarrow> Presto \<Rightarrow> smap \<Rightarrow> replicaset option \<Rightarrow> 'w reconcile" where
  "reportClusterState L presto baseLabels workerReplicaSet =
     go_bind (getCoordinatorPodPhase L presto baseLabels) (\<lambda>(_, coordinatorPodPhase).
       let base = no_action\<lparr>ua_workerReplicaSet := workerReplicaSet\<rparr>
       in go_bind
         (if coordinatorPodPhase = PodPending
          then updateStatus L presto (base\<lparr>ua_clusterState := ClusterPending\<rparr>)
          else if coordinatorPodPhase = PodFailed
          then updateStatus L presto (base\<lparr>ua_clusterState := ClusterFailedState\<rparr>)
          else if coordinatorPodPhase = PodRunning
          then go_bind (getCPUUsage L presto False) (\<lambda>w.
            let workerCPU = show_int (sint w) @ ''%''
            in go_bind (getCPUUsage L presto True) (\<lambda>c.
            let coordinatorCPU = show_int (sint c) @ ''%''
            in updateStatus L presto (base\<lparr>ua_clusterState := ClusterReadyState,
                 ua_workerCPUUsage := Some workerCPU, ua_coordinatorCPUUsage := Some coordinatorCPU\<rparr>)))
          else updateStatus L presto (base\<lparr>ua_clusterState := ClusterUnknown\<rparr>))
         (\<lambda>_. go_ret (empty_result, None)))"

text \<open>From the base labels on.\<close>

definition reconcileStages :: "'w lib \<Rightarrow> Presto \<Rightarrow> 'w reconcile" where
  "reconcileStages L presto =
     (let baseLabels = [(''clusterUUID'', pr_Uuid presto), (''clusterName'', pr_Name presto)]
      in next_stage (headlessServiceConfig L presto baseLabels) (\<lambda>(presto, baseLabels).
         next_stage (serviceConfig L presto baseLabels) (\<lambda>(presto, baseLabels, _).
         next_stage (coordinatorConfig L presto baseLabels) (\<lambda>presto.
         next_stage (workerConfig L presto baseLabels) (\<lambda>presto.
         next_stage (catalogConfig L presto baseLabels) (\<lambda>presto.
         next_stage (coordinatorReplicaset L presto baseLabels) (\<lambda>presto.
         next_stage (workerReplicaset L presto baseLabels) (\<lambda>(presto, workerReplicaSet).
         next_stage (hpaReplicaset L presto baseLabels workerReplicaSet) (\<lambda>presto.
         reportClusterState L presto baseLabels workerReplicaSet)))))))))"

definition register_presto :: "nsname \<Rightarrow> Presto \<Rightarrow> ('w op_state, unit) go" where
  "register_presto key presto = (\<lambda>s. (Some (),
     if map_of (os_registered s) key = None
     then s\<lparr>os_registered := AList.update key presto (os_registered s)\<rparr> else s))"

definition unregister_presto :: "nsname \<Rightarrow> ('w op_state, unit) go" where
  "unregister_presto key = (\<lambda>s. (Some (), s\<lparr>os_registered := AList.delete key (os_registered s)\<rparr>))"

text \<open>The part for a resource that exists: it gets a UUID first.\<close>

definition reconcilePresto :: "'w lib \<Rightarrow> Presto \<Rightarrow> 'w reconcile" where
  "reconcilePresto L presto =
     (if length (pr_Uuid presto) = 0
      then go_bind (call (l_NewUUID L)) (\<lambda>fresh. go_bind (go_lift fresh) (\<lambda>clusterUUID.
        go_bind (updateStatus L presto (no_action\<lparr>ua_clusterUUID := Some clusterUUID\<rparr>))
          (\<lambda>(updated, err, presto).
            if err \<noteq> None then go_ret (empty_result, err)
            else if updated then go_ret (empty_result\<lparr>rr_RequeueAfter := 0\<rparr>, None)
            else reconcileStages L presto)))
      else reconcileStages L presto)"

definition Reconcile :: "'w lib \<Rightarrow> nsname \<Rightarrow> 'w reconcile" where
  "Reconcile L request =
     go_bind (call (l_Get L request)) (\<lambda>got. case got of
       Inl err \<Rightarrow>
         if isNotFound (Some err)
         then go_bind (unregister_presto request) (\<lambda>_. go_ret (empty_result, None))
         else go_ret (empty_result, Some err)
     | Inr presto \<Rightarrow> go_bind (register_presto request presto) (\<lambda>_. reconcilePresto L presto))"

subsection \<open>The contract of a stage\<close>

text \<open>
  A stage either sends no object write and reports no change, or sends one object write that is as
  \<open>\<phi>\<close> says and reports either a change or an error. When it reports neither, what it returns is as
  \<open>post\<close> says.
\<close>

definition stage_outcome ::
  "(request \<Rightarrow> bool) \<Rightarrow> ('x \<Rightarrow> bool) \<Rightarrow> (go_error option \<times> bool \<times> 'x) option \<Rightarrow> log \<Rightarrow> bool" where
  "stage_outcome \<phi> post r ws \<longleftrightarrow>
     (\<forall>x. r = Some (None, False, x) \<longrightarrow> object_writes ws = [] \<and> post x) \<and>
     (object_writes ws = [] \<and> (\<forall>err changed x. r = Some (err, changed, x) \<longrightarrow> \<not> changed) \<or>
      (\<exists>req ok. object_writes ws = [(req, ok)] \<and> \<phi> req))"

definition at_most_one :: "(request \<Rightarrow> bool) \<Rightarrow> log \<Rightarrow> bool" where
  "at_most_one \<psi> ws \<longleftrightarrow>
     object_writes ws = [] \<or> (\<exists>req ok. object_writes ws = [(req, ok)] \<and> \<psi> req)"

lemma at_most_one_append:
  "object_writes ws = [] \<Longrightarrow> at_most_one \<psi> (ws @ ws') = at_most_one \<psi> ws'"
  by (simp add: at_most_one_def)

locale reconcile_stage =
  fixes stage :: "'w lib \<Rightarrow> Presto \<Rightarrow> smap \<Rightarrow> ('w op_state, go_error option \<times> bool \<times> 'x) go"
    and \<phi> :: "'w lib \<Rightarrow> Presto \<Rightarrow> smap \<Rightarrow> request \<Rightarrow> bool"
    and post :: "'w lib \<Rightarrow> Presto \<Rightarrow> smap \<Rightarrow> 'x \<Rightarrow> bool"
  assumes stage_emits: "emits (stage L p b) (stage_outcome (\<phi> L p b) (post L p b))"
begin

text \<open>The stages after it run only when it has written nothing.\<close>

lemma then_next:
  assumes "\<And>req. \<phi> L p b req \<Longrightarrow> \<psi> req"
    and "\<And>x. post L p b x \<Longrightarrow> emits (rest x) (\<lambda>r. at_most_one \<psi>)"
  shows "emits (next_stage (stage L p b) rest) (\<lambda>r. at_most_one \<psi>)"
  unfolding next_stage_def
proof (rule emits_bind, rule emits_mono [OF stage_emits])
  fix r ws
  assume out: "stage_outcome (\<phi> L p b) (post L p b) r ws"
  then have one: "at_most_one \<psi> ws"
    using assms(1) by (auto simp: stage_outcome_def at_most_one_def)
  show "case r of None \<Rightarrow> at_most_one \<psi> ws
    | Some x \<Rightarrow> emits (case x of (err, changesMade, x) \<Rightarrow>
          if err \<noteq> None then go_ret (empty_result, err)
          else if changesMade then go_ret (empty_result, None) else rest x)
        (\<lambda>r' ws'. at_most_one \<psi> (ws @ ws'))"
  proof (cases r)
    case (Some y)
    obtain err changed x where y: "y = (err, changed, x)" by (cases y) auto
    show ?thesis
    proof (cases "err = None \<and> \<not> changed")
      case True
      with out Some y have "object_writes ws = []" "post L p b x"
        by (auto simp: stage_outcome_def)
      with True Some y show ?thesis
        by (simp add: at_most_one_append assms(2))
    next
      case False
      with Some y one show ?thesis by (auto intro!: emits_ret)
    qed
  qed (simp add: one)
qed

end

subsection \<open>The eight stages\<close>

lemmas stage_flow = emits_ret emits_bind_lift emits_bind_eventf emits_eventf
  emits_bind_if emits_bind_assoc emits_bind_ret emits_bind_case_prod
  emits_if emits_case_option emits_case_prod

lemmas stage_rules = stage_flow emits_bind_updateStatus
lemmas service_rules = stage_flow emits_bind_updateStatus_same

interpretation headless_stage: reconcile_stage headlessServiceConfig
    "\<lambda>L p b req. \<exists>s. req = CreateService s \<and> headless_service p (headless_labels p b) s"
    "\<lambda>L p b x. x = (p, headless_labels p b)"
  by (unfold_locales, unfold headlessServiceConfig_def, rule emits_bind_via [OF headless_emits])
    (simp add: stage_outcome_def, intro stage_rules, auto simp: stage_outcome_def write_outcome_def)

interpretation service_stage: reconcile_stage serviceConfig
    "\<lambda>L p b req. \<exists>s. req = CreateService s \<and> external_service p (external_labels p b) s"
    "\<lambda>L p b x. fst (snd x) = external_labels p b \<and> (answers_in_kind L \<longrightarrow> same_cluster p (fst x))"
  by (unfold_locales, unfold serviceConfig_def, rule emits_bind_via [OF external_emits])
    (simp add: stage_outcome_def, intro service_rules,
      auto simp: stage_outcome_def no_action_def)

interpretation coordinator_config_stage: reconcile_stage coordinatorConfig
    "\<lambda>L p b req. \<exists>n cm. req = CreateConfigMap cm \<and>
       getCoordinatorConfigMapName (pr_Uuid p) = Some n \<and>
       buildConfigMap (l_ParseQuantity L) (l_range L) p True n b = Some (Inr cm) \<and>
       owned_meta p n b (cm_meta cm)"
    "\<lambda>L p b x. x = p"
  by (unfold_locales, unfold coordinatorConfig_def, rule emits_bind_via [OF coordinator_cm.create_emits])
    (simp add: stage_outcome_def write_outcome_def, intro stage_rules,
      auto simp: stage_outcome_def write_outcome_def)

interpretation worker_config_stage: reconcile_stage workerConfig
    "\<lambda>L p b req. \<exists>n cm. req = CreateConfigMap cm \<and>
       getWorkerConfigMapName (pr_Uuid p) = Some n \<and>
       buildConfigMap (l_ParseQuantity L) (l_range L) p False n b = Some (Inr cm) \<and>
       owned_meta p n b (cm_meta cm)"
    "\<lambda>L p b x. x = p"
  by (unfold_locales, unfold workerConfig_def, rule emits_bind_via [OF worker_cm.create_emits])
    (simp add: stage_outcome_def write_outcome_def, intro stage_rules,
      auto simp: stage_outcome_def write_outcome_def)

interpretation catalog_config_stage: reconcile_stage catalogConfig
    "\<lambda>L p b req. \<exists>n cm. req = CreateConfigMap cm \<and>
       getCatalogConfigMapName (pr_Uuid p) = Some n \<and>
       buildCatalogConfigMap (l_range L) p n b = Inr cm \<and>
       owned_meta p n b (cm_meta cm)"
    "\<lambda>L p b x. x = p"
  by (unfold_locales, unfold catalogConfig_def, rule emits_bind_via [OF catalog_cm.create_emits])
    (simp add: stage_outcome_def write_outcome_def, intro stage_rules,
      auto simp: stage_outcome_def write_outcome_def)

interpretation coordinator_rs_stage: reconcile_stage coordinatorReplicaset
    "\<lambda>L p b req. \<exists>rs. req = CreateReplicaSet rs \<and>
       createReplicaSetForCoordinator (l_ParseQuantity L) p
         (getCoordinatorPodLabels (l_range L) b (pr_Uuid p)) = Some (Inr rs)"
    "\<lambda>L p b x. x = p"
  by (unfold_locales, unfold coordinatorReplicaset_def, rule emits_bind_via [OF coordinator_rs_emits])
    (simp add: stage_outcome_def write_outcome_def, intro stage_rules,
      auto simp: stage_outcome_def write_outcome_def)

interpretation worker_rs_stage: reconcile_stage workerReplicaset
    "\<lambda>L p b. worker_write L p (getWorkerPodLabels (l_range L) b (pr_Uuid p))"
    "\<lambda>L p b x. \<exists>rs. x = (p, Some rs)"
  by (unfold_locales, unfold workerReplicaset_def, rule emits_bind_via [OF worker_rs_emits])
    (simp add: stage_outcome_def, intro stage_rules,
      auto simp: stage_outcome_def write_outcome_def worker_write_object)

interpretation hpa_stage: reconcile_stage "\<lambda>L p b. hpaReplicaset L p b wrs"
    "\<lambda>L p b. hpa_write p wrs b"
    "\<lambda>L p b x. x = p" for wrs
  by (unfold_locales, unfold hpaReplicaset_def, rule emits_bind_via [OF handleReplicaSet_emits])
    (simp add: stage_outcome_def, intro stage_rules,
      auto simp: stage_outcome_def write_outcome_def hpa_write_object)

subsection \<open>What the stages send together\<close>

abbreviation base_labels :: "Presto \<Rightarrow> smap" where
  "base_labels p \<equiv> [(''clusterUUID'', pr_Uuid p), (''clusterName'', pr_Name p)]"

text \<open>The base labels once the two service stages have added theirs.\<close>

definition stage_labels :: "Presto \<Rightarrow> smap" where
  "stage_labels p = [(''clusterUUID'', pr_Uuid p), (''clusterName'', pr_Name p),
     (''pod-discovery'', pr_Uuid p), (''external-presto-svc'', pr_Uuid p)]"

lemma stage_labels_eq: "external_labels p (headless_labels p (base_labels p)) = stage_labels p"
  by (simp add: stage_labels_def)

text \<open>The object writes of the stages, for the cluster \<open>p\<close>.\<close>

definition stage_write :: "'w lib \<Rightarrow> Presto \<Rightarrow> smap \<Rightarrow> request \<Rightarrow> bool" where
  "stage_write L p b req \<longleftrightarrow>
     (\<exists>s. req = CreateService s \<and> headless_service p (headless_labels p (base_labels p)) s) \<or>
     (\<exists>s. req = CreateService s \<and> external_service p b s) \<or>
     (\<exists>n cm. req = CreateConfigMap cm \<and> owned_meta p n b (cm_meta cm) \<and>
        (getCoordinatorConfigMapName (pr_Uuid p) = Some n \<and>
           buildConfigMap (l_ParseQuantity L) (l_range L) p True n b = Some (Inr cm) \<or>
         getWorkerConfigMapName (pr_Uuid p) = Some n \<and>
           buildConfigMap (l_ParseQuantity L) (l_range L) p False n b = Some (Inr cm) \<or>
         getCatalogConfigMapName (pr_Uuid p) = Some n \<and>
           buildCatalogConfigMap (l_range L) p n b = Inr cm)) \<or>
     (\<exists>rs. req = CreateReplicaSet rs \<and> createReplicaSetForCoordinator (l_ParseQuantity L) p
        (getCoordinatorPodLabels (l_range L) b (pr_Uuid p)) = Some (Inr rs)) \<or>
     worker_write L p (getWorkerPodLabels (l_range L) b (pr_Uuid p)) req \<or>
     (\<exists>wrs. hpa_write p wrs b req)"

lemma reportClusterState_emits:
  "emits (reportClusterState L p b wrs) (\<lambda>r ws. object_writes ws = [])"
  unfolding reportClusterState_def getCoordinatorPodPhase_def getCPUUsage_def Let_def
  by (intro stage_rules emits_bind_call emits_case_sum emits_bind_updateStatus)
    (auto split: list.split sum.split intro!: stage_rules emits_bind_call emits_case_sum)

lemma stage_writes:
  "\<exists>n cm. req = CreateConfigMap cm \<and> getCoordinatorConfigMapName (pr_Uuid p) = Some n \<and>
     buildConfigMap (l_ParseQuantity L) (l_range L) p True n b = Some (Inr cm) \<and>
     owned_meta p n b (cm_meta cm) \<Longrightarrow> stage_write L p b req"
  "\<exists>n cm. req = CreateConfigMap cm \<and> getWorkerConfigMapName (pr_Uuid p) = Some n \<and>
     buildConfigMap (l_ParseQuantity L) (l_range L) p False n b = Some (Inr cm) \<and>
     owned_meta p n b (cm_meta cm) \<Longrightarrow> stage_write L p b req"
  "\<exists>n cm. req = CreateConfigMap cm \<and> getCatalogConfigMapName (pr_Uuid p) = Some n \<and>
     buildCatalogConfigMap (l_range L) p n b = Inr cm \<and>
     owned_meta p n b (cm_meta cm) \<Longrightarrow> stage_write L p b req"
  "\<exists>rs. req = CreateReplicaSet rs \<and> createReplicaSetForCoordinator (l_ParseQuantity L) p
     (getCoordinatorPodLabels (l_range L) b (pr_Uuid p)) = Some (Inr rs) \<Longrightarrow> stage_write L p b req"
  "worker_write L p (getWorkerPodLabels (l_range L) b (pr_Uuid p)) req \<Longrightarrow> stage_write L p b req"
  "hpa_write p wrs b req \<Longrightarrow> stage_write L p b req"
  unfolding stage_write_def by blast+

lemma later_stages_emit:
  fixes L :: "'w lib"
  assumes "\<And>req. stage_write L p b req \<Longrightarrow> \<psi> req"
  shows "emits
    (next_stage (coordinatorConfig L p b) (\<lambda>presto.
     next_stage (workerConfig L presto b) (\<lambda>presto.
     next_stage (catalogConfig L presto b) (\<lambda>presto.
     next_stage (coordinatorReplicaset L presto b) (\<lambda>presto.
     next_stage (workerReplicaset L presto b) (\<lambda>(presto, workerReplicaSet).
     next_stage (hpaReplicaset L presto b workerReplicaSet) (\<lambda>presto.
     reportClusterState L presto b workerReplicaSet)))))))
    (\<lambda>r. at_most_one \<psi>)"
proof -
  have last: "emits (reportClusterState L p b wrs) (\<lambda>r. at_most_one \<psi>)" for wrs
    by (rule emits_mono [OF reportClusterState_emits]) (simp add: at_most_one_def)
  note w = stage_writes [THEN assms]
  have hpa: "emits (next_stage (hpaReplicaset L p b wrs) (\<lambda>presto. reportClusterState L presto b wrs))
      (\<lambda>r. at_most_one \<psi>)" for wrs
    by (rule hpa_stage.then_next) (simp_all add: w(6) last)
  show ?thesis
    by (intro coordinator_config_stage.then_next [OF w(1)] worker_config_stage.then_next [OF w(2)]
        catalog_config_stage.then_next [OF w(3)] coordinator_rs_stage.then_next [OF w(4)]
        worker_rs_stage.then_next [OF w(5)]; clarify; rule hpa)
qed

lemma stages_emit:
  "emits (reconcileStages L p) (\<lambda>r. at_most_one (\<lambda>req. \<exists>q.
     (answers_in_kind L \<longrightarrow> same_cluster p q) \<and> stage_write L q (stage_labels p) req))"
  unfolding reconcileStages_def Let_def
proof (rule headless_stage.then_next, goal_cases)
  case (1 req)
  then show ?case by (intro exI [of _ p]) (auto simp: stage_write_def)
next
  case (2 x)
  have ext: "external_labels p (snd x) = stage_labels p"
    by (simp add: 2 stage_labels_def)
  have "emits (next_stage (serviceConfig L p (snd x)) (\<lambda>(presto, baseLabels, _).
         next_stage (coordinatorConfig L presto baseLabels) (\<lambda>presto.
         next_stage (workerConfig L presto baseLabels) (\<lambda>presto.
         next_stage (catalogConfig L presto baseLabels) (\<lambda>presto.
         next_stage (coordinatorReplicaset L presto baseLabels) (\<lambda>presto.
         next_stage (workerReplicaset L presto baseLabels) (\<lambda>(presto, workerReplicaSet).
         next_stage (hpaReplicaset L presto baseLabels workerReplicaSet) (\<lambda>presto.
         reportClusterState L presto baseLabels workerReplicaSet))))))))
      (\<lambda>r. at_most_one (\<lambda>req. \<exists>q.
         (answers_in_kind L \<longrightarrow> same_cluster p q) \<and> stage_write L q (stage_labels p) req))"
  proof (rule service_stage.then_next, goal_cases)
    case (1 req)
    then show ?case by (intro exI [of _ p]) (auto simp: stage_write_def ext)
  next
    case (2 y)
    then show ?case
      by (cases y) (clarsimp simp: ext, rule later_stages_emit, blast)
  qed
  with 2 show ?case by simp
qed

end
