(* ===== verification/Safety.thy ===== *)
theory Safety
  imports Reconciler
begin

text \<open>
  What a call of \<^verbatim>\<open>Reconcile\<close> sends, whatever the API server answers: how the call starts, that the UUID
  comes before any object, that there is at most one object write, and which cluster it belongs to.
\<close>

text \<open>What one call does to a resource that exists, and to one that does not.\<close>

lemma Reconcile_found:
  assumes "l_Get L key (os_world s) = (Inr p, w)"
  obtains s' where "Reconcile L key s = reconcilePresto L p s'" "os_world s' = w"
    "os_reqs s' = os_reqs s" "os_events s' = os_events s" "map_of (os_registered s') key \<noteq> None"
proof
  let ?s = "s\<lparr>os_world := w\<rparr>"
  show "Reconcile L key s = reconcilePresto L p (snd (register_presto key p ?s))"
    using assms by (simp add: Reconcile_def call_def go_bind_def register_presto_def)
qed (auto simp: register_presto_def update_conv')

lemma Reconcile_error:
  assumes "l_Get L key (os_world s) = (Inl e, w)"
  shows "Reconcile L key s =
    (if isNotFound (Some e)
     then (Some (empty_result, None),
           s\<lparr>os_world := w, os_registered := AList.delete key (os_registered s)\<rparr>)
     else (Some (empty_result, Some e), s\<lparr>os_world := w\<rparr>))"
  using assms by (simp add: Reconcile_def call_def go_bind_def unregister_presto_def go_ret_def)

text \<open>Setting the UUID is a status write or an error, so the stages never run without a UUID.\<close>

lemma uuid_emits:
  assumes "pr_Uuid p = []"
  shows "emits (reconcilePresto L p) (\<lambda>r ws. object_writes ws = [] \<and>
    (\<forall>res. r = Some (res, None) \<longrightarrow>
       (\<exists>q w w'. ws = [(UpdateStatus q, True)] \<and> l_NewUUID L w = (Some (pr_Uuid q), w'))))"
proof -
  have some: "no_action\<lparr>ua_clusterUUID := Some u\<rparr> \<noteq> no_action" for u
    by (simp add: no_action_def)
  show ?thesis
    unfolding reconcilePresto_def using assms
    by (intro emits_if emits_bind_call_answer emits_bind_lift emits_bind_via [OF updateStatus_emits]
        emits_case_prod)
      (auto simp: some acted_def intro!: emits_ret, blast)
qed

lemma reconcilePresto_emits:
  "emits (reconcilePresto L p) (\<lambda>r. at_most_one (\<lambda>req. pr_Uuid p \<noteq> [] \<and> (\<exists>q.
     (answers_in_kind L \<longrightarrow> same_cluster p q) \<and> stage_write L q (stage_labels p) req)))"
proof (cases "pr_Uuid p = []")
  case True
  then show ?thesis
    by (intro emits_mono [OF uuid_emits]) (auto simp: at_most_one_def)
next
  case False
  then show ?thesis
    by (simp add: reconcilePresto_def stages_emit)
qed

lemma Reconcile_writes:
  "emits (Reconcile L key) (\<lambda>r ws. length (object_writes ws) \<le> 1)"
proof -
  have reg: "emits (register_presto key p) (\<lambda>r ws. ws = [])" for p
    by (simp add: emits_def register_presto_def)
  have unreg: "emits (unregister_presto key) (\<lambda>r ws. ws = [])"
    by (simp add: emits_def unregister_presto_def)
  have "emits (reconcilePresto L p) (\<lambda>r ws. length (object_writes ws) \<le> 1)" for p
    by (rule emits_mono [OF reconcilePresto_emits]) (auto simp: at_most_one_def)
  then show ?thesis
    unfolding Reconcile_def
    by (intro emits_rules emits_bind_via [OF reg] emits_bind_via [OF unreg]) auto
qed

text \<open>A write that belongs to the cluster of \<open>p\<close>.\<close>

definition in_cluster :: "Presto \<Rightarrow> object_meta \<Rightarrow> bool" where
  "in_cluster p m \<longleftrightarrow> om_Namespace m = pr_Namespace p \<and> om_OwnerReferences m = [getOwnerReference p] \<and>
     map_of (om_Labels m) ''clusterUUID'' = Some (pr_Uuid p)"

fun cluster_write :: "Presto \<Rightarrow> request \<Rightarrow> bool" where
  "cluster_write p (CreateService s) \<longleftrightarrow> in_cluster p (svc_meta s)"
| "cluster_write p (CreateConfigMap cm) \<longleftrightarrow> in_cluster p (cm_meta cm)"
| "cluster_write p (CreateReplicaSet rs) \<longleftrightarrow> in_cluster p (rs_meta rs)"
| "cluster_write p (UpdateReplicaSet rs) \<longleftrightarrow>
     \<not> checkAutoscalingEnabled p \<and> rs_Replicas rs = wo_Count (pr_Worker p)"
| "cluster_write p (CreateHPA h) \<longleftrightarrow> checkAutoscalingEnabled p \<and> in_cluster p (hpa_meta h)"
| "cluster_write p (UpdateHPA h) \<longleftrightarrow> checkAutoscalingEnabled p \<and> in_cluster p (hpa_meta h)"
| "cluster_write p (DeleteHPA h) \<longleftrightarrow> \<not> checkAutoscalingEnabled p"
| "cluster_write p (UpdateStatus q) \<longleftrightarrow> False"

lemma owned_in_cluster:
  "owned_meta p n b m \<Longrightarrow> map_of b ''clusterUUID'' = Some (pr_Uuid p) \<Longrightarrow> in_cluster p m"
  by (simp add: owned_meta_def in_cluster_def)

lemma in_cluster_cong: "same_cluster p q \<Longrightarrow> in_cluster q m = in_cluster p m"
  by (simp add: in_cluster_def same_cluster_def getOwnerReference_def)

lemma cluster_write_cong: "same_cluster p q \<Longrightarrow> cluster_write q req = cluster_write p req"
  by (cases req) (simp_all add: in_cluster_cong, simp_all add: checkAutoscalingEnabled_def same_cluster_def)

lemma stage_labels_distinct [simp]: "distinct (map fst (stage_labels p))"
  by (simp add: stage_labels_def)

lemma stage_labels_uuid:
  "map_of (stage_labels p) ''clusterUUID'' = Some (pr_Uuid p)"
  "map_of (headless_labels p (base_labels p)) ''clusterUUID'' = Some (pr_Uuid p)"
  "map_of (getCoordinatorPodLabels rc (stage_labels p) u) ''clusterUUID'' = Some (pr_Uuid p)"
  "map_of (getWorkerPodLabels rc (stage_labels p) u) ''clusterUUID'' = Some (pr_Uuid p)"
  by (simp_all add: coordinator_labels.map_of_labels worker_labels.map_of_labels)
    (simp_all add: stage_labels_def)

lemma stage_write_cluster:
  assumes "stage_write L p (stage_labels p) req"
  shows "cluster_write p req"
proof -
  note own = owned_in_cluster [OF _ stage_labels_uuid(1)] owned_in_cluster [OF _ stage_labels_uuid(2)]
    owned_in_cluster [OF _ stage_labels_uuid(3)] owned_in_cluster [OF _ stage_labels_uuid(4)]
  have rs: "in_cluster p (rs_meta rs)" if "createReplicaSetForCoordinator pq p
      (getCoordinatorPodLabels rc (stage_labels p) (pr_Uuid p)) = Some (Inr rs)" for pq rc rs
    using coordinator_rs.build_role [OF that] own(3) by (auto simp: role_replicaset_def)
  have wrs: "cluster_write p req" if "worker_write L p
      (getWorkerPodLabels (l_range L) (stage_labels p) (pr_Uuid p)) req"
    using that own(4) by (auto simp: worker_write_def role_replicaset_def checkAutoscalingEnabled_def
        dest!: worker_rs.build_role split: option.split)
  have hpa: "cluster_write p req" if "hpa_write p w (stage_labels p) req" for w
    using that own(1) by (auto simp: hpa_write_def wanted_hpa_def)
  show ?thesis
    using assms own(1,2) rs wrs hpa
    unfolding stage_write_def headless_service_def external_service_def by auto
qed

lemma same_cluster_labels: "same_cluster p q \<Longrightarrow> stage_labels q = stage_labels p"
  by (simp add: stage_labels_def same_cluster_def)

lemma reconcile_cluster_writes:
  assumes "answers_in_kind L"
  shows "emits (reconcilePresto L p) (\<lambda>r. at_most_one (cluster_write p))"
proof (rule emits_mono [OF reconcilePresto_emits])
  have "cluster_write p req" if "same_cluster p q" "stage_write L q (stage_labels p) req" for q req
    using stage_write_cluster [of L q req] that
    by (simp add: same_cluster_labels cluster_write_cong)
  then show "at_most_one (\<lambda>req. pr_Uuid p \<noteq> [] \<and> (\<exists>q.
      (answers_in_kind L \<longrightarrow> same_cluster p q) \<and> stage_write L q (stage_labels p) req)) ws \<Longrightarrow>
    at_most_one (cluster_write p) ws" for ws
    using assms by (auto simp: at_most_one_def)
qed

subsection \<open>Selectors\<close>



end
