(* ===== verification/Cluster.thy ===== *)
theory Cluster
  imports Safety
begin

text \<open>
  A well-behaved API server. The other theories assume nothing of the server; convergence needs that it
  does what its documentation says. The locale \<open>api_server\<close> states that as laws about a view of the
  world: lists are label and namespace filters, a create adds the object unless its name is taken, an
  update or a delete acts on the object of that name, a status update replaces the status.
  The theory \<open>Memory_Server\<close> has an API server that satisfies them.
\<close>

record kube =
  k_prestos :: "Presto list"
  k_services :: "service list"
  k_configmaps :: "configmap list"
  k_replicasets :: "replicaset list"
  k_hpas :: "hpa list"

definition listed :: "string \<Rightarrow> smap \<Rightarrow> ('a \<Rightarrow> object_meta) \<Rightarrow> 'a list \<Rightarrow> 'a list" where
  "listed ns sel m xs = filter (\<lambda>x. om_Namespace (m x) = ns \<and> selects sel (om_Labels (m x))) xs"

definition same_key :: "object_meta \<Rightarrow> object_meta \<Rightarrow> bool" where
  "same_key m n \<longleftrightarrow> om_Namespace m = om_Namespace n \<and> om_Name m = om_Name n"

definition name_taken :: "('a \<Rightarrow> object_meta) \<Rightarrow> object_meta \<Rightarrow> 'a list \<Rightarrow> bool" where
  "name_taken m n xs \<longleftrightarrow> list_ex (\<lambda>x. same_key (m x) n) xs"

text \<open>What the server keeps of the meta data of a created object, apart from a generated name.\<close>

definition kept_meta :: "object_meta \<Rightarrow> object_meta \<Rightarrow> bool" where
  "kept_meta m n \<longleftrightarrow> om_Namespace n = om_Namespace m \<and> om_Labels n = om_Labels m \<and>
     om_OwnerReferences n = om_OwnerReferences m"

definition put_status :: "Presto \<Rightarrow> string \<Rightarrow> Presto list \<Rightarrow> Presto list" where
  "put_status q rv = map (\<lambda>p. if same_key (pr_meta p) (pr_meta q)
     then p\<lparr>pr_Status := pr_Status q, pr_meta := (pr_meta p)\<lparr>om_ResourceVersion := rv\<rparr>\<rparr> else p)"

definition put_by_key :: "('a \<Rightarrow> object_meta) \<Rightarrow> 'a \<Rightarrow> 'a list \<Rightarrow> 'a list" where
  "put_by_key m y = map (\<lambda>x. if same_key (m x) (m y) then y else x)"

text \<open>The stored resource is the one being reconciled, up to its status and resource version.\<close>

definition tracks :: "Presto \<Rightarrow> kube \<Rightarrow> bool" where
  "tracks p K \<longleftrightarrow> distinct (map fst (pr_Labels p)) \<and>
     (\<exists>q \<in> set (k_prestos K). same_cluster p q \<and> pr_Labels q = pr_Labels p)"

locale api_server =
  fixes L :: "'w lib" and view :: "'w \<Rightarrow> kube"
  assumes not_found: "isNotFound (Some (l_NewNotFound L k n))"
    and unique_prestos: "distinct (map (\<lambda>p. (pr_Namespace p, pr_Name p)) (k_prestos (view w)))"
    and unique_replicasets:
      "distinct (map (\<lambda>r. (om_Namespace (rs_meta r), om_Name (rs_meta r))) (k_replicasets (view w)))"
    and replicas_defaulted: "r \<in> set (k_replicasets (view w)) \<Longrightarrow> rs_Replicas r \<noteq> None"
    and hpa_defaulted: "h \<in> set (k_hpas (view w)) \<Longrightarrow>
      hpa_MinReplicas h \<noteq> None \<and> hpa_TargetCPU h \<noteq> None"
    and get_found: "p \<in> set (k_prestos (view w)) \<Longrightarrow>
      fst (l_Get L (pr_Namespace p, pr_Name p) w) = Inr p"
    and get_missing: "key \<notin> (\<lambda>p. (pr_Namespace p, pr_Name p)) ` set (k_prestos (view w)) \<Longrightarrow>
      \<exists>e. fst (l_Get L key w) = Inl e \<and> isNotFound (Some e)"
    and list_presto: "fst (l_ListPresto L ns sel w) = Inr (listed ns sel pr_meta (k_prestos (view w)))"
    and list_service: "fst (l_ListService L ns sel w) = Inr (listed ns sel svc_meta (k_services (view w)))"
    and list_configmap:
      "fst (l_ListConfigMap L ns sel w) = Inr (listed ns sel cm_meta (k_configmaps (view w)))"
    and list_replicaset:
      "fst (l_ListReplicaSet L ns sel w) = Inr (listed ns sel rs_meta (k_replicasets (view w)))"
    and list_hpa: "fst (l_ListHPA L ns sel w) = Inr (listed ns sel hpa_meta (k_hpas (view w)))"
    and reads:
      "view (snd (l_Get L key w)) = view w"
      "view (snd (l_ListPresto L ns sel w)) = view w"
      "view (snd (l_ListService L ns sel w)) = view w"
      "view (snd (l_ListConfigMap L ns sel w)) = view w"
      "view (snd (l_ListReplicaSet L ns sel w)) = view w"
      "view (snd (l_ListHPA L ns sel w)) = view w"
      "view (snd (l_ListPod L ns sel w)) = view w"
      "view (snd (l_ListPodMetrics L ns sel w)) = view w"
      "view (snd (l_NewUUID L w)) = view w"
      "view (snd (l_Now L w)) = view w"
    and create_service: "om_Name (svc_meta s) \<noteq> [] \<Longrightarrow> \<not> name_taken svc_meta (svc_meta s) (k_services (view w)) \<Longrightarrow>
      \<exists>s'. fst (l_CreateService L s w) = Inr s' \<and>
        view (snd (l_CreateService L s w)) = (view w)\<lparr>k_services := k_services (view w) @ [s']\<rparr> \<and>
        kept_meta (svc_meta s) (svc_meta s') \<and> om_Name (svc_meta s') = om_Name (svc_meta s) \<and>
        ss_Selector (svc_spec s') = ss_Selector (svc_spec s) \<and>
        map sp_Port (ss_Ports (svc_spec s')) = map sp_Port (ss_Ports (svc_spec s)) \<and>
        map sp_TargetPort (ss_Ports (svc_spec s')) = map sp_TargetPort (ss_Ports (svc_spec s))"
    and create_configmap: "om_Name (cm_meta c) \<noteq> [] \<Longrightarrow> \<not> name_taken cm_meta (cm_meta c) (k_configmaps (view w)) \<Longrightarrow>
      \<exists>c'. fst (l_CreateConfigMap L c w) = Inr c' \<and>
        view (snd (l_CreateConfigMap L c w)) = (view w)\<lparr>k_configmaps := k_configmaps (view w) @ [c']\<rparr> \<and>
        kept_meta (cm_meta c) (cm_meta c') \<and> om_Name (cm_meta c') = om_Name (cm_meta c) \<and>
        cm_Data c' = cm_Data c"
    and create_replicaset: "om_Name (rs_meta r) = [] \<Longrightarrow> rs_Replicas r \<noteq> None \<Longrightarrow>
      \<exists>r'. fst (l_CreateReplicaSet L r w) = Inr r' \<and>
        view (snd (l_CreateReplicaSet L r w)) = (view w)\<lparr>k_replicasets := k_replicasets (view w) @ [r']\<rparr> \<and>
        kept_meta (rs_meta r) (rs_meta r') \<and>
        \<not> name_taken rs_meta (rs_meta r') (k_replicasets (view w)) \<and>
        rs_Replicas r' = rs_Replicas r \<and> rs_MatchLabels r' = rs_MatchLabels r \<and>
        rs_TemplateMeta r' = rs_TemplateMeta r \<and> rs_TemplateSpec r' = rs_TemplateSpec r"
    and update_replicaset: "r0 \<in> set (k_replicasets (view w)) \<Longrightarrow> rs_meta r = rs_meta r0 \<Longrightarrow>
      rs_Replicas r \<noteq> None \<Longrightarrow>
      \<exists>r'. fst (l_UpdateReplicaSet L r w) = Inr r' \<and>
        view (snd (l_UpdateReplicaSet L r w)) =
          (view w)\<lparr>k_replicasets := put_by_key rs_meta r' (k_replicasets (view w))\<rparr> \<and>
        kept_meta (rs_meta r) (rs_meta r') \<and> om_Name (rs_meta r') = om_Name (rs_meta r) \<and>
        rs_Replicas r' = rs_Replicas r"
    and create_hpa: "om_Name (hpa_meta h) \<noteq> [] \<Longrightarrow> \<not> name_taken hpa_meta (hpa_meta h) (k_hpas (view w)) \<Longrightarrow>
      hpa_MinReplicas h \<noteq> None \<Longrightarrow> hpa_TargetCPU h \<noteq> None \<Longrightarrow>
      \<exists>h'. fst (l_CreateHPA L h w) = Inr h' \<and>
        view (snd (l_CreateHPA L h w)) = (view w)\<lparr>k_hpas := k_hpas (view w) @ [h']\<rparr> \<and>
        kept_meta (hpa_meta h) (hpa_meta h') \<and> om_Name (hpa_meta h') = om_Name (hpa_meta h) \<and>
        hpa_MinReplicas h' = hpa_MinReplicas h \<and> hpa_MaxReplicas h' = hpa_MaxReplicas h \<and>
        hpa_TargetCPU h' = hpa_TargetCPU h"
    and update_hpa: "h0 \<in> set (k_hpas (view w)) \<Longrightarrow> same_key (hpa_meta h) (hpa_meta h0) \<Longrightarrow>
      om_ResourceVersion (hpa_meta h) = om_ResourceVersion (hpa_meta h0) \<Longrightarrow>
      hpa_MinReplicas h \<noteq> None \<Longrightarrow> hpa_TargetCPU h \<noteq> None \<Longrightarrow>
      \<exists>h'. fst (l_UpdateHPA L h w) = Inr h' \<and>
        view (snd (l_UpdateHPA L h w)) = (view w)\<lparr>k_hpas := put_by_key hpa_meta h' (k_hpas (view w))\<rparr> \<and>
        kept_meta (hpa_meta h) (hpa_meta h') \<and> om_Name (hpa_meta h') = om_Name (hpa_meta h) \<and>
        hpa_MinReplicas h' = hpa_MinReplicas h \<and> hpa_MaxReplicas h' = hpa_MaxReplicas h \<and>
        hpa_TargetCPU h' = hpa_TargetCPU h"
    and delete_hpa: "h \<in> set (k_hpas (view w)) \<Longrightarrow>
      fst (l_DeleteHPA L h w) = Inr () \<and>
      view (snd (l_DeleteHPA L h w)) =
        (view w)\<lparr>k_hpas := filter (\<lambda>x. \<not> same_key (hpa_meta x) (hpa_meta h)) (k_hpas (view w))\<rparr>"
    and update_status: "q0 \<in> set (k_prestos (view w)) \<Longrightarrow> pr_meta q = pr_meta q0 \<Longrightarrow>
      \<exists>q' rv. fst (l_UpdateStatus L q w) = Inr q' \<and>
        view (snd (l_UpdateStatus L q w)) = (view w)\<lparr>k_prestos := put_status q rv (k_prestos (view w))\<rparr>"
begin

text \<open>
  \<open>moved s s' K W\<close>: the operator is now in state \<open>s'\<close>, the view is \<open>K\<close>, and since \<open>s\<close> the object
  writes \<open>W\<close> have been sent.
\<close>

definition moved :: "'w op_state \<Rightarrow> 'w op_state \<Rightarrow> kube \<Rightarrow> log \<Rightarrow> bool" where
  "moved s s' K W \<longleftrightarrow> view (os_world s') = K \<and>
     (\<exists>ws. os_reqs s' = os_reqs s @ ws \<and> object_writes ws = W)"

lemma moved_refl: "view (os_world s) = K \<Longrightarrow> moved s s K []"
  by (auto simp: moved_def)

lemma moved_trans:
  "moved s s' K W \<Longrightarrow> moved s' s'' K' W' \<Longrightarrow> moved s s'' K' (W @ W')"
  by (auto simp: moved_def)

lemma moved_view: "moved s s' K W \<Longrightarrow> view (os_world s') = K"
  by (simp add: moved_def)

lemma find_unique:
  assumes "distinct (map (\<lambda>p. (pr_Namespace p, pr_Name p)) ps)" and "q \<in> set ps" and "P q"
    and "\<And>x. P x \<Longrightarrow> pr_Namespace x = pr_Namespace q"
  shows "find (\<lambda>x. pr_Name x = pr_Name q) (filter P ps) = Some q"
  using assms(1,2)
proof (induction ps)
  case (Cons x ps)
  show ?case
  proof (cases "x = q")
    case False
    with Cons.prems have q: "q \<in> set ps" "\<not> (pr_Namespace x = pr_Namespace q \<and> pr_Name x = pr_Name q)"
      by (auto simp: image_iff)
    then have "P x \<Longrightarrow> pr_Name x \<noteq> pr_Name q" using assms(4) by blast
    with Cons q(1) show ?thesis by simp
  qed (simp add: assms(3))
qed simp

lemma getPresto_tracked:
  assumes "tracks p (view (os_world s))"
  shows "\<exists>q w. q \<in> set (k_prestos (view (os_world s))) \<and> same_cluster p q \<and> pr_Labels q = pr_Labels p \<and>
    getPresto L p s = (Some (Inr (Some q)), s\<lparr>os_world := w\<rparr>) \<and> view w = view (os_world s)"
proof -
  from assms obtain q where q: "q \<in> set (k_prestos (view (os_world s)))" "same_cluster p q"
      "pr_Labels q = pr_Labels p" "distinct (map fst (pr_Labels p))"
    by (auto simp: tracks_def)
  have "find (\<lambda>pc. pr_Name pc = pr_Name q)
      (listed (pr_Namespace p) (pr_Labels p) pr_meta (k_prestos (view (os_world s)))) = Some q"
    unfolding listed_def
    by (rule find_unique [OF unique_prestos q(1)]) (use q in \<open>simp_all add: same_cluster_def selects_refl\<close>)
  moreover have "pr_Name q = pr_Name p" using q by (simp add: same_cluster_def)
  ultimately show ?thesis
    using q by (intro exI [of _ q] exI [of _ "snd (l_ListPresto L (pr_Namespace p) (pr_Labels p) (os_world s))"])
      (simp add: getPresto_def call_def go_bind_def go_ret_def list_presto reads split_beta)
qed

text \<open>A status update may set the UUID, so the resource tracked afterwards is \<open>p\<close> with that UUID.\<close>

lemma tracks_put_status:
  assumes "tracks p K" and "same_key (pr_meta p) (pr_meta q)" and "st_Uuid st = pr_Uuid q"
  shows "tracks (p\<lparr>pr_Status := st\<rparr>) (K\<lparr>k_prestos := put_status q rv (k_prestos K)\<rparr>)"
proof -
  from assms(1) obtain r where r: "r \<in> set (k_prestos K)" "same_cluster p r" "pr_Labels r = pr_Labels p"
      "distinct (map fst (pr_Labels p))"
    by (auto simp: tracks_def)
  let ?r = "r\<lparr>pr_Status := pr_Status q, pr_meta := (pr_meta r)\<lparr>om_ResourceVersion := rv\<rparr>\<rparr>"
  have "same_key (pr_meta r) (pr_meta q)"
    using r(2) assms(2) by (simp add: same_key_def same_cluster_def)
  then have "?r \<in> set (put_status q rv (k_prestos K))"
    unfolding put_status_def set_map by (intro image_eqI [OF _ r(1)]) simp
  moreover have "same_cluster (p\<lparr>pr_Status := st\<rparr>) ?r" "pr_Labels ?r = pr_Labels p"
    using r assms(3) by (simp_all add: same_cluster_def)
  ultimately show ?thesis using r(4) unfolding tracks_def by (intro conjI bexI) simp_all
qed

lemma updateStatus_run:
  assumes "tracks p (view (os_world s))" and "a \<noteq> no_action" and "\<not> bad_action a"
    and "st_Uuid st = pick (ua_clusterUUID a) (pr_Uuid p)"
  shows "\<exists>s' ps. updateStatus L p a s = (Some (True, None, p), s') \<and>
    moved s s' ((view (os_world s))\<lparr>k_prestos := ps\<rparr>) [] \<and>
    tracks (p\<lparr>pr_Status := st\<rparr>) ((view (os_world s))\<lparr>k_prestos := ps\<rparr>)"
proof -
  from getPresto_tracked [OF assms(1)] obtain q w where q: "q \<in> set (k_prestos (view (os_world s)))"
      "same_cluster p q" "getPresto L p s = (Some (Inr (Some q)), s\<lparr>os_world := w\<rparr>)"
      "view w = view (os_world s)"
    by blast
  let ?w = "snd (l_Now L w)"
  let ?q = "q\<lparr>pr_Status := (acted a (pr_Status q))\<lparr>st_ModificationTime := fst (l_Now L w)\<rparr>\<rparr>"
  have vw: "view ?w = view (os_world s)" using q(4) by (simp add: reads)
  have sc: "same_key (pr_meta p) (pr_meta ?q)" "st_Uuid st = pr_Uuid ?q"
    using q(2) assms(4) by (simp_all add: same_cluster_def same_key_def acted_def)
  obtain q' rv where u: "fst (l_UpdateStatus L ?q ?w) = Inr q'"
      "view (snd (l_UpdateStatus L ?q ?w)) = (view ?w)\<lparr>k_prestos := put_status ?q rv (k_prestos (view ?w))\<rparr>"
    using update_status [of q ?w ?q] q(1) vw by auto
  let ?s' = "s\<lparr>os_world := snd (l_UpdateStatus L ?q ?w), os_reqs := os_reqs s @ [(UpdateStatus ?q, True)]\<rparr>"
  have "updateStatus L p a s = (Some (True, None, p), ?s')"
    using q(3) assms(2,3) u(1)
    by (simp add: updateStatus_def Let_def go_bind_def go_ret_def apply_action_eq call_def send_def split_beta)
  moreover have "moved s ?s' ((view (os_world s))\<lparr>k_prestos := put_status ?q rv (k_prestos (view (os_world s)))\<rparr>) []"
    using u(2) vw by (simp add: moved_def)
  moreover note tracks_put_status [OF assms(1) sc, of rv]
  ultimately show ?thesis by (intro exI conjI)
qed

lemma updateStatus_tracked:
  assumes "tracks p (view (os_world s))" and "a \<noteq> no_action" and "\<not> bad_action a"
    and "ua_clusterUUID a = None"
  shows "\<exists>s' ps. updateStatus L p a s = (Some (True, None, p), s') \<and>
    moved s s' ((view (os_world s))\<lparr>k_prestos := ps\<rparr>) [] \<and> tracks p ((view (os_world s))\<lparr>k_prestos := ps\<rparr>)"
  using updateStatus_run [OF assms(1-3), of "pr_Status p"] assms(4) by (simp add: pick_def)

end

end
