(* ===== verification/Settling.thy ===== *)
theory Settling
  imports Cluster
begin

text \<open>
  The service and config map stages against a well-behaved API server. \<open>needs K p\<close> lists, in the order of
  the stages, which objects of the cluster \<open>p\<close> are missing or out of date in the view \<open>K\<close>. A stage
  whose object is there passes; a stage whose object is missing acts: it makes one accepted write.

  The locale \<open>config_settle\<close> is the interface of the three config map stages. It extends \<open>api_server\<close>
  and \<open>config_map_creator\<close>, and every API server gives its three instances.
\<close>

subsection \<open>What is still missing\<close>

definition need_headless :: "kube \<Rightarrow> Presto \<Rightarrow> bool" where
  "need_headless K p \<longleftrightarrow>
     listed (pr_Namespace p) [(''pod-discovery'', pr_Uuid p)] svc_meta (k_services K) = []"

definition need_external :: "kube \<Rightarrow> Presto \<Rightarrow> bool" where
  "need_external K p \<longleftrightarrow>
     listed (pr_Namespace p) [(''external-presto-svc'', pr_Uuid p)] svc_meta (k_services K) = []"

definition need_configmap :: "string \<Rightarrow> kube \<Rightarrow> Presto \<Rightarrow> bool" where
  "need_configmap pre K p \<longleftrightarrow> \<not> list_ex (\<lambda>cm. om_Name (cm_meta cm) = pre @ take 8 (pr_Uuid p))
     (listed (pr_Namespace p) (stage_labels p) cm_meta (k_configmaps K))"

definition need_coordinator :: "kube \<Rightarrow> Presto \<Rightarrow> bool" where
  "need_coordinator K p \<longleftrightarrow>
     listed (pr_Namespace p) [(''coordinator'', pr_Uuid p)] rs_meta (k_replicasets K) = []"

definition need_worker :: "kube \<Rightarrow> Presto \<Rightarrow> bool" where
  "need_worker K p \<longleftrightarrow>
     (case listed (pr_Namespace p) [(''worker'', pr_Uuid p)] rs_meta (k_replicasets K) of
        [] \<Rightarrow> True
      | rs # _ \<Rightarrow> \<not> checkAutoscalingEnabled p \<and> rs_Replicas rs \<noteq> wo_Count (pr_Worker p))"

definition need_hpa :: "kube \<Rightarrow> Presto \<Rightarrow> bool" where
  "need_hpa K p \<longleftrightarrow>
     (case listed (pr_Namespace p) (stage_labels p) hpa_meta (k_hpas K) of
        [] \<Rightarrow> checkAutoscalingEnabled p
      | h # _ \<Rightarrow> checkAutoscalingEnabled p \<longrightarrow> autoscaleSpecChanged h p = Some True)"

text \<open>In the order of the stages.\<close>

definition needs :: "kube \<Rightarrow> Presto \<Rightarrow> bool list" where
  "needs K p = [need_headless K p, need_external K p, need_configmap ''coordinatorconfig-'' K p,
     need_configmap ''workerconfig-'' K p, need_configmap ''catalogconfig-'' K p,
     need_coordinator K p, need_worker K p, need_hpa K p]"

lemmas need_defs = need_headless_def need_external_def need_configmap_def need_coordinator_def
  need_worker_def need_hpa_def

subsection \<open>When nothing stands in the way\<close>

text \<open>A spec that every builder accepts.\<close>

definition valid_presto :: "(string \<Rightarrow> string + quantity) \<Rightarrow> Presto \<Rightarrow> bool" where
  "valid_presto pq p \<longleftrightarrow> 8 \<le> length (pr_Uuid p) \<and>
     (co_HttpsEnabled (pr_Coordinator p) \<longrightarrow> https_ready p) \<and>
     fst ` set (co_AdditionalProps (pr_Coordinator p)) \<inter>
       set (coordinator_keys (co_HttpsEnabled (pr_Coordinator p))) = {} \<and>
     fst ` set (wo_AdditionalProps (pr_Worker p)) \<inter>
       {''coordinator'', ''http-server.http.port'', ''discovery.uri''} = {} \<and>
     parses pq (co_MemoryLimit (pr_Coordinator p)) \<and>
     list_all (parses pq) (worker_quantities p) \<and> list_all (parses pq) (coordinator_quantities p) \<and>
     se_Type (pr_Service p) \<noteq> ServiceTypeExternalName \<and> wo_Count (pr_Worker p) \<noteq> None \<and>
     (checkAutoscalingEnabled p \<longrightarrow> as_MinReplicas (pr_Autoscaling p) \<noteq> None \<and>
        as_MaxReplicas (pr_Autoscaling p) \<noteq> None \<and>
        as_TargetCPUUtilizationPercentage (pr_Autoscaling p) \<noteq> None)"

text \<open>
  No object of another owner has one of the names the operator uses, the autoscaler of the cluster
  is the operator's, and its service has a port.
\<close>

definition service_fits :: "Presto \<Rightarrow> service \<Rightarrow> bool" where
  "service_fits p s \<longleftrightarrow> (om_Namespace (svc_meta s) = pr_Namespace p \<longrightarrow>
     (om_Name (svc_meta s) = ''pod-discovery-'' @ take 8 (pr_Uuid p) \<longrightarrow>
        selects [(''pod-discovery'', pr_Uuid p)] (om_Labels (svc_meta s))) \<and>
     (om_Name (svc_meta s) = ''external-presto-svc-'' @ take 8 (pr_Uuid p) \<longrightarrow>
        selects [(''external-presto-svc'', pr_Uuid p)] (om_Labels (svc_meta s))) \<and>
     (selects [(''external-presto-svc'', pr_Uuid p)] (om_Labels (svc_meta s)) \<longrightarrow>
        ss_Ports (svc_spec s) \<noteq> []))"

definition configmap_fits :: "Presto \<Rightarrow> configmap \<Rightarrow> bool" where
  "configmap_fits p cm \<longleftrightarrow> (om_Namespace (cm_meta cm) = pr_Namespace p \<longrightarrow>
     om_Name (cm_meta cm) \<in> (\<lambda>pre. pre @ take 8 (pr_Uuid p)) `
       {''coordinatorconfig-'', ''workerconfig-'', ''catalogconfig-''} \<longrightarrow>
     selects (stage_labels p) (om_Labels (cm_meta cm)))"

definition hpa_fits :: "Presto \<Rightarrow> hpa \<Rightarrow> bool" where
  "hpa_fits p h \<longleftrightarrow> (om_Namespace (hpa_meta h) = pr_Namespace p \<longrightarrow>
     (om_Name (hpa_meta h) = ''hpa-'' @ take 8 (pr_Uuid p)) =
     selects (stage_labels p) (om_Labels (hpa_meta h)))"

definition no_conflict :: "kube \<Rightarrow> Presto \<Rightarrow> bool" where
  "no_conflict K p \<longleftrightarrow> list_all (service_fits p) (k_services K) \<and>
     list_all (configmap_fits p) (k_configmaps K) \<and> list_all (hpa_fits p) (k_hpas K)"

lemma listed_append [simp]: "listed ns sel m (xs @ ys) = listed ns sel m xs @ listed ns sel m ys"
  by (simp add: listed_def)

lemma listed_single:
  "listed ns sel m [x] = (if om_Namespace (m x) = ns \<and> selects sel (om_Labels (m x)) then [x] else [])"
  by (simp add: listed_def)

lemma in_listed:
  "x \<in> set (listed ns sel m xs) \<longleftrightarrow>
     x \<in> set xs \<and> om_Namespace (m x) = ns \<and> selects sel (om_Labels (m x))"
  by (auto simp: listed_def)

lemmas run = go_bind_def go_ret_def call_def send_def eventf_def split_beta

context api_server
begin

definition pass :: "('w op_state, go_error option \<times> bool \<times> 'x) go \<Rightarrow> 'w op_state \<Rightarrow> Presto \<Rightarrow> 'x \<Rightarrow> bool" where
  "pass m s p x \<longleftrightarrow> (\<exists>s' ps. m s = (Some (None, False, x), s') \<and>
     moved s s' ((view (os_world s))\<lparr>k_prestos := ps\<rparr>) [] \<and> tracks p ((view (os_world s))\<lparr>k_prestos := ps\<rparr>))"

definition act :: "('w op_state, go_error option \<times> bool \<times> 'x) go \<Rightarrow> 'w op_state \<Rightarrow> Presto \<Rightarrow> kube \<Rightarrow> bool" where
  "act m s p K \<longleftrightarrow> (\<exists>x s' ps req. m s = (Some (None, True, x), s') \<and>
     moved s s' (K\<lparr>k_prestos := ps\<rparr>) [(req, True)] \<and> tracks p (K\<lparr>k_prestos := ps\<rparr>))"

lemma passI:
  assumes "m s = (Some (None, False, x), s\<lparr>os_world := w\<rparr>)" and "view w = view (os_world s)"
    and "tracks p (view (os_world s))"
  shows "pass m s p x"
proof -
  let ?K = "view (os_world s)"
  have "?K\<lparr>k_prestos := k_prestos ?K\<rparr> = ?K" by simp
  with assms show ?thesis
    unfolding pass_def moved_def
    by (intro exI [of _ "s\<lparr>os_world := w\<rparr>"] exI [of _ "k_prestos ?K"]) simp
qed

text \<open>An accepted write, then events and a status update in either order.\<close>

lemma actI:
  assumes "\<And>s2. updateStatus L p a s1 = (Some (True, None, p), s2) \<Longrightarrow>
      m s = (Some (None, True, x), s2\<lparr>os_events := E s2\<rparr>)"
    and "a \<noteq> no_action" and "\<not> bad_action a" and "ua_clusterUUID a = None"
    and "os_reqs s1 = os_reqs s @ [(req, True)]" and "object_write req"
    and "view (os_world s1) = K" and "tracks p K"
  shows "act m s p K"
proof -
  from updateStatus_tracked [of p s1 a] assms(2-) obtain s2 ps where
    u: "updateStatus L p a s1 = (Some (True, None, p), s2)"
      "moved s1 s2 (K\<lparr>k_prestos := ps\<rparr>) []" "tracks p (K\<lparr>k_prestos := ps\<rparr>)"
    by auto
  have "moved s (s2\<lparr>os_events := E s2\<rparr>) (K\<lparr>k_prestos := ps\<rparr>) [(req, True)]"
    using u(2) assms(5,6) by (auto simp: moved_def)
  with u(3) assms(1) [OF u(1)] show ?thesis
    unfolding act_def by blast
qed

lemma tracks_cong: "k_prestos K = k_prestos K' \<Longrightarrow> tracks p K = tracks p K'"
  by (simp add: tracks_def)

lemma headless_pass:
  assumes "\<not> need_headless (view (os_world s)) p" and "8 \<le> length (pr_Uuid p)"
    and "tracks p (view (os_world s))"
  shows "pass (headlessServiceConfig L p b) s p (p, headless_labels p b)"
  by (rule passI [where w = "snd (l_ListService L (pr_Namespace p) [(''pod-discovery'', pr_Uuid p)] (os_world s))"])
    (use assms in \<open>simp_all add: headlessServiceConfig_def createHeadLessPodDiscoverySvc_def
      getPodDiscoveryServiceLabel_def need_headless_def run list_service reads Let_def\<close>)

lemma headless_act:
  assumes "need_headless (view (os_world s)) p" and "8 \<le> length (pr_Uuid p)"
    and "tracks p (view (os_world s))" and "no_conflict (view (os_world s)) p"
  shows "\<exists>sv. act (headlessServiceConfig L p (base_labels p)) s p
      ((view (os_world s))\<lparr>k_services := k_services (view (os_world s)) @ [sv]\<rparr>) \<and>
    om_Namespace (svc_meta sv) = pr_Namespace p \<and>
    om_Name (svc_meta sv) = ''pod-discovery-'' @ take 8 (pr_Uuid p) \<and>
    om_Labels (svc_meta sv) = headless_labels p (base_labels p)"
proof -
  let ?K = "view (os_world s)" and ?b = "headless_labels p (base_labels p)"
  let ?w = "snd (l_ListService L (pr_Namespace p) [(''pod-discovery'', pr_Uuid p)] (os_world s))"
  let ?svc = "headlessServiceObject p (''pod-discovery-'' @ take 8 (pr_Uuid p)) ?b"
  have free: "\<not> name_taken svc_meta (svc_meta ?svc) (k_services (view ?w))"
    using assms(1,4)
    by (fastforce simp: headlessServiceObject_def name_taken_def list_ex_iff same_key_def reads need_headless_def no_conflict_def
        list_all_iff service_fits_def listed_def filter_empty_conv)
  obtain sv where sv: "fst (l_CreateService L ?svc ?w) = Inr sv"
      "view (snd (l_CreateService L ?svc ?w)) = (view ?w)\<lparr>k_services := k_services (view ?w) @ [sv]\<rparr>"
      "kept_meta (svc_meta ?svc) (svc_meta sv)" "om_Name (svc_meta sv) = om_Name (svc_meta ?svc)"
    using create_service [OF _ free] by (auto simp: headlessServiceObject_def)
  let ?n = "''pod-discovery-'' @ take 8 (pr_Uuid p)"
  let ?s1 = "s\<lparr>os_world := snd (l_CreateService L ?svc ?w),
      os_reqs := os_reqs s @ [(CreateService ?svc, True)],
      os_events := os_events s @ [\<lparr>ev_Type = EventTypeNormal, ev_Reason = ''Created'',
        ev_Message = ''Created Headless Service. '' @ ?n\<rparr>]\<rparr>"
  have "act (headlessServiceConfig L p (base_labels p)) s p (?K\<lparr>k_services := k_services ?K @ [sv]\<rparr>)"
  proof (rule actI [where ?s1.0 = ?s1 and E = os_events and req = "CreateService ?svc"])
    fix s2 assume "updateStatus L p (no_action\<lparr>ua_headlessService := Some ?n,
        ua_clusterState := ClusterPending\<rparr>) ?s1 = (Some (True, None, p), s2)"
    then show "headlessServiceConfig L p (base_labels p) s =
        (Some (None, True, p, ?b), s2\<lparr>os_events := os_events s2\<rparr>)"
      using assms(1,2) sv(1)
      by (simp add: headlessServiceConfig_def createHeadLessPodDiscoverySvc_def
        getPodDiscoveryServiceLabel_def need_headless_def run list_service Let_def)
  qed (use sv(2) assms(3) in \<open>simp_all add: no_action_def bad_action_def reads tracks_def\<close>)
  with sv(3,4) show ?thesis
    by (intro exI [of _ sv]) (simp add: kept_meta_def headlessServiceObject_def)
qed


abbreviation service_base :: "Presto \<Rightarrow> smap" where
  "service_base p \<equiv> headless_labels p (base_labels p)"

lemma getService_run:
  "getService L p sel s = (Some (Inr (case listed (pr_Namespace p) sel svc_meta (k_services (view (os_world s))) of
      [] \<Rightarrow> None | x # _ \<Rightarrow> Some x)), s\<lparr>os_world := snd (l_ListService L (pr_Namespace p) sel (os_world s))\<rparr>)"
  by (simp add: getService_def run list_service split: list.split)

lemma external_pass:
  assumes "\<not> need_external (view (os_world s)) p" and "valid_presto (l_ParseQuantity L) p"
    and "tracks p (view (os_world s))" and "no_conflict (view (os_world s)) p"
  shows "\<exists>svc. pass (serviceConfig L p b) s p (p, external_labels p b, svc)"
proof -
  let ?sel = "[(''external-presto-svc'', pr_Uuid p)]"
  let ?s1 = "s\<lparr>os_world := snd (l_ListService L (pr_Namespace p) ?sel (os_world s))\<rparr>"
  from assms(1) obtain sv svs where sv:
      "listed (pr_Namespace p) ?sel svc_meta (k_services (view (os_world s))) = sv # svs"
    by (auto simp: need_external_def neq_Nil_conv)
  then have "sv \<in> set (listed (pr_Namespace p) ?sel svc_meta (k_services (view (os_world s))))" by simp
  then have ports: "ss_Ports (svc_spec sv) \<noteq> []"
    using assms(4) by (auto simp: in_listed no_conflict_def list_all_iff service_fits_def)
  have create: "createOrGetService L p b s =
      (Some (None, Some sv, False, external_labels p b), ?s1)"
    using assms(2) sv by (simp add: createOrGetService_def getExternalServiceLabel_def
        getCoordinatorPodLabel_def Let_def valid_presto_def go_bind_def getService_run go_ret_def)
  let ?a = "no_action\<lparr>ua_service := Some sv, ua_clusterState := ClusterPending\<rparr>"
  obtain s2 ps where u: "updateStatus L p ?a ?s1 = (Some (True, None, p), s2)"
      "moved ?s1 s2 ((view (os_world s))\<lparr>k_prestos := ps\<rparr>) []"
      "tracks p ((view (os_world s))\<lparr>k_prestos := ps\<rparr>)"
    using updateStatus_tracked [of p ?s1 ?a] assms(3) ports
    by (auto simp: reads no_action_def bad_action_def)
  show ?thesis
  proof (cases "st_CoordinatorAddress (pr_Status p) = []")
    case True
    with create u(1) have "serviceConfig L p b s = (Some (None, False, p, external_labels p b, Some sv), s2)"
      by (simp add: serviceConfig_def go_bind_def go_ret_def)
    moreover have "moved s s2 ((view (os_world s))\<lparr>k_prestos := ps\<rparr>) []"
      using u(2) by (simp add: moved_def)
    ultimately show ?thesis using u(3) unfolding pass_def by blast
  next
    case False
    with create have "serviceConfig L p b s = (Some (None, False, p, external_labels p b, Some sv), ?s1)"
      by (simp add: serviceConfig_def go_bind_def go_ret_def)
    then show ?thesis
      using passI [of "serviceConfig L p b"] assms(3) reads(3) by blast
  qed
qed

lemma external_act:
  assumes "need_external (view (os_world s)) p" and "valid_presto (l_ParseQuantity L) p"
    and "tracks p (view (os_world s))" and "no_conflict (view (os_world s)) p"
  shows "\<exists>sv. act (serviceConfig L p (service_base p)) s p
      ((view (os_world s))\<lparr>k_services := k_services (view (os_world s)) @ [sv]\<rparr>) \<and>
    om_Namespace (svc_meta sv) = pr_Namespace p \<and>
    om_Name (svc_meta sv) = ''external-presto-svc-'' @ take 8 (pr_Uuid p) \<and>
    om_Labels (svc_meta sv) = stage_labels p \<and> ss_Ports (svc_spec sv) \<noteq> []"
proof -
  let ?K = "view (os_world s)" and ?n = "''external-presto-svc-'' @ take 8 (pr_Uuid p)"
  let ?sel = "[(''external-presto-svc'', pr_Uuid p)]" and ?b = "external_labels p (service_base p)"
  let ?w = "snd (l_ListService L (pr_Namespace p) ?sel (os_world s))"
  let ?svc = "externalServiceObject p ?n ?b ''coordinator'' (pr_Uuid p) (getServicePort p)"
  let ?w1 = "snd (l_CreateService L ?svc ?w)"
  have free: "\<not> name_taken svc_meta (svc_meta ?svc) (k_services (view ?w))"
    using assms(1,4)
    by (fastforce simp: externalServiceObject_def Let_def name_taken_def list_ex_iff same_key_def reads
        need_external_def no_conflict_def list_all_iff service_fits_def listed_def filter_empty_conv)
  obtain sv where sv: "fst (l_CreateService L ?svc ?w) = Inr sv"
      "view ?w1 = ?K\<lparr>k_services := k_services ?K @ [sv]\<rparr>"
      "kept_meta (svc_meta ?svc) (svc_meta sv)" "om_Name (svc_meta sv) = om_Name (svc_meta ?svc)"
      "map sp_Port (ss_Ports (svc_spec sv)) = map sp_Port (ss_Ports (svc_spec ?svc))"
    using create_service [OF _ free] by (auto simp: reads externalServiceObject_def Let_def)
  have lab: "om_Labels (svc_meta sv) = ?b" "om_Namespace (svc_meta sv) = pr_Namespace p"
    using sv(3) by (simp_all add: kept_meta_def externalServiceObject_def Let_def)
  have ports: "ss_Ports (svc_spec sv) \<noteq> []"
    using sv(5) by (auto simp: externalServiceObject_def getServicePort_def Let_def
        split: option.splits if_splits)
  have found: "listed (pr_Namespace p) ?b svc_meta (k_services (view ?w1)) = [sv]"
    using assms(1) lab sv(2)
    by (auto simp: need_external_def listed_def filter_empty_conv)
  let ?s1 = "s\<lparr>os_world := snd (l_ListService L (pr_Namespace p) ?b ?w1),
      os_reqs := os_reqs s @ [(CreateService ?svc, True)]\<rparr>"
  have create: "createOrGetService L p (service_base p) s = (Some (None, Some sv, True, ?b), ?s1)"
    using assms(1,2) sv(1) found
    by (simp add: createOrGetService_def getExternalServiceLabel_def need_external_def
        getCoordinatorPodLabel_def Let_def valid_presto_def go_bind_def getService_run go_ret_def send_def
        split_beta)
  let ?s2 = "?s1\<lparr>os_events := os_events s @ [\<lparr>ev_Type = EventTypeNormal, ev_Reason = ''Created'',
        ev_Message = ''Created Service. '' @ ?n\<rparr>]\<rparr>"
  have "act (serviceConfig L p (service_base p)) s p (?K\<lparr>k_services := k_services ?K @ [sv]\<rparr>)"
  proof (rule actI [where ?s1.0 = ?s2 and E = os_events and req = "CreateService ?svc"])
    fix s2 assume "updateStatus L p (no_action\<lparr>ua_service := Some sv,
        ua_clusterState := ClusterPending\<rparr>) ?s2 = (Some (True, None, p), s2)"
    then show "serviceConfig L p (service_base p) s =
        (Some (None, True, p, ?b, Some sv), s2\<lparr>os_events := os_events s2\<rparr>)"
      using assms(2) create
      by (simp add: serviceConfig_def go_bind_def go_ret_def eventf_def valid_presto_def)
  qed (use sv(2) assms(3) ports in \<open>simp_all add: no_action_def bad_action_def reads tracks_def\<close>)
  with sv(4) lab ports show ?thesis
    by (intro exI [of _ sv]) (simp add: externalServiceObject_def Let_def stage_labels_def)
qed

end

subsection \<open>The config map stages\<close>

lemma valid_buildConfigMap:
  assumes "valid_presto pq p"
  shows "\<exists>cm. buildConfigMap pq rc p isC n b = Some (Inr cm)"
proof -
  have len: "8 \<le> length (pr_Uuid p)" using assms by (simp add: valid_presto_def)
  have v: "co_HttpsEnabled (pr_Coordinator p) \<longrightarrow> https_ready p"
      "fst ` set (co_AdditionalProps (pr_Coordinator p)) \<inter>
        set (coordinator_keys (co_HttpsEnabled (pr_Coordinator p))) = {}"
      "fst ` set (wo_AdditionalProps (pr_Worker p)) \<inter>
        {''coordinator'', ''http-server.http.port'', ''discovery.uri''} = {}"
    by (insert assms, unfold valid_presto_def, (elim conjE, assumption)+)
  have "\<not> (\<exists>e. coordinatorConfigPropsMap rc p = Some (Inl e))"
    unfolding coordinator_render_fails_iff [OF len] v(2) using v(1) by simp
  then obtain c where c: "coordinatorConfigPropsMap rc p = Some (Inr c)"
    using render_total(1) [OF len, of rc] by (cases "coordinatorConfigPropsMap rc p") (auto intro: sum.exhaust)
  have "\<not> (\<exists>e. workerConfigPropsMap rc p = Some (Inl e))"
    unfolding worker_render_fails_iff [OF len] v(3) by simp
  then obtain w where w: "workerConfigPropsMap rc p = Some (Inr w)"
    using render_total(2) [OF len, of rc] by (cases "workerConfigPropsMap rc p") (auto intro: sum.exhaust)
  have "parses pq (co_MemoryLimit (pr_Coordinator p))" "parses pq (wo_MemoryLimit (pr_Worker p))"
    using assms by (simp_all add: valid_presto_def worker_quantities_def)
  then obtain j k where "coordinatorJVMConfigMap pq p = Inr j" "workerJVMConfigMap pq p = Inr k"
    by (simp add: parses_def coordinator_jvm.jvm_cases worker_jvm.jvm_cases split: sum.splits)
  with c w show ?thesis by (simp add: buildConfigMap_def Let_def)
qed

text \<open>A stage that creates a config map and then reports it in the status and in an event.\<close>

locale config_settle = api_server L view + creator: config_map_creator create nm build
  for L :: "'w lib" and view :: "'w \<Rightarrow> kube"
    and create :: "'w lib \<Rightarrow> Presto \<Rightarrow> smap \<Rightarrow> ('w op_state, bool \<times> go_error option) go"
    and nm :: "string \<Rightarrow> string option"
    and build :: "'w lib \<Rightarrow> Presto \<Rightarrow> string \<Rightarrow> smap \<Rightarrow> (go_error + configmap) option" +
  fixes stage :: "'w lib \<Rightarrow> Presto \<Rightarrow> smap \<Rightarrow> ('w op_state, go_error option \<times> bool \<times> Presto) go"
    and pre :: string and action :: "string \<Rightarrow> ClusterUpdateAction" and event :: "string \<Rightarrow> op_event"
  assumes nm_pre: "8 \<le> length u \<Longrightarrow> nm u = Some (pre @ take 8 u)"
    and pre_known: "pre \<in> {''coordinatorconfig-'', ''workerconfig-'', ''catalogconfig-''}"
    and build_ok: "valid_presto (l_ParseQuantity L) p \<Longrightarrow> \<exists>cm. build L p n b = Some (Inr cm)"
    and stage_skip: "create L p b s = (Some (False, None), s') \<Longrightarrow>
      stage L p b s = (Some (None, False, p), s')"
    and stage_made: "create L p b s = (Some (True, None), s1) \<Longrightarrow> nm (pr_Uuid p) = Some n \<Longrightarrow>
      updateStatus L p (action n) s1 = (Some (True, None, p), s2) \<Longrightarrow>
      stage L p b s = (Some (None, True, p), s2\<lparr>os_events := os_events s2 @ [event n]\<rparr>)"
    and action_ok: "action n \<noteq> no_action" "\<not> bad_action (action n)" "ua_clusterUUID (action n) = None"
begin

lemma list_configmap_run:
  "l_ListConfigMap L ns sel w = (Inr (listed ns sel cm_meta (k_configmaps (view w))),
     snd (l_ListConfigMap L ns sel w))"
  by (simp add: prod_eq_iff list_configmap)

lemma config_pass:
  assumes "\<not> need_configmap pre (view (os_world s)) p" and "valid_presto (l_ParseQuantity L) p"
    and "tracks p (view (os_world s))"
  shows "pass (stage L p (stage_labels p)) s p p"
proof -
  let ?n = "pre @ take 8 (pr_Uuid p)"
  let ?w = "snd (l_ListConfigMap L (pr_Namespace p) (stage_labels p) (os_world s))"
  have n: "nm (pr_Uuid p) = Some ?n" using assms(2) by (simp add: nm_pre valid_presto_def)
  obtain c where c: "build L p ?n (stage_labels p) = Some (Inr c)"
    using build_ok [OF assms(2)] by blast
  have "create L p (stage_labels p) s = (Some (False, None), s\<lparr>os_world := ?w\<rparr>)"
    using assms(1) by (intro creator.create_exists [OF n c list_configmap_run])
      (simp add: need_configmap_def list_ex_iff)
  then show ?thesis
    by (intro passI [where w = ?w] stage_skip assms(3)) (simp_all add: reads)
qed

lemma config_act:
  assumes "need_configmap pre (view (os_world s)) p" and "valid_presto (l_ParseQuantity L) p"
    and "tracks p (view (os_world s))" and "no_conflict (view (os_world s)) p"
  shows "\<exists>cm. act (stage L p (stage_labels p)) s p
      ((view (os_world s))\<lparr>k_configmaps := k_configmaps (view (os_world s)) @ [cm]\<rparr>) \<and>
    om_Namespace (cm_meta cm) = pr_Namespace p \<and> om_Name (cm_meta cm) = pre @ take 8 (pr_Uuid p) \<and>
    om_Labels (cm_meta cm) = stage_labels p"
proof -
  let ?K = "view (os_world s)" and ?n = "pre @ take 8 (pr_Uuid p)" and ?b = "stage_labels p"
  let ?w = "snd (l_ListConfigMap L (pr_Namespace p) ?b (os_world s))"
  have n: "nm (pr_Uuid p) = Some ?n" using assms(2) by (simp add: nm_pre valid_presto_def)
  obtain c where c: "build L p ?n ?b = Some (Inr c)"
    using build_ok [OF assms(2)] by blast
  note own = creator.build_owned [OF c]
  have named: "om_Name (cm_meta c) \<noteq> []" using own pre_known by (auto simp: owned_meta_def)
  have free: "\<not> name_taken cm_meta (cm_meta c) (k_configmaps (view ?w))"
  proof
    assume "name_taken cm_meta (cm_meta c) (k_configmaps (view ?w))"
    then obtain x where x: "x \<in> set (k_configmaps ?K)" "om_Namespace (cm_meta x) = pr_Namespace p"
        "om_Name (cm_meta x) = ?n"
      using own by (auto simp: name_taken_def list_ex_iff same_key_def reads owned_meta_def)
    then have "selects ?b (om_Labels (cm_meta x))"
      using assms(4) pre_known unfolding no_conflict_def list_all_iff configmap_fits_def by blast
    with x assms(1) show False by (simp add: need_configmap_def list_ex_iff in_listed)
  qed
  obtain cm where cm: "fst (l_CreateConfigMap L c ?w) = Inr cm"
      "view (snd (l_CreateConfigMap L c ?w)) = ?K\<lparr>k_configmaps := k_configmaps ?K @ [cm]\<rparr>"
      "kept_meta (cm_meta c) (cm_meta cm)" "om_Name (cm_meta cm) = om_Name (cm_meta c)"
    using create_configmap [OF named free] by (auto simp: reads)
  let ?s1 = "s\<lparr>os_world := snd (l_CreateConfigMap L c ?w),
      os_reqs := os_reqs s @ [(CreateConfigMap c, True)]\<rparr>"
  have created: "create L p ?b s = (Some (True, None), ?s1)"
    using assms(1) by (intro creator.create_missing [OF n c list_configmap_run])
      (simp_all add: prod_eq_iff cm(1) need_configmap_def list_ex_iff)
  have "act (stage L p ?b) s p (?K\<lparr>k_configmaps := k_configmaps ?K @ [cm]\<rparr>)"
    by (rule actI [where ?s1.0 = ?s1 and E = "\<lambda>t. os_events t @ [event ?n]" and a = "action ?n"
          and req = "CreateConfigMap c"])
      (use stage_made [OF created n] cm(2) assms(3) in \<open>simp_all add: action_ok tracks_def\<close>)
  with own cm(3,4) show ?thesis
    by (intro exI [of _ cm]) (simp add: kept_meta_def owned_meta_def)
qed

end

sublocale api_server \<subseteq> coordinator_settle: config_settle L view createCoordinatorConfig
    getCoordinatorConfigMapName
    "\<lambda>L p n lbls. buildConfigMap (l_ParseQuantity L) (l_range L) p True n lbls"
    coordinatorConfig "''coordinatorconfig-''"
    "\<lambda>n. no_action\<lparr>ua_coordinatorConfMap := Some n, ua_clusterState := ClusterPending\<rparr>"
    "\<lambda>n. \<lparr>ev_Type = EventTypeNormal, ev_Reason = ''Created'',
      ev_Message = ''Created Coordinator Config. '' @ n\<rparr>"
  by unfold_locales
    (simp_all add: valid_buildConfigMap coordinatorConfig_def run no_action_def bad_action_def)

sublocale api_server \<subseteq> worker_settle: config_settle L view createWorkerConfig
    getWorkerConfigMapName
    "\<lambda>L p n lbls. buildConfigMap (l_ParseQuantity L) (l_range L) p False n lbls"
    workerConfig "''workerconfig-''"
    "\<lambda>n. no_action\<lparr>ua_workerConfMap := Some n, ua_clusterState := ClusterPending\<rparr>"
    "\<lambda>n. \<lparr>ev_Type = EventTypeNormal, ev_Reason = ''Created'',
      ev_Message = ''Created Worker Config. '' @ n\<rparr>"
  by unfold_locales
    (simp_all add: valid_buildConfigMap workerConfig_def run no_action_def bad_action_def)

sublocale api_server \<subseteq> catalog_settle: config_settle L view createCatalogConfig
    getCatalogConfigMapName
    "\<lambda>L p n lbls. Some (buildCatalogConfigMap (l_range L) p n lbls)"
    catalogConfig "''catalogconfig-''"
    "\<lambda>n. no_action\<lparr>ua_catalogConfMap := Some n, ua_clusterState := ClusterPending\<rparr>"
    "\<lambda>n. \<lparr>ev_Type = EventTypeNormal, ev_Reason = ''Created'',
      ev_Message = ''Created Catalog Config. '' @ n\<rparr>"
  by unfold_locales
    (simp_all add: buildCatalogConfigMap_def Let_def catalogConfig_def run no_action_def bad_action_def)

end
