(* ===== verification/Settling_Workloads.thy ===== *)
theory Settling_Workloads
  imports Settling
begin

text \<open>
  The stages of the replica sets and of the autoscaler against a well-behaved API server: each passes
  when its object is as the spec asks, and otherwise makes the one write that gets it there.
\<close>

subsection \<open>The replica set stages\<close>

context api_server
begin

lemma getReplicaSet_run:
  "getReplicaSet L p f s =
     (Some (case listed (pr_Namespace p) [f (pr_Uuid p)] rs_meta (k_replicasets (view (os_world s))) of
        [] \<Rightarrow> Inl (l_NewNotFound L ''replicasets'' []) | x # _ \<Rightarrow> Inr x),
      s\<lparr>os_world := snd (l_ListReplicaSet L (pr_Namespace p) [f (pr_Uuid p)] (os_world s))\<rparr>)"
  by (cases "f (pr_Uuid p)") (simp add: getReplicaSet_def run list_replicaset split: list.split)

lemma coordinator_pass:
  assumes "\<not> need_coordinator (view (os_world s)) p" and "tracks p (view (os_world s))"
  shows "pass (coordinatorReplicaset L p b) s p p"
proof -
  obtain rs rss where "listed (pr_Namespace p) [(''coordinator'', pr_Uuid p)] rs_meta
      (k_replicasets (view (os_world s))) = rs # rss"
    using assms(1) by (auto simp: need_coordinator_def neq_Nil_conv)
  then show ?thesis
    by (intro passI [OF _ _ assms(2), where w = "snd (l_ListReplicaSet L (pr_Namespace p)
          [(''coordinator'', pr_Uuid p)] (os_world s))"])
      (simp_all add: coordinatorReplicaset_def createUpdateReplicaSetForCoordinator_def getReplicaSet_run
        getCoordinatorPodLabel_def go_bind_def go_ret_def reads)
qed

lemma coordinator_act:
  assumes "need_coordinator (view (os_world s)) p" and "valid_presto (l_ParseQuantity L) p"
    and "tracks p (view (os_world s))"
  shows "\<exists>rs. act (coordinatorReplicaset L p (stage_labels p)) s p
      ((view (os_world s))\<lparr>k_replicasets := k_replicasets (view (os_world s)) @ [rs]\<rparr>) \<and>
    om_Namespace (rs_meta rs) = pr_Namespace p \<and>
    om_Labels (rs_meta rs) = getCoordinatorPodLabels (l_range L) (stage_labels p) (pr_Uuid p)"
proof -
  let ?K = "view (os_world s)" and ?b = "getCoordinatorPodLabels (l_range L) (stage_labels p) (pr_Uuid p)"
  let ?w = "snd (l_ListReplicaSet L (pr_Namespace p) [(''coordinator'', pr_Uuid p)] (os_world s))"
  let ?n = "''coordinatorreplicaset-'' @ take 8 (pr_Uuid p)"
  obtain r where r: "createReplicaSetForCoordinator (l_ParseQuantity L) p ?b = Some (Inr r)"
    using coordinator_rs.build_succeeds [of p "l_ParseQuantity L" ?b] assms(2)
    by (auto simp: valid_presto_def)
  note role = coordinator_rs.build_role [OF r, unfolded role_replicaset_def owned_meta_def]
  obtain rs where rs: "fst (l_CreateReplicaSet L r ?w) = Inr rs"
      "view (snd (l_CreateReplicaSet L r ?w)) = ?K\<lparr>k_replicasets := k_replicasets ?K @ [rs]\<rparr>"
      "kept_meta (rs_meta r) (rs_meta rs)"
    using create_replicaset [of r ?w] role by (auto simp: reads)
  let ?s1 = "s\<lparr>os_world := snd (l_CreateReplicaSet L r ?w),
      os_reqs := os_reqs s @ [(CreateReplicaSet r, True)]\<rparr>"
  have "act (coordinatorReplicaset L p (stage_labels p)) s p
      (?K\<lparr>k_replicasets := k_replicasets ?K @ [rs]\<rparr>)"
  proof (rule actI [where ?s1.0 = ?s1 and req = "CreateReplicaSet r" and
        E = "\<lambda>t. os_events t @ [\<lparr>ev_Type = EventTypeNormal, ev_Reason = ''Created'',
          ev_Message = ''Created Coordinator Replicaset. '' @ ?n\<rparr>]"])
    fix s2 assume "updateStatus L p (no_action\<lparr>ua_coordinatorReplicaSetName := Some ?n,
        ua_clusterState := ClusterPending\<rparr>) ?s1 = (Some (True, None, p), s2)"
    then show "coordinatorReplicaset L p (stage_labels p) s = (Some (None, True, p),
        s2\<lparr>os_events := os_events s2 @ [\<lparr>ev_Type = EventTypeNormal, ev_Reason = ''Created'',
          ev_Message = ''Created Coordinator Replicaset. '' @ ?n\<rparr>]\<rparr>)"
      using assms(1,2) r rs(1)
      by (simp add: coordinatorReplicaset_def createUpdateReplicaSetForCoordinator_def getReplicaSet_run
        getCoordinatorPodLabel_def need_coordinator_def not_found valid_presto_def run)
  qed (use rs(2) assms(3) in \<open>simp_all add: no_action_def bad_action_def tracks_def\<close>)
  with rs(3) role show ?thesis by (intro exI [of _ rs]) (simp add: kept_meta_def)
qed

lemma worker_pass:
  assumes "\<not> need_worker (view (os_world s)) p" and "valid_presto (l_ParseQuantity L) p"
    and "tracks p (view (os_world s))"
  shows "\<exists>rs. pass (workerReplicaset L p b) s p (p, Some rs) \<and> rs_Replicas rs \<noteq> None"
proof -
  obtain rs rss where rs: "listed (pr_Namespace p) [(''worker'', pr_Uuid p)] rs_meta
      (k_replicasets (view (os_world s))) = rs # rss"
      "checkAutoscalingEnabled p \<or> rs_Replicas rs = wo_Count (pr_Worker p)"
    using assms(1) by (auto simp: need_worker_def split: list.splits)
  then have "rs \<in> set (listed (pr_Namespace p) [(''worker'', pr_Uuid p)] rs_meta
      (k_replicasets (view (os_world s))))" by simp
  then have some: "rs_Replicas rs \<noteq> None"
    unfolding in_listed using replicas_defaulted by blast
  obtain n m where n: "wo_Count (pr_Worker p) = Some n" "rs_Replicas rs = Some m"
    using assms(2) some by (auto simp: valid_presto_def)
  have "pass (workerReplicaset L p b) s p (p, Some rs)"
    using rs n
    by (intro passI [OF _ _ assms(3), where w = "snd (l_ListReplicaSet L (pr_Namespace p)
          [(''worker'', pr_Uuid p)] (os_world s))"])
      (auto simp: workerReplicaset_def createUpdateReplicaSetForWorker_def getReplicaSet_run
        getWorkerPodLabel_def checkAutoscalingEnabled_def go_bind_def go_ret_def reads
        split: option.splits)
  with some show ?thesis by blast
qed

lemma worker_create_act:
  assumes "listed (pr_Namespace p) [(''worker'', pr_Uuid p)] rs_meta (k_replicasets (view (os_world s))) = []"
    and "valid_presto (l_ParseQuantity L) p" and "tracks p (view (os_world s))"
  shows "\<exists>rs. act (workerReplicaset L p (stage_labels p)) s p
      ((view (os_world s))\<lparr>k_replicasets := k_replicasets (view (os_world s)) @ [rs]\<rparr>) \<and>
    om_Namespace (rs_meta rs) = pr_Namespace p \<and> rs_Replicas rs = wo_Count (pr_Worker p) \<and>
    om_Labels (rs_meta rs) = getWorkerPodLabels (l_range L) (stage_labels p) (pr_Uuid p)"
proof -
  let ?K = "view (os_world s)" and ?b = "getWorkerPodLabels (l_range L) (stage_labels p) (pr_Uuid p)"
  let ?w = "snd (l_ListReplicaSet L (pr_Namespace p) [(''worker'', pr_Uuid p)] (os_world s))"
  obtain n where n: "wo_Count (pr_Worker p) = Some n"
    using assms(2) by (auto simp: valid_presto_def)
  obtain r where r: "createReplicaSetForWorker (l_ParseQuantity L) p ?b n = Some (Inr r)"
    using worker_rs.build_succeeds [of p "l_ParseQuantity L" ?b n] assms(2)
    by (auto simp: valid_presto_def)
  note role = worker_rs.build_role [OF r, unfolded role_replicaset_def owned_meta_def]
  obtain rs where rs: "fst (l_CreateReplicaSet L r ?w) = Inr rs"
      "view (snd (l_CreateReplicaSet L r ?w)) = ?K\<lparr>k_replicasets := k_replicasets ?K @ [rs]\<rparr>"
      "kept_meta (rs_meta r) (rs_meta rs)" "rs_Replicas rs = rs_Replicas r"
    using create_replicaset [of r ?w] role by (auto simp: reads)
  let ?s1 = "s\<lparr>os_world := snd (l_CreateReplicaSet L r ?w),
      os_reqs := os_reqs s @ [(CreateReplicaSet r, True)]\<rparr>"
  have "act (workerReplicaset L p (stage_labels p)) s p
      (?K\<lparr>k_replicasets := k_replicasets ?K @ [rs]\<rparr>)"
  proof (rule actI [where ?s1.0 = ?s1 and req = "CreateReplicaSet r" and
        E = "\<lambda>t. os_events t @ [\<lparr>ev_Type = EventTypeNormal, ev_Reason = ''Created'',
          ev_Message = ''Created Worker Replicaset. '' @ om_Name (rs_meta rs)\<rparr>]"])
    fix s2 assume "updateStatus L p (no_action\<lparr>ua_workerReplicaSet := Some rs,
        ua_clusterState := ClusterPending\<rparr>) ?s1 = (Some (True, None, p), s2)"
    then show "workerReplicaset L p (stage_labels p) s = (Some (None, True, p, Some rs),
        s2\<lparr>os_events := os_events s2 @ [\<lparr>ev_Type = EventTypeNormal, ev_Reason = ''Created'',
          ev_Message = ''Created Worker Replicaset. '' @ om_Name (rs_meta rs)\<rparr>]\<rparr>)"
      using assms(1) n r rs(1)
      by (simp add: workerReplicaset_def createUpdateReplicaSetForWorker_def getReplicaSet_run
        getWorkerPodLabel_def not_found run)
  qed (use rs(2,4) role assms(3) in \<open>simp_all add: no_action_def bad_action_def tracks_def\<close>)
  with rs(3,4) role n show ?thesis by (intro exI [of _ rs]) (simp add: kept_meta_def)
qed

lemma worker_update_act:
  assumes "listed (pr_Namespace p) [(''worker'', pr_Uuid p)] rs_meta (k_replicasets (view (os_world s))) = r0 # rss"
    and "\<not> checkAutoscalingEnabled p" and "rs_Replicas r0 \<noteq> wo_Count (pr_Worker p)"
    and "valid_presto (l_ParseQuantity L) p" and "tracks p (view (os_world s))"
  shows "\<exists>rs. act (workerReplicaset L p (stage_labels p)) s p
      ((view (os_world s))\<lparr>k_replicasets := put_by_key rs_meta rs (k_replicasets (view (os_world s)))\<rparr>) \<and>
    kept_meta (rs_meta r0) (rs_meta rs) \<and> om_Name (rs_meta rs) = om_Name (rs_meta r0) \<and>
    rs_Replicas rs = wo_Count (pr_Worker p)"
proof -
  let ?K = "view (os_world s)"
  let ?w = "snd (l_ListReplicaSet L (pr_Namespace p) [(''worker'', pr_Uuid p)] (os_world s))"
  obtain n where n: "wo_Count (pr_Worker p) = Some n"
    using assms(4) by (auto simp: valid_presto_def)
  have "r0 \<in> set (listed (pr_Namespace p) [(''worker'', pr_Uuid p)] rs_meta (k_replicasets ?K))"
    using assms(1) by simp
  then have r0: "r0 \<in> set (k_replicasets ?K)" by (simp add: in_listed)
  then obtain m where m: "rs_Replicas r0 = Some m" "m \<noteq> n"
    using replicas_defaulted [of r0 "os_world s"] assms(3) n by (cases "rs_Replicas r0") auto
  have off: "as_Enabled (pr_Autoscaling p) = None \<or> as_Enabled (pr_Autoscaling p) = Some False"
    using assms(2) by (auto simp: checkAutoscalingEnabled_def split: option.splits)
  let ?r = "r0\<lparr>rs_Replicas := Some n\<rparr>"
  obtain rs where rs: "fst (l_UpdateReplicaSet L ?r ?w) = Inr rs"
      "view (snd (l_UpdateReplicaSet L ?r ?w)) =
         ?K\<lparr>k_replicasets := put_by_key rs_meta rs (k_replicasets ?K)\<rparr>"
      "kept_meta (rs_meta r0) (rs_meta rs)" "om_Name (rs_meta rs) = om_Name (rs_meta r0)"
      "rs_Replicas rs = Some n"
    using update_replicaset [of r0 ?w ?r] r0 by (auto simp: reads)
  let ?s1 = "s\<lparr>os_world := snd (l_UpdateReplicaSet L ?r ?w),
      os_reqs := os_reqs s @ [(UpdateReplicaSet ?r, True)],
      os_events := os_events s @ [\<lparr>ev_Type = EventTypeNormal, ev_Reason = ''Updated'',
        ev_Message = ''Updated Worker Replicaset. '' @ om_Name (rs_meta rs) @ '' ''\<rparr>]\<rparr>"
  have "act (workerReplicaset L p (stage_labels p)) s p
      (?K\<lparr>k_replicasets := put_by_key rs_meta rs (k_replicasets ?K)\<rparr>)"
  proof (rule actI [where ?s1.0 = ?s1 and req = "UpdateReplicaSet ?r" and E = os_events])
    fix s2 assume "updateStatus L p (no_action\<lparr>ua_workerReplicaSet := Some rs,
        ua_clusterState := ClusterPending\<rparr>) ?s1 = (Some (True, None, p), s2)"
    then show "workerReplicaset L p (stage_labels p) s = (Some (None, True, p, Some rs),
        s2\<lparr>os_events := os_events s2\<rparr>)"
      using assms(1) off n m rs(1)
      by (simp add: workerReplicaset_def createUpdateReplicaSetForWorker_def getReplicaSet_run
        getWorkerPodLabel_def run Let_def)
  qed (use rs(2,5) assms(5) in \<open>simp_all add: no_action_def bad_action_def tracks_def\<close>)
  with rs n show ?thesis by (intro exI [of _ rs]) simp
qed

end

subsection \<open>The autoscaler stage\<close>

context api_server
begin

abbreviation cluster_hpas :: "'w op_state \<Rightarrow> Presto \<Rightarrow> hpa list" where
  "cluster_hpas s p \<equiv> listed (pr_Namespace p) (stage_labels p) hpa_meta (k_hpas (view (os_world s)))"

lemma getPrestoHPA_run:
  "getPrestoHPA L p sel s =
     (Some (case listed (pr_Namespace p) sel hpa_meta (k_hpas (view (os_world s))) of
        [] \<Rightarrow> Inl (l_NewNotFound L ''HPA'' []) | x # _ \<Rightarrow> Inr x),
      s\<lparr>os_world := snd (l_ListHPA L (pr_Namespace p) sel (os_world s))\<rparr>)"
  by (simp add: getPrestoHPA_def run list_hpa split: list.split)

lemma specChanged_defined:
  assumes "h \<in> set (k_hpas (view w))" and "valid_presto (l_ParseQuantity L) p" and "checkAutoscalingEnabled p"
  shows "\<exists>b. autoscaleSpecChanged h p = Some b"
proof -
  obtain a b where "hpa_MinReplicas h = Some a" "hpa_TargetCPU h = Some b"
    using hpa_defaulted [OF assms(1)] by blast
  moreover obtain c d e where "as_MinReplicas (pr_Autoscaling p) = Some c"
      "as_MaxReplicas (pr_Autoscaling p) = Some d"
      "as_TargetCPUUtilizationPercentage (pr_Autoscaling p) = Some e"
    using assms(2,3) by (auto simp: valid_presto_def)
  ultimately show ?thesis by (auto simp: autoscaleSpecChanged_def)
qed

lemma hpa_pass:
  assumes "\<not> need_hpa (view (os_world s)) p" and "valid_presto (l_ParseQuantity L) p"
    and "tracks p (view (os_world s))"
  shows "pass (hpaReplicaset L p (stage_labels p) wrs) s p p"
proof (rule passI [where w = "snd (l_ListHPA L (pr_Namespace p) (stage_labels p) (os_world s))"])
  show "hpaReplicaset L p (stage_labels p) wrs s = (Some (None, False, p),
      s\<lparr>os_world := snd (l_ListHPA L (pr_Namespace p) (stage_labels p) (os_world s))\<rparr>)"
  proof (cases "cluster_hpas s p")
    case Nil
    with assms(1) show ?thesis
      by (simp add: need_hpa_def hpaReplicaset_def handleReplicaSet_def getPrestoHPA_run not_found
          go_bind_def go_ret_def Let_def)
  next
    case (Cons h hs)
    then have "h \<in> set (cluster_hpas s p)" by simp
    then have "h \<in> set (k_hpas (view (os_world s)))" by (simp add: in_listed)
    moreover have on: "checkAutoscalingEnabled p" "autoscaleSpecChanged h p \<noteq> Some True"
      using assms(1) Cons by (simp_all add: need_hpa_def)
    ultimately have "autoscaleSpecChanged h p = Some False"
      using specChanged_defined [OF _ assms(2), of h "os_world s"] by (metis (full_types))
    with Cons on show ?thesis
      by (simp add: hpaReplicaset_def handleReplicaSet_def getPrestoHPA_run go_bind_def go_ret_def Let_def)
  qed
qed (simp_all add: reads assms(3))

lemma valid_createHPASpec:
  assumes "valid_presto pq p" and "checkAutoscalingEnabled p"
  shows "\<exists>h. createHPASpec p (Some rs) b v = Some (Inr h)"
  using assms by (auto simp: valid_presto_def createHPASpec_def)

lemma hpa_create_act:
  assumes "cluster_hpas s p = []" and "checkAutoscalingEnabled p"
    and "valid_presto (l_ParseQuantity L) p" and "tracks p (view (os_world s))"
    and "no_conflict (view (os_world s)) p"
  shows "\<exists>h h0. act (hpaReplicaset L p (stage_labels p) (Some rs)) s p
      ((view (os_world s))\<lparr>k_hpas := k_hpas (view (os_world s)) @ [h]\<rparr>) \<and>
    kept_meta (hpa_meta h0) (hpa_meta h) \<and> om_Name (hpa_meta h) = om_Name (hpa_meta h0) \<and>
    hpa_MinReplicas h = hpa_MinReplicas h0 \<and> hpa_MaxReplicas h = hpa_MaxReplicas h0 \<and>
    hpa_TargetCPU h = hpa_TargetCPU h0 \<and> wanted_hpa p rs (stage_labels p) h0"
proof -
  let ?K = "view (os_world s)" and ?n = "''hpa-'' @ take 8 (pr_Uuid p)"
  let ?w = "snd (l_ListHPA L (pr_Namespace p) (stage_labels p) (os_world s))"
  obtain h0 where h0: "createHPASpec p (Some rs) (stage_labels p) [] = Some (Inr h0)"
    using valid_createHPASpec [OF assms(3,2)] by blast
  then have want: "wanted_hpa p rs (stage_labels p) h0" using createHPASpec_wanted by fastforce
  have len: "8 \<le> length (pr_Uuid p)" using assms(3) by (simp add: valid_presto_def)
  have meta: "om_Name (hpa_meta h0) = ?n" "om_Namespace (hpa_meta h0) = pr_Namespace p"
    using want len by (simp_all add: wanted_hpa_def owned_meta_def)
  have free: "\<not> name_taken hpa_meta (hpa_meta h0) (k_hpas (view ?w))"
    using assms(1,5) by (auto simp: meta name_taken_def list_ex_iff same_key_def reads no_conflict_def
        list_all_iff hpa_fits_def listed_def filter_empty_conv)
  have set: "hpa_MinReplicas h0 \<noteq> None" "hpa_TargetCPU h0 \<noteq> None"
    using want unfolding wanted_hpa_def by blast+
  obtain h where h: "fst (l_CreateHPA L h0 ?w) = Inr h"
      "view (snd (l_CreateHPA L h0 ?w)) = ?K\<lparr>k_hpas := k_hpas ?K @ [h]\<rparr>"
      "kept_meta (hpa_meta h0) (hpa_meta h)" "om_Name (hpa_meta h) = om_Name (hpa_meta h0)"
      "hpa_MinReplicas h = hpa_MinReplicas h0" "hpa_MaxReplicas h = hpa_MaxReplicas h0"
      "hpa_TargetCPU h = hpa_TargetCPU h0"
    using create_hpa [OF _ free set] by (auto simp: reads meta)
  let ?s1 = "s\<lparr>os_world := snd (l_CreateHPA L h0 ?w), os_reqs := os_reqs s @ [(CreateHPA h0, True)]\<rparr>"
  let ?e = "\<lparr>ev_Type = EventTypeNormal, ev_Reason = ''Created'', ev_Message = ''Created HPA. '' @ ?n\<rparr>"
  have "act (hpaReplicaset L p (stage_labels p) (Some rs)) s p (?K\<lparr>k_hpas := k_hpas ?K @ [h]\<rparr>)"
  proof (rule actI [where ?s1.0 = ?s1 and req = "CreateHPA h0" and E = "\<lambda>t. os_events t @ [?e]"])
    fix s2 assume "updateStatus L p (no_action\<lparr>ua_hpaName := Some ?n,
        ua_clusterState := ClusterPending\<rparr>) ?s1 = (Some (True, None, p), s2)"
    then show "hpaReplicaset L p (stage_labels p) (Some rs) s =
        (Some (None, True, p), s2\<lparr>os_events := os_events s2 @ [?e]\<rparr>)"
      using assms(1,2) len h0 h(1)
      by (simp add: hpaReplicaset_def handleReplicaSet_def getPrestoHPA_run not_found run Let_def)
  qed (use h(2) assms(4) in \<open>simp_all add: no_action_def bad_action_def tracks_def\<close>)
  with h want show ?thesis by (intro exI [of _ h] exI [of _ h0]) simp
qed

text \<open>An update reports an event but no status.\<close>

lemma hpa_update_act:
  assumes "cluster_hpas s p = h1 # hs" and "checkAutoscalingEnabled p"
    and "autoscaleSpecChanged h1 p = Some True"
    and "valid_presto (l_ParseQuantity L) p" and "tracks p (view (os_world s))"
    and "no_conflict (view (os_world s)) p"
  shows "\<exists>h h0. act (hpaReplicaset L p (stage_labels p) (Some rs)) s p
      ((view (os_world s))\<lparr>k_hpas := put_by_key hpa_meta h (k_hpas (view (os_world s)))\<rparr>) \<and>
    kept_meta (hpa_meta h0) (hpa_meta h) \<and> om_Name (hpa_meta h) = om_Name (hpa_meta h0) \<and>
    hpa_MinReplicas h = hpa_MinReplicas h0 \<and> hpa_MaxReplicas h = hpa_MaxReplicas h0 \<and>
    hpa_TargetCPU h = hpa_TargetCPU h0 \<and> wanted_hpa p rs (stage_labels p) h0"
proof -
  let ?K = "view (os_world s)" and ?n = "''hpa-'' @ take 8 (pr_Uuid p)"
  let ?w = "snd (l_ListHPA L (pr_Namespace p) (stage_labels p) (os_world s))"
  obtain h0 where h0: "createHPASpec p (Some rs) (stage_labels p) (om_ResourceVersion (hpa_meta h1)) =
      Some (Inr h0)"
    using valid_createHPASpec [OF assms(4,2)] by blast
  then have want: "wanted_hpa p rs (stage_labels p) h0"
      "om_ResourceVersion (hpa_meta h0) = om_ResourceVersion (hpa_meta h1)"
    using createHPASpec_wanted by fastforce+
  have len: "8 \<le> length (pr_Uuid p)" using assms(4) by (simp add: valid_presto_def)
  have "h1 \<in> set (cluster_hpas s p)" using assms(1) by simp
  then have h1: "h1 \<in> set (k_hpas ?K)" "om_Namespace (hpa_meta h1) = pr_Namespace p"
      "selects (stage_labels p) (om_Labels (hpa_meta h1))"
    by (simp_all add: in_listed)
  then have n1: "om_Name (hpa_meta h1) = ?n"
    using assms(6) by (auto simp: no_conflict_def list_all_iff hpa_fits_def)
  have key: "same_key (hpa_meta h0) (hpa_meta h1)"
    using want(1) len h1(2) n1 by (simp add: wanted_hpa_def owned_meta_def same_key_def)
  have set: "hpa_MinReplicas h0 \<noteq> None" "hpa_TargetCPU h0 \<noteq> None"
    using want(1) unfolding wanted_hpa_def by blast+
  obtain h where h: "fst (l_UpdateHPA L h0 ?w) = Inr h"
      "view (snd (l_UpdateHPA L h0 ?w)) = ?K\<lparr>k_hpas := put_by_key hpa_meta h (k_hpas ?K)\<rparr>"
      "kept_meta (hpa_meta h0) (hpa_meta h)" "om_Name (hpa_meta h) = om_Name (hpa_meta h0)"
      "hpa_MinReplicas h = hpa_MinReplicas h0" "hpa_MaxReplicas h = hpa_MaxReplicas h0"
      "hpa_TargetCPU h = hpa_TargetCPU h0"
    using update_hpa [OF _ key want(2) set, of ?w] h1(1) by (auto simp: reads)
  let ?s2 = "s\<lparr>os_world := snd (l_UpdateHPA L h0 ?w), os_reqs := os_reqs s @ [(UpdateHPA h0, True)],
      os_events := os_events s @ [\<lparr>ev_Type = EventTypeNormal, ev_Reason = ''Updated'',
        ev_Message = ''Updated HPA. '' @ ?n\<rparr>]\<rparr>"
  have "hpaReplicaset L p (stage_labels p) (Some rs) s = (Some (None, True, p), ?s2)"
    using assms(1,2,3) len h0 h(1)
    by (simp add: hpaReplicaset_def handleReplicaSet_def getPrestoHPA_run run Let_def)
  moreover have "moved s ?s2 ((?K\<lparr>k_hpas := put_by_key hpa_meta h (k_hpas ?K)\<rparr>)\<lparr>k_prestos := k_prestos ?K\<rparr>)
      [(UpdateHPA h0, True)]"
    using h(2) by (simp add: moved_def)
  moreover have "tracks p ((?K\<lparr>k_hpas := put_by_key hpa_meta h (k_hpas ?K)\<rparr>)\<lparr>k_prestos := k_prestos ?K\<rparr>)"
    using assms(5) by (simp add: tracks_def)
  ultimately have "act (hpaReplicaset L p (stage_labels p) (Some rs)) s p
      (?K\<lparr>k_hpas := put_by_key hpa_meta h (k_hpas ?K)\<rparr>)"
    unfolding act_def by (intro exI conjI)
  with h want show ?thesis by (intro exI [of _ h] exI [of _ h0]) simp
qed

lemma hpa_delete_act:
  assumes "cluster_hpas s p = h1 # hs" and "\<not> checkAutoscalingEnabled p"
    and "valid_presto (l_ParseQuantity L) p" and "tracks p (view (os_world s))"
  shows "act (hpaReplicaset L p (stage_labels p) wrs) s p
      ((view (os_world s))\<lparr>k_hpas := filter (\<lambda>x. \<not> same_key (hpa_meta x) (hpa_meta h1))
         (k_hpas (view (os_world s)))\<rparr>)"
proof -
  let ?K = "view (os_world s)" and ?n = "''hpa-'' @ take 8 (pr_Uuid p)"
  let ?w = "snd (l_ListHPA L (pr_Namespace p) (stage_labels p) (os_world s))"
  have len: "8 \<le> length (pr_Uuid p)" using assms(3) by (simp add: valid_presto_def)
  have "h1 \<in> set (cluster_hpas s p)" using assms(1) by simp
  then have h1: "h1 \<in> set (k_hpas (view ?w))" by (simp add: in_listed reads)
  let ?s1 = "s\<lparr>os_world := snd (l_DeleteHPA L h1 ?w), os_reqs := os_reqs s @ [(DeleteHPA h1, True)],
      os_events := os_events s @ [\<lparr>ev_Type = EventTypeNormal, ev_Reason = ''Deleted'',
        ev_Message = ''Deleted HPA. '' @ ?n\<rparr>]\<rparr>"
  show ?thesis
  proof (rule actI [where ?s1.0 = ?s1 and req = "DeleteHPA h1" and E = os_events])
    fix s2 assume "updateStatus L p (no_action\<lparr>ua_hpaName := Some [],
        ua_clusterState := ClusterPending\<rparr>) ?s1 = (Some (True, None, p), s2)"
    then show "hpaReplicaset L p (stage_labels p) wrs s =
        (Some (None, True, p), s2\<lparr>os_events := os_events s2\<rparr>)"
      using assms(1,2) len delete_hpa [OF h1]
      by (simp add: hpaReplicaset_def handleReplicaSet_def getPrestoHPA_run run Let_def)
  qed (use delete_hpa [OF h1] assms(4) in \<open>simp_all add: no_action_def bad_action_def tracks_def reads\<close>)
qed

end

end
