(* ===== verification/Progress.thy ===== *)
theory Progress
  imports Settling_Workloads
begin

text \<open>
  One run of the stages against a well-behaved API server: it ends without an error and deals with the
  first thing missing, by one write; when nothing is missing it writes nothing. The stages compose
  along the pattern \<open>next_stage\<close>: a stage that passes hands on to the next, a stage that acts ends
  the run, and its write changes no other entry of \<open>needs\<close>.
\<close>

subsection \<open>How a write changes what is missing\<close>

text \<open>The first thing missing is no longer missing; nothing else changes.\<close>

fun clear_first :: "bool list \<Rightarrow> bool list" where
  "clear_first [] = []"
| "clear_first (b # bs) = (if b then False # bs else False # clear_first bs)"

lemma needs_prestos [simp]:
  "needs (K\<lparr>k_prestos := ps\<rparr>) p = needs K p"
  "no_conflict (K\<lparr>k_prestos := ps\<rparr>) p = no_conflict K p"
  by (simp_all add: needs_def need_defs no_conflict_def)

lemma headless_effect:
  assumes "om_Namespace (svc_meta sv) = pr_Namespace p"
    and "om_Name (svc_meta sv) = ''pod-discovery-'' @ take 8 (pr_Uuid p)"
    and "om_Labels (svc_meta sv) = headless_labels p (base_labels p)"
    and "need_headless K p" and "no_conflict K p"
  shows "needs (K\<lparr>k_services := k_services K @ [sv]\<rparr>) p = clear_first (needs K p)"
    and "no_conflict (K\<lparr>k_services := k_services K @ [sv]\<rparr>) p"
  using assms
  by (simp_all add: needs_def need_defs listed_single no_conflict_def service_fits_def)

lemma external_effect:
  assumes "om_Namespace (svc_meta sv) = pr_Namespace p"
    and "om_Name (svc_meta sv) = ''external-presto-svc-'' @ take 8 (pr_Uuid p)"
    and "om_Labels (svc_meta sv) = stage_labels p" and "ss_Ports (svc_spec sv) \<noteq> []"
    and "\<not> need_headless K p" and "need_external K p" and "no_conflict K p"
  shows "needs (K\<lparr>k_services := k_services K @ [sv]\<rparr>) p = clear_first (needs K p)"
    and "no_conflict (K\<lparr>k_services := k_services K @ [sv]\<rparr>) p"
  using assms
  by (simp_all add: needs_def need_defs listed_single no_conflict_def service_fits_def stage_labels_def)

lemma need_configmap_other:
  assumes "om_Name (cm_meta cm) \<noteq> pre @ take 8 (pr_Uuid p)"
  shows "need_configmap pre (K\<lparr>k_configmaps := k_configmaps K @ [cm]\<rparr>) p = need_configmap pre K p"
  using assms by (simp add: need_configmap_def listed_single)

lemma need_configmap_new:
  assumes "om_Namespace (cm_meta cm) = pr_Namespace p"
    and "om_Name (cm_meta cm) = pre @ take 8 (pr_Uuid p)"
    and "om_Labels (cm_meta cm) = stage_labels p"
  shows "\<not> need_configmap pre (K\<lparr>k_configmaps := k_configmaps K @ [cm]\<rparr>) p"
  using assms by (simp add: need_configmap_def listed_single selects_refl)

lemma configmap_fits_new:
  assumes "om_Labels (cm_meta cm) = stage_labels p" and "no_conflict K p"
  shows "no_conflict (K\<lparr>k_configmaps := k_configmaps K @ [cm]\<rparr>) p"
  using assms by (simp add: no_conflict_def configmap_fits_def selects_refl)

lemma coordinator_effect:
  assumes "om_Namespace (rs_meta rs) = pr_Namespace p"
    and "om_Labels (rs_meta rs) = getCoordinatorPodLabels rc (stage_labels p) (pr_Uuid p)"
  shows "\<not> need_coordinator (K\<lparr>k_replicasets := k_replicasets K @ [rs]\<rparr>) p"
    and "need_worker (K\<lparr>k_replicasets := k_replicasets K @ [rs]\<rparr>) p = need_worker K p"
proof -
  have "map_of (om_Labels (rs_meta rs)) ''coordinator'' = Some (pr_Uuid p)"
    "map_of (om_Labels (rs_meta rs)) ''worker'' = None"
    unfolding assms(2) by (simp_all add: coordinator_labels.map_of_labels) (simp add: stage_labels_def)
  with assms(1) show "\<not> need_coordinator (K\<lparr>k_replicasets := k_replicasets K @ [rs]\<rparr>) p"
    and "need_worker (K\<lparr>k_replicasets := k_replicasets K @ [rs]\<rparr>) p = need_worker K p"
    by (simp_all add: need_coordinator_def need_worker_def listed_single)
qed

lemma worker_create_effect:
  assumes "om_Namespace (rs_meta rs) = pr_Namespace p"
    and "om_Labels (rs_meta rs) = getWorkerPodLabels rc (stage_labels p) (pr_Uuid p)"
    and "rs_Replicas rs = wo_Count (pr_Worker p)"
    and "listed (pr_Namespace p) [(''worker'', pr_Uuid p)] rs_meta (k_replicasets K) = []"
    and "\<not> need_coordinator K p"
  shows "\<not> need_worker (K\<lparr>k_replicasets := k_replicasets K @ [rs]\<rparr>) p"
    and "\<not> need_coordinator (K\<lparr>k_replicasets := k_replicasets K @ [rs]\<rparr>) p"
proof -
  have "map_of (om_Labels (rs_meta rs)) ''worker'' = Some (pr_Uuid p)"
    unfolding assms(2) by (simp add: worker_labels.map_of_labels)
  with assms show "\<not> need_worker (K\<lparr>k_replicasets := k_replicasets K @ [rs]\<rparr>) p"
    and "\<not> need_coordinator (K\<lparr>k_replicasets := k_replicasets K @ [rs]\<rparr>) p"
    by (simp_all add: need_coordinator_def need_worker_def listed_single)
qed

text \<open>An update in place: the updated object takes the place of the first one listed.\<close>

lemma listed_put_by_key:
  assumes "listed ns sel m xs = x # ys" and "om_Namespace (m y) = ns" and "selects sel (om_Labels (m y))"
    and "same_key (m x) (m y)"
  shows "\<exists>zs. listed ns sel m (put_by_key m y xs) = y # zs"
  using assms(1)
proof (induction xs)
  case (Cons a xs)
  then show ?case
    using assms(2-4) by (cases "same_key (m a) (m y)") (auto simp: listed_def put_by_key_def split: if_splits)
qed (simp add: listed_def)

lemma listed_put_nonempty:
  assumes "listed ns sel m xs \<noteq> []"
    and "\<And>x. x \<in> set xs \<Longrightarrow> same_key (m x) (m z) \<Longrightarrow> om_Labels (m x) = om_Labels (m z)"
  shows "listed ns sel m (put_by_key m z xs) \<noteq> []"
proof -
  obtain x where x: "x \<in> set xs" "om_Namespace (m x) = ns" "selects sel (om_Labels (m x))"
    using assms(1) by (auto simp: listed_def filter_empty_conv)
  let ?x = "if same_key (m x) (m z) then z else x"
  have "?x \<in> set (put_by_key m z xs)" using x(1) by (auto simp: put_by_key_def)
  moreover have "om_Namespace (m ?x) = ns" "selects sel (om_Labels (m ?x))"
    using x assms(2) [OF x(1)] by (auto simp: same_key_def)
  ultimately show ?thesis by (force simp: listed_def filter_empty_conv)
qed

lemma worker_update_effect:
  assumes "distinct (map (\<lambda>r. (om_Namespace (rs_meta r), om_Name (rs_meta r))) (k_replicasets K))"
    and "listed (pr_Namespace p) [(''worker'', pr_Uuid p)] rs_meta (k_replicasets K) = r0 # rss"
    and "kept_meta (rs_meta r0) (rs_meta rs)" and "om_Name (rs_meta rs) = om_Name (rs_meta r0)"
    and "rs_Replicas rs = wo_Count (pr_Worker p)" and "\<not> need_coordinator K p"
  shows "\<not> need_worker (K\<lparr>k_replicasets := put_by_key rs_meta rs (k_replicasets K)\<rparr>) p"
    and "\<not> need_coordinator (K\<lparr>k_replicasets := put_by_key rs_meta rs (k_replicasets K)\<rparr>) p"
proof -
  have "r0 \<in> set (listed (pr_Namespace p) [(''worker'', pr_Uuid p)] rs_meta (k_replicasets K))"
    using assms(2) by simp
  then have r0: "r0 \<in> set (k_replicasets K)" "om_Namespace (rs_meta r0) = pr_Namespace p"
      "selects [(''worker'', pr_Uuid p)] (om_Labels (rs_meta r0))"
    by (simp_all only: in_listed)
  have key: "same_key (rs_meta r0) (rs_meta rs)" "om_Labels (rs_meta rs) = om_Labels (rs_meta r0)"
      "om_Namespace (rs_meta rs) = pr_Namespace p"
    using assms(3,4) r0(2) by (simp_all add: same_key_def kept_meta_def)
  obtain zs where "listed (pr_Namespace p) [(''worker'', pr_Uuid p)] rs_meta
      (put_by_key rs_meta rs (k_replicasets K)) = rs # zs"
    using listed_put_by_key [OF assms(2) key(3) _ key(1)] r0(3) key(2) by metis
  with assms(5) show "\<not> need_worker (K\<lparr>k_replicasets := put_by_key rs_meta rs (k_replicasets K)\<rparr>) p"
    by (simp add: need_worker_def)
  have "om_Labels (rs_meta x) = om_Labels (rs_meta rs)"
    if "x \<in> set (k_replicasets K)" "same_key (rs_meta x) (rs_meta rs)" for x
  proof -
    have "x = r0"
      using inj_onD [OF conjunct2 [OF assms(1) [unfolded distinct_map]], of x r0] that r0(1) key(1)
      by (simp add: same_key_def)
    with key(2) show ?thesis by simp
  qed
  with assms(6) show "\<not> need_coordinator (K\<lparr>k_replicasets := put_by_key rs_meta rs (k_replicasets K)\<rparr>) p"
    by (simp add: need_coordinator_def listed_put_nonempty)
qed

subsection \<open>One call\<close>

text \<open>The spec is valid, the resource is stored, and nothing stands in the way.\<close>

definition prepared :: "(string \<Rightarrow> string + quantity) \<Rightarrow> kube \<Rightarrow> Presto \<Rightarrow> bool" where
  "prepared pq K p \<longleftrightarrow> valid_presto pq p \<and> tracks p K \<and> no_conflict K p"

context api_server
begin

abbreviation ready :: "'w op_state \<Rightarrow> Presto \<Rightarrow> bool" where
  "ready s p \<equiv> prepared (l_ParseQuantity L) (view (os_world s)) p"

text \<open>A run that ends without an error and deals with the first thing missing, by one write.\<close>

definition settles :: "'w reconcile \<Rightarrow> 'w op_state \<Rightarrow> Presto \<Rightarrow> bool" where
  "settles m s p \<longleftrightarrow> (\<exists>s' K W. m s = (Some (empty_result, None), s') \<and> moved s s' K W \<and>
     tracks p K \<and> no_conflict K p \<and> needs K p = clear_first (needs (view (os_world s)) p) \<and>
     length W = (if True \<in> set (needs (view (os_world s)) p) then 1 else 0))"

lemma act_settles:
  assumes "act m s p K" and "needs K p = clear_first (needs (view (os_world s)) p)"
    and "no_conflict K p" and "True \<in> set (needs (view (os_world s)) p)"
  shows "settles (next_stage m rest) s p"
proof -
  from assms(1) obtain x s' ps req where m: "m s = (Some (None, True, x), s')"
      "moved s s' (K\<lparr>k_prestos := ps\<rparr>) [(req, True)]" "tracks p (K\<lparr>k_prestos := ps\<rparr>)"
    unfolding act_def by blast
  have "next_stage m rest s = (Some (empty_result, None), s')"
    using m(1) by (simp add: next_stage_def go_bind_def go_ret_def)
  with m(2,3) assms(2-4) show ?thesis
    unfolding settles_def
    by (intro exI [of _ s'] exI [of _ "K\<lparr>k_prestos := ps\<rparr>"] exI [of _ "[(req, True)]"]) simp
qed

lemma pass_settles:
  assumes "pass m s p x" and "ready s p"
    and "\<And>s'. ready s' p \<Longrightarrow> needs (view (os_world s')) p = needs (view (os_world s)) p \<Longrightarrow>
      settles (rest x) s' p"
  shows "settles (next_stage m rest) s p"
proof -
  from assms(1) obtain s' ps where m: "m s = (Some (None, False, x), s')"
      "moved s s' ((view (os_world s))\<lparr>k_prestos := ps\<rparr>) []"
      "tracks p ((view (os_world s))\<lparr>k_prestos := ps\<rparr>)"
    unfolding pass_def by blast
  have v: "view (os_world s') = (view (os_world s))\<lparr>k_prestos := ps\<rparr>"
    using m(2) by (rule moved_view)
  have "settles (rest x) s' p"
    using assms(2) m(3) by (intro assms(3)) (simp_all add: prepared_def v)
  then obtain s'' K W where r: "rest x s' = (Some (empty_result, None), s'')" "moved s' s'' K W"
      "tracks p K" "no_conflict K p" "needs K p = clear_first (needs (view (os_world s)) p)"
      "length W = (if True \<in> set (needs (view (os_world s)) p) then 1 else 0)"
    unfolding settles_def by (auto simp: v)
  have "next_stage m rest s = (Some (empty_result, None), s'')"
    using m(1) r(1) by (simp add: next_stage_def go_bind_def)
  moreover have "moved s s'' K W" using moved_trans [OF m(2) r(2)] by simp
  ultimately show ?thesis using r(3-) unfolding settles_def by blast
qed

text \<open>The report at the end.\<close>

lemma getCoordinatorPodPhase_run:
  "\<exists>e ph w. getCoordinatorPodPhase L p b s = (Some (e, ph), s\<lparr>os_world := w\<rparr>) \<and>
     view w = view (os_world s)"
  by (auto simp: getCoordinatorPodPhase_def run reads split: sum.split list.split)

lemma getCPUUsage_run:
  assumes "8 \<le> length (pr_Uuid p)"
  shows "\<exists>v w. getCPUUsage L p c s = (Some v, s\<lparr>os_world := w\<rparr>) \<and> view w = view (os_world s)"
  using assms by (cases c) (auto simp: getCPUUsage_def getCoordinatorPodLabel_def getWorkerPodLabel_def
      run reads Let_def split: sum.split)

lemma status_report:
  assumes "tracks p (view w)" and "view w = view (os_world s)" and "rs_Replicas rs \<noteq> None"
    and "st \<noteq> []"
  shows "\<exists>s' ps. updateStatus L p ((no_action\<lparr>ua_workerReplicaSet := Some rs\<rparr>)\<lparr>ua_clusterState := st,
        ua_workerCPUUsage := wc, ua_coordinatorCPUUsage := cc\<rparr>) (s\<lparr>os_world := w\<rparr>) =
      (Some (True, None, p), s') \<and>
    moved s s' ((view (os_world s))\<lparr>k_prestos := ps\<rparr>) [] \<and> tracks p ((view (os_world s))\<lparr>k_prestos := ps\<rparr>)"
proof -
  let ?a = "(no_action\<lparr>ua_workerReplicaSet := Some rs\<rparr>)\<lparr>ua_clusterState := st,
        ua_workerCPUUsage := wc, ua_coordinatorCPUUsage := cc\<rparr>"
  have "?a \<noteq> no_action" "\<not> bad_action ?a" "ua_clusterUUID ?a = None"
    using assms(3) by (simp_all add: no_action_def bad_action_def)
  with updateStatus_tracked [of p "s\<lparr>os_world := w\<rparr>" ?a] assms(1,2)
  show ?thesis by (auto simp: moved_def)
qed

lemma report_settles:
  assumes "ready s p" and "True \<notin> set (needs (view (os_world s)) p)" and "rs_Replicas rs \<noteq> None"
  shows "settles (reportClusterState L p b (Some rs)) s p"
proof -
  let ?base = "no_action\<lparr>ua_workerReplicaSet := Some rs\<rparr>"
  have t: "tracks p (view (os_world s))" and len: "8 \<le> length (pr_Uuid p)"
    using assms(1) by (simp_all add: prepared_def valid_presto_def)
  obtain e ph w where ph: "getCoordinatorPodPhase L p b s = (Some (e, ph), s\<lparr>os_world := w\<rparr>)"
      "view w = view (os_world s)"
    using getCoordinatorPodPhase_run by blast
  obtain v1 w1 where v1: "getCPUUsage L p False (s\<lparr>os_world := w\<rparr>) = (Some v1, s\<lparr>os_world := w1\<rparr>)"
      "view w1 = view (os_world s)"
    using getCPUUsage_run [OF len, of False "s\<lparr>os_world := w\<rparr>"] ph(2) by auto
  obtain v2 w2 where v2: "getCPUUsage L p True (s\<lparr>os_world := w1\<rparr>) = (Some v2, s\<lparr>os_world := w2\<rparr>)"
      "view w2 = view (os_world s)"
    using getCPUUsage_run [OF len, of True "s\<lparr>os_world := w1\<rparr>"] v1(2) by auto
  obtain st wc cc w' where run: "reportClusterState L p b (Some rs) s =
        (case updateStatus L p (?base\<lparr>ua_clusterState := st, ua_workerCPUUsage := wc,
            ua_coordinatorCPUUsage := cc\<rparr>) (s\<lparr>os_world := w'\<rparr>) of
           (None, t) \<Rightarrow> (None, t) | (Some x, t) \<Rightarrow> (Some (empty_result, None), t))"
      "st \<noteq> []" "view w' = view (os_world s)"
  proof (cases "ph = PodRunning")
    case True
    then show ?thesis
      using ph v1 v2 that [of "Some (show_int (sint v2) @ ''%'')" "Some (show_int (sint v1) @ ''%'')"
          ClusterReadyState w2]
      by (simp add: reportClusterState_def go_bind_def go_ret_def Let_def cluster_states no_action_def)
  next
    case False
    define st where "st = (if ph = PodPending then ClusterPending
       else if ph = PodFailed then ClusterFailedState else ClusterUnknown)"
    have "st \<noteq> []" by (simp add: st_def cluster_states)
    with False show ?thesis
      using ph that [of None None st w]
      by (simp add: reportClusterState_def go_bind_def go_ret_def Let_def st_def no_action_def)
  qed
  from status_report [of p w' s rs st cc wc] run(2,3) t assms(3) obtain s' ps where
    u: "updateStatus L p (?base\<lparr>ua_clusterState := st, ua_workerCPUUsage := wc,
          ua_coordinatorCPUUsage := cc\<rparr>) (s\<lparr>os_world := w'\<rparr>) = (Some (True, None, p), s')"
      "moved s s' ((view (os_world s))\<lparr>k_prestos := ps\<rparr>) []"
      "tracks p ((view (os_world s))\<lparr>k_prestos := ps\<rparr>)"
    by auto
  have clear: "clear_first bs = bs" if "True \<notin> set bs" for bs
    using that by (induction bs) auto
  have "reportClusterState L p b (Some rs) s = (Some (empty_result, None), s')"
    using run(1) u(1) by simp
  with u(2,3) assms(1,2) show ?thesis
    unfolding settles_def prepared_def
    by (intro exI [of _ s'] exI [of _ "(view (os_world s))\<lparr>k_prestos := ps\<rparr>"] exI [of _ "[]"])
      (simp add: clear)
qed

end

text \<open>The autoscaler stage writes an autoscaler as the spec asks.\<close>

definition hpa_settled :: "Presto \<Rightarrow> hpa \<Rightarrow> bool" where
  "hpa_settled p h \<longleftrightarrow> om_Name (hpa_meta h) = ''hpa-'' @ take 8 (pr_Uuid p) \<and>
     om_Namespace (hpa_meta h) = pr_Namespace p \<and> om_Labels (hpa_meta h) = stage_labels p \<and>
     autoscaleSpecChanged h p = Some False"

lemma hpa_settledI:
  assumes "kept_meta (hpa_meta h0) (hpa_meta h)" and "om_Name (hpa_meta h) = om_Name (hpa_meta h0)"
    and "hpa_MinReplicas h = hpa_MinReplicas h0" and "hpa_MaxReplicas h = hpa_MaxReplicas h0"
    and "hpa_TargetCPU h = hpa_TargetCPU h0" and "wanted_hpa p rs (stage_labels p) h0"
    and "8 \<le> length (pr_Uuid p)"
  shows "hpa_settled p h"
proof -
  have "autoscaleSpecChanged h p = autoscaleSpecChanged h0 p"
    unfolding autoscaleSpecChanged_def assms(3) assms(4) assms(5) by (rule refl)
  then show ?thesis
    using assms(1,2,6,7) wanted_hpa_unchanged [OF assms(6)]
    by (simp add: hpa_settled_def kept_meta_def wanted_hpa_def owned_meta_def)
qed

lemma hpa_settled_fits: "hpa_settled p h \<Longrightarrow> hpa_fits p h"
  by (simp add: hpa_settled_def hpa_fits_def selects_refl)

lemma hpa_create_effect:
  assumes "hpa_settled p h" and "checkAutoscalingEnabled p" and "no_conflict K p"
    and "listed (pr_Namespace p) (stage_labels p) hpa_meta (k_hpas K) = []"
  shows "\<not> need_hpa (K\<lparr>k_hpas := k_hpas K @ [h]\<rparr>) p"
    and "no_conflict (K\<lparr>k_hpas := k_hpas K @ [h]\<rparr>) p"
  using assms hpa_settled_fits [OF assms(1)]
  by (simp_all add: need_hpa_def no_conflict_def listed_single hpa_settled_def selects_refl)

lemma listed_hpa_key:
  assumes "no_conflict K p"
    and "listed (pr_Namespace p) (stage_labels p) hpa_meta (k_hpas K) = h1 # hs"
  shows "om_Name (hpa_meta h1) = ''hpa-'' @ take 8 (pr_Uuid p)" and "om_Namespace (hpa_meta h1) = pr_Namespace p"
proof -
  have "h1 \<in> set (listed (pr_Namespace p) (stage_labels p) hpa_meta (k_hpas K))" using assms(2) by simp
  then show "om_Name (hpa_meta h1) = ''hpa-'' @ take 8 (pr_Uuid p)"
    and "om_Namespace (hpa_meta h1) = pr_Namespace p"
    using assms(1) by (auto simp: in_listed no_conflict_def list_all_iff hpa_fits_def)
qed

lemma hpa_update_effect:
  assumes "hpa_settled p h" and "checkAutoscalingEnabled p" and "no_conflict K p"
    and "listed (pr_Namespace p) (stage_labels p) hpa_meta (k_hpas K) = h1 # hs"
  shows "\<not> need_hpa (K\<lparr>k_hpas := put_by_key hpa_meta h (k_hpas K)\<rparr>) p"
    and "no_conflict (K\<lparr>k_hpas := put_by_key hpa_meta h (k_hpas K)\<rparr>) p"
proof -
  have h: "om_Namespace (hpa_meta h) = pr_Namespace p" "selects (stage_labels p) (om_Labels (hpa_meta h))"
      "same_key (hpa_meta h1) (hpa_meta h)" "autoscaleSpecChanged h p = Some False"
    using assms(1) listed_hpa_key [OF assms(3,4)] by (simp_all add: hpa_settled_def same_key_def selects_refl)
  from listed_put_by_key [OF assms(4) h(1-3)] h(4) assms(2)
  show "\<not> need_hpa (K\<lparr>k_hpas := put_by_key hpa_meta h (k_hpas K)\<rparr>) p"
    by (auto simp: need_hpa_def)
  show "no_conflict (K\<lparr>k_hpas := put_by_key hpa_meta h (k_hpas K)\<rparr>) p"
    using assms(3) hpa_settled_fits [OF assms(1)] by (auto simp: no_conflict_def list_all_iff put_by_key_def)
qed

lemma hpa_delete_effect:
  assumes "\<not> checkAutoscalingEnabled p" and "no_conflict K p"
    and "listed (pr_Namespace p) (stage_labels p) hpa_meta (k_hpas K) = h1 # hs"
  shows "\<not> need_hpa (K\<lparr>k_hpas := filter (\<lambda>x. \<not> same_key (hpa_meta x) (hpa_meta h1)) (k_hpas K)\<rparr>) p"
    and "no_conflict (K\<lparr>k_hpas := filter (\<lambda>x. \<not> same_key (hpa_meta x) (hpa_meta h1)) (k_hpas K)\<rparr>) p"
proof -
  let ?hs = "filter (\<lambda>x. \<not> same_key (hpa_meta x) (hpa_meta h1)) (k_hpas K)"
  have "listed (pr_Namespace p) (stage_labels p) hpa_meta ?hs = []"
    using assms(2) listed_hpa_key [OF assms(2,3)]
    by (auto simp: listed_def filter_empty_conv same_key_def no_conflict_def list_all_iff hpa_fits_def)
  with assms(1) show "\<not> need_hpa (K\<lparr>k_hpas := ?hs\<rparr>) p" by (simp add: need_hpa_def)
  show "no_conflict (K\<lparr>k_hpas := ?hs\<rparr>) p"
    using assms(2) by (auto simp: no_conflict_def list_all_iff)
qed

context api_server
begin

lemma hpa_settles:
  assumes "ready s p" and "True \<notin> set (take 7 (needs (view (os_world s)) p))"
    and "rs_Replicas rs \<noteq> None"
  shows "settles (next_stage (hpaReplicaset L p (stage_labels p) (Some rs))
    (\<lambda>presto. reportClusterState L presto (stage_labels p) (Some rs))) s p"
proof (cases "need_hpa (view (os_world s)) p")
  case False
  have "True \<notin> set (needs (view (os_world s)) p)" using assms(2) False by (simp add: needs_def)
  moreover have "pass (hpaReplicaset L p (stage_labels p) (Some rs)) s p p"
    using hpa_pass [OF False] assms(1) by (simp add: prepared_def)
  ultimately show ?thesis
    using report_settles [OF _ _ assms(3)] by (intro pass_settles [OF _ assms(1)]) auto
next
  case True
  let ?K = "view (os_world s)"
  have v: "valid_presto (l_ParseQuantity L) p" "tracks p ?K" "no_conflict ?K p" "8 \<le> length (pr_Uuid p)"
    using assms(1) by (simp_all add: prepared_def valid_presto_def)
  have wrote: "settles (next_stage (hpaReplicaset L p (stage_labels p) (Some rs)) rest) s p"
    if "act (hpaReplicaset L p (stage_labels p) (Some rs)) s p (?K\<lparr>k_hpas := hs\<rparr>)"
      "\<not> need_hpa (?K\<lparr>k_hpas := hs\<rparr>) p" "no_conflict (?K\<lparr>k_hpas := hs\<rparr>) p" for hs rest
  proof (rule act_settles [OF that(1) _ that(3)])
    have "need_headless (?K\<lparr>k_hpas := hs\<rparr>) p = need_headless ?K p"
        "need_external (?K\<lparr>k_hpas := hs\<rparr>) p = need_external ?K p"
        "need_configmap pre (?K\<lparr>k_hpas := hs\<rparr>) p = need_configmap pre ?K p"
        "need_coordinator (?K\<lparr>k_hpas := hs\<rparr>) p = need_coordinator ?K p"
        "need_worker (?K\<lparr>k_hpas := hs\<rparr>) p = need_worker ?K p" for pre
      by (simp_all add: need_defs)
    then show "needs (?K\<lparr>k_hpas := hs\<rparr>) p = clear_first (needs ?K p)"
      using assms(2) True that(2) by (simp add: needs_def)
    show "True \<in> set (needs ?K p)" using True by (simp add: needs_def)
  qed
  show ?thesis
  proof (cases "cluster_hpas s p")
    case Nil
    with True have on: "checkAutoscalingEnabled p" by (simp add: need_hpa_def)
    from hpa_create_act [OF Nil on v(1-3), of rs] show ?thesis
      using wrote hpa_create_effect [OF _ on v(3) Nil] hpa_settledI [OF _ _ _ _ _ _ v(4)] by metis
  next
    case (Cons h1 hs)
    show ?thesis
    proof (cases "checkAutoscalingEnabled p")
      case on: True
      with True Cons have "autoscaleSpecChanged h1 p = Some True" by (simp add: need_hpa_def)
      from hpa_update_act [OF Cons on this v(1-3), of rs] show ?thesis
        using wrote hpa_update_effect [OF _ on v(3) Cons] hpa_settledI [OF _ _ _ _ _ _ v(4)] by metis
    next
      case off: False
      show ?thesis
        by (rule wrote [OF hpa_delete_act [OF Cons off v(1,2)] hpa_delete_effect [OF off v(3) Cons]])
    qed
  qed
qed

text \<open>
  Each stage in turn: when the stages before it have nothing to do, the run from this stage on deals
  with the first thing missing.
\<close>

lemma worker_settles:
  assumes "ready s p" and "True \<notin> set (take 6 (needs (view (os_world s)) p))"
  shows "settles (next_stage (workerReplicaset L p (stage_labels p)) (\<lambda>(presto, workerReplicaSet).
     next_stage (hpaReplicaset L presto (stage_labels p) workerReplicaSet) (\<lambda>presto.
     reportClusterState L presto (stage_labels p) workerReplicaSet))) s p"
proof (cases "need_worker (view (os_world s)) p")
  case False
  have v: "valid_presto (l_ParseQuantity L) p" "tracks p (view (os_world s))"
    using assms(1) by (simp_all add: prepared_def)
  obtain rs where rs: "pass (workerReplicaset L p (stage_labels p)) s p (p, Some rs)"
      "rs_Replicas rs \<noteq> None"
    using worker_pass [OF False v] by blast
  have "True \<notin> set (take 7 (needs (view (os_world s)) p))" using assms(2) False by (simp add: needs_def)
  then show ?thesis
    using hpa_settles [OF _ _ rs(2)] by (intro pass_settles [OF rs(1) assms(1)]) auto
next
  case True
  let ?K = "view (os_world s)"
  have v: "valid_presto (l_ParseQuantity L) p" "tracks p ?K" "no_conflict ?K p"
    using assms(1) by (simp_all add: prepared_def valid_presto_def)
  have coord: "\<not> need_coordinator ?K p" using assms(2) by (simp add: needs_def)
  have wrote: "settles (next_stage (workerReplicaset L p (stage_labels p)) rest) s p"
    if "act (workerReplicaset L p (stage_labels p)) s p (?K\<lparr>k_replicasets := rss\<rparr>)"
      "\<not> need_worker (?K\<lparr>k_replicasets := rss\<rparr>) p" "\<not> need_coordinator (?K\<lparr>k_replicasets := rss\<rparr>) p"
    for rss rest
  proof (rule act_settles [OF that(1)])
    have "need_headless (?K\<lparr>k_replicasets := rss\<rparr>) p = need_headless ?K p"
        "need_external (?K\<lparr>k_replicasets := rss\<rparr>) p = need_external ?K p"
        "need_configmap pre (?K\<lparr>k_replicasets := rss\<rparr>) p = need_configmap pre ?K p"
        "need_hpa (?K\<lparr>k_replicasets := rss\<rparr>) p = need_hpa ?K p" for pre
      by (simp_all add: need_defs)
    then show "needs (?K\<lparr>k_replicasets := rss\<rparr>) p = clear_first (needs ?K p)"
      using assms(2) True that(2,3) by (simp add: needs_def)
    show "no_conflict (?K\<lparr>k_replicasets := rss\<rparr>) p" using v(3) by (simp add: no_conflict_def)
    show "True \<in> set (needs ?K p)" using True by (simp add: needs_def)
  qed
  show ?thesis
  proof (cases "listed (pr_Namespace p) [(''worker'', pr_Uuid p)] rs_meta (k_replicasets ?K)")
    case Nil
    from worker_create_act [OF Nil v(1,2)] obtain rs where
      "act (workerReplicaset L p (stage_labels p)) s p (?K\<lparr>k_replicasets := k_replicasets ?K @ [rs]\<rparr>)"
      "om_Namespace (rs_meta rs) = pr_Namespace p" "rs_Replicas rs = wo_Count (pr_Worker p)"
      "om_Labels (rs_meta rs) = getWorkerPodLabels (l_range L) (stage_labels p) (pr_Uuid p)" by blast
    with worker_create_effect [OF _ _ _ Nil coord] show ?thesis by (intro wrote)
  next
    case (Cons r0 rss)
    with True have off: "\<not> checkAutoscalingEnabled p" "rs_Replicas r0 \<noteq> wo_Count (pr_Worker p)"
      by (simp_all add: need_worker_def)
    from worker_update_act [OF Cons off v(1,2)] obtain rs where rs:
      "act (workerReplicaset L p (stage_labels p)) s p
         (?K\<lparr>k_replicasets := put_by_key rs_meta rs (k_replicasets ?K)\<rparr>)"
      "kept_meta (rs_meta r0) (rs_meta rs)" "om_Name (rs_meta rs) = om_Name (rs_meta r0)"
      "rs_Replicas rs = wo_Count (pr_Worker p)" by blast
    with worker_update_effect [OF unique_replicasets Cons rs(2-4) coord] show ?thesis by (intro wrote)
  qed
qed

lemma coordinator_settles:
  assumes "ready s p" and "True \<notin> set (take 5 (needs (view (os_world s)) p))"
    and "\<And>s'. ready s' p \<Longrightarrow> True \<notin> set (take 6 (needs (view (os_world s')) p)) \<Longrightarrow> settles (rest p) s' p"
  shows "settles (next_stage (coordinatorReplicaset L p (stage_labels p)) rest) s p"
proof (cases "need_coordinator (view (os_world s)) p")
  case False
  have "True \<notin> set (take 6 (needs (view (os_world s)) p))" using assms(2) False by (simp add: needs_def)
  then show ?thesis
    using assms(1,3) coordinator_pass [OF False] by (intro pass_settles [OF _ assms(1)]) (auto simp: prepared_def)
next
  case True
  let ?K = "view (os_world s)"
  from assms(1) coordinator_act [OF True] obtain rs where rs:
    "act (coordinatorReplicaset L p (stage_labels p)) s p (?K\<lparr>k_replicasets := k_replicasets ?K @ [rs]\<rparr>)"
    "om_Namespace (rs_meta rs) = pr_Namespace p"
    "om_Labels (rs_meta rs) = getCoordinatorPodLabels (l_range L) (stage_labels p) (pr_Uuid p)"
    by (auto simp: prepared_def)
  let ?K' = "?K\<lparr>k_replicasets := k_replicasets ?K @ [rs]\<rparr>"
  have "need_headless ?K' p = need_headless ?K p" "need_external ?K' p = need_external ?K p"
      "need_configmap pre ?K' p = need_configmap pre ?K p" "need_hpa ?K' p = need_hpa ?K p" for pre
    by (simp_all add: need_defs)
  with coordinator_effect [OF rs(2,3)] have "needs ?K' p = clear_first (needs ?K p)"
    using assms(2) True by (simp add: needs_def)
  moreover have "no_conflict ?K' p" "True \<in> set (needs ?K p)"
    using assms(1) True by (simp_all add: prepared_def no_conflict_def needs_def)
  ultimately show ?thesis by (rule act_settles [OF rs(1)])
qed

end

lemma configmap_effect:
  assumes "om_Namespace (cm_meta cm) = pr_Namespace p" and "om_Labels (cm_meta cm) = stage_labels p"
    and "om_Name (cm_meta cm) = pre @ take 8 (pr_Uuid p)" and "need_configmap pre K p"
    and "pre = [''coordinatorconfig-'', ''workerconfig-'', ''catalogconfig-''] ! i" and "i < 3"
    and "True \<notin> set (take (2 + i) (needs K p))"
  shows "needs (K\<lparr>k_configmaps := k_configmaps K @ [cm]\<rparr>) p = clear_first (needs K p)"
proof -
  let ?K' = "K\<lparr>k_configmaps := k_configmaps K @ [cm]\<rparr>"
  have same: "need_headless ?K' p = need_headless K p" "need_external ?K' p = need_external K p"
      "need_coordinator ?K' p = need_coordinator K p" "need_worker ?K' p = need_worker K p"
      "need_hpa ?K' p = need_hpa K p"
    by (simp_all add: need_defs)
  consider "i = 0" | "i = 1" | "i = 2" using assms(6) by linarith
  then show ?thesis
    by cases (use assms(3-5,7) need_configmap_new [OF assms(1,3,2), of K] same in
        \<open>simp_all add: needs_def need_configmap_other numeral_2_eq_2\<close>)
qed

context config_settle
begin

lemma config_settles:
  assumes "ready s p" and "pre = [''coordinatorconfig-'', ''workerconfig-'', ''catalogconfig-''] ! i"
    and "i < 3" and "True \<notin> set (take (2 + i) (needs (view (os_world s)) p))"
    and "\<And>s'. ready s' p \<Longrightarrow> True \<notin> set (take (3 + i) (needs (view (os_world s')) p)) \<Longrightarrow> settles (rest p) s' p"
  shows "settles (next_stage (stage L p (stage_labels p)) rest) s p"
proof -
  let ?K = "view (os_world s)"
  have v: "valid_presto (l_ParseQuantity L) p" "tracks p ?K" "no_conflict ?K p"
    using assms(1) by (simp_all add: prepared_def)
  have nth: "needs ?K p ! (2 + i) = need_configmap pre ?K p" "2 + i < length (needs ?K p)"
    using assms(2,3) by (auto simp: needs_def less_Suc_eq numeral_3_eq_3)
  show ?thesis
  proof (cases "need_configmap pre ?K p")
    case False
    have "True \<notin> set (take (3 + i) (needs ?K p))"
      using assms(4) nth False take_Suc_conv_app_nth [OF nth(2)] by (simp add: eval_nat_numeral)
    then show ?thesis
      using assms(5) config_pass [OF False v(1,2)] by (intro pass_settles [OF _ assms(1)]) auto
  next
    case True
    obtain cm where cm: "act (stage L p (stage_labels p)) s p (?K\<lparr>k_configmaps := k_configmaps ?K @ [cm]\<rparr>)"
        "om_Namespace (cm_meta cm) = pr_Namespace p" "om_Name (cm_meta cm) = pre @ take 8 (pr_Uuid p)"
        "om_Labels (cm_meta cm) = stage_labels p"
      using config_act [OF True v] by blast
    have "True \<in> set (needs ?K p)" using True nth by (metis nth_mem)
    then show ?thesis
      by (rule act_settles [OF cm(1) configmap_effect [OF cm(2,4,3) True assms(2,3,4)]
            configmap_fits_new [OF cm(4) v(3)]])
  qed
qed

end

context api_server
begin

lemma external_settles:
  assumes "ready s p" and "True \<notin> set (take 1 (needs (view (os_world s)) p))"
    and "\<And>s' svc. ready s' p \<Longrightarrow> True \<notin> set (take 2 (needs (view (os_world s')) p)) \<Longrightarrow>
      settles (rest (p, stage_labels p, svc)) s' p"
  shows "settles (next_stage (serviceConfig L p (service_base p)) rest) s p"
proof (cases "need_external (view (os_world s)) p")
  case False
  have "True \<notin> set (take 2 (needs (view (os_world s)) p))" using assms(2) False by (simp add: needs_def)
  moreover obtain svc where "pass (serviceConfig L p (service_base p)) s p (p, stage_labels p, svc)"
    using external_pass [OF False, of "service_base p", unfolded stage_labels_eq] assms(1)
    by (auto simp: prepared_def)
  ultimately show ?thesis using assms(3) by (intro pass_settles [OF _ assms(1)]) auto
next
  case True
  let ?K = "view (os_world s)"
  have v: "valid_presto (l_ParseQuantity L) p" "tracks p ?K" "no_conflict ?K p" "\<not> need_headless ?K p"
    using assms(1,2) by (simp_all add: prepared_def needs_def)
  obtain sv where sv: "act (serviceConfig L p (service_base p)) s p (?K\<lparr>k_services := k_services ?K @ [sv]\<rparr>)"
      "om_Namespace (svc_meta sv) = pr_Namespace p"
      "om_Name (svc_meta sv) = ''external-presto-svc-'' @ take 8 (pr_Uuid p)"
      "om_Labels (svc_meta sv) = stage_labels p" "ss_Ports (svc_spec sv) \<noteq> []"
    using external_act [OF True v(1-3)] by blast
  have "True \<in> set (needs ?K p)" using True by (simp add: needs_def)
  with external_effect [OF sv(2-) v(4) True v(3)] show ?thesis by (rule act_settles [OF sv(1)])
qed

lemma headless_settles:
  assumes "ready s p"
    and "\<And>s'. ready s' p \<Longrightarrow> True \<notin> set (take 1 (needs (view (os_world s')) p)) \<Longrightarrow>
      settles (rest (p, service_base p)) s' p"
  shows "settles (next_stage (headlessServiceConfig L p (base_labels p)) rest) s p"
proof (cases "need_headless (view (os_world s)) p")
  case False
  have "True \<notin> set (take 1 (needs (view (os_world s)) p))" using False by (simp add: needs_def)
  moreover have "pass (headlessServiceConfig L p (base_labels p)) s p (p, service_base p)"
    using assms(1) by (intro headless_pass [OF False]) (simp_all add: prepared_def valid_presto_def)
  ultimately show ?thesis using assms(2) by (intro pass_settles [OF _ assms(1)]) auto
next
  case True
  let ?K = "view (os_world s)"
  have v: "8 \<le> length (pr_Uuid p)" "tracks p ?K" "no_conflict ?K p"
    using assms(1) by (simp_all add: prepared_def valid_presto_def)
  obtain sv where sv: "act (headlessServiceConfig L p (base_labels p)) s p
        (?K\<lparr>k_services := k_services ?K @ [sv]\<rparr>)" "om_Namespace (svc_meta sv) = pr_Namespace p"
      "om_Name (svc_meta sv) = ''pod-discovery-'' @ take 8 (pr_Uuid p)"
      "om_Labels (svc_meta sv) = service_base p"
    using headless_act [OF True v] by blast
  have "True \<in> set (needs ?K p)" using True by (simp add: needs_def)
  with headless_effect [OF sv(2-) True v(3)] show ?thesis by (rule act_settles [OF sv(1)])
qed

lemma stages_settle:
  assumes "ready s p"
  shows "settles (reconcileStages L p) s p"
proof -
  let ?b = "stage_labels p"
  define r7 where "r7 = (\<lambda>presto. next_stage (workerReplicaset L presto ?b) (\<lambda>(presto, workerReplicaSet).
     next_stage (hpaReplicaset L presto ?b workerReplicaSet) (\<lambda>presto.
     reportClusterState L presto ?b workerReplicaSet)))"
  have s7: "settles (r7 p) s p" if "ready s p" "True \<notin> set (take 6 (needs (view (os_world s)) p))" for s
    using worker_settles [OF that] by (simp add: r7_def)
  define r6 where "r6 = (\<lambda>presto. next_stage (coordinatorReplicaset L presto ?b) r7)"
  have s6: "settles (r6 p) s p" if "ready s p" "True \<notin> set (take 5 (needs (view (os_world s)) p))" for s
    unfolding r6_def using that s7 by (rule coordinator_settles)
  define r5 where "r5 = (\<lambda>presto. next_stage (catalogConfig L presto ?b) r6)"
  have s5: "settles (r5 p) s p" if "ready s p" "True \<notin> set (take 4 (needs (view (os_world s)) p))" for s
    using catalog_settle.config_settles [of s p 2 r6] that s6 by (simp add: r5_def)
  define r4 where "r4 = (\<lambda>presto. next_stage (workerConfig L presto ?b) r5)"
  have s4: "settles (r4 p) s p" if "ready s p" "True \<notin> set (take 3 (needs (view (os_world s)) p))" for s
    using worker_settle.config_settles [of s p 1 r5] that s5 by (simp add: r4_def)
  define r3 where "r3 = (\<lambda>presto. next_stage (coordinatorConfig L presto ?b) r4)"
  have s3: "settles (r3 p) s p" if "ready s p" "True \<notin> set (take 2 (needs (view (os_world s)) p))" for s
    using coordinator_settle.config_settles [of s p 0 r4] that s4 by (simp add: r3_def)
  have s2: "settles (next_stage (serviceConfig L p (service_base p)) r2) s p"
    if "ready s p" "True \<notin> set (take 1 (needs (view (os_world s)) p))"
      "\<And>svc. r2 (p, ?b, svc) = r3 p" for s r2
    using external_settles [OF that(1,2), of r2] s3 that(3) by simp
  show ?thesis
    using headless_settles [OF assms, of "\<lambda>(presto, baseLabels).
        next_stage (serviceConfig L presto baseLabels) (\<lambda>(presto, baseLabels, _).
        next_stage (coordinatorConfig L presto baseLabels) (\<lambda>presto.
        next_stage (workerConfig L presto baseLabels) (\<lambda>presto.
        next_stage (catalogConfig L presto baseLabels) (\<lambda>presto.
        next_stage (coordinatorReplicaset L presto baseLabels) (\<lambda>presto.
        next_stage (workerReplicaset L presto baseLabels) (\<lambda>(presto, workerReplicaSet).
        next_stage (hpaReplicaset L presto baseLabels workerReplicaSet) (\<lambda>presto.
        reportClusterState L presto baseLabels workerReplicaSet)))))))"] s2
    by (simp add: reconcileStages_def Let_def r3_def r4_def r5_def r6_def r7_def)
qed

end

end
