(* ===== verification/Convergence.thy ===== *)
theory Convergence
  imports Progress
begin

text \<open>
  Convergence: repeated calls of \<^verbatim>\<open>Reconcile\<close> bring a cluster to what its spec asks for, and then
  write no more objects.
\<close>

text \<open>What is missing depends on the resource only as far as \<open>same_cluster\<close>.\<close>

lemma same_cluster_sym: "same_cluster p q \<Longrightarrow> same_cluster q p"
  by (simp add: same_cluster_def)

lemma same_cluster_spec:
  assumes "same_cluster p q"
  shows "pr_Spec q = pr_Spec p" "pr_Uuid q = pr_Uuid p" "pr_Name q = pr_Name p"
    "pr_Namespace q = pr_Namespace p" "stage_labels q = stage_labels p"
  using assms by (simp_all add: same_cluster_def stage_labels_def)

lemma needs_same_cluster:
  assumes "same_cluster p q"
  shows "needs K q = needs K p"
  unfolding needs_def need_defs checkAutoscalingEnabled_def autoscaleSpecChanged_def
    same_cluster_spec [OF assms] by (rule refl)

lemma no_conflict_same_cluster:
  assumes "same_cluster p q"
  shows "no_conflict K q = no_conflict K p"
  using same_cluster_spec [OF assms]
  by (simp add: no_conflict_def list_all_iff service_fits_def configmap_fits_def hpa_fits_def)

lemma valid_presto_same_cluster:
  assumes "same_cluster p q"
  shows "valid_presto pq q = valid_presto pq p"
  using same_cluster_spec [OF assms]
  by (simp add: valid_presto_def https_ready_def worker_quantities_def coordinator_quantities_def
      checkAutoscalingEnabled_def)

lemma tracks_same_cluster:
  assumes "same_cluster p q" and "pr_Labels q = pr_Labels p"
  shows "tracks q K = tracks p K"
  using assms same_cluster_trans same_cluster_sym unfolding tracks_def by metis

text \<open>The calls, each of which has to end without an error and without a panic.\<close>

fun reconcile_times :: "'w lib \<Rightarrow> nsname \<Rightarrow> nat \<Rightarrow> 'w op_state \<Rightarrow> 'w op_state option" where
  "reconcile_times L key 0 s = Some s"
| "reconcile_times L key (Suc n) s = (case Reconcile L key s of
     (Some (_, None), s') \<Rightarrow> reconcile_times L key n s'
   | _ \<Rightarrow> None)"

lemma clear_first_iterate:
  "clear_first bs = bs \<longleftrightarrow> True \<notin> set bs"
  "count_list (clear_first bs) True = count_list bs True - 1"
  "True \<in> set bs \<longleftrightarrow> 0 < count_list bs True"
  by (induction bs) auto

lemma clear_first_times:
  "count_list ((clear_first ^^ n) bs) True = count_list bs True - n"
  by (induction n) (simp_all add: clear_first_iterate(2))

context api_server
begin

lemma Reconcile_settles:
  assumes "ready s p"
  shows "settles (Reconcile L (pr_Namespace p, pr_Name p)) s p"
proof -
  from assms obtain q where q: "q \<in> set (k_prestos (view (os_world s)))" "same_cluster p q"
      "pr_Labels q = pr_Labels p"
    by (auto simp: prepared_def tracks_def)
  let ?key = "(pr_Namespace p, pr_Name p)"
  let ?s1 = "s\<lparr>os_world := snd (l_Get L ?key (os_world s))\<rparr>"
  define s1 where "s1 = snd (register_presto ?key q ?s1)"
  have view1: "view (os_world s1) = view (os_world s)" "os_reqs s1 = os_reqs s"
    by (simp_all add: s1_def register_presto_def reads)
  have "ready s1 q"
    using assms q view1
    by (simp add: prepared_def valid_presto_same_cluster no_conflict_same_cluster tracks_same_cluster)
  then have "settles (reconcileStages L q) s1 q" by (rule stages_settle)
  moreover have "Reconcile L ?key s = reconcileStages L q s1"
  proof -
    have "fst (l_Get L ?key (os_world s)) = Inr q"
      using get_found [OF q(1)] same_cluster_spec [OF q(2)] by simp
    moreover have "pr_Uuid q \<noteq> []"
      using assms same_cluster_spec [OF q(2)] by (auto simp: prepared_def valid_presto_def)
    ultimately show ?thesis
      by (simp add: Reconcile_def reconcilePresto_def run register_presto_def s1_def)
  qed
  ultimately show ?thesis
    using q(2,3) view1 unfolding settles_def
    by (simp add: needs_same_cluster no_conflict_same_cluster tracks_same_cluster moved_def)
qed

lemma times_settle:
  assumes "ready s p"
  shows "\<exists>s' W. reconcile_times L (pr_Namespace p, pr_Name p) n s = Some s' \<and> ready s' p \<and>
    moved s s' (view (os_world s')) W \<and>
    needs (view (os_world s')) p = (clear_first ^^ n) (needs (view (os_world s)) p) \<and>
    length W = min n (count_list (needs (view (os_world s)) p) True)"
  using assms
proof (induction n arbitrary: s)
  case 0
  then show ?case by (auto simp: moved_def)
next
  case (Suc n)
  let ?ns = "needs (view (os_world s)) p"
  from Reconcile_settles [OF Suc.prems] obtain s1 K W where
    one: "Reconcile L (pr_Namespace p, pr_Name p) s = (Some (empty_result, None), s1)"
      "moved s s1 K W" "tracks p K" "no_conflict K p" "needs K p = clear_first ?ns"
      "length W = (if True \<in> set ?ns then 1 else 0)"
    unfolding settles_def by blast
  have v1: "view (os_world s1) = K" using one(2) by (rule moved_view)
  have "ready s1 p" using Suc.prems one(3,4) v1 by (simp add: prepared_def)
  from Suc.IH [OF this] obtain s' W' where
    more: "reconcile_times L (pr_Namespace p, pr_Name p) n s1 = Some s'" "ready s' p"
      "moved s1 s' (view (os_world s')) W'"
      "needs (view (os_world s')) p = (clear_first ^^ n) (needs K p)"
      "length W' = min n (count_list (needs K p) True)"
    unfolding v1 by blast
  have "moved s s' (view (os_world s')) (W @ W')" using one(2) more(3) by (rule moved_trans)
  moreover have "length (W @ W') = min (Suc n) (count_list ?ns True)"
    using one(5,6) more(5) by (auto simp: clear_first_iterate)
  moreover have "needs (view (os_world s')) p = (clear_first ^^ Suc n) ?ns"
    using more(4) one(5) by (simp add: funpow_swap1)
  ultimately show ?case using one(1) more(1,2) by auto
qed

text \<open>A new resource gets its UUID by a call that writes no object.\<close>

lemma assign_uuid:
  assumes "tracks p (view (os_world s))" and "pr_Uuid p = []"
    and "fst (l_NewUUID L (snd (l_Get L (pr_Namespace p, pr_Name p) (os_world s)))) = Some u"
  shows "\<exists>s' ps. Reconcile L (pr_Namespace p, pr_Name p) s = (Some (empty_result, None), s') \<and>
    moved s s' ((view (os_world s))\<lparr>k_prestos := ps\<rparr>) [] \<and>
    tracks (p\<lparr>pr_Status := (pr_Status p)\<lparr>st_Uuid := u\<rparr>\<rparr>) ((view (os_world s))\<lparr>k_prestos := ps\<rparr>)"
proof -
  let ?key = "(pr_Namespace p, pr_Name p)" and ?a = "no_action\<lparr>ua_clusterUUID := Some u\<rparr>"
  from assms(1) obtain q where q: "q \<in> set (k_prestos (view (os_world s)))" "same_cluster p q"
      "pr_Labels q = pr_Labels p"
    by (auto simp: tracks_def)
  let ?w = "snd (l_Get L ?key (os_world s))"
  let ?s0 = "snd (register_presto ?key q (s\<lparr>os_world := ?w\<rparr>))"
  let ?s1 = "?s0\<lparr>os_world := snd (l_NewUUID L ?w)\<rparr>"
  let ?p' = "p\<lparr>pr_Status := (pr_Status p)\<lparr>st_Uuid := u\<rparr>\<rparr>"
    and ?q' = "q\<lparr>pr_Status := (pr_Status q)\<lparr>st_Uuid := u\<rparr>\<rparr>"
  have s1: "view (os_world ?s1) = view (os_world s)" "os_reqs ?s1 = os_reqs s"
      "os_world ?s0 = ?w" "register_presto ?key q (s\<lparr>os_world := ?w\<rparr>) = (Some (), ?s0)"
    by (simp_all add: reads register_presto_def)
  have "tracks q (view (os_world ?s1))" using assms(1) q s1(1) by (simp add: tracks_same_cluster)
  then obtain s' ps where u: "updateStatus L q ?a ?s1 = (Some (True, None, q), s')"
      "moved ?s1 s' ((view (os_world s))\<lparr>k_prestos := ps\<rparr>) []"
      "tracks ?q' ((view (os_world s))\<lparr>k_prestos := ps\<rparr>)"
    using updateStatus_run [of q ?s1 ?a "(pr_Status q)\<lparr>st_Uuid := u\<rparr>"] s1(1)
    by (auto simp: no_action_def bad_action_def pick_def)
  have get: "fst (l_Get L ?key (os_world s)) = Inr q"
    using get_found [OF q(1)] same_cluster_spec [OF q(2)] by simp
  have uuid: "pr_Uuid q = []" using same_cluster_spec [OF q(2)] assms(2) by simp
  have "reconcilePresto L q ?s0 = (Some (empty_result, None), s')"
    using uuid assms(3) u(1) s1(3)
    by (simp add: reconcilePresto_def go_bind_def call_def go_lift_def go_ret_def split_beta empty_result_def)
  then have "Reconcile L ?key s = (Some (empty_result, None), s')"
    using get by (simp add: Reconcile_def run register_presto_def)
  moreover have "moved s s' ((view (os_world s))\<lparr>k_prestos := ps\<rparr>) []"
    using u(2) s1(2) by (simp add: moved_def)
  moreover have "tracks ?p' ((view (os_world s))\<lparr>k_prestos := ps\<rparr>)"
    using u(3) tracks_same_cluster [of ?p' ?q'] q(2,3) by (simp add: same_cluster_def)
  ultimately show ?thesis by (intro exI conjI)
qed

end

lemma Reconcile_refines:
  assumes "api_server L view" and "prepared (l_ParseQuantity L) (view (os_world s)) p"
  shows "\<exists>s' ws. Reconcile L (pr_Namespace p, pr_Name p) s = (Some (empty_result, None), s') \<and>
    prepared (l_ParseQuantity L) (view (os_world s')) p \<and>
    needs (view (os_world s')) p = clear_first (needs (view (os_world s)) p) \<and>
    os_reqs s' = os_reqs s @ ws \<and>
    length (object_writes ws) = (if True \<in> set (needs (view (os_world s)) p) then 1 else 0)"
proof -
  from api_server.Reconcile_settles [OF assms] obtain s' K W where
    run: "Reconcile L (pr_Namespace p, pr_Name p) s = (Some (empty_result, None), s')"
      "api_server.moved view s s' K W" "tracks p K" "no_conflict K p"
      "needs K p = clear_first (needs (view (os_world s)) p)"
      "length W = (if True \<in> set (needs (view (os_world s)) p) then 1 else 0)"
    unfolding api_server.settles_def [OF assms(1)] by blast
  have v: "view (os_world s') = K" by (rule api_server.moved_view [OF assms(1) run(2)])
  obtain ws where ws: "os_reqs s' = os_reqs s @ ws" "object_writes ws = W"
    using run(2) unfolding api_server.moved_def [OF assms(1)] by blast
  have "prepared (l_ParseQuantity L) (view (os_world s')) p"
    using assms(2) run(3,4) v by (simp add: prepared_def)
  with run ws v show ?thesis by (intro exI [of _ s'] exI [of _ ws]) simp
qed

lemma needs_count: "count_list (needs K p) True \<le> 8"
  using count_le_length [of "needs K p" True] by (simp add: needs_def)

lemma settled_after:
  assumes "api_server L view" and "prepared (l_ParseQuantity L) (view (os_world s)) p" and "8 \<le> n"
  shows "\<exists>s' ws. reconcile_times L (pr_Namespace p, pr_Name p) n s = Some s' \<and>
    os_reqs s' = os_reqs s @ ws \<and>
    True \<notin> set (needs (view (os_world s')) p) \<and>
    length (object_writes ws) = count_list (needs (view (os_world s)) p) True"
proof -
  let ?c = "count_list (needs (view (os_world s)) p) True"
  from api_server.times_settle [OF assms(1,2)] obtain s' W where
    s': "reconcile_times L (pr_Namespace p, pr_Name p) n s = Some s'"
      "api_server.moved view s s' (view (os_world s')) W"
      "needs (view (os_world s')) p = (clear_first ^^ n) (needs (view (os_world s)) p)"
      "length W = min n ?c" by blast
  have c: "?c \<le> n" using needs_count assms(3) le_trans by blast
  have "True \<notin> set (needs (view (os_world s')) p)"
    using c unfolding s'(3) clear_first_iterate(3) clear_first_times by simp
  with s' c show ?thesis
    by (auto simp: api_server.moved_def [OF assms(1)])
qed

lemma new_settled_after:
  assumes "api_server L view" and "tracks p (view (os_world s))" and "pr_Uuid p = []"
    and "fst (l_NewUUID L (snd (l_Get L (pr_Namespace p, pr_Name p) (os_world s)))) = Some u"
    and "p' = p\<lparr>pr_Status := (pr_Status p)\<lparr>st_Uuid := u\<rparr>\<rparr>"
    and "valid_presto (l_ParseQuantity L) p'" and "no_conflict (view (os_world s)) p'" and "9 \<le> n"
  shows "\<exists>s' ws. reconcile_times L (pr_Namespace p, pr_Name p) n s = Some s' \<and>
    os_reqs s' = os_reqs s @ ws \<and> True \<notin> set (needs (view (os_world s')) p') \<and>
    length (object_writes ws) = count_list (needs (view (os_world s)) p') True"
proof -
  from api_server.assign_uuid [OF assms(1-4)] obtain s1 ps where one:
      "Reconcile L (pr_Namespace p, pr_Name p) s = (Some (empty_result, None), s1)"
      "api_server.moved view s s1 ((view (os_world s))\<lparr>k_prestos := ps\<rparr>) []"
      "tracks p' ((view (os_world s))\<lparr>k_prestos := ps\<rparr>)"
    unfolding assms(5) by blast
  have v1: "view (os_world s1) = (view (os_world s))\<lparr>k_prestos := ps\<rparr>"
    by (rule api_server.moved_view [OF assms(1) one(2)])
  obtain m where m: "n = Suc m" "8 \<le> m" using assms(8) by (cases n) auto
  have "prepared (l_ParseQuantity L) (view (os_world s1)) p'"
    using one(3) assms(6,7) by (simp add: prepared_def v1)
  from settled_after [OF assms(1) this m(2)] show ?thesis
    using one(1,2) assms(5) m(1) v1 by (auto simp: api_server.moved_def [OF assms(1)])
qed

end
