(* ===== verification/Memory_Server.thy ===== *)
theory Memory_Server
  imports Convergence Example_Cluster
begin

text \<open>
  An API server in memory, with generated names, resource versions and the not-found, already-exists
  and conflict answers. It satisfies the laws of \<open>api_server\<close>, so they are consistent, and the
  witnesses run the operator against it.
\<close>

record memory =
  m_kube :: kube
  m_pods :: "pod list"
  m_metrics :: "pod_metrics list"
  m_clock :: int
  m_uuid :: string

text \<open>What the store of a server always satisfies. Another start is served as an empty store.\<close>

definition key_of :: "object_meta \<Rightarrow> nsname" where
  "key_of m = (om_Namespace m, om_Name m)"

definition sane :: "kube \<Rightarrow> bool" where
  "sane K \<longleftrightarrow> distinct (map (key_of \<circ> pr_meta) (k_prestos K)) \<and>
     distinct (map (key_of \<circ> rs_meta) (k_replicasets K)) \<and>
     list_all (\<lambda>r. rs_Replicas r \<noteq> None) (k_replicasets K) \<and>
     list_all (\<lambda>h. hpa_MinReplicas h \<noteq> None \<and> hpa_TargetCPU h \<noteq> None) (k_hpas K)"

definition empty_kube :: kube where
  "empty_kube = \<lparr>k_prestos = [], k_services = [], k_configmaps = [], k_replicasets = [], k_hpas = []\<rparr>"

definition store :: "memory \<Rightarrow> kube" where
  "store w = (if sane (m_kube w) then m_kube w else empty_kube)"

text \<open>The meta data of a stored object. A generated name is longer than every name in use.\<close>

definition fresh_name :: "('a \<Rightarrow> object_meta) \<Rightarrow> 'a list \<Rightarrow> string \<Rightarrow> string" where
  "fresh_name m xs pre = pre @ replicate (Suc (sum_list (map (length \<circ> om_Name \<circ> m) xs))) CHR ''x''"

definition new_meta :: "('a \<Rightarrow> object_meta) \<Rightarrow> 'a list \<Rightarrow> object_meta \<Rightarrow> object_meta" where
  "new_meta m xs n = n\<lparr>om_ResourceVersion := ''1'',
     om_Name := (if om_Name n = [] then fresh_name m xs (om_GenerateName n) else om_Name n)\<rparr>"

definition exists_error :: "go_error" where
  "exists_error = StatusError AlreadyExists ''already exists''"

definition conflict_error :: "go_error" where
  "conflict_error = StatusError (OtherReason ''Conflict'') ''the object has been modified''"

definition not_found_error :: "string \<Rightarrow> string \<Rightarrow> go_error" where
  "not_found_error kind nm = StatusError NotFound (kind @ '' '' @ nm @ '' not found'')"

text \<open>A list request, a create and an update, for any kind of object.\<close>

definition mem_list :: "(memory \<Rightarrow> 'a list) \<Rightarrow> ('a \<Rightarrow> object_meta) \<Rightarrow> string \<Rightarrow> smap \<Rightarrow> memory \<Rightarrow>
    (go_error + 'a list) \<times> memory" where
  "mem_list xs m ns sel w = (Inr (listed ns sel m (xs w)), w)"

definition mem_create :: "(kube \<Rightarrow> 'a list) \<Rightarrow> ('a list \<Rightarrow> kube \<Rightarrow> kube) \<Rightarrow>
    ('a \<Rightarrow> object_meta) \<Rightarrow> ((object_meta \<Rightarrow> object_meta) \<Rightarrow> 'a \<Rightarrow> 'a) \<Rightarrow> 'a \<Rightarrow> memory \<Rightarrow>
    (go_error + 'a) \<times> memory" where
  "mem_create get upd m updm x w = (let K = store w; y = updm (new_meta m (get K)) x
     in if name_taken m (m y) (get K) then (Inl exists_error, w)
        else (Inr y, w\<lparr>m_kube := upd (get K @ [y]) K\<rparr>))"

definition mem_update :: "(kube \<Rightarrow> 'a list) \<Rightarrow> ('a list \<Rightarrow> kube \<Rightarrow> kube) \<Rightarrow>
    ('a \<Rightarrow> object_meta) \<Rightarrow> ((object_meta \<Rightarrow> object_meta) \<Rightarrow> 'a \<Rightarrow> 'a) \<Rightarrow> 'a \<Rightarrow> memory \<Rightarrow>
    (go_error + 'a) \<times> memory" where
  "mem_update get upd m updm x w = (let K = store w;
       y = updm (om_ResourceVersion_update (\<lambda>v. v @ ''+'')) x
     in if \<not> name_taken m (m x) (get K) then (Inl (not_found_error [] (om_Name (m x))), w)
        else if list_ex (\<lambda>z. same_key (m z) (m x) \<and> om_ResourceVersion (m z) = om_ResourceVersion (m x)) (get K)
        then (Inr y, w\<lparr>m_kube := upd (put_by_key m y (get K)) K\<rparr>)
        else (Inl conflict_error, w))"

definition invalid_error :: go_error where
  "invalid_error = StatusError (OtherReason ''Invalid'') ''a required field is missing''"

definition memory_server :: "(string \<Rightarrow> string + quantity) \<Rightarrow> range_choice \<Rightarrow> memory lib" where
  "memory_server pq rc = \<lparr>
     l_Get = (\<lambda>key w. (case find (\<lambda>p. key_of (pr_meta p) = key) (k_prestos (store w)) of
        None \<Rightarrow> Inl (not_found_error ''prestos'' (snd key)) | Some p \<Rightarrow> Inr p, w)),
     l_ListPresto = mem_list (k_prestos \<circ> store) pr_meta,
     l_ListService = mem_list (k_services \<circ> store) svc_meta,
     l_ListConfigMap = mem_list (k_configmaps \<circ> store) cm_meta,
     l_ListReplicaSet = mem_list (k_replicasets \<circ> store) rs_meta,
     l_ListHPA = mem_list (k_hpas \<circ> store) hpa_meta,
     l_ListPod = mem_list m_pods pod_meta,
     l_ListPodMetrics = (\<lambda>ns sel w. (Inr (m_metrics w), w)),
     l_CreateService = mem_create k_services (\<lambda>xs. k_services_update (\<lambda>_. xs)) svc_meta svc_meta_update,
     l_CreateConfigMap = mem_create k_configmaps (\<lambda>xs. k_configmaps_update (\<lambda>_. xs)) cm_meta cm_meta_update,
     l_CreateReplicaSet = (\<lambda>r. if rs_Replicas r = None then (\<lambda>w. (Inl invalid_error, w))
        else mem_create k_replicasets (\<lambda>xs. k_replicasets_update (\<lambda>_. xs)) rs_meta rs_meta_update r),
     l_UpdateReplicaSet = (\<lambda>r. if rs_Replicas r = None then (\<lambda>w. (Inl invalid_error, w))
        else mem_update k_replicasets (\<lambda>xs. k_replicasets_update (\<lambda>_. xs)) rs_meta rs_meta_update r),
     l_CreateHPA = (\<lambda>h. if hpa_MinReplicas h = None \<or> hpa_TargetCPU h = None then (\<lambda>w. (Inl invalid_error, w))
        else mem_create k_hpas (\<lambda>xs. k_hpas_update (\<lambda>_. xs)) hpa_meta hpa_meta_update h),
     l_UpdateHPA = (\<lambda>h. if hpa_MinReplicas h = None \<or> hpa_TargetCPU h = None then (\<lambda>w. (Inl invalid_error, w))
        else mem_update k_hpas (\<lambda>xs. k_hpas_update (\<lambda>_. xs)) hpa_meta hpa_meta_update h),
     l_DeleteHPA = (\<lambda>h w. let K = store w in
        if name_taken hpa_meta (hpa_meta h) (k_hpas K)
        then (Inr (), w\<lparr>m_kube := K\<lparr>k_hpas := filter (\<lambda>x. \<not> same_key (hpa_meta x) (hpa_meta h)) (k_hpas K)\<rparr>\<rparr>)
        else (Inl (not_found_error ''horizontalpodautoscalers'' (om_Name (hpa_meta h))), w)),
     l_UpdateStatus = (\<lambda>q w. let K = store w; rv = om_ResourceVersion (pr_meta q) @ ''+'' in
        if \<not> name_taken pr_meta (pr_meta q) (k_prestos K)
        then (Inl (not_found_error ''prestos'' (pr_Name q)), w)
        else if list_ex (\<lambda>z. same_key (pr_meta z) (pr_meta q) \<and>
          om_ResourceVersion (pr_meta z) = om_ResourceVersion (pr_meta q)) (k_prestos K)
        then (Inr (q\<lparr>pr_meta := (pr_meta q)\<lparr>om_ResourceVersion := rv\<rparr>\<rparr>),
          w\<lparr>m_kube := K\<lparr>k_prestos := put_status q rv (k_prestos K)\<rparr>\<rparr>)
        else (Inl conflict_error, w)),
     l_NewUUID = (\<lambda>w. (Some (m_uuid w), w)),
     l_Now = (\<lambda>w. (m_clock w, w\<lparr>m_clock := m_clock w + 1\<rparr>)),
     l_ParseQuantity = pq,
     l_NewNotFound = not_found_error,
     l_range = rc\<rparr>"

lemma memory_params [simp]:
  "l_ParseQuantity (memory_server pq rc) = pq" "l_range (memory_server pq rc) = rc"
  "l_NewUUID (memory_server pq rc) w = (Some (m_uuid w), w)"
  by (simp_all add: memory_server_def)

lemma memory_get:
  "l_Get (memory_server pq rc) key w =
     (case find (\<lambda>p. key_of (pr_meta p) = key) (k_prestos (store w)) of
        None \<Rightarrow> Inl (not_found_error ''prestos'' (snd key)) | Some p \<Rightarrow> Inr p, w)"
  by (simp add: memory_server_def)

subsection \<open>It keeps the laws\<close>

lemma sane_empty [simp]: "sane empty_kube"
  by (simp add: sane_def empty_kube_def)

lemma sane_store [simp]: "sane (store w)"
  by (simp add: store_def)

lemma store_kube [simp]: "sane K \<Longrightarrow> store (w\<lparr>m_kube := K\<rparr>) = K"
  by (simp add: store_def)

lemma store_other [simp]: "store (w\<lparr>m_clock := c\<rparr>) = store w"
  by (simp add: store_def)

lemma same_key_iff: "same_key m n \<longleftrightarrow> key_of m = key_of n"
  by (auto simp: same_key_def key_of_def)

lemma same_key_refl [simp]: "same_key m m"
  by (simp add: same_key_def)

lemma new_name_free [simp]:
  assumes "om_Name n = []"
  shows "\<not> name_taken m (new_meta m xs n) xs"
proof
  assume "name_taken m (new_meta m xs n) xs"
  then obtain x where x: "x \<in> set xs" "om_Name (m x) = fresh_name m xs (om_GenerateName n)"
    by (auto simp: name_taken_def list_ex_iff same_key_def new_meta_def assms)
  then have "length (om_Name (m x)) \<le> sum_list (map (length \<circ> om_Name \<circ> m) xs)"
    by (intro member_le_sum_list) (simp_all add: image_iff, metis)
  with x(2) show False by (simp add: fresh_name_def)
qed

lemma stored_found [simp]:
  "x \<in> set xs \<Longrightarrow> name_taken m (m x) xs"
  "x \<in> set xs \<Longrightarrow> list_ex (\<lambda>z. same_key (m z) (m x) \<and> om_ResourceVersion (m z) = om_ResourceVersion (m x)) xs"
  unfolding name_taken_def list_ex_iff by (rule bexI [of _ x], simp_all)+

lemma in_put_by_key: "x \<in> set (put_by_key m y xs) \<Longrightarrow> x = y \<or> x \<in> set xs"
  by (auto simp: put_by_key_def split: if_splits)

lemma distinct_put:
  "distinct (map (key_of \<circ> m) (put_by_key m y xs)) = distinct (map (key_of \<circ> m) xs)"
proof -
  have "map (key_of \<circ> m) (put_by_key m y xs) = map (key_of \<circ> m) xs"
    by (simp add: put_by_key_def same_key_iff)
  then show ?thesis by simp
qed

lemma distinct_put_status:
  "distinct (map (key_of \<circ> pr_meta) (put_status q rv ps)) = distinct (map (key_of \<circ> pr_meta) ps)"
proof -
  have "map (key_of \<circ> pr_meta) (put_status q rv ps) = map (key_of \<circ> pr_meta) ps"
    by (simp add: put_status_def key_of_def)
  then show ?thesis by simp
qed

lemma find_key:
  assumes "distinct (map (key_of \<circ> m) xs)" and "x \<in> set xs"
  shows "find (\<lambda>y. key_of (m y) = key_of (m x)) xs = Some x"
  using assms by (induction xs) (auto simp: image_iff)

text \<open>The store stays sane.\<close>

lemma sane_writes:
  assumes "sane K"
  shows "sane (K\<lparr>k_services := sv\<rparr>)" "sane (K\<lparr>k_configmaps := cm\<rparr>)"
    "sane (K\<lparr>k_prestos := put_status q rv (k_prestos K)\<rparr>)"
    "rs_Replicas r \<noteq> None \<Longrightarrow> \<not> name_taken rs_meta (rs_meta r) (k_replicasets K) \<Longrightarrow>
       sane (K\<lparr>k_replicasets := k_replicasets K @ [r]\<rparr>)"
    "rs_Replicas r \<noteq> None \<Longrightarrow> sane (K\<lparr>k_replicasets := put_by_key rs_meta r (k_replicasets K)\<rparr>)"
    "hpa_MinReplicas h \<noteq> None \<Longrightarrow> hpa_TargetCPU h \<noteq> None \<Longrightarrow> sane (K\<lparr>k_hpas := k_hpas K @ [h]\<rparr>)"
    "hpa_MinReplicas h \<noteq> None \<Longrightarrow> hpa_TargetCPU h \<noteq> None \<Longrightarrow>
       sane (K\<lparr>k_hpas := put_by_key hpa_meta h (k_hpas K)\<rparr>)"
    "sane (K\<lparr>k_hpas := filter P (k_hpas K)\<rparr>)"
  using assms
  by (auto simp: sane_def distinct_put distinct_put_status list_all_iff name_taken_def
      list_ex_iff same_key_iff dest!: in_put_by_key)

lemma mem_create_named:
  assumes "om_Name (m x) \<noteq> []" and "\<not> name_taken m (m x) (get (store w))"
    and "\<And>f. m (updm f x) = f (m x)"
  shows "mem_create get upd m updm x w = (Inr (updm (new_meta m (get (store w))) x),
    w\<lparr>m_kube := upd (get (store w) @ [updm (new_meta m (get (store w))) x]) (store w)\<rparr>)"
  using assms by (simp add: mem_create_def Let_def new_meta_def name_taken_def same_key_def)

lemma mem_create_generated:
  assumes "om_Name (m x) = []" and "\<And>f. m (updm f x) = f (m x)"
  shows "mem_create get upd m updm x w = (Inr (updm (new_meta m (get (store w))) x),
    w\<lparr>m_kube := upd (get (store w) @ [updm (new_meta m (get (store w))) x]) (store w)\<rparr>)"
  using assms by (simp add: mem_create_def Let_def)

lemma mem_update_stored:
  assumes "x0 \<in> set (get (store w))" and "same_key (m x) (m x0)"
    and "om_ResourceVersion (m x) = om_ResourceVersion (m x0)"
  shows "mem_update get upd m updm x w = (Inr (updm (om_ResourceVersion_update (\<lambda>v. v @ ''+'')) x),
    w\<lparr>m_kube := upd (put_by_key m (updm (om_ResourceVersion_update (\<lambda>v. v @ ''+'')) x) (get (store w))) (store w)\<rparr>)"
proof -
  have "name_taken m (m x) (get (store w))"
    "list_ex (\<lambda>z. same_key (m z) (m x) \<and> om_ResourceVersion (m z) = om_ResourceVersion (m x)) (get (store w))"
    using assms by (auto simp: name_taken_def list_ex_iff same_key_def)
  then show ?thesis by (simp add: mem_update_def Let_def)
qed

lemma kept_new_meta [simp]: "kept_meta n (new_meta m xs n)"
  by (simp add: kept_meta_def new_meta_def)

lemma kept_version [simp]: "kept_meta n (om_ResourceVersion_update f n)"
  by (simp add: kept_meta_def)

lemma name_new_meta [simp]: "om_Name n \<noteq> [] \<Longrightarrow> om_Name (new_meta m xs n) = om_Name n"
  by (simp add: new_meta_def)

interpretation memory_api: api_server "memory_server pq rc" store
proof unfold_locales
  fix k n show "isNotFound (Some (l_NewNotFound (memory_server pq rc) k n))"
    by (simp add: memory_server_def not_found_error_def)
next
  fix w
  show "distinct (map (\<lambda>p. (pr_Namespace p, pr_Name p)) (k_prestos (store w)))"
    and "distinct (map (\<lambda>r. (om_Namespace (rs_meta r), om_Name (rs_meta r))) (k_replicasets (store w)))"
    and "r \<in> set (k_replicasets (store w)) \<Longrightarrow> rs_Replicas r \<noteq> None"
    and "h \<in> set (k_hpas (store w)) \<Longrightarrow> hpa_MinReplicas h \<noteq> None \<and> hpa_TargetCPU h \<noteq> None" for r h
    using sane_store [of w] by (auto simp: sane_def key_of_def comp_def list_all_iff)
next
  fix p w assume p: "p \<in> set (k_prestos (store w))"
  have "find (\<lambda>q. key_of (pr_meta q) = key_of (pr_meta p)) (k_prestos (store w)) = Some p"
    using sane_store [of w] by (intro find_key p) (simp add: sane_def)
  then show "fst (l_Get (memory_server pq rc) (pr_Namespace p, pr_Name p) w) = Inr p"
    by (simp add: memory_server_def key_of_def)
next
  fix key w assume "key \<notin> (\<lambda>p. (pr_Namespace p, pr_Name p)) ` set (k_prestos (store w))"
  then have "find (\<lambda>p. key_of (pr_meta p) = key) (k_prestos (store w)) = None"
    by (auto simp: find_None_iff key_of_def)
  then show "\<exists>e. fst (l_Get (memory_server pq rc) key w) = Inl e \<and> isNotFound (Some e)"
    by (simp add: memory_server_def not_found_error_def)
next
  fix s :: service and w assume "om_Name (svc_meta s) \<noteq> []" "\<not> name_taken svc_meta (svc_meta s) (k_services (store w))"
  then show "\<exists>s'. fst (l_CreateService (memory_server pq rc) s w) = Inr s' \<and>
      store (snd (l_CreateService (memory_server pq rc) s w)) =
        (store w)\<lparr>k_services := k_services (store w) @ [s']\<rparr> \<and>
      kept_meta (svc_meta s) (svc_meta s') \<and> om_Name (svc_meta s') = om_Name (svc_meta s) \<and>
      ss_Selector (svc_spec s') = ss_Selector (svc_spec s) \<and>
      map sp_Port (ss_Ports (svc_spec s')) = map sp_Port (ss_Ports (svc_spec s)) \<and>
      map sp_TargetPort (ss_Ports (svc_spec s')) = map sp_TargetPort (ss_Ports (svc_spec s))"
    by (simp add: memory_server_def mem_create_named sane_writes)
qed (auto simp: memory_server_def mem_list_def mem_create_named mem_create_generated mem_update_stored
  sane_writes Let_def)

text \<open>A server that holds the example resource, and the operator when it has just started.\<close>

definition example_server :: "Presto \<Rightarrow> memory" where
  "example_server p = \<lparr>m_kube = empty_kube\<lparr>k_prestos := [p]\<rparr>, m_pods = [], m_metrics = [],
     m_clock = 0, m_uuid = example_uuid\<rparr>"

abbreviation example_lib :: "memory lib" where
  "example_lib \<equiv> memory_server example_pq in_order"

definition operator_start :: "'w \<Rightarrow> 'w op_state" where
  "operator_start w = \<lparr>os_world = w, os_reqs = [], os_events = [], os_registered = []\<rparr>"

lemma store_example [simp]: "store (example_server p) = empty_kube\<lparr>k_prestos := [p]\<rparr>"
  by (simp add: store_def example_server_def sane_def empty_kube_def)

lemma example_world [simp]:
  "os_world (operator_start w) = w" "os_reqs (operator_start w) = []"
  "os_registered (operator_start w) = []" "m_uuid (example_server p) = example_uuid"
  by (simp_all add: operator_start_def example_server_def)

lemma example_key [simp]:
  "pr_Namespace example_presto = ''default''" "pr_Name example_presto = ''mycluster''"
  "pr_Namespace new_presto = ''default''" "pr_Name new_presto = ''mycluster''" "pr_Uuid new_presto = []"
  by (simp_all add: example_presto_def new_presto_def zero_meta_def zero_status_def)

lemma example_get [simp]:
  "pr_Namespace p = ''default'' \<Longrightarrow> pr_Name p = ''mycluster'' \<Longrightarrow>
     l_Get example_lib (''default'', ''mycluster'') (example_server p) = (Inr p, example_server p)"
  by (simp add: memory_get key_of_def)

lemma memory_answers_in_kind: "answers_in_kind (memory_server pq rc)"
  by (auto simp: answers_in_kind_def memory_server_def same_cluster_def Let_def split: if_splits)

lemma example_valid: "valid_presto example_pq example_presto"
  by (simp add: valid_presto_def example_defs example_pq_def parses_def worker_quantities_def
      coordinator_quantities_def checkAutoscalingEnabled_def)

lemma example_prepared: "prepared example_pq (store (example_server example_presto)) example_presto"
proof -
  have "tracks example_presto (store (example_server example_presto))"
    by (simp add: tracks_def) (simp add: example_defs)
  moreover have "no_conflict (store (example_server example_presto)) example_presto"
    by (simp add: no_conflict_def empty_kube_def)
  ultimately show ?thesis using example_valid by (simp add: prepared_def)
qed

lemma example_api: "api_server example_lib store"
  by (rule memory_api.api_server_axioms)

text \<open>The objects of the example cluster, with the headless service missing.\<close>

definition example_objects :: kube where
  "example_objects =
     (let m = zero_meta\<lparr>om_Namespace := ''default'', om_Labels := stage_labels example_presto\<rparr>;
          rs = (\<lambda>nm k. \<lparr>rs_APIVersion = ''apps/v1'', rs_Kind = ''ReplicaSet'',
            rs_meta = zero_meta\<lparr>om_Name := nm, om_Namespace := ''default'', om_Labels := [(k, example_uuid)]\<rparr>,
            rs_Replicas = Some 1, rs_MatchLabels = [], rs_TemplateMeta = zero_meta,
            rs_TemplateSpec = \<lparr>ps_TerminationGracePeriodSeconds = None, ps_Containers = [], ps_Hostname = [],
              ps_Subdomain = [], ps_Volumes = []\<rparr>, rs_AvailableReplicas = 1\<rparr>)
      in \<lparr>k_prestos = [example_presto],
          k_services = [externalServiceObject example_presto ''external-presto-svc-03f118d2''
            (stage_labels example_presto) ''coordinator'' example_uuid (getServicePort example_presto)],
          k_configmaps = map (\<lambda>nm. \<lparr>cm_meta = m\<lparr>om_Name := nm\<rparr>, cm_Data = []\<rparr>)
            [''coordinatorconfig-03f118d2'', ''workerconfig-03f118d2'', ''catalogconfig-03f118d2''],
          k_replicasets = [rs ''coordinatorreplicaset-03f118d2a'' ''coordinator'',
            rs ''workerreplicaset-03f118d2b'' ''worker''],
          k_hpas = []\<rparr>)"

lemma example_objects_sane: "sane example_objects"
  by (simp add: sane_def example_objects_def Let_def key_of_def)

lemma example_objects_settled:
  "True \<notin> set (drop 2 (needs example_objects example_presto))"
  "no_conflict example_objects example_presto"
  "tracks example_presto example_objects"
proof -
  have u: "take 8 example_uuid = ''03f118d2''" by (simp add: example_uuid_def)
  have "om_Labels (pr_meta example_presto) = []" by (simp add: example_presto_def new_presto_def zero_meta_def)
  then show "tracks example_presto example_objects"
    by (simp add: tracks_def example_objects_def Let_def)
  show "no_conflict example_objects example_presto"
    by (simp add: no_conflict_def example_objects_def Let_def service_fits_def configmap_fits_def
        selects_refl externalServiceObject_def)
      (simp add: stage_labels_def getServicePort_def Let_def u split: option.split)
  have "\<not> checkAutoscalingEnabled example_presto" "wo_Count (pr_Worker example_presto) = Some 1"
    by (simp_all add: checkAutoscalingEnabled_def example_presto_def new_presto_def example_spec_def)
  then show "True \<notin> set (drop 2 (needs example_objects example_presto))"
    by (simp add: needs_def need_configmap_def need_coordinator_def need_worker_def need_hpa_def
        example_objects_def Let_def listed_def selects_refl u zero_meta_def)
qed

end
