(* ===== verification/Events.thy ===== *)
theory Events
  imports Memory_Server
begin

text \<open>
  What makes the operator reconcile a cluster: the watches that \<^verbatim>\<open>add\<close> sets up, the predicate of
  \<^verbatim>\<open>watch_predicate.go\<close>, the map of registered clusters and the goroutine of \<^verbatim>\<open>newReconciler\<close> that sends
  an event for each of them on every tick.
\<close>

subsection \<open>The predicate\<close>

text \<open>An update event of the cache; each part may be nil.\<close>

record update_event =
  ue_MetaOld :: "object_meta option"
  ue_ObjectOld :: "Presto option"
  ue_MetaNew :: "object_meta option"
  ue_ObjectNew :: "Presto option"

definition GenerationChangedPredicate_Update :: "update_event \<Rightarrow> bool" where
  "GenerationChangedPredicate_Update e = (case ue_MetaOld e of
       None \<Rightarrow> False
     | Some metaOld \<Rightarrow>
     (if ue_ObjectOld e = None then False
      else if ue_ObjectNew e = None then False
      else (case ue_MetaNew e of
          None \<Rightarrow> False
        | Some metaNew \<Rightarrow>
            if om_Generation metaNew = om_Generation metaOld \<and> om_Generation metaNew \<noteq> 0
            then False else True)))"


subsection \<open>The watches\<close>

datatype watch_source = PeriodicEvents | KindPresto | KindService | KindConfigMap | KindReplicaSet

datatype watch_handler = EnqueueRequestForObject | EnqueueRequestForOwner (isController: bool)

record watch =
  wt_Source :: watch_source
  wt_Handler :: watch_handler
  wt_Predicate :: "(update_event \<Rightarrow> bool) option"

definition periodicWatch :: watch where
  "periodicWatch = \<lparr>wt_Source = PeriodicEvents, wt_Handler = EnqueueRequestForObject, wt_Predicate = None\<rparr>"

definition prestoWatch :: watch where
  "prestoWatch = \<lparr>wt_Source = KindPresto, wt_Handler = EnqueueRequestForObject,
     wt_Predicate = Some GenerationChangedPredicate_Update\<rparr>"

definition ownerWatch :: "watch_source \<Rightarrow> watch" where
  "ownerWatch k = \<lparr>wt_Source = k, wt_Handler = EnqueueRequestForOwner True, wt_Predicate = None\<rparr>"

text \<open>
  \<^verbatim>\<open>controller.New\<close> and \<^verbatim>\<open>Watch\<close> are of controller-runtime; each may fail. The result is the error and
  the watches that are set up.
\<close>

definition add :: "'c + go_error \<Rightarrow> ('c \<Rightarrow> watch \<Rightarrow> go_error option) \<Rightarrow> go_error option \<times> watch list" where
  "add newController Watch = (case newController of
       Inr err \<Rightarrow> (Some err, [])
     | Inl c \<Rightarrow>
     (case Watch c periodicWatch of Some err \<Rightarrow> (Some err, []) | None \<Rightarrow>
     (case Watch c prestoWatch of Some err \<Rightarrow> (Some err, [periodicWatch]) | None \<Rightarrow>
     (case Watch c (ownerWatch KindService) of Some err \<Rightarrow> (Some err, [periodicWatch, prestoWatch]) | None \<Rightarrow>
     (case Watch c (ownerWatch KindConfigMap) of
        Some err \<Rightarrow> (Some err, [periodicWatch, prestoWatch, ownerWatch KindService])
      | None \<Rightarrow>
     (case Watch c (ownerWatch KindReplicaSet) of
        Some err \<Rightarrow> (Some err, [periodicWatch, prestoWatch, ownerWatch KindService, ownerWatch KindConfigMap])
      | None \<Rightarrow> (None, [periodicWatch, prestoWatch, ownerWatch KindService, ownerWatch KindConfigMap,
          ownerWatch KindReplicaSet])))))))"

text \<open>\<^verbatim>\<open>AddToManager\<close>: the first error ends the loop.\<close>

fun AddToManager :: "('m \<Rightarrow> go_error option) list \<Rightarrow> 'm \<Rightarrow> go_error option" where
  "AddToManager [] m = None"
| "AddToManager (f # fs) m = (case f m of Some err \<Rightarrow> Some err | None \<Rightarrow> AddToManager fs m)"

subsection \<open>The ticker\<close>

text \<open>
  What the goroutine sends on one tick: the value of every entry of the map, in the order in which
  \<^verbatim>\<open>Range\<close> happens to visit them.
\<close>

definition tick_events :: "(nat \<Rightarrow> nat) \<Rightarrow> 'w op_state \<Rightarrow> Presto list" where
  "tick_events order s = map snd (go_range order (os_registered s))"

subsection \<open>The map of registered clusters\<close>

definition keeps_registered :: "('w op_state, 'a) go \<Rightarrow> bool" where
  "keeps_registered m \<longleftrightarrow> (\<forall>s. os_registered (snd (m s)) = os_registered s)"

lemma keeps_ret: "keeps_registered (go_ret x)"
  and keeps_lift: "keeps_registered (go_lift r)"
  and keeps_call: "keeps_registered (call f)"
  and keeps_send: "keeps_registered (send req g)"
  and keeps_eventf: "keeps_registered (eventf typ reason msg)"
  by (simp_all add: keeps_registered_def go_ret_def go_lift_def call_def send_def eventf_def
      split: prod.split option.split)

lemma keeps_bind:
  "keeps_registered m \<Longrightarrow> (\<And>x. keeps_registered (f x)) \<Longrightarrow> keeps_registered (go_bind m f)"
  by (auto simp: keeps_registered_def go_bind_def split: prod.splits option.splits) (metis snd_conv)+

lemma keeps_case_prod: "(\<And>a b. keeps_registered (f a b)) \<Longrightarrow> keeps_registered (case x of (a, b) \<Rightarrow> f a b)"
  by (cases x) simp

lemma keeps_case_option:
  "keeps_registered f \<Longrightarrow> (\<And>a. keeps_registered (g a)) \<Longrightarrow>
     keeps_registered (case x of None \<Rightarrow> f | Some a \<Rightarrow> g a)"
  by (cases x) simp_all

lemma keeps_case_sum:
  "(\<And>a. keeps_registered (f a)) \<Longrightarrow> (\<And>b. keeps_registered (g b)) \<Longrightarrow>
     keeps_registered (case x of Inl a \<Rightarrow> f a | Inr b \<Rightarrow> g b)"
  by (cases x) simp_all

lemma keeps_case_list:
  "keeps_registered f \<Longrightarrow> (\<And>a as. keeps_registered (g a as)) \<Longrightarrow>
     keeps_registered (case x of [] \<Rightarrow> f | a # as \<Rightarrow> g a as)"
  by (cases x) simp_all

lemma keeps_if: "keeps_registered f \<Longrightarrow> keeps_registered g \<Longrightarrow> keeps_registered (if b then f else g)"
  by simp

lemmas keeps_rules = keeps_ret keeps_lift keeps_call keeps_send keeps_eventf keeps_bind keeps_case_prod
  keeps_case_option keeps_case_sum keeps_case_list keeps_if

lemma keeps_status:
  "keeps_registered (getPresto L p)" "keeps_registered (updateStatus L p a)"
  "keeps_registered (getCPUUsage L p c)" "keeps_registered (getCoordinatorPodPhase L p b)"
proof -
  show g: "keeps_registered (getPresto L p)"
    unfolding getPresto_def by (intro keeps_rules)
  show "keeps_registered (updateStatus L p a)"
    unfolding updateStatus_def Let_def by (intro keeps_rules g)
  show "keeps_registered (getCPUUsage L p c)"
    unfolding getCPUUsage_def Let_def by (intro keeps_rules)
  show "keeps_registered (getCoordinatorPodPhase L p b)"
    unfolding getCoordinatorPodPhase_def by (intro keeps_rules)
qed

lemma keeps_objects:
  "keeps_registered (createHeadLessPodDiscoverySvc L p b)" "keeps_registered (createOrGetService L p b)"
  "keeps_registered (createCoordinatorConfig L p b)" "keeps_registered (createWorkerConfig L p b)"
  "keeps_registered (createCatalogConfig L p b)" "keeps_registered (createUpdateReplicaSetForCoordinator L p b)"
  "keeps_registered (createUpdateReplicaSetForWorker L p b)" "keeps_registered (handleReplicaSet L p rs b)"
  unfolding createHeadLessPodDiscoverySvc_def createOrGetService_def createCoordinatorConfig_def
    createWorkerConfig_def createCatalogConfig_def createUpdateReplicaSetForCoordinator_def
    createUpdateReplicaSetForWorker_def handleReplicaSet_def createConfigMap_def getService_def
    getReplicaSet_def getPrestoHPA_def Let_def
  by (intro keeps_rules)+

lemma keeps_stages:
  "keeps_registered (headlessServiceConfig L p b)" "keeps_registered (serviceConfig L p b)"
  "keeps_registered (coordinatorConfig L p b)" "keeps_registered (workerConfig L p b)"
  "keeps_registered (catalogConfig L p b)" "keeps_registered (coordinatorReplicaset L p b)"
  "keeps_registered (workerReplicaset L p b)" "keeps_registered (hpaReplicaset L p b rs)"
  "keeps_registered (reportClusterState L p b rs)"
  unfolding headlessServiceConfig_def serviceConfig_def coordinatorConfig_def workerConfig_def
    catalogConfig_def coordinatorReplicaset_def workerReplicaset_def hpaReplicaset_def
    reportClusterState_def Let_def
  by (intro keeps_rules keeps_status keeps_objects)+

lemma keeps_next_stage:
  "keeps_registered m \<Longrightarrow> (\<And>x. keeps_registered (rest x)) \<Longrightarrow> keeps_registered (next_stage m rest)"
  unfolding next_stage_def by (intro keeps_rules)

lemma keeps_reconcile: "keeps_registered (reconcilePresto L p)"
  unfolding reconcilePresto_def reconcileStages_def Let_def
  by (intro keeps_rules keeps_status keeps_next_stage keeps_stages)

lemma registered_after_call:
  "os_registered (snd (Reconcile L key s)) = (case fst (l_Get L key (os_world s)) of
       Inr p \<Rightarrow> (if map_of (os_registered s) key = None then AList.update key p (os_registered s)
                else os_registered s)
     | Inl e \<Rightarrow> (if isNotFound (Some e) then AList.delete key (os_registered s) else os_registered s))"
proof (cases "l_Get L key (os_world s)")
  case (Pair r w)
  show ?thesis
  proof (cases r)
    case (Inl e)
    with Pair show ?thesis by (simp add: Reconcile_error)
  next
    case (Inr p)
    let ?s1 = "snd (register_presto key p (s\<lparr>os_world := w\<rparr>))"
    have "Reconcile L key s = reconcilePresto L p ?s1"
      using Pair Inr by (simp add: Reconcile_def call_def go_bind_def register_presto_def)
    then have "os_registered (snd (Reconcile L key s)) = os_registered ?s1"
      using keeps_reconcile [of L p] unfolding keeps_registered_def by (simp only:)
    with Pair Inr show ?thesis by (simp add: register_presto_def)
  qed
qed

subsection \<open>The states of the operator\<close>

text \<open>
  The operator starts with an empty map; others change the world between its calls; the controller
  runs one call at a time, for any key.
\<close>

inductive reachable :: "'w lib \<Rightarrow> 'w op_state \<Rightarrow> bool" for L where
  reachable_start: "reachable L (operator_start w)"
| reachable_others: "reachable L s \<Longrightarrow> reachable L (s\<lparr>os_world := w\<rparr>)"
| reachable_call: "reachable L s \<Longrightarrow> reachable L (snd (Reconcile L key s))"

abbreviation presto_key :: "Presto \<Rightarrow> nsname" where
  "presto_key p \<equiv> (pr_Namespace p, pr_Name p)"

definition registry_ok :: "(nsname \<times> Presto) list \<Rightarrow> bool" where
  "registry_ok reg \<longleftrightarrow> distinct (map fst reg) \<and> list_all (\<lambda>(key, p). key = presto_key p) reg"

lemma in_update: "e \<in> set (AList.update k v al) \<Longrightarrow> e = (k, v) \<or> e \<in> set al"
  by (induction al) (auto split: if_splits)

lemma registry_ok_update:
  "registry_ok reg \<Longrightarrow> key = presto_key p \<Longrightarrow> registry_ok (AList.update key p reg)"
  by (auto simp: registry_ok_def distinct_update list_all_iff dest: in_update)

lemma registry_ok_delete: "registry_ok reg \<Longrightarrow> registry_ok (AList.delete key reg)"
  by (simp add: registry_ok_def distinct_delete list_all_iff) (auto simp: AList.delete_eq)

lemma registry_invariant:
  assumes "reachable L s" and "\<And>key w p w'. l_Get L key w = (Inr p, w') \<Longrightarrow> presto_key p = key"
  shows "registry_ok (os_registered s)"
  using assms(1)
proof (induction rule: reachable.induct)
  case (reachable_start w)
  then show ?case by (simp add: registry_ok_def operator_start_def)
next
  case (reachable_call s key)
  have "presto_key p = key" if "fst (l_Get L key (os_world s)) = Inr p" for p
    using assms(2) [of key "os_world s" p] that by (metis prod.collapse)
  with reachable_call.IH show ?case
    by (auto simp: registered_after_call registry_ok_update registry_ok_delete split: sum.split)
qed simp

subsection \<open>Properties\<close>

text \<open>
  C7. On every tick each registered cluster gets exactly one event, whatever calls and changes by
  others came before, in whatever order the map is visited. The client answers a get with the object
  that was asked for.
\<close>

theorem one_event_per_cluster_and_tick:
  assumes "reachable L s" and "\<And>key w p w'. l_Get L key w = (Inr p, w') \<Longrightarrow> presto_key p = key"
  shows "distinct (map presto_key (tick_events order s)) \<and>
    set (map presto_key (tick_events order s)) = dom (map_of (os_registered s))"
proof -
  let ?reg = "os_registered s"
  have ok: "registry_ok ?reg" by (rule registry_invariant [OF assms])
  then have keys: "map presto_key (tick_events order s) = map fst (go_range order ?reg)"
    by (auto simp: registry_ok_def list_all_iff tick_events_def)
  have "distinct (map fst (go_range order ?reg))"
    using ok by (simp add: registry_ok_def distinct_map_go_range)
  then show ?thesis unfolding keys by (simp add: dom_map_of_conv_image_fst)
qed

lemma memory_get_answers: "l_Get (memory_server pq rc) key w = (Inr p, w') \<Longrightarrow> presto_key p = key"
  by (auto simp: memory_get key_of_def find_Some_iff split: option.splits)

theorem one_event_per_cluster_and_tick_witness:
  "let s = snd (Reconcile example_lib (''default'', ''mycluster'')
       (operator_start (example_server example_presto)))
   in set (map presto_key (tick_events (\<lambda>_. 0) s)) = {(''default'', ''mycluster'')}"
proof -
  let ?s0 = "operator_start (example_server example_presto)" and ?key = "(''default'', ''mycluster'')"
  let ?s = "snd (Reconcile example_lib ?key ?s0)"
  have "os_registered ?s = [(?key, example_presto)]" by (simp add: registered_after_call)
  moreover have "reachable example_lib ?s" by (intro reachable.intros)
  ultimately show ?thesis
    using one_event_per_cluster_and_tick [OF _ memory_get_answers, where s = ?s] by (simp add: Let_def)
qed

text \<open>
  C29. The map of registered clusters after a call: a cluster that exists is entered, unless it is
  already there; one that the server does not know is removed; any other error changes nothing. The
  entries of all other clusters stay.
\<close>

theorem call_registers_or_removes:
  "map_of (os_registered (snd (Reconcile L key s))) = (case fst (l_Get L key (os_world s)) of
       Inr p \<Rightarrow> (map_of (os_registered s))
         (key := Some (case map_of (os_registered s) key of None \<Rightarrow> p | Some q \<Rightarrow> q))
     | Inl e \<Rightarrow> if isNotFound (Some e) then (map_of (os_registered s))(key := None)
         else map_of (os_registered s))"
  unfolding registered_after_call
  by (cases "fst (l_Get L key (os_world s))"; cases "map_of (os_registered s) key")
    (simp_all add: update_conv' delete_conv' fun_upd_idem)





text \<open>
  C32. \<^verbatim>\<open>add\<close> fails exactly when the controller cannot be made or one of its five watches cannot be set
  up, and \<^verbatim>\<open>AddToManager\<close> exactly when one of its functions fails.
\<close>

theorem setup_errors_are_reported:
  "(fst (add newController Watch) = None \<longleftrightarrow>
     (\<exists>c. newController = Inl c \<and> list_all (\<lambda>w. Watch c w = None)
        [periodicWatch, prestoWatch, ownerWatch KindService, ownerWatch KindConfigMap,
         ownerWatch KindReplicaSet])) \<and>
   (AddToManager fs m = None \<longleftrightarrow> list_all (\<lambda>f. f m = None) fs)"
proof -
  have "AddToManager fs m = None \<longleftrightarrow> list_all (\<lambda>f. f m = None) fs"
    by (induction fs) (auto split: option.split)
  then show ?thesis by (auto simp: add_def split: sum.split option.split)
qed

end
