(* ===== verification/Manager.thy ===== *)
theory Manager
  imports Events
begin

text \<open>
  The start of the process: \<^verbatim>\<open>main\<close> of \<^verbatim>\<open>cmd/manager/main.go\<close>, \<^verbatim>\<open>AddToScheme\<close> of \<^verbatim>\<open>apis.go\<close> and \<^verbatim>\<open>Add\<close> and
  \<^verbatim>\<open>newReconciler\<close> of \<^verbatim>\<open>presto_controller.go\<close>. The manager, the clients and the registration of types are of
  libraries, each function of which may fail.
\<close>

subsection \<open>The ticker\<close>





subsection \<open>The steps of main\<close>


text \<open>What the flag package finds on the command line for \<^verbatim>\<open>status-update-interval\<close>.\<close>

datatype flag_arg = NotGiven | Given int64 | Malformed






subsection \<open>What holds at the start\<close>












end
