(* ===== verification/Webhook.thy ===== *)
theory Webhook
  imports Example_Cluster
begin

text \<open>
  The validating webhook of \<^verbatim>\<open>presto_webhook.go\<close>. The old object comes as a \<^verbatim>\<open>runtime.Object\<close>; the type
  assertion to a Presto panics on anything else. \<^verbatim>\<open>apierrors.NewInvalid\<close> is a parameter.
\<close>

datatype runtime_object = PrestoObject Presto | OtherObject

record field_error =
  fe_Type :: string
  fe_Field :: string
  fe_BadValue :: string
  fe_Detail :: string

definition validatePrestoSpec :: "Presto \<Rightarrow> Presto \<Rightarrow> field_error list" where
  "validatePrestoSpec r old =
     (let allErrs = []
      in if co_CpuRequest (pr_Coordinator old) \<noteq> co_CpuRequest (pr_Coordinator r)
         then allErrs @ [\<lparr>fe_Type = ''FieldImmutable'', fe_Field = ''Field is Immutable'',
           fe_BadValue = ''Spec.Coordinator.CpuRequest'',
           fe_Detail = ''Field Spec.Coordinator.CpuRequest is Immutable''\<rparr>]
         else allErrs)"

definition validatePrestoUpdate ::
  "(string \<Rightarrow> string \<Rightarrow> string \<Rightarrow> field_error list \<Rightarrow> go_error) \<Rightarrow> Presto \<Rightarrow> runtime_object \<Rightarrow>
     go_error option option" where
  "validatePrestoUpdate NewInvalid r old = (case old of
       OtherObject \<Rightarrow> None
     | PrestoObject oldPresto \<Rightarrow>
         let errs = validatePrestoSpec r oldPresto
         in if length errs = 0 then Some None
            else Some (Some (NewInvalid ''falarica.io'' ''Presto'' (pr_Name r) errs)))"

definition ValidateCreate :: "Presto \<Rightarrow> go_error option" where
  "ValidateCreate r = None"

definition ValidateUpdate ::
  "(string \<Rightarrow> string \<Rightarrow> string \<Rightarrow> field_error list \<Rightarrow> go_error) \<Rightarrow> Presto \<Rightarrow> runtime_object \<Rightarrow>
     go_error option option" where
  "ValidateUpdate NewInvalid r old = validatePrestoUpdate NewInvalid r old"

definition ValidateDelete :: "Presto \<Rightarrow> go_error option" where
  "ValidateDelete r = None"

text \<open>The versions of a resource that the webhook lets through, one after the other.\<close>

inductive admitted :: "(string \<Rightarrow> string \<Rightarrow> string \<Rightarrow> field_error list \<Rightarrow> go_error) \<Rightarrow>
    Presto \<Rightarrow> Presto \<Rightarrow> bool" for NewInvalid where
  admitted_create: "ValidateCreate p = None \<Longrightarrow> admitted NewInvalid p p"
| admitted_update: "admitted NewInvalid p q \<Longrightarrow>
    ValidateUpdate NewInvalid r (PrestoObject q) = Some None \<Longrightarrow> admitted NewInvalid p r"

lemma ValidateUpdate_iff:
  "ValidateUpdate NewInvalid r (PrestoObject q) = Some None \<longleftrightarrow>
     co_CpuRequest (pr_Coordinator q) = co_CpuRequest (pr_Coordinator r)"
  by (simp add: ValidateUpdate_def validatePrestoUpdate_def validatePrestoSpec_def Let_def)

lemma ValidateUpdate_total: "ValidateUpdate NewInvalid r (PrestoObject q) \<noteq> None"
  by (simp add: ValidateUpdate_def validatePrestoUpdate_def Let_def)

lemma admitted_keeps:
  "admitted NewInvalid p q \<Longrightarrow> co_CpuRequest (pr_Coordinator q) = co_CpuRequest (pr_Coordinator p)"
  by (induction rule: admitted.induct) (simp_all add: ValidateUpdate_iff)

text \<open>
  C40. The CPU request of the coordinator is immutable: through any number of admitted updates it stays
  what it was when the resource was created, and an update that changes it is refused with an error.
  Every update that keeps it is admitted.
\<close>

theorem coordinator_cpu_request_immutable:
  "(admitted NewInvalid p q \<longrightarrow> co_CpuRequest (pr_Coordinator q) = co_CpuRequest (pr_Coordinator p)) \<and>
   (ValidateUpdate NewInvalid r (PrestoObject q) = Some None \<longleftrightarrow>
      co_CpuRequest (pr_Coordinator q) = co_CpuRequest (pr_Coordinator r)) \<and>
   ValidateUpdate NewInvalid r (PrestoObject q) \<noteq> None"
  using admitted_keeps ValidateUpdate_iff ValidateUpdate_total by blast

theorem coordinator_cpu_request_immutable_witness:
  "let q = example_presto; r = q\<lparr>pr_meta := (pr_meta q)\<lparr>om_Generation := 2\<rparr>\<rparr>
   in admitted (\<lambda>g k n es. StatusError (OtherReason ''Invalid'') n) q r \<and>
      co_CpuRequest (pr_Coordinator r) = co_CpuRequest (pr_Coordinator q)"
proof -
  let ?inv = "\<lambda>g k n es. StatusError (OtherReason ''Invalid'') n" and ?q = example_presto
  let ?r = "?q\<lparr>pr_meta := (pr_meta ?q)\<lparr>om_Generation := 2\<rparr>\<rparr>"
  have "ValidateUpdate ?inv ?r (PrestoObject ?q) = Some None"
    using coordinator_cpu_request_immutable [of ?inv ?q ?q ?r] by simp
  then have "admitted ?inv ?q ?r"
    by (intro admitted_update [OF admitted_create]) (simp_all add: ValidateCreate_def)
  then show ?thesis
    using coordinator_cpu_request_immutable [of ?inv ?q ?r ?r] by (simp add: Let_def)
qed

end
