(* ===== verification/Go_Heap.thy ===== *)
theory Go_Heap
  imports Prelude "HOL-Library.Sublist"
begin

text \<open>
  Memory with sharing, for the code that is about sharing: copying. A heap is a list of cells, an address
  is a position in it, and allocation appends. A pointer, a map or a slice that may be nil is an option.

  Memory that \<^verbatim>\<open>new\<close> and \<^verbatim>\<open>make\<close> return is known only to the function that asked for it until that
  function hands it out, so the copying functions below allocate a cell with its final content.

  The locale \<open>deep_copy\<close> is the contract of a copying function; pointers, slices, maps, pairs and
  structs take it from their parts.
\<close>

type_synonym addr = nat

subsection \<open>Cells\<close>

definition fetch :: "('c \<Rightarrow> 'a option) \<Rightarrow> 'c list \<Rightarrow> addr \<Rightarrow> 'a option" where
  "fetch dest h a = (if a < length h then dest (h ! a) else None)"

definition load :: "('c \<Rightarrow> 'a option) \<Rightarrow> addr \<Rightarrow> ('c list, 'a) go" where
  "load dest a = (\<lambda>h. (fetch dest h a, h))"

definition new_cell :: "'c \<Rightarrow> ('c list, addr) go" where
  "new_cell c = (\<lambda>h. (Some (length h), h @ [c]))"

definition agree :: "addr set \<Rightarrow> 'c list \<Rightarrow> 'c list \<Rightarrow> bool" where
  "agree A h k \<longleftrightarrow> (\<forall>a\<in>A. a < length h \<longrightarrow> a < length k \<and> k ! a = h ! a)"

lemma agree_union [simp]: "agree (A \<union> B) h k \<longleftrightarrow> agree A h k \<and> agree B h k"
  by (auto simp: agree_def)

lemma agree_mono: "agree B h k \<Longrightarrow> A \<subseteq> B \<Longrightarrow> agree A h k"
  by (auto simp: agree_def)

lemma prefix_agree: "prefix h k \<Longrightarrow> agree A h k"
  by (auto simp: agree_def prefix_def nth_append)

lemma fetch_agree: "fetch dest h a = Some x \<Longrightarrow> agree {a} h k \<Longrightarrow> fetch dest k a = Some x"
  by (auto simp: fetch_def agree_def split: if_splits)

lemma fetch_bound: "fetch dest h a = Some x \<Longrightarrow> a < length h"
  by (simp add: fetch_def split: if_splits)

lemma fetch_new [simp]: "fetch dest (h @ [c]) (length h) = dest c"
  by (simp add: fetch_def)

subsection \<open>The contract of a copy\<close>

text \<open>
  \<open>rep h s v\<close> says that the struct \<open>s\<close>, read in the heap \<open>h\<close>, is the value \<open>v\<close>; \<open>reach h s\<close> is the
  set of cells this depends on. A copy ends, changes no cell, and returns a struct with the same value
  that reaches only new cells.
\<close>

locale deep_copy =
  fixes copy :: "'s \<Rightarrow> ('c list, 's) go"
    and rep :: "'c list \<Rightarrow> 's \<Rightarrow> 'v \<Rightarrow> bool"
    and reach :: "'c list \<Rightarrow> 's \<Rightarrow> addr set"
  assumes frame: "rep h s v \<Longrightarrow> agree (reach h s) h k \<Longrightarrow> rep k s v \<and> reach k s = reach h s"
    and in_heap: "rep h s v \<Longrightarrow> a \<in> reach h s \<Longrightarrow> a < length h"
    and copies: "rep h s v \<Longrightarrow> \<exists>t k. copy s h = (Some t, k) \<and> prefix h k \<and> rep k t v \<and>
      (\<forall>a\<in>reach k t. length h \<le> a)"
begin

lemma keeps: "rep h s v \<Longrightarrow> prefix h k \<Longrightarrow> rep k s v" "rep h s v \<Longrightarrow> prefix h k \<Longrightarrow> reach k s = reach h s"
  using frame prefix_agree by blast+

text \<open>Writing through the copy does not show in the original, and the other way round.\<close>

lemma separate:
  assumes "rep h s v"
  obtains t k where "copy s h = (Some t, k)" "prefix h k" "rep k t v" "rep k s v"
    "reach k s \<inter> reach k t = {}"
    "\<And>g. agree (- reach k t) k g \<Longrightarrow> rep g s v"
    "\<And>g. agree (- reach k s) k g \<Longrightarrow> rep g t v"
proof -
  obtain t k where t: "copy s h = (Some t, k)" "prefix h k" "rep k t v" "\<forall>a\<in>reach k t. length h \<le> a"
    using copies [OF assms] by blast
  have s: "rep k s v" "reach k s = reach h s" using keeps [OF assms t(2)] by auto
  have disj: "reach k s \<inter> reach k t = {}"
    using in_heap [OF assms] t(4) s(2) by fastforce
  have "rep g s v" if "agree (- reach k t) k g" for g
    using frame [OF s(1) agree_mono [OF that]] disj by blast
  moreover have "rep g t v" if "agree (- reach k s) k g" for g
    using frame [OF t(3) agree_mono [OF that]] disj by blast
  ultimately show ?thesis by (rule that [OF t(1-3) s(1) disj])
qed

end

subsection \<open>Values without references\<close>

definition rep_plain :: "'c list \<Rightarrow> 'a \<Rightarrow> 'a \<Rightarrow> bool" where
  "rep_plain h x v \<longleftrightarrow> x = v"

definition reach_plain :: "'c list \<Rightarrow> 'a \<Rightarrow> addr set" where
  "reach_plain h x = {}"

interpretation plain: deep_copy go_ret rep_plain reach_plain
  by unfold_locales (simp_all add: rep_plain_def reach_plain_def go_ret_def)

subsection \<open>Pairs and structs\<close>

definition copy_pair ::
  "('s \<Rightarrow> ('c list, 's) go) \<Rightarrow> ('t \<Rightarrow> ('c list, 't) go) \<Rightarrow> 's \<times> 't \<Rightarrow> ('c list, 's \<times> 't) go" where
  "copy_pair f g = (\<lambda>(x, y). go_bind (f x) (\<lambda>x'. go_bind (g y) (\<lambda>y'. go_ret (x', y'))))"

definition rep_pair :: "('h \<Rightarrow> 's \<Rightarrow> 'v \<Rightarrow> bool) \<Rightarrow> ('h \<Rightarrow> 't \<Rightarrow> 'w \<Rightarrow> bool) \<Rightarrow> 'h \<Rightarrow> 's \<times> 't \<Rightarrow> 'v \<times> 'w \<Rightarrow> bool" where
  "rep_pair p q h x v \<longleftrightarrow> p h (fst x) (fst v) \<and> q h (snd x) (snd v)"

definition reach_pair :: "('h \<Rightarrow> 's \<Rightarrow> addr set) \<Rightarrow> ('h \<Rightarrow> 't \<Rightarrow> addr set) \<Rightarrow> 'h \<Rightarrow> 's \<times> 't \<Rightarrow> addr set" where
  "reach_pair p q h x = p h (fst x) \<union> q h (snd x)"

lemma deep_copy_pair:
  assumes "deep_copy f p r" and "deep_copy g q u"
  shows "deep_copy (copy_pair f g) (rep_pair p q) (reach_pair r u)"
proof
  fix h k s v
  assume "rep_pair p q h s v" and "agree (reach_pair r u h s) h k"
  then show "rep_pair p q k s v \<and> reach_pair r u k s = reach_pair r u h s"
    using deep_copy.frame [OF assms(1)] deep_copy.frame [OF assms(2)]
    unfolding rep_pair_def reach_pair_def agree_union by metis
next
  fix h s v a
  assume "rep_pair p q h s v" and "a \<in> reach_pair r u h s"
  then show "a < length h"
    using deep_copy.in_heap [OF assms(1)] deep_copy.in_heap [OF assms(2)]
    by (auto simp: rep_pair_def reach_pair_def)
next
  fix h s v
  assume s: "rep_pair p q h s v"
  obtain x k where x: "f (fst s) h = (Some x, k)" "prefix h k" "p k x (fst v)" "\<forall>a\<in>r k x. length h \<le> a"
    using deep_copy.copies [OF assms(1)] s unfolding rep_pair_def by blast
  have "q k (snd s) (snd v)"
    using deep_copy.keeps(1) [OF assms(2) _ x(2)] s unfolding rep_pair_def by blast
  then obtain y l where y: "g (snd s) k = (Some y, l)" "prefix k l" "q l y (snd v)" "\<forall>a\<in>u l y. length k \<le> a"
    using deep_copy.copies [OF assms(2)] by blast
  have keep: "p l x (fst v)" "r l x = r k x"
    using deep_copy.keeps [OF assms(1) x(3) y(2)] by auto
  have run: "copy_pair f g s h = (Some (x, y), l)"
    using x(1) y(1) by (simp add: copy_pair_def go_bind_Some split_beta) (simp add: go_ret_def)
  have "prefix h l" using x(2) y(2) by (rule prefix_order.trans)
  moreover have "rep_pair p q l (x, y) v" using keep y(3) by (simp add: rep_pair_def)
  moreover have "\<forall>a\<in>reach_pair r u l (x, y). length h \<le> a"
    using x(4) y(4) keep(2) prefix_length_le [OF x(2)] by (auto simp: reach_pair_def)
  ultimately show "\<exists>t l. copy_pair f g s h = (Some t, l) \<and> prefix h l \<and> rep_pair p q l t v \<and>
      (\<forall>a\<in>reach_pair r u l t. length h \<le> a)"
    using run by blast
qed

text \<open>
  A struct with some fields that are references: \<open>get\<close> reads these fields, \<open>put\<close> writes them, and the
  rest of the struct is assigned.
\<close>

lemma deep_copy_struct:
  assumes "deep_copy f p r"
    and "\<And>s. copy s = go_bind (f (get s)) (\<lambda>x. go_ret (put s x))"
    and "\<And>s x. get (put s x) = x"
    and "\<And>h s v. rep h s v \<longleftrightarrow> same s v \<and> p h (get s) (val v)"
    and "\<And>s x v. same s v \<Longrightarrow> same (put s x) v"
    and "\<And>h s. reach h s = r h (get s)"
  shows "deep_copy copy rep reach"
proof
  fix h s v
  assume s: "rep h s v"
  then obtain x k where x: "f (get s) h = (Some x, k)" "prefix h k" "p k x (val v)" "\<forall>a\<in>r k x. length h \<le> a"
    using deep_copy.copies [OF assms(1)] unfolding assms(4) by blast
  then have "copy s h = (Some (put s x), k)"
    by (simp add: assms(2) go_bind_Some) (simp add: go_ret_def)
  then show "\<exists>t k. copy s h = (Some t, k) \<and> prefix h k \<and> rep k t v \<and> (\<forall>a\<in>reach k t. length h \<le> a)"
    using x s assms(5) by (intro exI [of _ "put s x"] exI [of _ k]) (simp add: assms(3,4,6))
next
  fix h s v k
  assume "rep h s v" "agree (reach h s) h k"
  then show "rep k s v \<and> reach k s = reach h s"
    using deep_copy.frame [OF assms(1)] unfolding assms(4,6) by blast
next
  fix h s v a
  assume "rep h s v" "a \<in> reach h s"
  then show "a < length h"
    using deep_copy.in_heap [OF assms(1)] unfolding assms(4,6) by blast
qed

subsection \<open>Pointers\<close>

definition copy_ptr ::
  "('s \<Rightarrow> 'c) \<Rightarrow> ('c \<Rightarrow> 's option) \<Rightarrow> ('s \<Rightarrow> ('c list, 's) go) \<Rightarrow> addr option \<Rightarrow> ('c list, addr option) go" where
  "copy_ptr mk dest copy p = (case p of
       None \<Rightarrow> go_ret None
     | Some a \<Rightarrow> go_bind (load dest a) (\<lambda>x. go_bind (copy x) (\<lambda>y.
         go_bind (new_cell (mk y)) (\<lambda>b. go_ret (Some b)))))"

definition rep_ptr ::
  "('c \<Rightarrow> 's option) \<Rightarrow> ('c list \<Rightarrow> 's \<Rightarrow> 'v \<Rightarrow> bool) \<Rightarrow> 'c list \<Rightarrow> addr option \<Rightarrow> 'v option \<Rightarrow> bool" where
  "rep_ptr dest rep h p v = (case p of
       None \<Rightarrow> v = None
     | Some a \<Rightarrow> (case (fetch dest h a, v) of (Some x, Some w) \<Rightarrow> rep h x w | _ \<Rightarrow> False))"

definition reach_ptr ::
  "('c \<Rightarrow> 's option) \<Rightarrow> ('c list \<Rightarrow> 's \<Rightarrow> addr set) \<Rightarrow> 'c list \<Rightarrow> addr option \<Rightarrow> addr set" where
  "reach_ptr dest reach h p = (case p of
       None \<Rightarrow> {}
     | Some a \<Rightarrow> insert a (case fetch dest h a of None \<Rightarrow> {} | Some x \<Rightarrow> reach h x))"

locale cell_copy = deep_copy copy rep reach
  for copy :: "'s \<Rightarrow> ('c list, 's) go" and rep :: "'c list \<Rightarrow> 's \<Rightarrow> 'v \<Rightarrow> bool" and reach +
  fixes mk :: "'s \<Rightarrow> 'c" and dest :: "'c \<Rightarrow> 's option"
  assumes dest_mk [simp]: "dest (mk x) = Some x"
begin

lemma rep_ptr_cases:
  assumes "rep_ptr dest rep h p v"
  obtains "p = None" "v = None"
  | a x w where "p = Some a" "v = Some w" "fetch dest h a = Some x" "rep h x w"
  using assms unfolding rep_ptr_def by (auto split: option.splits)

lemma ptr_frame:
  assumes "rep_ptr dest rep h p v" and "agree (reach_ptr dest reach h p) h k"
  shows "rep_ptr dest rep k p v \<and> reach_ptr dest reach k p = reach_ptr dest reach h p"
  using assms(1)
proof (cases rule: rep_ptr_cases)
  case (2 a x w)
  then have "agree (insert a (reach h x)) h k" using assms(2) by (simp add: reach_ptr_def)
  then have "agree {a} h k" "agree (reach h x) h k" by (auto elim: agree_mono)
  then have "fetch dest k a = Some x" "rep k x w \<and> reach k x = reach h x"
    using fetch_agree [OF 2(3)] frame [OF 2(4)] by auto
  then show ?thesis using 2 by (simp add: rep_ptr_def reach_ptr_def)
qed (simp_all add: rep_ptr_def reach_ptr_def)

lemma ptr_in_heap: "rep_ptr dest rep h p v \<Longrightarrow> a \<in> reach_ptr dest reach h p \<Longrightarrow> a < length h"
  by (erule rep_ptr_cases) (auto simp: reach_ptr_def fetch_bound in_heap)

lemma ptr_copies:
  assumes "rep_ptr dest rep h p v"
  shows "\<exists>t k. copy_ptr mk dest copy p h = (Some t, k) \<and> prefix h k \<and> rep_ptr dest rep k t v \<and>
    (\<forall>b\<in>reach_ptr dest reach k t. length h \<le> b)"
  using assms
proof (cases rule: rep_ptr_cases)
  case (2 a x w)
  obtain y k where y: "copy x h = (Some y, k)" "prefix h k" "rep k y w" "\<forall>b\<in>reach k y. length h \<le> b"
    using copies [OF 2(4)] by blast
  let ?k = "k @ [mk y]"
  have keep: "rep ?k y w" "reach ?k y = reach k y" using keeps [OF y(3), of ?k] by simp_all
  have "copy_ptr mk dest copy p h = (Some (Some (length k)), ?k)"
    using 2 y(1) by (simp add: copy_ptr_def go_bind_def load_def new_cell_def go_ret_def)
  moreover have "prefix h ?k" using y(2) by (simp add: prefix_prefix)
  moreover have "rep_ptr dest rep ?k (Some (length k)) v" using 2 keep by (simp add: rep_ptr_def)
  moreover have "\<forall>b\<in>reach_ptr dest reach ?k (Some (length k)). length h \<le> b"
    using y(4) keep prefix_length_le [OF y(2)] by (simp add: reach_ptr_def)
  ultimately show ?thesis by blast
qed (simp add: copy_ptr_def go_ret_def rep_ptr_def reach_ptr_def)

lemma deep_copy_ptr: "deep_copy (copy_ptr mk dest copy) (rep_ptr dest rep) (reach_ptr dest reach)"
  by (rule deep_copy.intro) (rule ptr_frame ptr_in_heap ptr_copies; assumption)+

end

sublocale cell_copy \<subseteq> pointer: deep_copy "copy_ptr mk dest copy" "rep_ptr dest rep" "reach_ptr dest reach"
  by (rule deep_copy_ptr)

subsection \<open>Maps\<close>

text \<open>
  The copy has the entries of the original, put in one by one in the order in which \<^verbatim>\<open>range\<close> visits them;
  \<open>order\<close> makes the choices. A nil map and an empty one read the same.
\<close>

definition copy_map ::
  "('c list \<Rightarrow> addr \<Rightarrow> nat \<Rightarrow> nat) \<Rightarrow> (smap \<Rightarrow> 'c) \<Rightarrow> ('c \<Rightarrow> smap option) \<Rightarrow>
     addr option \<Rightarrow> ('c list, addr option) go" where
  "copy_map order mk dest p = (\<lambda>h. (case p of
       None \<Rightarrow> go_ret None
     | Some a \<Rightarrow> go_bind (load dest a) (\<lambda>m.
         go_bind (new_cell (mk (put_all (go_range (order h a) m) []))) (\<lambda>b. go_ret (Some b)))) h)"

definition rep_map :: "('c \<Rightarrow> smap option) \<Rightarrow> 'c list \<Rightarrow> addr option \<Rightarrow> smap \<Rightarrow> bool" where
  "rep_map dest h p v = (case p of
       None \<Rightarrow> v = []
     | Some a \<Rightarrow> (case fetch dest h a of
         None \<Rightarrow> False
       | Some m \<Rightarrow> mset m = mset v \<and> distinct (map fst m)))"

definition reach_map :: "'c list \<Rightarrow> addr option \<Rightarrow> addr set" where
  "reach_map h p = (case p of None \<Rightarrow> {} | Some a \<Rightarrow> {a})"

lemma mset_copied_map:
  "distinct (map fst m) \<Longrightarrow> mset (put_all (go_range c m) []) = mset m"
  by (simp add: put_all_append distinct_map_go_range)

locale map_cell =
  fixes order :: "'c list \<Rightarrow> addr \<Rightarrow> nat \<Rightarrow> nat" and mk :: "smap \<Rightarrow> 'c" and dest :: "'c \<Rightarrow> smap option"
  assumes dest_mk [simp]: "dest (mk m) = Some m"
begin

lemma rep_map_cases:
  assumes "rep_map dest h p v"
  obtains "p = None" "v = []"
  | a m where "p = Some a" "fetch dest h a = Some m" "mset m = mset v" "distinct (map fst m)"
  using assms unfolding rep_map_def by (auto split: option.splits)

lemma map_copies:
  assumes "rep_map dest h p v"
  shows "\<exists>t k. copy_map order mk dest p h = (Some t, k) \<and> prefix h k \<and> rep_map dest k t v \<and>
    (\<forall>b\<in>reach_map k t. length h \<le> b)"
  using assms
proof (cases rule: rep_map_cases)
  case (2 a m)
  let ?m = "put_all (go_range (order h a) m) []"
  have "copy_map order mk dest p h = (Some (Some (length h)), h @ [mk ?m])"
    using 2 by (simp add: copy_map_def go_bind_def load_def new_cell_def go_ret_def)
  moreover have "rep_map dest (h @ [mk ?m]) (Some (length h)) v"
    using 2 by (simp add: rep_map_def mset_copied_map)
  ultimately show ?thesis by (auto simp: reach_map_def)
qed (simp add: copy_map_def go_ret_def rep_map_def reach_map_def)

end

sublocale map_cell \<subseteq> map_copy: deep_copy "copy_map order mk dest" "rep_map dest" reach_map
proof
  fix h p v k
  assume "rep_map dest h p v" "agree (reach_map h p) h k"
  then show "rep_map dest k p v \<and> reach_map k p = reach_map h p"
    by (elim rep_map_cases) (auto simp: rep_map_def reach_map_def dest: fetch_agree)
next
  fix h p v a
  assume "rep_map dest h p v" "a \<in> reach_map h p"
  then show "a < length h"
    by (elim rep_map_cases) (auto simp: reach_map_def fetch_bound)
qed (rule map_copies)

subsection \<open>Slices\<close>

text \<open>
  A slice is a window of an array. The loop over the elements of a slice copies them one after the other,
  into a new array that is as long as the window.
\<close>

record slice =
  sl_array :: addr
  sl_start :: nat
  sl_len :: nat

definition window :: "slice \<Rightarrow> 'a list \<Rightarrow> 'a list" where
  "window sl xs = take (sl_len sl) (drop (sl_start sl) xs)"

fun copy_list :: "('s \<Rightarrow> ('c list, 's) go) \<Rightarrow> 's list \<Rightarrow> ('c list, 's list) go" where
  "copy_list copy [] = go_ret []"
| "copy_list copy (x # xs) = go_bind (copy x) (\<lambda>y. go_bind (copy_list copy xs) (\<lambda>ys. go_ret (y # ys)))"

definition copy_slice ::
  "('s list \<Rightarrow> 'c) \<Rightarrow> ('c \<Rightarrow> 's list option) \<Rightarrow> ('s \<Rightarrow> ('c list, 's) go) \<Rightarrow>
     slice option \<Rightarrow> ('c list, slice option) go" where
  "copy_slice mk dest copy p = (case p of
       None \<Rightarrow> go_ret None
     | Some sl \<Rightarrow> go_bind (load dest (sl_array sl)) (\<lambda>xs.
         if sl_start sl + sl_len sl \<le> length xs
         then go_bind (copy_list copy (window sl xs)) (\<lambda>ys. go_bind (new_cell (mk ys)) (\<lambda>b.
           go_ret (Some \<lparr>sl_array = b, sl_start = 0, sl_len = length ys\<rparr>)))
         else go_lift None))"

definition reach_list :: "('c list \<Rightarrow> 's \<Rightarrow> addr set) \<Rightarrow> 'c list \<Rightarrow> 's list \<Rightarrow> addr set" where
  "reach_list reach h xs = (\<Union>x\<in>set xs. reach h x)"

definition rep_slice ::
  "('c \<Rightarrow> 's list option) \<Rightarrow> ('c list \<Rightarrow> 's \<Rightarrow> 'v \<Rightarrow> bool) \<Rightarrow> 'c list \<Rightarrow> slice option \<Rightarrow> 'v list \<Rightarrow> bool" where
  "rep_slice dest rep h p vs = (case p of
       None \<Rightarrow> vs = []
     | Some sl \<Rightarrow> (case fetch dest h (sl_array sl) of
         None \<Rightarrow> False
       | Some xs \<Rightarrow> sl_start sl + sl_len sl \<le> length xs \<and> list_all2 (rep h) (window sl xs) vs))"

definition reach_slice ::
  "('c \<Rightarrow> 's list option) \<Rightarrow> ('c list \<Rightarrow> 's \<Rightarrow> addr set) \<Rightarrow> 'c list \<Rightarrow> slice option \<Rightarrow> addr set" where
  "reach_slice dest reach h p = (case p of
       None \<Rightarrow> {}
     | Some sl \<Rightarrow> insert (sl_array sl) (case fetch dest h (sl_array sl) of
         None \<Rightarrow> {}
       | Some xs \<Rightarrow> reach_list reach h (window sl xs)))"

lemma reach_list_Cons [simp]: "reach_list reach h (x # xs) = reach h x \<union> reach_list reach h xs"
  and reach_list_Nil [simp]: "reach_list reach h [] = {}"
  by (simp_all add: reach_list_def)

lemma deep_copy_list:
  assumes "deep_copy copy rep reach"
  shows "deep_copy (copy_list copy) (\<lambda>h. list_all2 (rep h)) (reach_list reach)"
proof
  fix h k xs vs
  assume "list_all2 (rep h) xs vs" "agree (reach_list reach h xs) h k"
  then show "list_all2 (rep k) xs vs \<and> reach_list reach k xs = reach_list reach h xs"
  proof (induction rule: list_all2_induct)
    case (Cons x xs v vs)
    then have "rep k x v \<and> reach k x = reach h x"
      by (intro deep_copy.frame [OF assms]) simp_all
    with Cons show ?case by simp
  qed simp
next
  fix h xs vs a
  assume "list_all2 (rep h) xs vs" "a \<in> reach_list reach h xs"
  then show "a < length h"
    by (induction rule: list_all2_induct) (auto intro: deep_copy.in_heap [OF assms])
next
  fix h xs vs
  assume "list_all2 (rep h) xs vs"
  then show "\<exists>ys k. copy_list copy xs h = (Some ys, k) \<and> prefix h k \<and> list_all2 (rep k) ys vs \<and>
      (\<forall>a\<in>reach_list reach k ys. length h \<le> a)"
  proof (induction xs arbitrary: h vs)
    case Nil
    then show ?case by (simp add: go_ret_def)
  next
    case (Cons x xs)
    then obtain v ws where v: "vs = v # ws" "rep h x v" "list_all2 (rep h) xs ws"
      by (auto simp: list_all2_Cons1)
    obtain y k where y: "copy x h = (Some y, k)" "prefix h k" "rep k y v" "\<forall>a\<in>reach k y. length h \<le> a"
      using deep_copy.copies [OF assms v(2)] by blast
    have "list_all2 (rep k) xs ws"
      using v(3) by (rule list_all2_mono) (rule deep_copy.keeps(1) [OF assms _ y(2)])
    then obtain ys l where ys: "copy_list copy xs k = (Some ys, l)" "prefix k l" "list_all2 (rep l) ys ws"
        "\<forall>a\<in>reach_list reach l ys. length k \<le> a"
      using Cons.IH by blast
    have "copy_list copy (x # xs) h = (Some (y # ys), l)"
      using y(1) ys(1) by (simp add: go_bind_Some) (simp add: go_ret_def)
    moreover have "prefix h l" using y(2) ys(2) by (rule prefix_order.trans)
    moreover have "list_all2 (rep l) (y # ys) vs"
      using v(1) ys(3) deep_copy.keeps(1) [OF assms y(3) ys(2)] by simp
    moreover have "\<forall>a\<in>reach_list reach l (y # ys). length h \<le> a"
      using y(4) ys(4) deep_copy.keeps(2) [OF assms y(3) ys(2)] prefix_length_le [OF y(2)] by auto
    ultimately show ?case by blast
  qed
qed

locale array_copy = deep_copy copy rep reach
  for copy :: "'s \<Rightarrow> ('c list, 's) go" and rep :: "'c list \<Rightarrow> 's \<Rightarrow> 'v \<Rightarrow> bool" and reach +
  fixes mk :: "'s list \<Rightarrow> 'c" and dest :: "'c \<Rightarrow> 's list option"
  assumes dest_mk [simp]: "dest (mk xs) = Some xs"
begin

lemmas elements = deep_copy_list [OF deep_copy_axioms]

lemma rep_slice_cases:
  assumes "rep_slice dest rep h p vs"
  obtains "p = None" "vs = []"
  | sl xs where "p = Some sl" "fetch dest h (sl_array sl) = Some xs"
      "sl_start sl + sl_len sl \<le> length xs" "list_all2 (rep h) (window sl xs) vs"
  using assms unfolding rep_slice_def by (auto split: option.splits)

lemma slice_frame:
  assumes "rep_slice dest rep h p vs" and "agree (reach_slice dest reach h p) h k"
  shows "rep_slice dest rep k p vs \<and> reach_slice dest reach k p = reach_slice dest reach h p"
  using assms(1)
proof (cases rule: rep_slice_cases)
  case (2 sl xs)
  then have "agree (insert (sl_array sl) (reach_list reach h (window sl xs))) h k"
    using assms(2) by (simp add: reach_slice_def)
  then have "agree {sl_array sl} h k" "agree (reach_list reach h (window sl xs)) h k"
    by (auto elim: agree_mono)
  then have "fetch dest k (sl_array sl) = Some xs"
    "list_all2 (rep k) (window sl xs) vs \<and> reach_list reach k (window sl xs) = reach_list reach h (window sl xs)"
    using fetch_agree [OF 2(2)] deep_copy.frame [OF elements 2(4)] by auto
  then show ?thesis using 2 by (simp add: rep_slice_def reach_slice_def)
qed (simp_all add: rep_slice_def reach_slice_def)

lemma slice_in_heap: "rep_slice dest rep h p vs \<Longrightarrow> a \<in> reach_slice dest reach h p \<Longrightarrow> a < length h"
  by (erule rep_slice_cases)
    (auto simp: reach_slice_def fetch_bound intro: deep_copy.in_heap [OF elements])

lemma slice_copies:
  assumes "rep_slice dest rep h p vs"
  shows "\<exists>t k. copy_slice mk dest copy p h = (Some t, k) \<and> prefix h k \<and> rep_slice dest rep k t vs \<and>
    (\<forall>b\<in>reach_slice dest reach k t. length h \<le> b)"
  using assms
proof (cases rule: rep_slice_cases)
  case (2 sl xs)
  obtain ys k where ys: "copy_list copy (window sl xs) h = (Some ys, k)" "prefix h k"
      "list_all2 (rep k) ys vs" "\<forall>b\<in>reach_list reach k ys. length h \<le> b"
    using deep_copy.copies [OF elements 2(4)] by blast
  let ?k = "k @ [mk ys]" and ?t = "\<lparr>sl_array = length k, sl_start = 0, sl_len = length ys\<rparr>"
  have keep: "list_all2 (rep ?k) ys vs" "reach_list reach ?k ys = reach_list reach k ys"
    using deep_copy.keeps [OF elements ys(3), of ?k] by simp_all
  have "copy_slice mk dest copy p h = (Some (Some ?t), ?k)"
    using 2 ys(1) by (simp add: copy_slice_def go_bind_def load_def new_cell_def go_ret_def)
  moreover have "prefix h ?k" using ys(2) by (simp add: prefix_prefix)
  moreover have "rep_slice dest rep ?k (Some ?t) vs" using keep by (simp add: rep_slice_def window_def)
  moreover have "\<forall>b\<in>reach_slice dest reach ?k (Some ?t). length h \<le> b"
    using ys(4) keep prefix_length_le [OF ys(2)] by (simp add: reach_slice_def window_def)
  ultimately show ?thesis by blast
qed (simp add: copy_slice_def go_ret_def rep_slice_def reach_slice_def)

lemma deep_copy_slice: "deep_copy (copy_slice mk dest copy) (rep_slice dest rep) (reach_slice dest reach)"
  by (rule deep_copy.intro) (rule slice_frame slice_in_heap slice_copies; assumption)+

end

sublocale array_copy \<subseteq> slice: deep_copy "copy_slice mk dest copy" "rep_slice dest rep" "reach_slice dest reach"
  by (rule deep_copy_slice)

end
