(* ===== verification/Deep_Copy.thy ===== *)
theory Deep_Copy
  imports Go_Heap Example_Cluster
begin

text \<open>
  The generated copying functions of \<^verbatim>\<open>zz_generated.deepcopy.go\<close>, on structs whose pointers, maps and slices
  are references into a heap. Elsewhere in the development a resource is a value, which nothing can change
  behind the back of its holder; this theory shows that a copy made by these functions is as good as such
  a value. \<open>rep_Presto\<close> says which \<^typ>\<open>Presto\<close> a struct in memory is.

  The structs of other packages that a resource contains are values of a type \<open>'x\<close>, and their
  \<^verbatim>\<open>DeepCopyInto\<close> functions are parameters.
\<close>

subsection \<open>The structs in memory\<close>

record mem_CoordinatorSpec =
  mco_MemoryLimit :: string
  mco_AdditionalJVMConfig :: string
  mco_AdditionalProps :: "addr option"
  mco_CpuLimit :: string
  mco_CpuRequest :: string
  mco_HttpsEnabled :: bool
  mco_HttpsKeyPairSecretName :: string
  mco_HttpsKeyPairSecretKey :: string
  mco_HttpsKeyPairPassword :: string

record mem_AutoscalingSpec =
  mas_Enabled :: "addr option"
  mas_MinReplicas :: "addr option"
  mas_MaxReplicas :: "addr option"
  mas_TargetCPUUtilizationPercentage :: "addr option"

record mem_WorkerSpec =
  mwo_MemoryLimit :: string
  mwo_AdditionalJVMConfig :: string
  mwo_AdditionalProps :: "addr option"
  mwo_CpuLimit :: string
  mwo_CpuRequest :: string
  mwo_TerminationGracePeriodSeconds :: "addr option"
  mwo_Count :: "addr option"
  mwo_Autoscaling :: mem_AutoscalingSpec

record mem_CatalogSpec =
  mcs_Name :: string
  mcs_Content :: "addr option"

record mem_CatalogList =
  mcl_CatalogSecrets :: "slice option"
  mcl_CatalogSpec :: "slice option"

record mem_ServiceSpec =
  mse_NodePort :: "addr option"
  mse_Port :: "addr option"
  mse_ClusterIP :: string
  mse_Type :: string
  mse_ExternalIPs :: "slice option"
  mse_SessionAffinity :: string
  mse_LoadBalancerIP :: string
  mse_LoadBalancerSourceRanges :: "slice option"
  mse_ExternalName :: string
  mse_ExternalTrafficPolicy :: string
  mse_HealthCheckNodePort :: int32
  mse_PublishNotReadyAddresses :: bool
  mse_SessionAffinityConfig :: "addr option"
  mse_IPFamily :: "addr option"

record 'x mem_PrestoVolumeSpec =
  mpv_Name :: string
  mpv_VolumeSource :: 'x
  mpv_ReadOnly :: bool
  mpv_MountPath :: string
  mpv_SubPath :: string
  mpv_MountPropagation :: "addr option"
  mpv_SubPathExpr :: string

text \<open>\<^verbatim>\<open>HMSSpec\<close> has no fields.\<close>

type_synonym HMSSpec = unit

record mem_PrestoSpec =
  msp_Coordinator :: mem_CoordinatorSpec
  msp_Worker :: mem_WorkerSpec
  msp_Catalogs :: mem_CatalogList
  msp_Service :: mem_ServiceSpec
  msp_InternalHiveMetaStore :: HMSSpec
  msp_ImageDetails :: ImageSpec
  msp_AdditionalPrestoPropFiles :: "addr option"
  msp_Volumes :: "slice option"

record 'x mem_Presto =
  mpr_APIVersion :: string
  mpr_Kind :: string
  mpr_meta :: 'x
  mpr_Spec :: mem_PrestoSpec
  mpr_Status :: PrestoStatus

record 'x mem_PrestoList =
  mpl_APIVersion :: string
  mpl_Kind :: string
  mpl_meta :: 'x
  mpl_Items :: "slice option"

text \<open>A list of resources as a value; its metadata is opaque.\<close>

record PrestoList =
  pl_APIVersion :: string
  pl_Kind :: string
  pl_meta :: string
  pl_Items :: "Presto list"

text \<open>What an address can hold: one constructor for each type that is allocated.\<close>

datatype 'x cell =
    BoolCell bool
  | Int32Cell int32
  | Int64Cell int64
  | StringCell string
  | MapCell smap
  | StringArray "string list"
  | CatalogSecretArray "CatalogSecret list"
  | CatalogSpecArray "mem_CatalogSpec list"
  | VolumeArray "'x mem_PrestoVolumeSpec list"
  | PrestoArray "'x mem_Presto list"
  | AffinityCell 'x
  | AutoscalingSpecCell mem_AutoscalingSpec
  | CatalogListCell mem_CatalogList
  | CatalogSecretCell CatalogSecret
  | CatalogSpecCell mem_CatalogSpec
  | CoordinatorSpecCell mem_CoordinatorSpec
  | HMSSpecCell HMSSpec
  | ImageSpecCell ImageSpec
  | PrestoCell "'x mem_Presto"
  | PrestoListCell "'x mem_PrestoList"
  | PrestoSpecCell mem_PrestoSpec
  | PrestoStatusCell PrestoStatus
  | PrestoVolumeSpecCell "'x mem_PrestoVolumeSpec"
  | ServiceSpecCell mem_ServiceSpec
  | WorkerSpecCell mem_WorkerSpec

text \<open>Go memory is typed: reading an address at another type than it was written with does not happen.\<close>

definition as_bool :: "'x cell \<Rightarrow> bool option" where "as_bool c = (case c of BoolCell b \<Rightarrow> Some b | _ \<Rightarrow> None)"
definition as_int32 :: "'x cell \<Rightarrow> int32 option" where "as_int32 c = (case c of Int32Cell i \<Rightarrow> Some i | _ \<Rightarrow> None)"
definition as_int64 :: "'x cell \<Rightarrow> int64 option" where "as_int64 c = (case c of Int64Cell i \<Rightarrow> Some i | _ \<Rightarrow> None)"
definition as_string :: "'x cell \<Rightarrow> string option" where "as_string c = (case c of StringCell s \<Rightarrow> Some s | _ \<Rightarrow> None)"
definition as_map :: "'x cell \<Rightarrow> smap option" where "as_map c = (case c of MapCell m \<Rightarrow> Some m | _ \<Rightarrow> None)"
definition as_strings :: "'x cell \<Rightarrow> string list option" where
  "as_strings c = (case c of StringArray xs \<Rightarrow> Some xs | _ \<Rightarrow> None)"
definition as_secrets :: "'x cell \<Rightarrow> CatalogSecret list option" where
  "as_secrets c = (case c of CatalogSecretArray xs \<Rightarrow> Some xs | _ \<Rightarrow> None)"
definition as_catalogs :: "'x cell \<Rightarrow> mem_CatalogSpec list option" where
  "as_catalogs c = (case c of CatalogSpecArray xs \<Rightarrow> Some xs | _ \<Rightarrow> None)"
definition as_volumes :: "'x cell \<Rightarrow> 'x mem_PrestoVolumeSpec list option" where
  "as_volumes c = (case c of VolumeArray xs \<Rightarrow> Some xs | _ \<Rightarrow> None)"
definition as_prestos :: "'x cell \<Rightarrow> 'x mem_Presto list option" where
  "as_prestos c = (case c of PrestoArray xs \<Rightarrow> Some xs | _ \<Rightarrow> None)"
definition as_affinity :: "'x cell \<Rightarrow> 'x option" where
  "as_affinity c = (case c of AffinityCell x \<Rightarrow> Some x | _ \<Rightarrow> None)"
definition as_AutoscalingSpec :: "'x cell \<Rightarrow> mem_AutoscalingSpec option" where
  "as_AutoscalingSpec c = (case c of AutoscalingSpecCell s \<Rightarrow> Some s | _ \<Rightarrow> None)"
definition as_CatalogList :: "'x cell \<Rightarrow> mem_CatalogList option" where
  "as_CatalogList c = (case c of CatalogListCell s \<Rightarrow> Some s | _ \<Rightarrow> None)"
definition as_CatalogSecret :: "'x cell \<Rightarrow> CatalogSecret option" where
  "as_CatalogSecret c = (case c of CatalogSecretCell s \<Rightarrow> Some s | _ \<Rightarrow> None)"
definition as_CatalogSpec :: "'x cell \<Rightarrow> mem_CatalogSpec option" where
  "as_CatalogSpec c = (case c of CatalogSpecCell s \<Rightarrow> Some s | _ \<Rightarrow> None)"
definition as_CoordinatorSpec :: "'x cell \<Rightarrow> mem_CoordinatorSpec option" where
  "as_CoordinatorSpec c = (case c of CoordinatorSpecCell s \<Rightarrow> Some s | _ \<Rightarrow> None)"
definition as_HMSSpec :: "'x cell \<Rightarrow> HMSSpec option" where
  "as_HMSSpec c = (case c of HMSSpecCell s \<Rightarrow> Some s | _ \<Rightarrow> None)"
definition as_ImageSpec :: "'x cell \<Rightarrow> ImageSpec option" where
  "as_ImageSpec c = (case c of ImageSpecCell s \<Rightarrow> Some s | _ \<Rightarrow> None)"
definition as_Presto :: "'x cell \<Rightarrow> 'x mem_Presto option" where
  "as_Presto c = (case c of PrestoCell s \<Rightarrow> Some s | _ \<Rightarrow> None)"
definition as_PrestoList :: "'x cell \<Rightarrow> 'x mem_PrestoList option" where
  "as_PrestoList c = (case c of PrestoListCell s \<Rightarrow> Some s | _ \<Rightarrow> None)"
definition as_PrestoSpec :: "'x cell \<Rightarrow> mem_PrestoSpec option" where
  "as_PrestoSpec c = (case c of PrestoSpecCell s \<Rightarrow> Some s | _ \<Rightarrow> None)"
definition as_PrestoStatus :: "'x cell \<Rightarrow> PrestoStatus option" where
  "as_PrestoStatus c = (case c of PrestoStatusCell s \<Rightarrow> Some s | _ \<Rightarrow> None)"
definition as_PrestoVolumeSpec :: "'x cell \<Rightarrow> 'x mem_PrestoVolumeSpec option" where
  "as_PrestoVolumeSpec c = (case c of PrestoVolumeSpecCell s \<Rightarrow> Some s | _ \<Rightarrow> None)"
definition as_ServiceSpec :: "'x cell \<Rightarrow> mem_ServiceSpec option" where
  "as_ServiceSpec c = (case c of ServiceSpecCell s \<Rightarrow> Some s | _ \<Rightarrow> None)"
definition as_WorkerSpec :: "'x cell \<Rightarrow> mem_WorkerSpec option" where
  "as_WorkerSpec c = (case c of WorkerSpecCell s \<Rightarrow> Some s | _ \<Rightarrow> None)"

lemmas as_defs = as_bool_def as_int32_def as_int64_def as_string_def as_map_def as_strings_def
  as_secrets_def as_catalogs_def as_volumes_def as_prestos_def as_affinity_def as_AutoscalingSpec_def
  as_CatalogList_def as_CatalogSecret_def as_CatalogSpec_def as_CoordinatorSpec_def as_HMSSpec_def
  as_ImageSpec_def as_Presto_def as_PrestoList_def as_PrestoSpec_def as_PrestoStatus_def
  as_PrestoVolumeSpec_def as_ServiceSpec_def as_WorkerSpec_def

subsection \<open>What is outside\<close>

text \<open>
  The copying functions of the library structs, and the order in which a loop visits a map, which may
  depend on everything.
\<close>

record 'x copiers =
  x_ObjectMeta :: "'x \<Rightarrow> ('x cell list, 'x) go"
  x_ListMeta :: "'x \<Rightarrow> ('x cell list, 'x) go"
  x_VolumeSource :: "'x \<Rightarrow> ('x cell list, 'x) go"
  x_SessionAffinityConfig :: "'x \<Rightarrow> ('x cell list, 'x) go"
  x_Time :: "int \<Rightarrow> ('x cell list, int) go"
  x_Range :: "'x cell list \<Rightarrow> addr \<Rightarrow> nat \<Rightarrow> nat"

abbreviation copy_bool :: "addr option \<Rightarrow> ('x cell list, addr option) go" where
  "copy_bool \<equiv> copy_ptr BoolCell as_bool go_ret"
abbreviation copy_int32 :: "addr option \<Rightarrow> ('x cell list, addr option) go" where
  "copy_int32 \<equiv> copy_ptr Int32Cell as_int32 go_ret"
abbreviation copy_int64 :: "addr option \<Rightarrow> ('x cell list, addr option) go" where
  "copy_int64 \<equiv> copy_ptr Int64Cell as_int64 go_ret"
abbreviation copy_string :: "addr option \<Rightarrow> ('x cell list, addr option) go" where
  "copy_string \<equiv> copy_ptr StringCell as_string go_ret"
abbreviation copy_strings :: "slice option \<Rightarrow> ('x cell list, slice option) go" where
  "copy_strings \<equiv> copy_slice StringArray as_strings go_ret"
abbreviation copy_smap :: "'x copiers \<Rightarrow> addr option \<Rightarrow> ('x cell list, addr option) go" where
  "copy_smap X \<equiv> copy_map (x_Range X) MapCell as_map"

subsection \<open>The copying functions\<close>

definition AutoscalingSpec_DeepCopyInto :: "mem_AutoscalingSpec \<Rightarrow> ('x cell list, mem_AutoscalingSpec) go" where
  "AutoscalingSpec_DeepCopyInto s =
     go_bind (copy_bool (mas_Enabled s)) (\<lambda>en.
     go_bind (copy_int32 (mas_MinReplicas s)) (\<lambda>mn.
     go_bind (copy_int32 (mas_MaxReplicas s)) (\<lambda>mx.
     go_bind (copy_int32 (mas_TargetCPUUtilizationPercentage s)) (\<lambda>cpu.
     go_ret (s\<lparr>mas_Enabled := en, mas_MinReplicas := mn, mas_MaxReplicas := mx,
       mas_TargetCPUUtilizationPercentage := cpu\<rparr>)))))"

definition CatalogSecret_DeepCopyInto :: "CatalogSecret \<Rightarrow> ('x cell list, CatalogSecret) go" where
  "CatalogSecret_DeepCopyInto s = go_ret s"

definition CatalogSpec_DeepCopyInto :: "'x copiers \<Rightarrow> mem_CatalogSpec \<Rightarrow> ('x cell list, mem_CatalogSpec) go" where
  "CatalogSpec_DeepCopyInto X s =
     go_bind (copy_smap X (mcs_Content s)) (\<lambda>m. go_ret (s\<lparr>mcs_Content := m\<rparr>))"

definition CatalogList_DeepCopyInto :: "'x copiers \<Rightarrow> mem_CatalogList \<Rightarrow> ('x cell list, mem_CatalogList) go" where
  "CatalogList_DeepCopyInto X s =
     go_bind (copy_slice CatalogSecretArray as_secrets go_ret (mcl_CatalogSecrets s)) (\<lambda>ss.
     go_bind (copy_slice CatalogSpecArray as_catalogs (CatalogSpec_DeepCopyInto X) (mcl_CatalogSpec s)) (\<lambda>cs.
     go_ret (s\<lparr>mcl_CatalogSecrets := ss, mcl_CatalogSpec := cs\<rparr>)))"

definition CoordinatorSpec_DeepCopyInto ::
  "'x copiers \<Rightarrow> mem_CoordinatorSpec \<Rightarrow> ('x cell list, mem_CoordinatorSpec) go" where
  "CoordinatorSpec_DeepCopyInto X s =
     go_bind (copy_smap X (mco_AdditionalProps s)) (\<lambda>m. go_ret (s\<lparr>mco_AdditionalProps := m\<rparr>))"

definition HMSSpec_DeepCopyInto :: "HMSSpec \<Rightarrow> ('x cell list, HMSSpec) go" where
  "HMSSpec_DeepCopyInto s = go_ret s"

definition ImageSpec_DeepCopyInto :: "ImageSpec \<Rightarrow> ('x cell list, ImageSpec) go" where
  "ImageSpec_DeepCopyInto s = go_ret s"

definition WorkerSpec_DeepCopyInto :: "'x copiers \<Rightarrow> mem_WorkerSpec \<Rightarrow> ('x cell list, mem_WorkerSpec) go" where
  "WorkerSpec_DeepCopyInto X s =
     go_bind (copy_smap X (mwo_AdditionalProps s)) (\<lambda>m.
     go_bind (copy_int64 (mwo_TerminationGracePeriodSeconds s)) (\<lambda>g.
     go_bind (copy_int32 (mwo_Count s)) (\<lambda>n.
     go_bind (AutoscalingSpec_DeepCopyInto (mwo_Autoscaling s)) (\<lambda>a.
     go_ret (s\<lparr>mwo_AdditionalProps := m, mwo_TerminationGracePeriodSeconds := g, mwo_Count := n,
       mwo_Autoscaling := a\<rparr>)))))"

definition ServiceSpec_DeepCopyInto :: "'x copiers \<Rightarrow> mem_ServiceSpec \<Rightarrow> ('x cell list, mem_ServiceSpec) go" where
  "ServiceSpec_DeepCopyInto X s =
     go_bind (copy_int32 (mse_NodePort s)) (\<lambda>np.
     go_bind (copy_int32 (mse_Port s)) (\<lambda>p.
     go_bind (copy_strings (mse_ExternalIPs s)) (\<lambda>ips.
     go_bind (copy_strings (mse_LoadBalancerSourceRanges s)) (\<lambda>rs.
     go_bind (copy_ptr AffinityCell as_affinity (x_SessionAffinityConfig X) (mse_SessionAffinityConfig s)) (\<lambda>sa.
     go_bind (copy_string (mse_IPFamily s)) (\<lambda>f.
     go_ret (s\<lparr>mse_NodePort := np, mse_Port := p, mse_ExternalIPs := ips,
       mse_LoadBalancerSourceRanges := rs, mse_SessionAffinityConfig := sa, mse_IPFamily := f\<rparr>)))))))"

definition PrestoVolumeSpec_DeepCopyInto ::
  "'x copiers \<Rightarrow> 'x mem_PrestoVolumeSpec \<Rightarrow> ('x cell list, 'x mem_PrestoVolumeSpec) go" where
  "PrestoVolumeSpec_DeepCopyInto X s =
     go_bind (x_VolumeSource X (mpv_VolumeSource s)) (\<lambda>v.
     go_bind (copy_string (mpv_MountPropagation s)) (\<lambda>m.
     go_ret (s\<lparr>mpv_VolumeSource := v, mpv_MountPropagation := m\<rparr>)))"

definition PrestoSpec_DeepCopyInto :: "'x copiers \<Rightarrow> mem_PrestoSpec \<Rightarrow> ('x cell list, mem_PrestoSpec) go" where
  "PrestoSpec_DeepCopyInto X s =
     go_bind (CoordinatorSpec_DeepCopyInto X (msp_Coordinator s)) (\<lambda>c.
     go_bind (WorkerSpec_DeepCopyInto X (msp_Worker s)) (\<lambda>w.
     go_bind (CatalogList_DeepCopyInto X (msp_Catalogs s)) (\<lambda>cl.
     go_bind (ServiceSpec_DeepCopyInto X (msp_Service s)) (\<lambda>se.
     go_bind (copy_smap X (msp_AdditionalPrestoPropFiles s)) (\<lambda>m.
     go_bind (copy_slice VolumeArray as_volumes (PrestoVolumeSpec_DeepCopyInto X) (msp_Volumes s)) (\<lambda>vs.
     go_ret (s\<lparr>msp_Coordinator := c, msp_Worker := w, msp_Catalogs := cl, msp_Service := se,
       msp_InternalHiveMetaStore := msp_InternalHiveMetaStore s, msp_ImageDetails := msp_ImageDetails s,
       msp_AdditionalPrestoPropFiles := m, msp_Volumes := vs\<rparr>)))))))"

definition PrestoStatus_DeepCopyInto :: "'x copiers \<Rightarrow> PrestoStatus \<Rightarrow> ('x cell list, PrestoStatus) go" where
  "PrestoStatus_DeepCopyInto X s =
     go_bind (x_Time X (st_ModificationTime s)) (\<lambda>t. go_ret (s\<lparr>st_ModificationTime := t\<rparr>))"

definition Presto_DeepCopyInto :: "'x copiers \<Rightarrow> 'x mem_Presto \<Rightarrow> ('x cell list, 'x mem_Presto) go" where
  "Presto_DeepCopyInto X s =
     go_bind (x_ObjectMeta X (mpr_meta s)) (\<lambda>m.
     go_bind (PrestoSpec_DeepCopyInto X (mpr_Spec s)) (\<lambda>sp.
     go_bind (PrestoStatus_DeepCopyInto X (mpr_Status s)) (\<lambda>st.
     go_ret (s\<lparr>mpr_APIVersion := mpr_APIVersion s, mpr_Kind := mpr_Kind s, mpr_meta := m,
       mpr_Spec := sp, mpr_Status := st\<rparr>))))"

definition PrestoList_DeepCopyInto :: "'x copiers \<Rightarrow> 'x mem_PrestoList \<Rightarrow> ('x cell list, 'x mem_PrestoList) go" where
  "PrestoList_DeepCopyInto X s =
     go_bind (x_ListMeta X (mpl_meta s)) (\<lambda>m.
     go_bind (copy_slice PrestoArray as_prestos (Presto_DeepCopyInto X) (mpl_Items s)) (\<lambda>xs.
     go_ret (s\<lparr>mpl_APIVersion := mpl_APIVersion s, mpl_Kind := mpl_Kind s, mpl_meta := m, mpl_Items := xs\<rparr>)))"

text \<open>The functions on pointers: nil gives nil, otherwise a new struct is filled in.\<close>

definition AutoscalingSpec_DeepCopy :: "addr option \<Rightarrow> ('x cell list, addr option) go" where
  "AutoscalingSpec_DeepCopy = copy_ptr AutoscalingSpecCell as_AutoscalingSpec AutoscalingSpec_DeepCopyInto"
definition CatalogList_DeepCopy :: "'x copiers \<Rightarrow> addr option \<Rightarrow> ('x cell list, addr option) go" where
  "CatalogList_DeepCopy X = copy_ptr CatalogListCell as_CatalogList (CatalogList_DeepCopyInto X)"
definition CatalogSecret_DeepCopy :: "addr option \<Rightarrow> ('x cell list, addr option) go" where
  "CatalogSecret_DeepCopy = copy_ptr CatalogSecretCell as_CatalogSecret CatalogSecret_DeepCopyInto"
definition CatalogSpec_DeepCopy :: "'x copiers \<Rightarrow> addr option \<Rightarrow> ('x cell list, addr option) go" where
  "CatalogSpec_DeepCopy X = copy_ptr CatalogSpecCell as_CatalogSpec (CatalogSpec_DeepCopyInto X)"
definition CoordinatorSpec_DeepCopy :: "'x copiers \<Rightarrow> addr option \<Rightarrow> ('x cell list, addr option) go" where
  "CoordinatorSpec_DeepCopy X = copy_ptr CoordinatorSpecCell as_CoordinatorSpec (CoordinatorSpec_DeepCopyInto X)"
definition HMSSpec_DeepCopy :: "addr option \<Rightarrow> ('x cell list, addr option) go" where
  "HMSSpec_DeepCopy = copy_ptr HMSSpecCell as_HMSSpec HMSSpec_DeepCopyInto"
definition ImageSpec_DeepCopy :: "addr option \<Rightarrow> ('x cell list, addr option) go" where
  "ImageSpec_DeepCopy = copy_ptr ImageSpecCell as_ImageSpec ImageSpec_DeepCopyInto"
definition Presto_DeepCopy :: "'x copiers \<Rightarrow> addr option \<Rightarrow> ('x cell list, addr option) go" where
  "Presto_DeepCopy X = copy_ptr PrestoCell as_Presto (Presto_DeepCopyInto X)"
definition PrestoList_DeepCopy :: "'x copiers \<Rightarrow> addr option \<Rightarrow> ('x cell list, addr option) go" where
  "PrestoList_DeepCopy X = copy_ptr PrestoListCell as_PrestoList (PrestoList_DeepCopyInto X)"
definition PrestoSpec_DeepCopy :: "'x copiers \<Rightarrow> addr option \<Rightarrow> ('x cell list, addr option) go" where
  "PrestoSpec_DeepCopy X = copy_ptr PrestoSpecCell as_PrestoSpec (PrestoSpec_DeepCopyInto X)"
definition PrestoStatus_DeepCopy :: "'x copiers \<Rightarrow> addr option \<Rightarrow> ('x cell list, addr option) go" where
  "PrestoStatus_DeepCopy X = copy_ptr PrestoStatusCell as_PrestoStatus (PrestoStatus_DeepCopyInto X)"
definition PrestoVolumeSpec_DeepCopy :: "'x copiers \<Rightarrow> addr option \<Rightarrow> ('x cell list, addr option) go" where
  "PrestoVolumeSpec_DeepCopy X = copy_ptr PrestoVolumeSpecCell as_PrestoVolumeSpec (PrestoVolumeSpec_DeepCopyInto X)"
definition ServiceSpec_DeepCopy :: "'x copiers \<Rightarrow> addr option \<Rightarrow> ('x cell list, addr option) go" where
  "ServiceSpec_DeepCopy X = copy_ptr ServiceSpecCell as_ServiceSpec (ServiceSpec_DeepCopyInto X)"
definition WorkerSpec_DeepCopy :: "'x copiers \<Rightarrow> addr option \<Rightarrow> ('x cell list, addr option) go" where
  "WorkerSpec_DeepCopy X = copy_ptr WorkerSpecCell as_WorkerSpec (WorkerSpec_DeepCopyInto X)"

text \<open>A \<^verbatim>\<open>runtime.Object\<close> that is not nil holds a pointer that is not nil.\<close>

datatype object_ref = PrestoRef addr | PrestoListRef addr

definition Presto_DeepCopyObject :: "'x copiers \<Rightarrow> addr option \<Rightarrow> ('x cell list, object_ref option) go" where
  "Presto_DeepCopyObject X p = go_bind (Presto_DeepCopy X p) (\<lambda>c. case c of
       Some a \<Rightarrow> go_ret (Some (PrestoRef a)) | None \<Rightarrow> go_ret None)"

definition PrestoList_DeepCopyObject :: "'x copiers \<Rightarrow> addr option \<Rightarrow> ('x cell list, object_ref option) go" where
  "PrestoList_DeepCopyObject X p = go_bind (PrestoList_DeepCopy X p) (\<lambda>c. case c of
       Some a \<Rightarrow> go_ret (Some (PrestoListRef a)) | None \<Rightarrow> go_ret None)"

end
