(* ===== verification/Copies.thy ===== *)
theory Copies
  imports Deep_Copy
begin

text \<open>
  The contract of \<open>Go_Heap\<close> for every copying function of \<open>Deep_Copy\<close>. A struct takes it from its fields,
  in the order in which the code copies them.
\<close>

subsection \<open>What a struct in memory represents\<close>

text \<open>
  The library structs: the value each one represents and the cells it depends on.
\<close>

record 'x views =
  xv_ObjectMeta :: "'x cell list \<Rightarrow> 'x \<Rightarrow> object_meta \<Rightarrow> bool"
  xv_ListMeta :: "'x cell list \<Rightarrow> 'x \<Rightarrow> string \<Rightarrow> bool"
  xv_VolumeSource :: "'x cell list \<Rightarrow> 'x \<Rightarrow> volume_source \<Rightarrow> bool"
  xv_SessionAffinityConfig :: "'x cell list \<Rightarrow> 'x \<Rightarrow> string \<Rightarrow> bool"
  xr_ObjectMeta :: "'x cell list \<Rightarrow> 'x \<Rightarrow> addr set"
  xr_ListMeta :: "'x cell list \<Rightarrow> 'x \<Rightarrow> addr set"
  xr_VolumeSource :: "'x cell list \<Rightarrow> 'x \<Rightarrow> addr set"
  xr_SessionAffinityConfig :: "'x cell list \<Rightarrow> 'x \<Rightarrow> addr set"

text \<open>
  The documented behaviour of the library: its \<^verbatim>\<open>DeepCopyInto\<close> functions make deep copies. A time is
  immutable and is copied by assignment.
\<close>

definition library_copies :: "'x copiers \<Rightarrow> 'x views \<Rightarrow> bool" where
  "library_copies X V \<longleftrightarrow>
     deep_copy (x_ObjectMeta X) (xv_ObjectMeta V) (xr_ObjectMeta V) \<and>
     deep_copy (x_ListMeta X) (xv_ListMeta V) (xr_ListMeta V) \<and>
     deep_copy (x_VolumeSource X) (xv_VolumeSource V) (xr_VolumeSource V) \<and>
     deep_copy (x_SessionAffinityConfig X) (xv_SessionAffinityConfig V) (xr_SessionAffinityConfig V) \<and>
     deep_copy (x_Time X) rep_plain reach_plain"

abbreviation rep_bool :: "'x cell list \<Rightarrow> addr option \<Rightarrow> bool option \<Rightarrow> bool" where
  "rep_bool \<equiv> rep_ptr as_bool rep_plain"
abbreviation rep_int32 :: "'x cell list \<Rightarrow> addr option \<Rightarrow> int32 option \<Rightarrow> bool" where
  "rep_int32 \<equiv> rep_ptr as_int32 rep_plain"
abbreviation rep_int64 :: "'x cell list \<Rightarrow> addr option \<Rightarrow> int64 option \<Rightarrow> bool" where
  "rep_int64 \<equiv> rep_ptr as_int64 rep_plain"
abbreviation rep_string :: "'x cell list \<Rightarrow> addr option \<Rightarrow> string option \<Rightarrow> bool" where
  "rep_string \<equiv> rep_ptr as_string rep_plain"
abbreviation rep_strings :: "'x cell list \<Rightarrow> slice option \<Rightarrow> string list \<Rightarrow> bool" where
  "rep_strings \<equiv> rep_slice as_strings rep_plain"
abbreviation rep_smap :: "'x cell list \<Rightarrow> addr option \<Rightarrow> smap \<Rightarrow> bool" where
  "rep_smap \<equiv> rep_map as_map"

abbreviation reach_bool :: "'x cell list \<Rightarrow> addr option \<Rightarrow> addr set" where
  "reach_bool \<equiv> reach_ptr as_bool reach_plain"
abbreviation reach_int32 :: "'x cell list \<Rightarrow> addr option \<Rightarrow> addr set" where
  "reach_int32 \<equiv> reach_ptr as_int32 reach_plain"
abbreviation reach_int64 :: "'x cell list \<Rightarrow> addr option \<Rightarrow> addr set" where
  "reach_int64 \<equiv> reach_ptr as_int64 reach_plain"
abbreviation reach_string :: "'x cell list \<Rightarrow> addr option \<Rightarrow> addr set" where
  "reach_string \<equiv> reach_ptr as_string reach_plain"
abbreviation reach_strings :: "'x cell list \<Rightarrow> slice option \<Rightarrow> addr set" where
  "reach_strings \<equiv> reach_slice as_strings reach_plain"

definition rep_AutoscalingSpec :: "'x cell list \<Rightarrow> mem_AutoscalingSpec \<Rightarrow> AutoscalingSpec \<Rightarrow> bool" where
  "rep_AutoscalingSpec h s v \<longleftrightarrow> rep_bool h (mas_Enabled s) (as_Enabled v) \<and>
     rep_int32 h (mas_MinReplicas s) (as_MinReplicas v) \<and>
     rep_int32 h (mas_MaxReplicas s) (as_MaxReplicas v) \<and>
     rep_int32 h (mas_TargetCPUUtilizationPercentage s) (as_TargetCPUUtilizationPercentage v)"

definition reach_AutoscalingSpec :: "'x cell list \<Rightarrow> mem_AutoscalingSpec \<Rightarrow> addr set" where
  "reach_AutoscalingSpec h s = reach_bool h (mas_Enabled s) \<union> (reach_int32 h (mas_MinReplicas s) \<union>
     (reach_int32 h (mas_MaxReplicas s) \<union> reach_int32 h (mas_TargetCPUUtilizationPercentage s)))"

definition rep_CatalogSpec :: "'x cell list \<Rightarrow> mem_CatalogSpec \<Rightarrow> CatalogSpec \<Rightarrow> bool" where
  "rep_CatalogSpec h s v \<longleftrightarrow> mcs_Name s = cs_Name v \<and> rep_smap h (mcs_Content s) (cs_Content v)"

definition reach_CatalogSpec :: "'x cell list \<Rightarrow> mem_CatalogSpec \<Rightarrow> addr set" where
  "reach_CatalogSpec h s = reach_map h (mcs_Content s)"

definition rep_CatalogList :: "'x cell list \<Rightarrow> mem_CatalogList \<Rightarrow> CatalogList \<Rightarrow> bool" where
  "rep_CatalogList h s v \<longleftrightarrow>
     rep_slice as_secrets rep_plain h (mcl_CatalogSecrets s) (cl_CatalogSecrets v) \<and>
     rep_slice as_catalogs rep_CatalogSpec h (mcl_CatalogSpec s) (cl_CatalogSpec v)"

definition reach_CatalogList :: "'x cell list \<Rightarrow> mem_CatalogList \<Rightarrow> addr set" where
  "reach_CatalogList h s = reach_slice as_secrets reach_plain h (mcl_CatalogSecrets s) \<union>
     reach_slice as_catalogs reach_CatalogSpec h (mcl_CatalogSpec s)"

definition rep_CoordinatorSpec :: "'x cell list \<Rightarrow> mem_CoordinatorSpec \<Rightarrow> CoordinatorSpec \<Rightarrow> bool" where
  "rep_CoordinatorSpec h s v \<longleftrightarrow>
     (mco_MemoryLimit s = co_MemoryLimit v \<and> mco_AdditionalJVMConfig s = co_AdditionalJVMConfig v \<and>
      mco_CpuLimit s = co_CpuLimit v \<and> mco_CpuRequest s = co_CpuRequest v \<and>
      mco_HttpsEnabled s = co_HttpsEnabled v \<and>
      mco_HttpsKeyPairSecretName s = co_HttpsKeyPairSecretName v \<and>
      mco_HttpsKeyPairSecretKey s = co_HttpsKeyPairSecretKey v \<and>
      mco_HttpsKeyPairPassword s = co_HttpsKeyPairPassword v) \<and>
     rep_smap h (mco_AdditionalProps s) (co_AdditionalProps v)"

definition reach_CoordinatorSpec :: "'x cell list \<Rightarrow> mem_CoordinatorSpec \<Rightarrow> addr set" where
  "reach_CoordinatorSpec h s = reach_map h (mco_AdditionalProps s)"

definition rep_WorkerSpec :: "'x cell list \<Rightarrow> mem_WorkerSpec \<Rightarrow> WorkerSpec \<Rightarrow> bool" where
  "rep_WorkerSpec h s v \<longleftrightarrow>
     (mwo_MemoryLimit s = wo_MemoryLimit v \<and> mwo_AdditionalJVMConfig s = wo_AdditionalJVMConfig v \<and>
      mwo_CpuLimit s = wo_CpuLimit v \<and> mwo_CpuRequest s = wo_CpuRequest v) \<and>
     rep_smap h (mwo_AdditionalProps s) (wo_AdditionalProps v) \<and>
     rep_int64 h (mwo_TerminationGracePeriodSeconds s) (wo_TerminationGracePeriodSeconds v) \<and>
     rep_int32 h (mwo_Count s) (wo_Count v) \<and>
     rep_AutoscalingSpec h (mwo_Autoscaling s) (wo_Autoscaling v)"

definition reach_WorkerSpec :: "'x cell list \<Rightarrow> mem_WorkerSpec \<Rightarrow> addr set" where
  "reach_WorkerSpec h s = reach_map h (mwo_AdditionalProps s) \<union>
     (reach_int64 h (mwo_TerminationGracePeriodSeconds s) \<union>
     (reach_int32 h (mwo_Count s) \<union> reach_AutoscalingSpec h (mwo_Autoscaling s)))"

definition rep_ServiceSpec :: "'x views \<Rightarrow> 'x cell list \<Rightarrow> mem_ServiceSpec \<Rightarrow> ServiceSpec \<Rightarrow> bool" where
  "rep_ServiceSpec V h s v \<longleftrightarrow>
     (mse_ClusterIP s = se_ClusterIP v \<and> mse_Type s = se_Type v \<and>
      mse_SessionAffinity s = se_SessionAffinity v \<and> mse_LoadBalancerIP s = se_LoadBalancerIP v \<and>
      mse_ExternalName s = se_ExternalName v \<and> mse_ExternalTrafficPolicy s = se_ExternalTrafficPolicy v \<and>
      mse_HealthCheckNodePort s = se_HealthCheckNodePort v \<and>
      mse_PublishNotReadyAddresses s = se_PublishNotReadyAddresses v) \<and>
     rep_int32 h (mse_NodePort s) (se_NodePort v) \<and>
     rep_int32 h (mse_Port s) (se_Port v) \<and>
     rep_strings h (mse_ExternalIPs s) (se_ExternalIPs v) \<and>
     rep_strings h (mse_LoadBalancerSourceRanges s) (se_LoadBalancerSourceRanges v) \<and>
     rep_ptr as_affinity (xv_SessionAffinityConfig V) h (mse_SessionAffinityConfig s) (se_SessionAffinityConfig v) \<and>
     rep_string h (mse_IPFamily s) (se_IPFamily v)"

definition reach_ServiceSpec :: "'x views \<Rightarrow> 'x cell list \<Rightarrow> mem_ServiceSpec \<Rightarrow> addr set" where
  "reach_ServiceSpec V h s = reach_int32 h (mse_NodePort s) \<union> (reach_int32 h (mse_Port s) \<union>
     (reach_strings h (mse_ExternalIPs s) \<union> (reach_strings h (mse_LoadBalancerSourceRanges s) \<union>
     (reach_ptr as_affinity (xr_SessionAffinityConfig V) h (mse_SessionAffinityConfig s) \<union>
     reach_string h (mse_IPFamily s)))))"

definition rep_PrestoVolumeSpec ::
  "'x views \<Rightarrow> 'x cell list \<Rightarrow> 'x mem_PrestoVolumeSpec \<Rightarrow> PrestoVolumeSpec \<Rightarrow> bool" where
  "rep_PrestoVolumeSpec V h s v \<longleftrightarrow>
     (mpv_Name s = pv_Name v \<and> mpv_ReadOnly s = pv_ReadOnly v \<and> mpv_MountPath s = pv_MountPath v \<and>
      mpv_SubPath s = pv_SubPath v \<and> mpv_SubPathExpr s = pv_SubPathExpr v) \<and>
     xv_VolumeSource V h (mpv_VolumeSource s) (pv_VolumeSource v) \<and>
     rep_string h (mpv_MountPropagation s) (pv_MountPropagation v)"

definition reach_PrestoVolumeSpec :: "'x views \<Rightarrow> 'x cell list \<Rightarrow> 'x mem_PrestoVolumeSpec \<Rightarrow> addr set" where
  "reach_PrestoVolumeSpec V h s = xr_VolumeSource V h (mpv_VolumeSource s) \<union>
     reach_string h (mpv_MountPropagation s)"

definition rep_PrestoSpec :: "'x views \<Rightarrow> 'x cell list \<Rightarrow> mem_PrestoSpec \<Rightarrow> PrestoSpec \<Rightarrow> bool" where
  "rep_PrestoSpec V h s v \<longleftrightarrow> msp_ImageDetails s = sp_ImageDetails v \<and>
     rep_CoordinatorSpec h (msp_Coordinator s) (sp_Coordinator v) \<and>
     rep_WorkerSpec h (msp_Worker s) (sp_Worker v) \<and>
     rep_CatalogList h (msp_Catalogs s) (sp_Catalogs v) \<and>
     rep_ServiceSpec V h (msp_Service s) (sp_Service v) \<and>
     rep_smap h (msp_AdditionalPrestoPropFiles s) (sp_AdditionalPrestoPropFiles v) \<and>
     rep_slice as_volumes (rep_PrestoVolumeSpec V) h (msp_Volumes s) (sp_Volumes v)"

definition reach_PrestoSpec :: "'x views \<Rightarrow> 'x cell list \<Rightarrow> mem_PrestoSpec \<Rightarrow> addr set" where
  "reach_PrestoSpec V h s = reach_CoordinatorSpec h (msp_Coordinator s) \<union>
     (reach_WorkerSpec h (msp_Worker s) \<union> (reach_CatalogList h (msp_Catalogs s) \<union>
     (reach_ServiceSpec V h (msp_Service s) \<union> (reach_map h (msp_AdditionalPrestoPropFiles s) \<union>
     reach_slice as_volumes (reach_PrestoVolumeSpec V) h (msp_Volumes s)))))"

definition rep_Presto :: "'x views \<Rightarrow> 'x cell list \<Rightarrow> 'x mem_Presto \<Rightarrow> Presto \<Rightarrow> bool" where
  "rep_Presto V h s v \<longleftrightarrow> (mpr_APIVersion s = pr_APIVersion v \<and> mpr_Kind s = pr_Kind v) \<and>
     xv_ObjectMeta V h (mpr_meta s) (pr_meta v) \<and> rep_PrestoSpec V h (mpr_Spec s) (pr_Spec v) \<and>
     mpr_Status s = pr_Status v"

definition reach_Presto :: "'x views \<Rightarrow> 'x cell list \<Rightarrow> 'x mem_Presto \<Rightarrow> addr set" where
  "reach_Presto V h s = xr_ObjectMeta V h (mpr_meta s) \<union> reach_PrestoSpec V h (mpr_Spec s)"

definition rep_PrestoList :: "'x views \<Rightarrow> 'x cell list \<Rightarrow> 'x mem_PrestoList \<Rightarrow> PrestoList \<Rightarrow> bool" where
  "rep_PrestoList V h s v \<longleftrightarrow> (mpl_APIVersion s = pl_APIVersion v \<and> mpl_Kind s = pl_Kind v) \<and>
     xv_ListMeta V h (mpl_meta s) (pl_meta v) \<and>
     rep_slice as_prestos (rep_Presto V) h (mpl_Items s) (pl_Items v)"

definition reach_PrestoList :: "'x views \<Rightarrow> 'x cell list \<Rightarrow> 'x mem_PrestoList \<Rightarrow> addr set" where
  "reach_PrestoList V h s = xr_ListMeta V h (mpl_meta s) \<union>
     reach_slice as_prestos (reach_Presto V) h (mpl_Items s)"

subsection \<open>The leaves\<close>

interpretation bool_cell: cell_copy go_ret rep_plain reach_plain BoolCell as_bool
  by unfold_locales (simp add: as_defs)
interpretation int32_cell: cell_copy go_ret rep_plain reach_plain Int32Cell as_int32
  by unfold_locales (simp add: as_defs)
interpretation int64_cell: cell_copy go_ret rep_plain reach_plain Int64Cell as_int64
  by unfold_locales (simp add: as_defs)
interpretation string_cell: cell_copy go_ret rep_plain reach_plain StringCell as_string
  by unfold_locales (simp add: as_defs)
interpretation string_array: array_copy go_ret rep_plain reach_plain StringArray as_strings
  by unfold_locales (simp add: as_defs)
interpretation secret_array: array_copy go_ret rep_plain reach_plain CatalogSecretArray as_secrets
  by unfold_locales (simp add: as_defs)
interpretation smap_cell: map_cell order MapCell as_map for order
  by unfold_locales (simp add: as_defs)

lemmas leaves = bool_cell.pointer.deep_copy_axioms int32_cell.pointer.deep_copy_axioms
  int64_cell.pointer.deep_copy_axioms string_cell.pointer.deep_copy_axioms
  string_array.slice.deep_copy_axioms secret_array.slice.deep_copy_axioms
  smap_cell.map_copy.deep_copy_axioms

lemmas pair_defs = copy_pair_def rep_pair_def reach_pair_def go_bind_assoc split_beta

subsection \<open>The structs without library parts\<close>

interpretation autoscaling: deep_copy AutoscalingSpec_DeepCopyInto rep_AutoscalingSpec reach_AutoscalingSpec
  by (rule deep_copy_struct [
      OF deep_copy_pair [OF leaves(1) deep_copy_pair [OF leaves(2) deep_copy_pair [OF leaves(2) leaves(2)]]],
      where same = "\<lambda>s v. True"
        and get = "\<lambda>s. (mas_Enabled s, mas_MinReplicas s, mas_MaxReplicas s, mas_TargetCPUUtilizationPercentage s)"
        and put = "\<lambda>s (en, mn, mx, cpu). s\<lparr>mas_Enabled := en, mas_MinReplicas := mn, mas_MaxReplicas := mx,
          mas_TargetCPUUtilizationPercentage := cpu\<rparr>"
        and val = "\<lambda>v. (as_Enabled v, as_MinReplicas v, as_MaxReplicas v, as_TargetCPUUtilizationPercentage v)"])
    (simp_all add: AutoscalingSpec_DeepCopyInto_def rep_AutoscalingSpec_def reach_AutoscalingSpec_def pair_defs)

interpretation catalog_spec: deep_copy "CatalogSpec_DeepCopyInto X" rep_CatalogSpec reach_CatalogSpec for X
  by (rule deep_copy_struct [OF leaves(7), where same = "\<lambda>s v. mcs_Name s = cs_Name v" and get = mcs_Content
        and put = "\<lambda>s m. s\<lparr>mcs_Content := m\<rparr>" and val = cs_Content])
    (simp_all add: CatalogSpec_DeepCopyInto_def rep_CatalogSpec_def reach_CatalogSpec_def)

interpretation catalog_array:
  array_copy "CatalogSpec_DeepCopyInto X" rep_CatalogSpec reach_CatalogSpec CatalogSpecArray as_catalogs for X
  by unfold_locales (simp add: as_defs)

interpretation catalog_list: deep_copy "CatalogList_DeepCopyInto X" rep_CatalogList reach_CatalogList for X
  by (rule deep_copy_struct [OF deep_copy_pair [OF leaves(6) catalog_array.slice.deep_copy_axioms],
      where same = "\<lambda>s v. True" and get = "\<lambda>s. (mcl_CatalogSecrets s, mcl_CatalogSpec s)"
        and put = "\<lambda>s (ss, cs). s\<lparr>mcl_CatalogSecrets := ss, mcl_CatalogSpec := cs\<rparr>"
        and val = "\<lambda>v. (cl_CatalogSecrets v, cl_CatalogSpec v)"])
    (simp_all add: CatalogList_DeepCopyInto_def rep_CatalogList_def reach_CatalogList_def pair_defs)

interpretation coordinator: deep_copy "CoordinatorSpec_DeepCopyInto X" rep_CoordinatorSpec reach_CoordinatorSpec for X
  by (rule deep_copy_struct [OF leaves(7),
      where same = "\<lambda>s v. mco_MemoryLimit s = co_MemoryLimit v \<and> mco_AdditionalJVMConfig s = co_AdditionalJVMConfig v \<and>
          mco_CpuLimit s = co_CpuLimit v \<and> mco_CpuRequest s = co_CpuRequest v \<and>
          mco_HttpsEnabled s = co_HttpsEnabled v \<and>
          mco_HttpsKeyPairSecretName s = co_HttpsKeyPairSecretName v \<and>
          mco_HttpsKeyPairSecretKey s = co_HttpsKeyPairSecretKey v \<and>
          mco_HttpsKeyPairPassword s = co_HttpsKeyPairPassword v"
        and get = mco_AdditionalProps and put = "\<lambda>s m. s\<lparr>mco_AdditionalProps := m\<rparr>" and val = co_AdditionalProps])
    (simp_all add: CoordinatorSpec_DeepCopyInto_def rep_CoordinatorSpec_def reach_CoordinatorSpec_def)

interpretation worker: deep_copy "WorkerSpec_DeepCopyInto X" rep_WorkerSpec reach_WorkerSpec for X
  by (rule deep_copy_struct [OF deep_copy_pair [OF leaves(7) deep_copy_pair [OF leaves(3)
          deep_copy_pair [OF leaves(2) autoscaling.deep_copy_axioms]]],
      where same = "\<lambda>s v. mwo_MemoryLimit s = wo_MemoryLimit v \<and> mwo_AdditionalJVMConfig s = wo_AdditionalJVMConfig v \<and>
          mwo_CpuLimit s = wo_CpuLimit v \<and> mwo_CpuRequest s = wo_CpuRequest v"
        and get = "\<lambda>s. (mwo_AdditionalProps s, mwo_TerminationGracePeriodSeconds s, mwo_Count s, mwo_Autoscaling s)"
        and put = "\<lambda>s (m, g, n, a). s\<lparr>mwo_AdditionalProps := m, mwo_TerminationGracePeriodSeconds := g,
          mwo_Count := n, mwo_Autoscaling := a\<rparr>"
        and val = "\<lambda>v. (wo_AdditionalProps v, wo_TerminationGracePeriodSeconds v, wo_Count v, wo_Autoscaling v)"])
    (simp_all add: WorkerSpec_DeepCopyInto_def rep_WorkerSpec_def reach_WorkerSpec_def pair_defs)

subsection \<open>The structs with library parts\<close>

lemma deep_copy_affinity:
  assumes "library_copies X V"
  shows "deep_copy (copy_ptr AffinityCell as_affinity (x_SessionAffinityConfig X))
    (rep_ptr as_affinity (xv_SessionAffinityConfig V)) (reach_ptr as_affinity (xr_SessionAffinityConfig V))"
  using assms by (intro cell_copy.deep_copy_ptr)
    (simp add: library_copies_def cell_copy_def cell_copy_axioms_def as_defs)

lemma deep_copy_ServiceSpec:
  assumes "library_copies X V"
  shows "deep_copy (ServiceSpec_DeepCopyInto X) (rep_ServiceSpec V) (reach_ServiceSpec V)"
  by (rule deep_copy_struct [OF deep_copy_pair [OF leaves(2) deep_copy_pair [OF leaves(2)
          deep_copy_pair [OF leaves(5) deep_copy_pair [OF leaves(5)
          deep_copy_pair [OF deep_copy_affinity [OF assms] leaves(4)]]]]],
      where same = "\<lambda>s v. mse_ClusterIP s = se_ClusterIP v \<and> mse_Type s = se_Type v \<and>
          mse_SessionAffinity s = se_SessionAffinity v \<and> mse_LoadBalancerIP s = se_LoadBalancerIP v \<and>
          mse_ExternalName s = se_ExternalName v \<and> mse_ExternalTrafficPolicy s = se_ExternalTrafficPolicy v \<and>
          mse_HealthCheckNodePort s = se_HealthCheckNodePort v \<and>
          mse_PublishNotReadyAddresses s = se_PublishNotReadyAddresses v"
        and get = "\<lambda>s. (mse_NodePort s, mse_Port s, mse_ExternalIPs s, mse_LoadBalancerSourceRanges s,
          mse_SessionAffinityConfig s, mse_IPFamily s)"
        and put = "\<lambda>s (np, p, ips, rs, sa, f). s\<lparr>mse_NodePort := np, mse_Port := p, mse_ExternalIPs := ips,
          mse_LoadBalancerSourceRanges := rs, mse_SessionAffinityConfig := sa, mse_IPFamily := f\<rparr>"
        and val = "\<lambda>v. (se_NodePort v, se_Port v, se_ExternalIPs v, se_LoadBalancerSourceRanges v,
          se_SessionAffinityConfig v, se_IPFamily v)"])
    (simp_all add: ServiceSpec_DeepCopyInto_def rep_ServiceSpec_def reach_ServiceSpec_def pair_defs)

lemma deep_copy_PrestoVolumeSpec:
  assumes "library_copies X V"
  shows "deep_copy (PrestoVolumeSpec_DeepCopyInto X) (rep_PrestoVolumeSpec V) (reach_PrestoVolumeSpec V)"
proof -
  have "deep_copy (x_VolumeSource X) (xv_VolumeSource V) (xr_VolumeSource V)"
    using assms by (simp add: library_copies_def)
  then show ?thesis
    by (rule deep_copy_struct [OF deep_copy_pair [OF _ leaves(4)],
        where same = "\<lambda>s v. mpv_Name s = pv_Name v \<and> mpv_ReadOnly s = pv_ReadOnly v \<and>
            mpv_MountPath s = pv_MountPath v \<and> mpv_SubPath s = pv_SubPath v \<and> mpv_SubPathExpr s = pv_SubPathExpr v"
          and get = "\<lambda>s. (mpv_VolumeSource s, mpv_MountPropagation s)"
          and put = "\<lambda>s (x, m). s\<lparr>mpv_VolumeSource := x, mpv_MountPropagation := m\<rparr>"
          and val = "\<lambda>v. (pv_VolumeSource v, pv_MountPropagation v)"])
      (simp_all add: PrestoVolumeSpec_DeepCopyInto_def rep_PrestoVolumeSpec_def reach_PrestoVolumeSpec_def pair_defs)
qed

lemma deep_copy_volumes:
  assumes "library_copies X V"
  shows "deep_copy (copy_slice VolumeArray as_volumes (PrestoVolumeSpec_DeepCopyInto X))
    (rep_slice as_volumes (rep_PrestoVolumeSpec V)) (reach_slice as_volumes (reach_PrestoVolumeSpec V))"
  using deep_copy_PrestoVolumeSpec [OF assms] by (intro array_copy.deep_copy_slice)
    (simp add: array_copy_def array_copy_axioms_def as_defs)

lemma deep_copy_PrestoSpec:
  assumes "library_copies X V"
  shows "deep_copy (PrestoSpec_DeepCopyInto X) (rep_PrestoSpec V) (reach_PrestoSpec V)"
  by (rule deep_copy_struct [OF deep_copy_pair [OF coordinator.deep_copy_axioms
          deep_copy_pair [OF worker.deep_copy_axioms deep_copy_pair [OF catalog_list.deep_copy_axioms
          deep_copy_pair [OF deep_copy_ServiceSpec [OF assms]
          deep_copy_pair [OF leaves(7) deep_copy_volumes [OF assms]]]]]],
      where same = "\<lambda>s v. msp_ImageDetails s = sp_ImageDetails v"
        and get = "\<lambda>s. (msp_Coordinator s, msp_Worker s, msp_Catalogs s, msp_Service s,
          msp_AdditionalPrestoPropFiles s, msp_Volumes s)"
        and put = "\<lambda>s (c, w, cl, se, m, vs). s\<lparr>msp_Coordinator := c, msp_Worker := w, msp_Catalogs := cl,
          msp_Service := se, msp_InternalHiveMetaStore := (), msp_AdditionalPrestoPropFiles := m,
          msp_Volumes := vs\<rparr>"
        and val = "\<lambda>v. (sp_Coordinator v, sp_Worker v, sp_Catalogs v, sp_Service v,
          sp_AdditionalPrestoPropFiles v, sp_Volumes v)"])
    (simp_all add: PrestoSpec_DeepCopyInto_def rep_PrestoSpec_def reach_PrestoSpec_def pair_defs)

lemma status_eqI:
  "s\<lparr>st_ModificationTime := 0\<rparr> = v\<lparr>st_ModificationTime := 0\<rparr> \<Longrightarrow>
     st_ModificationTime s = st_ModificationTime v \<Longrightarrow> s = (v :: PrestoStatus)"
  by (cases s, cases v) simp

lemma deep_copy_PrestoStatus:
  assumes "library_copies X V"
  shows "deep_copy (PrestoStatus_DeepCopyInto X) rep_plain reach_plain"
proof -
  have "deep_copy (x_Time X) rep_plain reach_plain"
    using assms by (simp add: library_copies_def)
  then show ?thesis
    by (rule deep_copy_struct [where get = st_ModificationTime
          and same = "\<lambda>s v. s\<lparr>st_ModificationTime := 0\<rparr> = v\<lparr>st_ModificationTime := 0\<rparr>"
          and put = "\<lambda>s t. s\<lparr>st_ModificationTime := t\<rparr>" and val = st_ModificationTime])
      (auto simp: PrestoStatus_DeepCopyInto_def rep_plain_def reach_plain_def intro: status_eqI)
qed

lemma deep_copy_Presto:
  assumes "library_copies X V"
  shows "deep_copy (Presto_DeepCopyInto X) (rep_Presto V) (reach_Presto V)"
proof -
  have "deep_copy (x_ObjectMeta X) (xv_ObjectMeta V) (xr_ObjectMeta V)"
    using assms by (simp add: library_copies_def)
  then show ?thesis
    by (rule deep_copy_struct [OF deep_copy_pair [OF _ deep_copy_pair [OF deep_copy_PrestoSpec [OF assms]
            deep_copy_PrestoStatus [OF assms]]],
        where same = "\<lambda>s v. mpr_APIVersion s = pr_APIVersion v \<and> mpr_Kind s = pr_Kind v"
          and get = "\<lambda>s. (mpr_meta s, mpr_Spec s, mpr_Status s)"
          and put = "\<lambda>s (m, sp, st). s\<lparr>mpr_meta := m, mpr_Spec := sp, mpr_Status := st\<rparr>"
          and val = "\<lambda>v. (pr_meta v, pr_Spec v, pr_Status v)"])
      (simp_all add: Presto_DeepCopyInto_def rep_Presto_def reach_Presto_def pair_defs
        rep_plain_def reach_plain_def)
qed

lemma deep_copy_items:
  assumes "library_copies X V"
  shows "deep_copy (copy_slice PrestoArray as_prestos (Presto_DeepCopyInto X))
    (rep_slice as_prestos (rep_Presto V)) (reach_slice as_prestos (reach_Presto V))"
  using deep_copy_Presto [OF assms] by (intro array_copy.deep_copy_slice)
    (simp add: array_copy_def array_copy_axioms_def as_defs)

lemma deep_copy_PrestoList:
  assumes "library_copies X V"
  shows "deep_copy (PrestoList_DeepCopyInto X) (rep_PrestoList V) (reach_PrestoList V)"
proof -
  have "deep_copy (x_ListMeta X) (xv_ListMeta V) (xr_ListMeta V)"
    using assms by (simp add: library_copies_def)
  then show ?thesis
    by (rule deep_copy_struct [OF deep_copy_pair [OF _ deep_copy_items [OF assms]],
        where same = "\<lambda>s v. mpl_APIVersion s = pl_APIVersion v \<and> mpl_Kind s = pl_Kind v"
          and get = "\<lambda>s. (mpl_meta s, mpl_Items s)"
          and put = "\<lambda>s (m, xs). s\<lparr>mpl_meta := m, mpl_Items := xs\<rparr>"
          and val = "\<lambda>v. (pl_meta v, pl_Items v)"])
      (simp_all add: PrestoList_DeepCopyInto_def rep_PrestoList_def reach_PrestoList_def pair_defs)
qed

subsection \<open>The functions on pointers\<close>

lemma deep_copy_ptrI:
  "deep_copy copy rep reach \<Longrightarrow> (\<And>x. dest (mk x) = Some x) \<Longrightarrow>
     deep_copy (copy_ptr mk dest copy) (rep_ptr dest rep) (reach_ptr dest reach)"
  by (rule cell_copy.deep_copy_ptr) (simp add: cell_copy_def cell_copy_axioms_def)

lemma deep_copy_Presto_ptr:
  assumes "library_copies X V"
  shows "deep_copy (Presto_DeepCopy X) (rep_ptr as_Presto (rep_Presto V)) (reach_ptr as_Presto (reach_Presto V))"
  unfolding Presto_DeepCopy_def by (intro deep_copy_ptrI deep_copy_Presto assms) (simp add: as_defs)

lemma deep_copy_PrestoList_ptr:
  assumes "library_copies X V"
  shows "deep_copy (PrestoList_DeepCopy X) (rep_ptr as_PrestoList (rep_PrestoList V))
    (reach_ptr as_PrestoList (reach_PrestoList V))"
  unfolding PrestoList_DeepCopy_def by (intro deep_copy_ptrI deep_copy_PrestoList assms) (simp add: as_defs)

lemma deep_copy_parts:
  "deep_copy AutoscalingSpec_DeepCopy (rep_ptr as_AutoscalingSpec rep_AutoscalingSpec)
     (reach_ptr as_AutoscalingSpec reach_AutoscalingSpec)"
  "deep_copy (CatalogList_DeepCopy X) (rep_ptr as_CatalogList rep_CatalogList)
     (reach_ptr as_CatalogList reach_CatalogList)"
  "deep_copy CatalogSecret_DeepCopy (rep_ptr as_CatalogSecret rep_plain) (reach_ptr as_CatalogSecret reach_plain)"
  "deep_copy (CatalogSpec_DeepCopy X) (rep_ptr as_CatalogSpec rep_CatalogSpec)
     (reach_ptr as_CatalogSpec reach_CatalogSpec)"
  "deep_copy (CoordinatorSpec_DeepCopy X) (rep_ptr as_CoordinatorSpec rep_CoordinatorSpec)
     (reach_ptr as_CoordinatorSpec reach_CoordinatorSpec)"
  "deep_copy HMSSpec_DeepCopy (rep_ptr as_HMSSpec rep_plain) (reach_ptr as_HMSSpec reach_plain)"
  "deep_copy ImageSpec_DeepCopy (rep_ptr as_ImageSpec rep_plain) (reach_ptr as_ImageSpec reach_plain)"
  "deep_copy (WorkerSpec_DeepCopy X) (rep_ptr as_WorkerSpec rep_WorkerSpec)
     (reach_ptr as_WorkerSpec reach_WorkerSpec)"
  unfolding AutoscalingSpec_DeepCopy_def CatalogList_DeepCopy_def CatalogSecret_DeepCopy_def
    CatalogSpec_DeepCopy_def CoordinatorSpec_DeepCopy_def HMSSpec_DeepCopy_def ImageSpec_DeepCopy_def
    WorkerSpec_DeepCopy_def CatalogSecret_DeepCopyInto_def [abs_def] HMSSpec_DeepCopyInto_def [abs_def]
    ImageSpec_DeepCopyInto_def [abs_def]
  by (intro deep_copy_ptrI autoscaling.deep_copy_axioms catalog_list.deep_copy_axioms plain.deep_copy_axioms
      catalog_spec.deep_copy_axioms coordinator.deep_copy_axioms worker.deep_copy_axioms; simp add: as_defs)+

lemma deep_copy_library_parts:
  assumes "library_copies X V"
  shows "deep_copy (PrestoSpec_DeepCopy X) (rep_ptr as_PrestoSpec (rep_PrestoSpec V))
      (reach_ptr as_PrestoSpec (reach_PrestoSpec V))"
    and "deep_copy (PrestoStatus_DeepCopy X) (rep_ptr as_PrestoStatus rep_plain)
      (reach_ptr as_PrestoStatus reach_plain)"
    and "deep_copy (PrestoVolumeSpec_DeepCopy X) (rep_ptr as_PrestoVolumeSpec (rep_PrestoVolumeSpec V))
      (reach_ptr as_PrestoVolumeSpec (reach_PrestoVolumeSpec V))"
    and "deep_copy (ServiceSpec_DeepCopy X) (rep_ptr as_ServiceSpec (rep_ServiceSpec V))
      (reach_ptr as_ServiceSpec (reach_ServiceSpec V))"
  unfolding PrestoSpec_DeepCopy_def PrestoStatus_DeepCopy_def PrestoVolumeSpec_DeepCopy_def
    ServiceSpec_DeepCopy_def
  by (rule deep_copy_ptrI deep_copy_PrestoSpec [OF assms] deep_copy_PrestoStatus [OF assms]
      deep_copy_PrestoVolumeSpec [OF assms] deep_copy_ServiceSpec [OF assms] | simp add: as_defs)+

text \<open>
  What a copy of the struct at \<open>p\<close> in the heap \<open>h\<close> promises: the heap \<open>k\<close> only has more cells, both
  structs are the value \<open>v\<close> in it, and each of them stays so whatever is written to the cells of the other.
\<close>

definition independent_copy ::
  "('c list \<Rightarrow> 's \<Rightarrow> 'v \<Rightarrow> bool) \<Rightarrow> ('c list \<Rightarrow> 's \<Rightarrow> addr set) \<Rightarrow> 'c list \<Rightarrow> 's \<Rightarrow> 'c list \<Rightarrow> 's \<Rightarrow> 'v \<Rightarrow> bool" where
  "independent_copy rep reach h p k q v \<longleftrightarrow> prefix h k \<and> rep k p v \<and> rep k q v \<and>
     (\<forall>g. agree (- reach k q) k g \<longrightarrow> rep g p v) \<and> (\<forall>g. agree (- reach k p) k g \<longrightarrow> rep g q v)"

lemma deep_copy_independent:
  assumes "deep_copy copy rep reach" and "rep h p v"
  obtains q k where "copy p h = (Some q, k)" "independent_copy rep reach h p k q v"
  by (rule deep_copy.separate [OF assms]) (rule that, assumption, simp add: independent_copy_def)

lemma independent_not_nil: "independent_copy (rep_ptr dest rep) reach h p k q (Some v) \<Longrightarrow> \<exists>b. q = Some b"
  unfolding independent_copy_def by (cases q) (simp_all add: rep_ptr_def)

lemma Presto_copied:
  assumes "library_copies X V" and "rep_ptr as_Presto (rep_Presto V) h (Some a) (Some v)"
  shows "\<exists>b k. Presto_DeepCopyObject X (Some a) h = (Some (Some (PrestoRef b)), k) \<and>
    independent_copy (rep_ptr as_Presto (rep_Presto V)) (reach_ptr as_Presto (reach_Presto V)) h (Some a) k (Some b) (Some v)"
proof -
  obtain q k where q: "Presto_DeepCopy X (Some a) h = (Some q, k)"
      "independent_copy (rep_ptr as_Presto (rep_Presto V)) (reach_ptr as_Presto (reach_Presto V)) h (Some a) k q (Some v)"
    using deep_copy_independent [OF deep_copy_Presto_ptr [OF assms(1)] assms(2)] by blast
  obtain b where "q = Some b" using independent_not_nil [OF q(2)] by (rule exE)
  with q show ?thesis by (simp add: Presto_DeepCopyObject_def go_bind_Some) (simp add: go_ret_def)
qed

lemma PrestoList_copied:
  assumes "library_copies X V" and "rep_ptr as_PrestoList (rep_PrestoList V) h (Some a) (Some v)"
  shows "\<exists>b k. PrestoList_DeepCopyObject X (Some a) h = (Some (Some (PrestoListRef b)), k) \<and>
    independent_copy (rep_ptr as_PrestoList (rep_PrestoList V)) (reach_ptr as_PrestoList (reach_PrestoList V))
      h (Some a) k (Some b) (Some v)"
proof -
  obtain q k where q: "PrestoList_DeepCopy X (Some a) h = (Some q, k)"
      "independent_copy (rep_ptr as_PrestoList (rep_PrestoList V)) (reach_ptr as_PrestoList (reach_PrestoList V))
        h (Some a) k q (Some v)"
    using deep_copy_independent [OF deep_copy_PrestoList_ptr [OF assms(1)] assms(2)] by blast
  obtain b where "q = Some b" using independent_not_nil [OF q(2)] by (rule exE)
  with q show ?thesis by (simp add: PrestoList_DeepCopyObject_def go_bind_Some) (simp add: go_ret_def)
qed

lemma nil_copied: "Presto_DeepCopyObject X None h = (Some None, h)" "PrestoList_DeepCopyObject X None h = (Some None, h)"
  by (simp_all add: Presto_DeepCopyObject_def PrestoList_DeepCopyObject_def Presto_DeepCopy_def
      PrestoList_DeepCopy_def copy_ptr_def) (simp_all add: go_ret_def)

subsection \<open>An example\<close>

text \<open>
  Library structs for the example: metadata whose labels are a reference to a map, the other structs without
  references.
\<close>

record lib_struct =
  ls_meta :: object_meta
  ls_labels :: "addr option"
  ls_volume :: volume_source
  ls_text :: string

definition example_copiers :: "lib_struct copiers" where
  "example_copiers = \<lparr>
     x_ObjectMeta = (\<lambda>s. go_bind (copy_map (\<lambda>h a n. 0) MapCell as_map (ls_labels s)) (\<lambda>l. go_ret (s\<lparr>ls_labels := l\<rparr>))),
     x_ListMeta = go_ret, x_VolumeSource = go_ret, x_SessionAffinityConfig = go_ret, x_Time = go_ret,
     x_Range = (\<lambda>h a n. 0)\<rparr>"

definition example_views :: "lib_struct views" where
  "example_views = \<lparr>
     xv_ObjectMeta = (\<lambda>h s v. (ls_meta s)\<lparr>om_Labels := []\<rparr> = v\<lparr>om_Labels := []\<rparr> \<and>
       rep_smap h (ls_labels s) (om_Labels v)),
     xv_ListMeta = (\<lambda>h s v. ls_text s = v), xv_VolumeSource = (\<lambda>h s v. ls_volume s = v),
     xv_SessionAffinityConfig = (\<lambda>h s v. ls_text s = v),
     xr_ObjectMeta = (\<lambda>h s. reach_map h (ls_labels s)),
     xr_ListMeta = (\<lambda>h s. {}), xr_VolumeSource = (\<lambda>h s. {}), xr_SessionAffinityConfig = (\<lambda>h s. {})\<rparr>"

lemma deep_copy_assign: "deep_copy go_ret (\<lambda>h s v. f s = v) (\<lambda>h s. {})"
  by unfold_locales (simp_all add: go_ret_def)

lemma example_library: "library_copies example_copiers example_views"
proof -
  have "deep_copy (x_ObjectMeta example_copiers) (xv_ObjectMeta example_views) (xr_ObjectMeta example_views)"
    by (rule deep_copy_struct [OF leaves(7), where get = ls_labels and val = om_Labels
          and put = "\<lambda>s l. s\<lparr>ls_labels := l\<rparr>"
          and same = "\<lambda>s v. (ls_meta s)\<lparr>om_Labels := []\<rparr> = v\<lparr>om_Labels := []\<rparr>"])
      (simp_all add: example_copiers_def example_views_def)
  then show ?thesis
    by (simp add: library_copies_def)
      (simp add: example_copiers_def example_views_def deep_copy_assign plain.deep_copy_axioms)
qed

text \<open>The example resource in memory, at address 12.\<close>

definition example_memory :: "lib_struct cell list" where
  "example_memory = [
     MapCell [(''shutdown.grace-period'', ''10s'')], Int32Cell 1, BoolCell False, Int32Cell 2, Int32Cell 3,
     Int32Cell 20, MapCell [(''connector.name'', ''tpch'')], MapCell [(''connector.name'', ''tpcds'')],
     CatalogSpecArray [\<lparr>mcs_Name = ''newtpch'', mcs_Content = Some 6\<rparr>, \<lparr>mcs_Name = ''newtpcds'', mcs_Content = Some 7\<rparr>],
     Int32Cell 30002, Int32Cell 8100,
     MapCell [(''access-control.properties'', ''access-control.name=read-only'')],
     PrestoCell \<lparr>mpr_APIVersion = ''falarica.io/v1alpha1'', mpr_Kind = ''Presto'',
       mpr_meta = \<lparr>ls_meta = pr_meta example_presto, ls_labels = None,
         ls_volume = \<lparr>vs_Projected = None, vs_Secret = None, vs_Other = []\<rparr>, ls_text = []\<rparr>,
       mpr_Spec = \<lparr>
         msp_Coordinator = \<lparr>mco_MemoryLimit = ''1Gi'', mco_AdditionalJVMConfig = [], mco_AdditionalProps = None,
           mco_CpuLimit = ''0.5'', mco_CpuRequest = [], mco_HttpsEnabled = False,
           mco_HttpsKeyPairSecretName = ''prestokeystore'',
           mco_HttpsKeyPairSecretKey = ''prestoserverkeystore.jks'', mco_HttpsKeyPairPassword = ''hemant''\<rparr>,
         msp_Worker = \<lparr>mwo_MemoryLimit = ''1Gi'', mwo_AdditionalJVMConfig = [], mwo_AdditionalProps = Some 0,
           mwo_CpuLimit = ''0.5'', mwo_CpuRequest = [], mwo_TerminationGracePeriodSeconds = None,
           mwo_Count = Some 1,
           mwo_Autoscaling = \<lparr>mas_Enabled = Some 2, mas_MinReplicas = Some 3, mas_MaxReplicas = Some 4,
             mas_TargetCPUUtilizationPercentage = Some 5\<rparr>\<rparr>,
         msp_Catalogs = \<lparr>mcl_CatalogSecrets = None,
           mcl_CatalogSpec = Some \<lparr>sl_array = 8, sl_start = 0, sl_len = 2\<rparr>\<rparr>,
         msp_Service = \<lparr>mse_NodePort = Some 9, mse_Port = Some 10, mse_ClusterIP = [], mse_Type = ''NodePort'',
           mse_ExternalIPs = None, mse_SessionAffinity = [], mse_LoadBalancerIP = [],
           mse_LoadBalancerSourceRanges = None, mse_ExternalName = [], mse_ExternalTrafficPolicy = [],
           mse_HealthCheckNodePort = 0, mse_PublishNotReadyAddresses = False,
           mse_SessionAffinityConfig = None, mse_IPFamily = None\<rparr>,
         msp_InternalHiveMetaStore = (), msp_ImageDetails = \<lparr>im_Name = [], im_PrestoPath = []\<rparr>,
         msp_AdditionalPrestoPropFiles = Some 11, msp_Volumes = None\<rparr>,
       mpr_Status = pr_Status example_presto\<rparr>]"

lemmas rep_defs = rep_Presto_def rep_PrestoSpec_def rep_CoordinatorSpec_def rep_WorkerSpec_def
  rep_AutoscalingSpec_def rep_CatalogList_def rep_CatalogSpec_def rep_ServiceSpec_def rep_ptr_def rep_map_def
  rep_slice_def rep_plain_def

lemma example_in_memory:
  "rep_ptr as_Presto (rep_Presto example_views) example_memory (Some 12) (Some example_presto)"
  by (simp add: rep_defs example_views_def example_memory_def fetch_def as_defs window_def example_presto_def
      new_presto_def example_spec_def zero_meta_def)

text \<open>
  C8. The copies of a resource that the generated functions make are deep. When the structs of the library
  are copied deeply, copying ends without a panic, the copy is the same resource as the original, and the two
  share no memory: whatever is written through one of them, the other stays the same resource. The same
  holds for a list of resources. Nil is copied to nil.
\<close>

theorem copies_are_independent:
  assumes "library_copies X V"
  shows "(rep_ptr as_Presto (rep_Presto V) h (Some a) (Some v) \<longrightarrow>
      (\<exists>b k. Presto_DeepCopyObject X (Some a) h = (Some (Some (PrestoRef b)), k) \<and>
        independent_copy (rep_ptr as_Presto (rep_Presto V)) (reach_ptr as_Presto (reach_Presto V))
          h (Some a) k (Some b) (Some v))) \<and>
    (rep_ptr as_PrestoList (rep_PrestoList V) h (Some a) (Some l) \<longrightarrow>
      (\<exists>b k. PrestoList_DeepCopyObject X (Some a) h = (Some (Some (PrestoListRef b)), k) \<and>
        independent_copy (rep_ptr as_PrestoList (rep_PrestoList V)) (reach_ptr as_PrestoList (reach_PrestoList V))
          h (Some a) k (Some b) (Some l))) \<and>
    Presto_DeepCopyObject X None h = (Some None, h) \<and> PrestoList_DeepCopyObject X None h = (Some None, h)"
  by (intro conjI impI Presto_copied [OF assms] PrestoList_copied [OF assms] nil_copied)

theorem copies_are_independent_witness:
  "\<exists>b k. Presto_DeepCopyObject example_copiers (Some 12) example_memory = (Some (Some (PrestoRef b)), k) \<and>
     independent_copy (rep_ptr as_Presto (rep_Presto example_views))
       (reach_ptr as_Presto (reach_Presto example_views)) example_memory (Some 12) k (Some b) (Some example_presto)"
  by (rule copies_are_independent [OF example_library, THEN conjunct1, rule_format, OF example_in_memory])

end
