(* ===== verification/Json.thy ===== *)
theory Json
  imports Prelude "HOL-Library.List_Lexorder" "HOL-Library.Char_ord"
begin

text \<open>
  What \<^verbatim>\<open>encoding/json\<close> does with structs, at the level of JSON values: the text syntax is left out. A field
  with the option \<^verbatim>\<open>omitempty\<close> is left out when it is false, 0, nil or empty, but not when it is a struct. A
  nil pointer and a nil map become null. The keys of a map come out sorted.

  Decoding sets the fields whose keys are present and leaves the others at their zero values; null sets
  nothing; of several members with one key the last one counts; a value of a wrong type is an error, \<^const>\<open>None\<close>.

  The locale \<open>codec\<close> is the contract of an encoder and its decoder.
\<close>

datatype json =
    JNull
  | JBool bool
  | JInt int
  | JFloat string
  | JString string
  | JArray "json list"
  | JObject "(string \<times> json) list"

subsection \<open>Members\<close>

text \<open>The fields of a struct, with \<^const>\<open>None\<close> for one that is left out.\<close>

definition members :: "(string \<times> json option) list \<Rightarrow> (string \<times> json) list" where
  "members fs = List.map_filter (\<lambda>(k, x). map_option (Pair k) x) fs"

definition omitempty :: "bool \<Rightarrow> json \<Rightarrow> json option" where
  "omitempty isEmpty j = (if isEmpty then None else Some j)"

definition object_of :: "json \<Rightarrow> (string \<times> json) list option" where
  "object_of j = (case j of JObject ms \<Rightarrow> Some ms | JNull \<Rightarrow> Some [] | _ \<Rightarrow> None)"

text \<open>A member that is missing is read like null: the field keeps its zero value.\<close>

definition or_null :: "json option \<Rightarrow> json" where
  "or_null x = (case x of None \<Rightarrow> JNull | Some j \<Rightarrow> j)"

definition field :: "(string \<times> json) list \<Rightarrow> string \<Rightarrow> (json \<Rightarrow> 'a option) \<Rightarrow> 'a option" where
  "field ms k dec = dec (or_null (map_of (rev ms) k))"

lemma or_null_Some [simp]: "or_null (Some j) = j" and or_null_None [simp]: "or_null None = JNull"
  by (simp_all add: or_null_def)

lemma object_of_JObject [simp]: "object_of (JObject ms) = Some ms"
  by (simp add: object_of_def)

lemma members_append: "members (fs @ gs) = members fs @ members gs"
  by (simp add: members_def map_filter_def)

lemma members_Cons: "members ((k, x) # fs) = (case x of None \<Rightarrow> [] | Some j \<Rightarrow> [(k, j)]) @ members fs"
  by (simp add: members_def map_filter_simps split: option.split)

lemma members_Nil [simp]: "members [] = []"
  by (simp add: members_def map_filter_simps)

lemma keys_members: "fst ` set (members fs) \<subseteq> fst ` set fs"
  by (induction fs) (force simp: members_Cons split: option.splits)+

lemma map_of_members:
  "distinct (map fst fs) \<Longrightarrow> map_of (rev (members fs)) k = Option.bind (map_of fs k) id"
proof (induction fs)
  case (Cons f fs)
  obtain l x where f: "f = (l, x)" by force
  have "k = l \<Longrightarrow> map_of (rev (members fs)) k = None"
    using Cons.prems keys_members [of fs] f by (auto simp: map_of_eq_None_iff)
  with Cons f show ?case
    by (auto simp: members_Cons map_add_def split: option.splits)
qed simp

lemma field_members:
  "distinct (map fst fs) \<Longrightarrow> map_of fs k = Some x \<Longrightarrow> field (members fs) k dec = dec (or_null x)"
  by (simp add: field_def map_of_members)

text \<open>The members of an embedded struct stand between those of the struct around it.\<close>

lemma field_skip: "k \<notin> fst ` set vs \<Longrightarrow> field (xs @ vs @ ys) k = field (xs @ ys) k"
proof -
  assume "k \<notin> fst ` set vs"
  then have "map_of (rev vs) k = None" by (simp add: map_of_eq_None_iff)
  then have "map_of (rev (xs @ vs @ ys)) k = map_of (rev (xs @ ys)) k"
    by (simp add: map_add_def split: option.split)
  then show ?thesis by (simp add: field_def fun_eq_iff)
qed

subsection \<open>Encoders and decoders\<close>

text \<open>
  For a value that is \<open>ok\<close>, decoding what was encoded gives the value back, with the entries of its maps in
  order: \<open>canon\<close>.
\<close>

locale codec =
  fixes enc :: "'a \<Rightarrow> json" and dec :: "json \<Rightarrow> 'a option" and ok :: "'a \<Rightarrow> bool" and canon :: "'a \<Rightarrow> 'a"
  assumes dec_enc: "ok x \<Longrightarrow> dec (enc x) = Some (canon x)"

definition always :: "'a \<Rightarrow> bool" where
  "always x = True"

definition dec_string :: "json \<Rightarrow> string option" where
  "dec_string j = (case j of JString s \<Rightarrow> Some s | JNull \<Rightarrow> Some [] | _ \<Rightarrow> None)"

definition dec_bool :: "json \<Rightarrow> bool option" where
  "dec_bool j = (case j of JBool b \<Rightarrow> Some b | JNull \<Rightarrow> Some False | _ \<Rightarrow> None)"

definition enc_int32 :: "int32 \<Rightarrow> json" where
  "enc_int32 w = JInt (sint w)"

definition dec_int32 :: "json \<Rightarrow> int32 option" where
  "dec_int32 j = (case j of JInt i \<Rightarrow> if - (2 ^ 31) \<le> i \<and> i < 2 ^ 31 then Some (word_of_int i) else None
     | JNull \<Rightarrow> Some 0 | _ \<Rightarrow> None)"

definition enc_int64 :: "int64 \<Rightarrow> json" where
  "enc_int64 w = JInt (sint w)"

definition dec_int64 :: "json \<Rightarrow> int64 option" where
  "dec_int64 j = (case j of JInt i \<Rightarrow> if - (2 ^ 63) \<le> i \<and> i < 2 ^ 63 then Some (word_of_int i) else None
     | JNull \<Rightarrow> Some 0 | _ \<Rightarrow> None)"

lemma sint_bounds32: "- (2 ^ 31) \<le> sint (w :: int32)" "sint (w :: int32) < 2 ^ 31"
  using sint_greater_eq [of w] sint_lt [of w] by simp_all

lemma sint_bounds64: "- (2 ^ 63) \<le> sint (w :: int64)" "sint (w :: int64) < 2 ^ 63"
  using sint_greater_eq [of w] sint_lt [of w] by simp_all

interpretation json_string: codec JString dec_string always id
  by unfold_locales (simp add: dec_string_def)

interpretation json_bool: codec JBool dec_bool always id
  by unfold_locales (simp add: dec_bool_def)

interpretation json_int32: codec enc_int32 dec_int32 always id
  by unfold_locales (use sint_bounds32 in \<open>simp add: dec_int32_def enc_int32_def\<close>)

interpretation json_int64: codec enc_int64 dec_int64 always id
  by unfold_locales (use sint_bounds64 in \<open>simp add: dec_int64_def enc_int64_def\<close>)

text \<open>Pointers.\<close>

definition enc_ptr :: "('a \<Rightarrow> json) \<Rightarrow> 'a option \<Rightarrow> json" where
  "enc_ptr enc p = (case p of None \<Rightarrow> JNull | Some x \<Rightarrow> enc x)"

definition dec_ptr :: "(json \<Rightarrow> 'a option) \<Rightarrow> json \<Rightarrow> 'a option option" where
  "dec_ptr dec j = (if j = JNull then Some None else map_option Some (dec j))"

locale ptr_codec = codec +
  assumes not_null: "enc x \<noteq> JNull"
begin

lemma dec_ptr_enc: "pred_option ok p \<Longrightarrow> dec_ptr dec (enc_ptr enc p) = Some (map_option canon p)"
  by (cases p) (simp_all add: dec_ptr_def enc_ptr_def not_null dec_enc)

lemma dec_ptr_omitted: "pred_option ok p \<Longrightarrow> dec_ptr dec (or_null (map_option enc p)) = Some (map_option canon p)"
  by (cases p) (simp_all add: dec_ptr_def not_null dec_enc)

end

sublocale ptr_codec \<subseteq> pointer: codec "enc_ptr enc" "dec_ptr dec" "pred_option ok" "map_option canon"
  by unfold_locales (rule dec_ptr_enc)

interpretation json_string: ptr_codec JString dec_string always id
  by unfold_locales simp
interpretation json_bool: ptr_codec JBool dec_bool always id
  by unfold_locales simp
interpretation json_int32: ptr_codec enc_int32 dec_int32 always id
  by unfold_locales (simp add: enc_int32_def)
interpretation json_int64: ptr_codec enc_int64 dec_int64 always id
  by unfold_locales (simp add: enc_int64_def)

text \<open>Slices.\<close>

definition enc_list :: "('a \<Rightarrow> json) \<Rightarrow> 'a list \<Rightarrow> json" where
  "enc_list enc xs = JArray (map enc xs)"

fun dec_all :: "(json \<Rightarrow> 'a option) \<Rightarrow> json list \<Rightarrow> 'a list option" where
  "dec_all dec [] = Some []"
| "dec_all dec (j # js) = (case dec j of None \<Rightarrow> None | Some x \<Rightarrow> map_option (Cons x) (dec_all dec js))"

definition dec_list :: "(json \<Rightarrow> 'a option) \<Rightarrow> json \<Rightarrow> 'a list option" where
  "dec_list dec j = (case j of JArray js \<Rightarrow> dec_all dec js | JNull \<Rightarrow> Some [] | _ \<Rightarrow> None)"

lemma dec_all_map:
  "(\<And>x. x \<in> set xs \<Longrightarrow> dec (enc x) = Some (canon x)) \<Longrightarrow> dec_all dec (map enc xs) = Some (map canon xs)"
  by (induction xs) simp_all

lemma codec_list: "codec enc dec ok canon \<Longrightarrow> codec (enc_list enc) (dec_list dec) (list_all ok) (map canon)"
  by (rule codec.intro) (simp add: enc_list_def dec_list_def dec_all_map codec.dec_enc list_all_iff)

text \<open>Maps.\<close>

definition enc_map :: "smap \<Rightarrow> json" where
  "enc_map m = JObject (map (\<lambda>(k, v). (k, JString v)) (sort_key fst m))"

fun dec_entries :: "(string \<times> json) list \<Rightarrow> smap option" where
  "dec_entries [] = Some []"
| "dec_entries ((k, j) # ms) = (case dec_string j of
     None \<Rightarrow> None
   | Some v \<Rightarrow> map_option (Cons (k, v)) (dec_entries ms))"

definition dec_map :: "json \<Rightarrow> smap option" where
  "dec_map j = (case j of
       JObject ms \<Rightarrow> map_option (\<lambda>es. put_all es []) (dec_entries ms)
     | JNull \<Rightarrow> Some []
     | _ \<Rightarrow> None)"

definition map_ok :: "smap \<Rightarrow> bool" where
  "map_ok m \<longleftrightarrow> distinct (map fst m)"

definition sort_map :: "smap \<Rightarrow> smap" where
  "sort_map m = sort_key fst m"

lemma sort_map_simps [simp]: "sort_map [] = []" "sort_map [e] = [e]" "sort_map m = [] \<longleftrightarrow> m = []"
  by (simp_all add: sort_map_def) (metis set_empty set_sort)

lemma mset_sort_map: "mset (sort_map m) = mset m"
  by (simp add: sort_map_def)

lemma map_of_sort_map: "map_ok m \<Longrightarrow> map_of (sort_map m) = map_of m"
  unfolding map_ok_def using mset_sort_map [of m]
  by (metis map_of_inject_set mset_eq_imp_distinct_iff mset_eq_setD mset_map)

lemma dec_entries_strings: "dec_entries (map (\<lambda>(k, v). (k, JString v)) es) = Some es"
  by (induction es) (auto simp: dec_string_def)

interpretation json_map: codec enc_map dec_map map_ok sort_map
proof
  fix m
  assume "map_ok m"
  then have "distinct (map fst (sort_map m))"
    unfolding map_ok_def by (metis mset_eq_imp_distinct_iff mset_map mset_sort_map)
  then have "put_all (sort_map m) [] = sort_map m" by (simp add: put_all_append)
  then show "dec_map (enc_map m) = Some (sort_map m)"
    by (simp add: dec_map_def enc_map_def dec_entries_strings sort_map_def [symmetric])
qed

subsection \<open>Fields with omitempty\<close>

lemma always_ok [simp]: "always x" "pred_option always p" "list_all always xs"
  by (simp_all add: always_def pred_option_def list_all_iff)

lemma dec_omitted_string: "dec_string (or_null (omitempty (s = []) (JString s))) = Some s"
  by (simp add: omitempty_def dec_string_def)

lemma dec_omitted_bool: "dec_bool (or_null (omitempty (\<not> b) (JBool b))) = Some b"
  by (simp add: omitempty_def dec_bool_def)

lemma dec_omitted_int32: "dec_int32 (or_null (omitempty (w = 0) (enc_int32 w))) = Some w"
  using json_int32.dec_enc [of w] by (simp add: omitempty_def) (simp add: dec_int32_def)

lemma dec_omitted_map: "map_ok m \<Longrightarrow> dec_map (or_null (omitempty (m = []) (enc_map m))) = Some (sort_map m)"
  by (simp add: omitempty_def json_map.dec_enc) (simp add: dec_map_def)

lemma dec_nil_map: "map_ok m \<Longrightarrow> dec_map (if isnil \<and> m = [] then JNull else enc_map m) = Some (sort_map m)"
  by (simp add: json_map.dec_enc) (simp add: dec_map_def)

lemma dec_omitted_list:
  "codec enc dec ok canon \<Longrightarrow> list_all ok xs \<Longrightarrow>
     dec_list dec (or_null (omitempty (xs = []) (enc_list enc xs))) = Some (map canon xs)"
  by (frule codec_list, drule codec.dec_enc, assumption) (auto simp: omitempty_def, simp add: dec_list_def)

lemmas codec_simps = dec_omitted_string dec_omitted_bool dec_omitted_int32 dec_omitted_map dec_nil_map
  json_string.dec_enc json_bool.dec_enc json_int32.dec_enc json_int64.dec_enc
  json_string.dec_ptr_omitted json_bool.dec_ptr_omitted json_int32.dec_ptr_omitted json_int64.dec_ptr_omitted
  json_int32.dec_ptr_enc

end
