(* ===== verification/Marshal.thy ===== *)
theory Marshal
  imports Json Example_Cluster
begin

text \<open>
  The JSON form of a resource, which the struct tags of \<^verbatim>\<open>presto_types.go\<close> define: one encoder and one decoder
  for each struct. A resource is a value, in which a nil map and an empty one are the same; where the encoding
  tells them apart, a parameter does.

  The tags of \<^verbatim>\<open>InternalHiveMetaStore\<close>, \<^verbatim>\<open>ImageDetails\<close> and \<^verbatim>\<open>AdditionalPrestoPropFiles\<close> have their
  \<^verbatim>\<open>omitempty\<close> outside the quotes, where it has no effect.
\<close>

subsection \<open>What is outside\<close>

text \<open>
  The JSON form of the library structs. Those of \<^verbatim>\<open>TypeMeta\<close> and \<^verbatim>\<open>VolumeSource\<close>, which are embedded, are members
  of the object around them.
\<close>

record json_lib =
  jl_TypeMeta :: "string \<Rightarrow> string \<Rightarrow> (string \<times> json) list"
  jl_ObjectMeta :: "object_meta \<Rightarrow> json"
  jl_VolumeSource :: "volume_source \<Rightarrow> (string \<times> json) list"
  jl_SessionAffinityConfig :: "string \<Rightarrow> json"
  jl_Time :: "int \<Rightarrow> json"
  jr_TypeMeta :: "(string \<times> json) list \<Rightarrow> (string \<times> string) option"
  jr_ObjectMeta :: "json \<Rightarrow> object_meta option"
  jr_VolumeSource :: "(string \<times> json) list \<Rightarrow> volume_source option"
  jr_SessionAffinityConfig :: "json \<Rightarrow> string option"
  jr_Time :: "json \<Rightarrow> int option"

text \<open>The two maps that are written when they are empty.\<close>

datatype map_field = ContentOf nat | AdditionalPrestoPropFiles

type_synonym nil_maps = "map_field \<Rightarrow> bool"

subsection \<open>Encoding\<close>

definition marshal_CoordinatorSpec :: "CoordinatorSpec \<Rightarrow> json" where
  "marshal_CoordinatorSpec s = JObject (members [
     (''memoryLimit'', Some (JString (co_MemoryLimit s))),
     (''additionalJVMConfig'', omitempty (co_AdditionalJVMConfig s = []) (JString (co_AdditionalJVMConfig s))),
     (''additionalProps'', omitempty (co_AdditionalProps s = []) (enc_map (co_AdditionalProps s))),
     (''cpuLimit'', Some (JString (co_CpuLimit s))),
     (''cpuRequest'', omitempty (co_CpuRequest s = []) (JString (co_CpuRequest s))),
     (''httpsEnabled'', omitempty (\<not> co_HttpsEnabled s) (JBool (co_HttpsEnabled s))),
     (''httpsKeyPairSecretName'',
        omitempty (co_HttpsKeyPairSecretName s = []) (JString (co_HttpsKeyPairSecretName s))),
     (''httpsKeyPairSecretKey'',
        omitempty (co_HttpsKeyPairSecretKey s = []) (JString (co_HttpsKeyPairSecretKey s))),
     (''httpsKeyPairPassword'',
        omitempty (co_HttpsKeyPairPassword s = []) (JString (co_HttpsKeyPairPassword s)))])"

definition marshal_AutoscalingSpec :: "AutoscalingSpec \<Rightarrow> json" where
  "marshal_AutoscalingSpec s = JObject (members [
     (''enabled'', map_option JBool (as_Enabled s)),
     (''minReplicas'', map_option enc_int32 (as_MinReplicas s)),
     (''maxReplicas'', map_option enc_int32 (as_MaxReplicas s)),
     (''targetCPUUtilizationPercentage'', map_option enc_int32 (as_TargetCPUUtilizationPercentage s))])"

definition marshal_WorkerSpec :: "WorkerSpec \<Rightarrow> json" where
  "marshal_WorkerSpec s = JObject (members [
     (''memoryLimit'', Some (JString (wo_MemoryLimit s))),
     (''additionalJVMConfig'', omitempty (wo_AdditionalJVMConfig s = []) (JString (wo_AdditionalJVMConfig s))),
     (''additionalProps'', omitempty (wo_AdditionalProps s = []) (enc_map (wo_AdditionalProps s))),
     (''cpuLimit'', Some (JString (wo_CpuLimit s))),
     (''cpuRequest'', omitempty (wo_CpuRequest s = []) (JString (wo_CpuRequest s))),
     (''terminationGracePeriodSeconds'', map_option enc_int64 (wo_TerminationGracePeriodSeconds s)),
     (''count'', Some (enc_ptr enc_int32 (wo_Count s))),
     (''autoscaling'', Some (marshal_AutoscalingSpec (wo_Autoscaling s)))])"

definition marshal_CatalogSpec :: "bool \<Rightarrow> CatalogSpec \<Rightarrow> json" where
  "marshal_CatalogSpec isnil s = JObject (members [
     (''name'', Some (JString (cs_Name s))),
     (''content'', Some (if isnil \<and> cs_Content s = [] then JNull else enc_map (cs_Content s)))])"

definition marshal_CatalogSecret :: "CatalogSecret \<Rightarrow> json" where
  "marshal_CatalogSecret s = JObject (members [
     (''secretName'', omitempty (cx_SecretName s = []) (JString (cx_SecretName s))),
     (''secretKey'', omitempty (cx_SecretKey s = []) (JString (cx_SecretKey s)))])"

definition marshal_CatalogList :: "nil_maps \<Rightarrow> CatalogList \<Rightarrow> json" where
  "marshal_CatalogList isnil s = JObject (members [
     (''catalogSecrets'',
        omitempty (cl_CatalogSecrets s = []) (enc_list marshal_CatalogSecret (cl_CatalogSecrets s))),
     (''catalogSpec'', omitempty (cl_CatalogSpec s = [])
        (enc_list (\<lambda>(i, c). marshal_CatalogSpec (isnil (ContentOf i)) c) (enumerate 0 (cl_CatalogSpec s))))])"

definition marshal_ServiceSpec :: "json_lib \<Rightarrow> ServiceSpec \<Rightarrow> json" where
  "marshal_ServiceSpec J s = JObject (members [
     (''nodePort'', map_option enc_int32 (se_NodePort s)),
     (''port'', map_option enc_int32 (se_Port s)),
     (''clusterIP'', omitempty (se_ClusterIP s = []) (JString (se_ClusterIP s))),
     (''type'', omitempty (se_Type s = []) (JString (se_Type s))),
     (''externalIPs'', omitempty (se_ExternalIPs s = []) (enc_list JString (se_ExternalIPs s))),
     (''sessionAffinity'', omitempty (se_SessionAffinity s = []) (JString (se_SessionAffinity s))),
     (''loadBalancerIP'', omitempty (se_LoadBalancerIP s = []) (JString (se_LoadBalancerIP s))),
     (''loadBalancerSourceRanges'',
        omitempty (se_LoadBalancerSourceRanges s = []) (enc_list JString (se_LoadBalancerSourceRanges s))),
     (''externalName'', omitempty (se_ExternalName s = []) (JString (se_ExternalName s))),
     (''externalTrafficPolicy'',
        omitempty (se_ExternalTrafficPolicy s = []) (JString (se_ExternalTrafficPolicy s))),
     (''healthCheckNodePort'', omitempty (se_HealthCheckNodePort s = 0) (enc_int32 (se_HealthCheckNodePort s))),
     (''publishNotReadyAddresses'',
        omitempty (\<not> se_PublishNotReadyAddresses s) (JBool (se_PublishNotReadyAddresses s))),
     (''sessionAffinityConfig'', map_option (jl_SessionAffinityConfig J) (se_SessionAffinityConfig s)),
     (''ipFamily'', map_option JString (se_IPFamily s))])"

definition marshal_HMSSpec :: json where
  "marshal_HMSSpec = JObject []"

definition marshal_ImageSpec :: "ImageSpec \<Rightarrow> json" where
  "marshal_ImageSpec s = JObject (members [
     (''name'', Some (JString (im_Name s))),
     (''prestoPath'', Some (JString (im_PrestoPath s)))])"

definition marshal_PrestoVolumeSpec :: "json_lib \<Rightarrow> PrestoVolumeSpec \<Rightarrow> json" where
  "marshal_PrestoVolumeSpec J s = JObject (members [(''name'', Some (JString (pv_Name s)))] @
     jl_VolumeSource J (pv_VolumeSource s) @ members [
     (''readOnly'', omitempty (\<not> pv_ReadOnly s) (JBool (pv_ReadOnly s))),
     (''mountPath'', Some (JString (pv_MountPath s))),
     (''subPath'', omitempty (pv_SubPath s = []) (JString (pv_SubPath s))),
     (''mountPropagation'', map_option JString (pv_MountPropagation s)),
     (''subPathExpr'', omitempty (pv_SubPathExpr s = []) (JString (pv_SubPathExpr s)))])"

definition marshal_PrestoSpec :: "json_lib \<Rightarrow> nil_maps \<Rightarrow> PrestoSpec \<Rightarrow> json" where
  "marshal_PrestoSpec J isnil s = JObject (members [
     (''coordinator'', Some (marshal_CoordinatorSpec (sp_Coordinator s))),
     (''worker'', Some (marshal_WorkerSpec (sp_Worker s))),
     (''catalogs'', Some (marshal_CatalogList isnil (sp_Catalogs s))),
     (''service'', Some (marshal_ServiceSpec J (sp_Service s))),
     (''internalHiveMetaStore'', Some marshal_HMSSpec),
     (''imageDetails'', Some (marshal_ImageSpec (sp_ImageDetails s))),
     (''additionalPrestoPropFiles'',
        Some (if isnil AdditionalPrestoPropFiles \<and> sp_AdditionalPrestoPropFiles s = [] then JNull
              else enc_map (sp_AdditionalPrestoPropFiles s))),
     (''volumes'', omitempty (sp_Volumes s = []) (enc_list (marshal_PrestoVolumeSpec J) (sp_Volumes s)))])"

definition marshal_PrestoStatus :: "json_lib \<Rightarrow> PrestoStatus \<Rightarrow> json" where
  "marshal_PrestoStatus J s = JObject (members [
     (''uuid'', Some (JString (st_Uuid s))),
     (''desiredWorkers'', Some (enc_int32 (st_DesiredWorkers s))),
     (''currentWorkers'', Some (enc_int32 (st_CurrentWorkers s))),
     (''headlessService'', Some (JString (st_HeadlessService s))),
     (''service'', Some (JString (st_Service s))),
     (''coordinatorAddress'', Some (JString (st_CoordinatorAddress s))),
     (''catalogConfig'', Some (JString (st_CatalogConfig s))),
     (''coordinatorConfig'', Some (JString (st_CoordinatorConfig s))),
     (''workerConfig'', Some (JString (st_WorkerConfig s))),
     (''workerReplicaset'', Some (JString (st_WorkerReplicaset s))),
     (''coordinatorReplicaset'', Some (JString (st_CoordinatorReplicaset s))),
     (''hpaName'', Some (JString (st_HpaName s))),
     (''clusterState'', Some (JString (st_ClusterState s))),
     (''errorReason'', Some (JString (st_ErrorReason s))),
     (''modificationTime'', Some (jl_Time J (st_ModificationTime s))),
     (''coordinatorCPU'', omitempty (st_CoordinatorCPU s = []) (JString (st_CoordinatorCPU s))),
     (''workerCPU'', omitempty (st_WorkerCPU s = []) (JString (st_WorkerCPU s)))])"

definition marshal_Presto :: "json_lib \<Rightarrow> nil_maps \<Rightarrow> Presto \<Rightarrow> json" where
  "marshal_Presto J isnil p = JObject (jl_TypeMeta J (pr_APIVersion p) (pr_Kind p) @ members [
     (''metadata'', Some (jl_ObjectMeta J (pr_meta p))),
     (''spec'', Some (marshal_PrestoSpec J isnil (pr_Spec p))),
     (''status'', Some (marshal_PrestoStatus J (pr_Status p)))])"

subsection \<open>Decoding\<close>

definition unmarshal_CoordinatorSpec :: "json \<Rightarrow> CoordinatorSpec option" where
  "unmarshal_CoordinatorSpec j = do {
     ms \<leftarrow> object_of j;
     memoryLimit \<leftarrow> field ms ''memoryLimit'' dec_string;
     additionalJVMConfig \<leftarrow> field ms ''additionalJVMConfig'' dec_string;
     additionalProps \<leftarrow> field ms ''additionalProps'' dec_map;
     cpuLimit \<leftarrow> field ms ''cpuLimit'' dec_string;
     cpuRequest \<leftarrow> field ms ''cpuRequest'' dec_string;
     httpsEnabled \<leftarrow> field ms ''httpsEnabled'' dec_bool;
     secretName \<leftarrow> field ms ''httpsKeyPairSecretName'' dec_string;
     secretKey \<leftarrow> field ms ''httpsKeyPairSecretKey'' dec_string;
     password \<leftarrow> field ms ''httpsKeyPairPassword'' dec_string;
     Some \<lparr>co_MemoryLimit = memoryLimit, co_AdditionalJVMConfig = additionalJVMConfig,
       co_AdditionalProps = additionalProps, co_CpuLimit = cpuLimit, co_CpuRequest = cpuRequest,
       co_HttpsEnabled = httpsEnabled, co_HttpsKeyPairSecretName = secretName,
       co_HttpsKeyPairSecretKey = secretKey, co_HttpsKeyPairPassword = password\<rparr> }"

definition unmarshal_AutoscalingSpec :: "json \<Rightarrow> AutoscalingSpec option" where
  "unmarshal_AutoscalingSpec j = do {
     ms \<leftarrow> object_of j;
     enabled \<leftarrow> field ms ''enabled'' (dec_ptr dec_bool);
     minReplicas \<leftarrow> field ms ''minReplicas'' (dec_ptr dec_int32);
     maxReplicas \<leftarrow> field ms ''maxReplicas'' (dec_ptr dec_int32);
     cpu \<leftarrow> field ms ''targetCPUUtilizationPercentage'' (dec_ptr dec_int32);
     Some \<lparr>as_Enabled = enabled, as_MinReplicas = minReplicas, as_MaxReplicas = maxReplicas,
       as_TargetCPUUtilizationPercentage = cpu\<rparr> }"

definition unmarshal_WorkerSpec :: "json \<Rightarrow> WorkerSpec option" where
  "unmarshal_WorkerSpec j = do {
     ms \<leftarrow> object_of j;
     memoryLimit \<leftarrow> field ms ''memoryLimit'' dec_string;
     additionalJVMConfig \<leftarrow> field ms ''additionalJVMConfig'' dec_string;
     additionalProps \<leftarrow> field ms ''additionalProps'' dec_map;
     cpuLimit \<leftarrow> field ms ''cpuLimit'' dec_string;
     cpuRequest \<leftarrow> field ms ''cpuRequest'' dec_string;
     grace \<leftarrow> field ms ''terminationGracePeriodSeconds'' (dec_ptr dec_int64);
     n \<leftarrow> field ms ''count'' (dec_ptr dec_int32);
     autoscaling \<leftarrow> field ms ''autoscaling'' unmarshal_AutoscalingSpec;
     Some \<lparr>wo_MemoryLimit = memoryLimit, wo_AdditionalJVMConfig = additionalJVMConfig,
       wo_AdditionalProps = additionalProps, wo_CpuLimit = cpuLimit, wo_CpuRequest = cpuRequest,
       wo_TerminationGracePeriodSeconds = grace, wo_Count = n, wo_Autoscaling = autoscaling\<rparr> }"

definition unmarshal_CatalogSpec :: "json \<Rightarrow> CatalogSpec option" where
  "unmarshal_CatalogSpec j = do {
     ms \<leftarrow> object_of j;
     name \<leftarrow> field ms ''name'' dec_string;
     content \<leftarrow> field ms ''content'' dec_map;
     Some \<lparr>cs_Name = name, cs_Content = content\<rparr> }"

definition unmarshal_CatalogSecret :: "json \<Rightarrow> CatalogSecret option" where
  "unmarshal_CatalogSecret j = do {
     ms \<leftarrow> object_of j;
     secretName \<leftarrow> field ms ''secretName'' dec_string;
     secretKey \<leftarrow> field ms ''secretKey'' dec_string;
     Some \<lparr>cx_SecretName = secretName, cx_SecretKey = secretKey\<rparr> }"

definition unmarshal_CatalogList :: "json \<Rightarrow> CatalogList option" where
  "unmarshal_CatalogList j = do {
     ms \<leftarrow> object_of j;
     secrets \<leftarrow> field ms ''catalogSecrets'' (dec_list unmarshal_CatalogSecret);
     specs \<leftarrow> field ms ''catalogSpec'' (dec_list unmarshal_CatalogSpec);
     Some \<lparr>cl_CatalogSecrets = secrets, cl_CatalogSpec = specs\<rparr> }"

definition unmarshal_ServiceSpec :: "json_lib \<Rightarrow> json \<Rightarrow> ServiceSpec option" where
  "unmarshal_ServiceSpec J j = do {
     ms \<leftarrow> object_of j;
     nodePort \<leftarrow> field ms ''nodePort'' (dec_ptr dec_int32);
     port \<leftarrow> field ms ''port'' (dec_ptr dec_int32);
     clusterIP \<leftarrow> field ms ''clusterIP'' dec_string;
     typ \<leftarrow> field ms ''type'' dec_string;
     externalIPs \<leftarrow> field ms ''externalIPs'' (dec_list dec_string);
     sessionAffinity \<leftarrow> field ms ''sessionAffinity'' dec_string;
     loadBalancerIP \<leftarrow> field ms ''loadBalancerIP'' dec_string;
     sourceRanges \<leftarrow> field ms ''loadBalancerSourceRanges'' (dec_list dec_string);
     externalName \<leftarrow> field ms ''externalName'' dec_string;
     trafficPolicy \<leftarrow> field ms ''externalTrafficPolicy'' dec_string;
     healthPort \<leftarrow> field ms ''healthCheckNodePort'' dec_int32;
     notReady \<leftarrow> field ms ''publishNotReadyAddresses'' dec_bool;
     affinityConfig \<leftarrow> field ms ''sessionAffinityConfig'' (dec_ptr (jr_SessionAffinityConfig J));
     ipFamily \<leftarrow> field ms ''ipFamily'' (dec_ptr dec_string);
     Some \<lparr>se_NodePort = nodePort, se_Port = port, se_ClusterIP = clusterIP, se_Type = typ,
       se_ExternalIPs = externalIPs, se_SessionAffinity = sessionAffinity, se_LoadBalancerIP = loadBalancerIP,
       se_LoadBalancerSourceRanges = sourceRanges, se_ExternalName = externalName,
       se_ExternalTrafficPolicy = trafficPolicy, se_HealthCheckNodePort = healthPort,
       se_PublishNotReadyAddresses = notReady, se_SessionAffinityConfig = affinityConfig,
       se_IPFamily = ipFamily\<rparr> }"

definition unmarshal_HMSSpec :: "json \<Rightarrow> unit option" where
  "unmarshal_HMSSpec j = do { ms \<leftarrow> object_of j; Some () }"

definition unmarshal_ImageSpec :: "json \<Rightarrow> ImageSpec option" where
  "unmarshal_ImageSpec j = do {
     ms \<leftarrow> object_of j;
     name \<leftarrow> field ms ''name'' dec_string;
     prestoPath \<leftarrow> field ms ''prestoPath'' dec_string;
     Some \<lparr>im_Name = name, im_PrestoPath = prestoPath\<rparr> }"

definition unmarshal_PrestoVolumeSpec :: "json_lib \<Rightarrow> json \<Rightarrow> PrestoVolumeSpec option" where
  "unmarshal_PrestoVolumeSpec J j = do {
     ms \<leftarrow> object_of j;
     name \<leftarrow> field ms ''name'' dec_string;
     volumeSource \<leftarrow> jr_VolumeSource J ms;
     readOnly \<leftarrow> field ms ''readOnly'' dec_bool;
     mountPath \<leftarrow> field ms ''mountPath'' dec_string;
     subPath \<leftarrow> field ms ''subPath'' dec_string;
     mountPropagation \<leftarrow> field ms ''mountPropagation'' (dec_ptr dec_string);
     subPathExpr \<leftarrow> field ms ''subPathExpr'' dec_string;
     Some \<lparr>pv_Name = name, pv_VolumeSource = volumeSource, pv_ReadOnly = readOnly, pv_MountPath = mountPath,
       pv_SubPath = subPath, pv_MountPropagation = mountPropagation, pv_SubPathExpr = subPathExpr\<rparr> }"

definition unmarshal_PrestoSpec :: "json_lib \<Rightarrow> json \<Rightarrow> PrestoSpec option" where
  "unmarshal_PrestoSpec J j = do {
     ms \<leftarrow> object_of j;
     coordinator \<leftarrow> field ms ''coordinator'' unmarshal_CoordinatorSpec;
     worker \<leftarrow> field ms ''worker'' unmarshal_WorkerSpec;
     catalogs \<leftarrow> field ms ''catalogs'' unmarshal_CatalogList;
     service \<leftarrow> field ms ''service'' (unmarshal_ServiceSpec J);
     hms \<leftarrow> field ms ''internalHiveMetaStore'' unmarshal_HMSSpec;
     imageDetails \<leftarrow> field ms ''imageDetails'' unmarshal_ImageSpec;
     propFiles \<leftarrow> field ms ''additionalPrestoPropFiles'' dec_map;
     volumes \<leftarrow> field ms ''volumes'' (dec_list (unmarshal_PrestoVolumeSpec J));
     Some \<lparr>sp_Coordinator = coordinator, sp_Worker = worker, sp_Catalogs = catalogs, sp_Service = service,
       sp_ImageDetails = imageDetails, sp_AdditionalPrestoPropFiles = propFiles, sp_Volumes = volumes\<rparr> }"

definition unmarshal_PrestoStatus :: "json_lib \<Rightarrow> json \<Rightarrow> PrestoStatus option" where
  "unmarshal_PrestoStatus J j = do {
     ms \<leftarrow> object_of j;
     uuid \<leftarrow> field ms ''uuid'' dec_string;
     desiredWorkers \<leftarrow> field ms ''desiredWorkers'' dec_int32;
     currentWorkers \<leftarrow> field ms ''currentWorkers'' dec_int32;
     headlessService \<leftarrow> field ms ''headlessService'' dec_string;
     service \<leftarrow> field ms ''service'' dec_string;
     coordinatorAddress \<leftarrow> field ms ''coordinatorAddress'' dec_string;
     catalogConfig \<leftarrow> field ms ''catalogConfig'' dec_string;
     coordinatorConfig \<leftarrow> field ms ''coordinatorConfig'' dec_string;
     workerConfig \<leftarrow> field ms ''workerConfig'' dec_string;
     workerReplicaset \<leftarrow> field ms ''workerReplicaset'' dec_string;
     coordinatorReplicaset \<leftarrow> field ms ''coordinatorReplicaset'' dec_string;
     hpaName \<leftarrow> field ms ''hpaName'' dec_string;
     clusterState \<leftarrow> field ms ''clusterState'' dec_string;
     errorReason \<leftarrow> field ms ''errorReason'' dec_string;
     modificationTime \<leftarrow> field ms ''modificationTime'' (jr_Time J);
     coordinatorCPU \<leftarrow> field ms ''coordinatorCPU'' dec_string;
     workerCPU \<leftarrow> field ms ''workerCPU'' dec_string;
     Some \<lparr>st_Uuid = uuid, st_DesiredWorkers = desiredWorkers, st_CurrentWorkers = currentWorkers,
       st_HeadlessService = headlessService, st_Service = service, st_CoordinatorAddress = coordinatorAddress,
       st_CatalogConfig = catalogConfig, st_CoordinatorConfig = coordinatorConfig,
       st_WorkerConfig = workerConfig, st_WorkerReplicaset = workerReplicaset,
       st_CoordinatorReplicaset = coordinatorReplicaset, st_HpaName = hpaName,
       st_ClusterState = clusterState, st_ErrorReason = errorReason, st_ModificationTime = modificationTime,
       st_CoordinatorCPU = coordinatorCPU, st_WorkerCPU = workerCPU\<rparr> }"

definition unmarshal_Presto :: "json_lib \<Rightarrow> json \<Rightarrow> Presto option" where
  "unmarshal_Presto J j = do {
     ms \<leftarrow> object_of j;
     (apiVersion, kind) \<leftarrow> jr_TypeMeta J ms;
     meta \<leftarrow> field ms ''metadata'' (jr_ObjectMeta J);
     spec \<leftarrow> field ms ''spec'' (unmarshal_PrestoSpec J);
     status \<leftarrow> field ms ''status'' (unmarshal_PrestoStatus J);
     Some \<lparr>pr_APIVersion = apiVersion, pr_Kind = kind, pr_meta = meta, pr_Spec = spec, pr_Status = status\<rparr> }"

end
