(* ===== verification/Round_Trip.thy ===== *)
theory Round_Trip
  imports Marshal
begin

text \<open>
  Decoding what was encoded gives the resource back. Each struct is a codec over the codecs of its fields.
\<close>

subsection \<open>The structs without library parts\<close>















subsection \<open>The structs with library parts\<close>























subsection \<open>An example of the library\<close>
























end
