(* ===== verification/Open_API.thy ===== *)
theory Open_API
  imports Round_Trip
begin

text \<open>
  The schemas of \<^verbatim>\<open>zz_generated.openapi.go\<close>, without their descriptions, what it means that a JSON value
  conforms to one, and how they fit the encoders of \<open>Marshal\<close>.
\<close>

subsection \<open>Schemas\<close>

text \<open>\<^verbatim>\<open>spec.SchemaProps\<close>, with the fields that the generated code sets. The type and the reference may be absent.\<close>

datatype schema = Schema
  (sc_Type: "string list")
  (sc_Format: string)
  (sc_Properties: "(string \<times> schema) list")
  (sc_Required: "string list")
  (sc_Items: "schema option")
  (sc_AdditionalProperties: "schema option")
  (sc_Ref: "string option")

record OpenAPIDefinition =
  od_Schema :: schema
  od_Dependencies :: "string list"

definition typed :: "string \<Rightarrow> string \<Rightarrow> schema" where
  "typed t f = Schema [t] f [] [] None None None"

definition object_schema :: "(string \<times> schema) list \<Rightarrow> string list \<Rightarrow> schema" where
  "object_schema ps req = Schema [''object''] [] ps req None None None"

definition array_schema :: "schema \<Rightarrow> schema" where
  "array_schema s = Schema [''array''] [] [] [] (Some s) None None"

definition map_schema :: "schema \<Rightarrow> schema" where
  "map_schema s = Schema [''object''] [] [] [] None (Some s) None"

definition ref_schema :: "string \<Rightarrow> schema" where
  "ref_schema r = Schema [] [] [] [] None None (Some r)"

abbreviation string_schema :: schema where "string_schema \<equiv> typed ''string'' []"
abbreviation boolean_schema :: schema where "boolean_schema \<equiv> typed ''boolean'' []"
abbreviation int32_schema :: schema where "int32_schema \<equiv> typed ''integer'' ''int32''"
abbreviation int64_schema :: schema where "int64_schema \<equiv> typed ''integer'' ''int64''"

text \<open>The import path of the package, and the names of its types and of the library types it refers to.\<close>

definition pkg :: "string \<Rightarrow> string" where
  "pkg t = ''github.com/falarica/steerd-presto-operator/pkg/apis/falarica/v1alpha1.'' @ t"

definition meta_v1 :: "string \<Rightarrow> string" where
  "meta_v1 t = ''k8s.io/apimachinery/pkg/apis/meta/v1.'' @ t"

definition core_v1 :: "string \<Rightarrow> string" where
  "core_v1 t = ''k8s.io/api/core/v1.'' @ t"

subsection \<open>The definitions\<close>

text \<open>\<open>ref\<close> is the callback that turns the name of a type into a reference.\<close>

definition schema_AutoscalingSpec :: "(string \<Rightarrow> string) \<Rightarrow> OpenAPIDefinition" where
  "schema_AutoscalingSpec ref = \<lparr>od_Schema = object_schema [
       (''enabled'', boolean_schema), (''minReplicas'', int32_schema), (''maxReplicas'', int32_schema),
       (''targetCPUUtilizationPercentage'', int32_schema)] [],
     od_Dependencies = []\<rparr>"

definition schema_CatalogList :: "(string \<Rightarrow> string) \<Rightarrow> OpenAPIDefinition" where
  "schema_CatalogList ref = \<lparr>od_Schema = object_schema [
       (''catalogSecrets'', array_schema (ref_schema (ref (pkg ''CatalogSecret'')))),
       (''catalogSpec'', array_schema (ref_schema (ref (pkg ''CatalogSpec''))))] [],
     od_Dependencies = [pkg ''CatalogSecret'', pkg ''CatalogSpec'']\<rparr>"

definition schema_CatalogSecret :: "(string \<Rightarrow> string) \<Rightarrow> OpenAPIDefinition" where
  "schema_CatalogSecret ref = \<lparr>od_Schema = object_schema [
       (''secretName'', string_schema), (''secretKey'', string_schema)] [],
     od_Dependencies = []\<rparr>"

definition schema_CatalogSpec :: "(string \<Rightarrow> string) \<Rightarrow> OpenAPIDefinition" where
  "schema_CatalogSpec ref = \<lparr>od_Schema = object_schema [
       (''name'', string_schema), (''content'', map_schema string_schema)] [''name'', ''content''],
     od_Dependencies = []\<rparr>"

definition schema_CoordinatorSpec :: "(string \<Rightarrow> string) \<Rightarrow> OpenAPIDefinition" where
  "schema_CoordinatorSpec ref = \<lparr>od_Schema = object_schema [
       (''memoryLimit'', string_schema), (''additionalJVMConfig'', string_schema),
       (''additionalProps'', map_schema string_schema), (''cpuLimit'', string_schema),
       (''cpuRequest'', string_schema), (''httpsEnabled'', boolean_schema),
       (''httpsKeyPairSecretName'', string_schema), (''httpsKeyPairSecretKey'', string_schema),
       (''httpsKeyPairPassword'', string_schema)] [''memoryLimit'', ''cpuLimit''],
     od_Dependencies = []\<rparr>"

definition schema_HMSSpec :: "(string \<Rightarrow> string) \<Rightarrow> OpenAPIDefinition" where
  "schema_HMSSpec ref = \<lparr>od_Schema = object_schema [] [], od_Dependencies = []\<rparr>"

definition schema_ImageSpec :: "(string \<Rightarrow> string) \<Rightarrow> OpenAPIDefinition" where
  "schema_ImageSpec ref = \<lparr>od_Schema = object_schema [
       (''name'', string_schema), (''prestoPath'', string_schema)] [''name'', ''prestoPath''],
     od_Dependencies = []\<rparr>"

definition schema_Presto :: "(string \<Rightarrow> string) \<Rightarrow> OpenAPIDefinition" where
  "schema_Presto ref = \<lparr>od_Schema = object_schema [
       (''kind'', string_schema), (''apiVersion'', string_schema),
       (''metadata'', ref_schema (ref (meta_v1 ''ObjectMeta''))),
       (''spec'', ref_schema (ref (pkg ''PrestoSpec''))),
       (''status'', ref_schema (ref (pkg ''PrestoStatus'')))] [],
     od_Dependencies = [pkg ''PrestoSpec'', pkg ''PrestoStatus'', meta_v1 ''ObjectMeta'']\<rparr>"

definition schema_PrestoSpec :: "(string \<Rightarrow> string) \<Rightarrow> OpenAPIDefinition" where
  "schema_PrestoSpec ref = \<lparr>od_Schema = object_schema [
       (''coordinator'', ref_schema (ref (pkg ''CoordinatorSpec''))),
       (''worker'', ref_schema (ref (pkg ''WorkerSpec''))),
       (''catalogs'', ref_schema (ref (pkg ''CatalogList''))),
       (''service'', ref_schema (ref (pkg ''ServiceSpec''))),
       (''internalHiveMetaStore'', ref_schema (ref (pkg ''HMSSpec''))),
       (''imageDetails'', ref_schema (ref (pkg ''ImageSpec''))),
       (''additionalPrestoPropFiles'', map_schema string_schema),
       (''volumes'', array_schema (ref_schema (ref (pkg ''PrestoVolumeSpec''))))]
       [''coordinator'', ''worker'', ''internalHiveMetaStore'', ''imageDetails'', ''additionalPrestoPropFiles''],
     od_Dependencies = [pkg ''CatalogList'', pkg ''CoordinatorSpec'', pkg ''HMSSpec'', pkg ''ImageSpec'',
       pkg ''PrestoVolumeSpec'', pkg ''ServiceSpec'', pkg ''WorkerSpec'']\<rparr>"

definition schema_PrestoStatus :: "(string \<Rightarrow> string) \<Rightarrow> OpenAPIDefinition" where
  "schema_PrestoStatus ref = \<lparr>od_Schema = object_schema [
       (''uuid'', string_schema), (''desiredWorkers'', int32_schema), (''currentWorkers'', int32_schema),
       (''headlessService'', string_schema), (''service'', string_schema),
       (''coordinatorAddress'', string_schema), (''catalogConfig'', string_schema),
       (''coordinatorConfig'', string_schema), (''workerConfig'', string_schema),
       (''workerReplicaset'', string_schema), (''coordinatorReplicaset'', string_schema),
       (''hpaName'', string_schema), (''clusterState'', string_schema), (''errorReason'', string_schema),
       (''modificationTime'', ref_schema (ref (meta_v1 ''Time''))),
       (''coordinatorCPU'', string_schema), (''workerCPU'', string_schema)]
       [''uuid'', ''desiredWorkers'', ''currentWorkers'', ''headlessService'', ''service'', ''coordinatorAddress'',
        ''catalogConfig'', ''coordinatorConfig'', ''workerConfig'', ''workerReplicaset'',
        ''coordinatorReplicaset'', ''hpaName'', ''clusterState'', ''errorReason''],
     od_Dependencies = [meta_v1 ''Time'']\<rparr>"

definition schema_ServiceSpec :: "(string \<Rightarrow> string) \<Rightarrow> OpenAPIDefinition" where
  "schema_ServiceSpec ref = \<lparr>od_Schema = object_schema [
       (''nodePort'', int32_schema), (''port'', int32_schema), (''clusterIP'', string_schema),
       (''type'', string_schema), (''externalIPs'', array_schema string_schema),
       (''sessionAffinity'', string_schema), (''loadBalancerIP'', string_schema),
       (''loadBalancerSourceRanges'', array_schema string_schema), (''externalName'', string_schema),
       (''externalTrafficPolicy'', string_schema), (''healthCheckNodePort'', int32_schema),
       (''publishNotReadyAddresses'', boolean_schema),
       (''sessionAffinityConfig'', ref_schema (ref (core_v1 ''SessionAffinityConfig''))),
       (''ipFamily'', string_schema)] [],
     od_Dependencies = [core_v1 ''SessionAffinityConfig'']\<rparr>"

definition schema_WorkerSpec :: "(string \<Rightarrow> string) \<Rightarrow> OpenAPIDefinition" where
  "schema_WorkerSpec ref = \<lparr>od_Schema = object_schema [
       (''memoryLimit'', string_schema), (''additionalJVMConfig'', string_schema),
       (''additionalProps'', map_schema string_schema), (''cpuLimit'', string_schema),
       (''cpuRequest'', string_schema), (''terminationGracePeriodSeconds'', int64_schema),
       (''count'', int32_schema), (''autoscaling'', ref_schema (ref (pkg ''AutoscalingSpec'')))]
       [''memoryLimit'', ''cpuLimit'', ''count''],
     od_Dependencies = [pkg ''AutoscalingSpec'']\<rparr>"

definition GetOpenAPIDefinitions :: "(string \<Rightarrow> string) \<Rightarrow> (string \<times> OpenAPIDefinition) list" where
  "GetOpenAPIDefinitions ref = [
     (pkg ''AutoscalingSpec'', schema_AutoscalingSpec ref), (pkg ''CatalogList'', schema_CatalogList ref),
     (pkg ''CatalogSecret'', schema_CatalogSecret ref), (pkg ''CatalogSpec'', schema_CatalogSpec ref),
     (pkg ''CoordinatorSpec'', schema_CoordinatorSpec ref), (pkg ''HMSSpec'', schema_HMSSpec ref),
     (pkg ''ImageSpec'', schema_ImageSpec ref), (pkg ''Presto'', schema_Presto ref),
     (pkg ''PrestoSpec'', schema_PrestoSpec ref), (pkg ''PrestoStatus'', schema_PrestoStatus ref),
     (pkg ''ServiceSpec'', schema_ServiceSpec ref), (pkg ''WorkerSpec'', schema_WorkerSpec ref)]"

subsection \<open>Conformance\<close>

text \<open>
  The reading of a schema that OpenAPI gives. A reference is looked up among the definitions of the package;
  \<open>ext\<close> says which values conform to the types of other packages. The first argument bounds the depth of
  schemas under schemas; the schemas here are not recursive, and the deepest path, to an entry of the
  content of a catalog, has ten.
\<close>

definition resolve :: "(string \<Rightarrow> string) \<Rightarrow> string \<Rightarrow> OpenAPIDefinition option" where
  "resolve ref r = map_of (map (\<lambda>(k, d). (ref k, d)) (GetOpenAPIDefinitions ref)) r"

definition integer_in :: "string \<Rightarrow> int \<Rightarrow> bool" where
  "integer_in f i \<longleftrightarrow> (f = ''int32'' \<longrightarrow> - (2 ^ 31) \<le> i \<and> i < 2 ^ 31) \<and> (f = ''int64'' \<longrightarrow> - (2 ^ 63) \<le> i \<and> i < 2 ^ 63)"

fun conforms :: "(string \<Rightarrow> string) \<Rightarrow> (string \<Rightarrow> json \<Rightarrow> bool) \<Rightarrow> nat \<Rightarrow> schema \<Rightarrow> json \<Rightarrow> bool" where
  "conforms ref ext 0 s j = False"
| "conforms ref ext (Suc n) (Schema t f ps req items additional r) j = (case r of
       Some q \<Rightarrow> (case resolve ref q of Some d \<Rightarrow> conforms ref ext n (od_Schema d) j | None \<Rightarrow> ext q j)
     | None \<Rightarrow> (case j of
         JString s \<Rightarrow> t = [''string'']
       | JBool b \<Rightarrow> t = [''boolean'']
       | JInt i \<Rightarrow> t = [''integer''] \<and> integer_in f i
       | JArray js \<Rightarrow> t = [''array''] \<and> (case items of None \<Rightarrow> True | Some s \<Rightarrow> list_all (conforms ref ext n s) js)
       | JObject ms \<Rightarrow> t = [''object''] \<and> list_all (\<lambda>k. k \<in> fst ` set ms) req \<and>
           list_all (\<lambda>(k, j). case map_of ps k of
               Some s \<Rightarrow> conforms ref ext n s j
             | None \<Rightarrow> (case additional of None \<Rightarrow> True | Some s \<Rightarrow> conforms ref ext n s j)) ms
       | _ \<Rightarrow> False))"

declare conforms.simps(2) [simp del]

lemma conforms_leaf [simp]:
  "conforms ref ext (Suc n) string_schema (JString s)"
  "conforms ref ext (Suc n) boolean_schema (JBool b)"
  "conforms ref ext (Suc n) int32_schema (enc_int32 w)"
  "conforms ref ext (Suc n) int64_schema (enc_int64 v)"
  "\<not> conforms ref ext n (typed t f) JNull"
  using sint_bounds32 [of w] sint_bounds64 [of v]
  by (simp_all add: conforms.simps(2) typed_def enc_int32_def enc_int64_def integer_in_def)
    (cases n; simp add: conforms.simps(2))

lemma conforms_map [simp]:
  "conforms ref ext (Suc (Suc n)) (map_schema string_schema) (enc_map m)"
  "\<not> conforms ref ext n (map_schema s) JNull"
   apply (auto simp add: map_schema_def enc_map_def conforms.simps(2) [of _ _ "Suc n"] list_all_iff)
  by (cases n; simp add: conforms.simps(2))

lemma conforms_array [simp]:
  "conforms ref ext (Suc n) (array_schema s) (enc_list enc xs) = list_all (\<lambda>x. conforms ref ext n s (enc x)) xs"
  by (simp add: array_schema_def enc_list_def conforms.simps(2) list_all_iff)

lemma conforms_ref [simp]:
  "conforms ref ext (Suc n) (ref_schema r) j = (case resolve ref r of
     Some d \<Rightarrow> conforms ref ext n (od_Schema d) j | None \<Rightarrow> ext r j)"
  by (simp add: ref_schema_def conforms.simps(2))






lemma pred_omitempty [simp]: "pred_option P (omitempty e j) \<longleftrightarrow> e \<or> P j"
  by (simp add: omitempty_def)

lemma omitempty_None [simp]: "omitempty e j = None \<longleftrightarrow> e"
  by (simp add: omitempty_def)








subsection \<open>References\<close>

text \<open>Different names have different references.\<close>

lemma pkg_inject [simp]: "pkg s = pkg t \<longleftrightarrow> s = t"
  by (simp add: pkg_def)

lemma pkg_foreign [simp]:
  "pkg s \<noteq> meta_v1 t" "meta_v1 t \<noteq> pkg s" "pkg s \<noteq> core_v1 t" "core_v1 t \<noteq> pkg s"
  by (simp_all add: pkg_def meta_v1_def core_v1_def)



lemma lookup_foreign:
  "map_of (GetOpenAPIDefinitions ref) (meta_v1 t) = None" "map_of (GetOpenAPIDefinitions ref) (core_v1 t) = None"
  by (simp_all add: GetOpenAPIDefinitions_def)
















subsection \<open>The references of the definitions\<close>

fun refs :: "schema \<Rightarrow> string list" where
  "refs (Schema t f ps req items additional r) =
     (case r of None \<Rightarrow> [] | Some q \<Rightarrow> [q]) @ concat (map (\<lambda>(k, s). refs s) ps) @
     (case items of None \<Rightarrow> [] | Some s \<Rightarrow> refs s) @ (case additional of None \<Rightarrow> [] | Some s \<Rightarrow> refs s)"

lemma refs_simps [simp]:
  "refs (typed t f) = []" "refs (ref_schema r) = [r]" "refs (array_schema s) = refs s" "refs (map_schema s) = refs s"
  "refs (object_schema ps req) = concat (map (\<lambda>(k, s). refs s) ps)"
  by (simp_all add: typed_def ref_schema_def array_schema_def map_schema_def object_schema_def)

lemma object_schema_sel [simp]:
  "sc_Required (object_schema ps req) = req" "sc_Properties (object_schema ps req) = ps"
  by (simp_all add: object_schema_def)

lemmas schema_defs = schema_AutoscalingSpec_def schema_CatalogList_def schema_CatalogSecret_def
  schema_CatalogSpec_def schema_CoordinatorSpec_def schema_HMSSpec_def schema_ImageSpec_def schema_Presto_def
  schema_PrestoSpec_def schema_PrestoStatus_def schema_ServiceSpec_def schema_WorkerSpec_def

definition unresolved :: "(string \<Rightarrow> string) \<Rightarrow> string list" where
  "unresolved ref = filter (\<lambda>k. map_of (GetOpenAPIDefinitions ref) k = None)
     (concat (map (od_Dependencies \<circ> snd) (GetOpenAPIDefinitions ref)))"

definition well_formed :: "(string \<Rightarrow> string) \<Rightarrow> OpenAPIDefinition \<Rightarrow> bool" where
  "well_formed ref d \<longleftrightarrow> set (refs (od_Schema d)) = ref ` set (od_Dependencies d) \<and>
     list_all (\<lambda>k. k \<in> set (map fst (sc_Properties (od_Schema d)))) (sc_Required (od_Schema d))"

lemma well_formed_definitions:
  "well_formed ref (schema_AutoscalingSpec ref)" "well_formed ref (schema_CatalogList ref)"
  "well_formed ref (schema_CatalogSecret ref)" "well_formed ref (schema_CatalogSpec ref)"
  "well_formed ref (schema_CoordinatorSpec ref)" "well_formed ref (schema_HMSSpec ref)"
  "well_formed ref (schema_ImageSpec ref)" "well_formed ref (schema_ServiceSpec ref)"
  "well_formed ref (schema_WorkerSpec ref)" "well_formed ref (schema_Presto ref)"
  "well_formed ref (schema_PrestoStatus ref)" "well_formed ref (schema_PrestoSpec ref)"
  by (simp_all add: well_formed_def schema_defs insert_commute)

lemma undefined_types:
  "map_of (GetOpenAPIDefinitions ref) (pkg t) = None \<longleftrightarrow> t \<notin> set [''AutoscalingSpec'', ''CatalogList'', ''CatalogSecret'',
     ''CatalogSpec'', ''CoordinatorSpec'', ''HMSSpec'', ''ImageSpec'', ''Presto'', ''PrestoSpec'', ''PrestoStatus'',
     ''ServiceSpec'', ''WorkerSpec'']" (is "_ \<longleftrightarrow> t \<notin> set ?names")
proof -
  have "map fst (GetOpenAPIDefinitions ref) = map pkg ?names"
    by (simp only: GetOpenAPIDefinitions_def list.map fst_conv)
  then have "fst ` set (GetOpenAPIDefinitions ref) = pkg ` set ?names"
    unfolding set_map [symmetric] by (rule arg_cong)
  moreover have "inj pkg" by (rule injI) simp
  ultimately show ?thesis
    by (simp only: map_of_eq_None_iff inj_image_mem_iff)
qed

lemma unresolved_types:
  "set (unresolved ref) = {pkg ''PrestoVolumeSpec'', meta_v1 ''ObjectMeta'', meta_v1 ''Time'',
     core_v1 ''SessionAffinityConfig''}"
proof -
  have "concat (map (od_Dependencies \<circ> snd) (GetOpenAPIDefinitions ref)) =
      [pkg ''CatalogSecret'', pkg ''CatalogSpec'', pkg ''PrestoSpec'', pkg ''PrestoStatus'', meta_v1 ''ObjectMeta'',
       pkg ''CatalogList'', pkg ''CoordinatorSpec'', pkg ''HMSSpec'', pkg ''ImageSpec'', pkg ''PrestoVolumeSpec'',
       pkg ''ServiceSpec'', pkg ''WorkerSpec'', meta_v1 ''Time'', core_v1 ''SessionAffinityConfig'', pkg ''AutoscalingSpec'']"
    by (simp add: GetOpenAPIDefinitions_def schema_defs)
  then show ?thesis
    unfolding unresolved_def by (simp only:) (simp add: undefined_types lookup_foreign insert_commute)
qed

text \<open>
  C34. The schemas fit together except in one place. Every definition lists the types it refers to as its
  dependencies, and requires only properties it has. The types that are referred to and not defined are three
  types of the Kubernetes libraries and \<^verbatim>\<open>PrestoVolumeSpec\<close>, a type of this package, whose definition is missing.
\<close>

theorem open_api_references:
  "list_all (well_formed ref \<circ> snd) (GetOpenAPIDefinitions ref) \<and>
   set (unresolved ref) = {pkg ''PrestoVolumeSpec'', meta_v1 ''ObjectMeta'', meta_v1 ''Time'',
      core_v1 ''SessionAffinityConfig''}"
  unfolding unresolved_types by (simp add: GetOpenAPIDefinitions_def well_formed_definitions)

end
