(* ===== verification/Spec2Isabelle.thy ===== *)
theory Spec2Isabelle
  imports Manager Webhook Copies Open_API
begin


subsection \<open>Convergence\<close>







subsection \<open>What one call sends\<close>

text \<open>
  C5. Whatever the API server answers, one call of \<^verbatim>\<open>Reconcile\<close> sends at most one request that writes an
  object.
\<close>

theorem one_object_write_per_call:
  "\<exists>ws. os_reqs (snd (Reconcile L key s)) = os_reqs s @ ws \<and> length (object_writes ws) \<le> 1"
  using Reconcile_writes [of L key] unfolding emits_def by blast

text \<open>
  C6. A resource gets its UUID before anything is made for it. A call for a resource without a UUID writes
  no object, whatever the API server answers; when it ends without an error, it has sent one status update
  that sets a UUID from the generator, and the server has accepted it.
\<close>

theorem uuid_before_objects:
  assumes "l_Get L key (os_world s) = (Inr p, w)" and "pr_Uuid p = []"
  shows "\<exists>ws. os_reqs (snd (Reconcile L key s)) = os_reqs s @ ws \<and> object_writes ws = [] \<and>
    (\<forall>res. fst (Reconcile L key s) = Some (res, None) \<longrightarrow>
       (\<exists>q w1 w2. ws = [(UpdateStatus q, True)] \<and> l_NewUUID L w1 = (Some (pr_Uuid q), w2)))"
proof -
  from assms(1) obtain s1 where s1: "Reconcile L key s = reconcilePresto L p s1" "os_reqs s1 = os_reqs s"
    by (rule Reconcile_found)
  obtain r t where "reconcilePresto L p s1 = (r, t)" by force
  with emitsD [OF uuid_emits [OF assms(2), of L] this] s1 show ?thesis by auto
qed

theorem uuid_before_objects_witness:
  "object_writes (os_reqs (snd (Reconcile example_lib (''default'', ''mycluster'')
     (operator_start (example_server new_presto))))) = []"
  using uuid_before_objects [of example_lib "(''default'', ''mycluster'')"
      "operator_start (example_server new_presto)" new_presto] by auto



text \<open>
  C35. A deleted resource is forgotten: when the server answers that it does not exist, the call ends
  without an error, sends nothing and only takes the cluster out of the map of periodic events. Any other
  error of that read is returned and nothing else happens.
\<close>

theorem deleted_resource_is_forgotten:
  assumes "l_Get L key (os_world s) = (Inl e, w)"
  shows "Reconcile L key s =
    (if isNotFound (Some e)
     then (Some (empty_result, None),
           s\<lparr>os_world := w, os_registered := AList.delete key (os_registered s)\<rparr>)
     else (Some (empty_result, Some e), s\<lparr>os_world := w\<rparr>))"
  by (rule Reconcile_error [OF assms])

theorem deleted_resource_is_forgotten_witness:
  "fst (Reconcile example_lib (''default'', ''other'') (operator_start (example_server example_presto))) =
     Some (empty_result, None)"
  using deleted_resource_is_forgotten [of example_lib "(''default'', ''other'')"
      "operator_start (example_server example_presto)"]
  by (simp add: memory_get key_of_def not_found_error_def)





subsection \<open>A service that is not restored\<close>




end
